(* ===== verification/Prelude.thy ===== *)
theory Prelude
  imports Main
begin

text \<open>
  Shared notions of the development: the result type of JavaScript code that may
  throw, the handful of JavaScript string operations the libraries use, and the
  decimal notation of natural numbers together with its arithmetic.

  A \<open>throw new Error(msg)\<close> is the value \<open>Inl (Error msg)\<close>, a failed \<open>assert(...)\<close> is
  \<open>Inl AssertionError\<close>, reading a property of \<open>undefined\<close> is \<open>Inl TypeError\<close>.
\<close>

named_theorems dec_simps \<open>unfolding rules of the Decimal operations\<close>
named_theorems trove_simps \<open>unfolding rules of the Trove operations\<close>
named_theorems store_simps \<open>unfolding rules of the store reducers\<close>

section \<open>Results of code that may throw\<close>

datatype js_error = Error string | AssertionError | TypeError

type_synonym 'a res = "js_error + 'a"

fun bindR :: "'a res \<Rightarrow> ('a \<Rightarrow> 'b res) \<Rightarrow> 'b res" where
  "bindR (Inl e) f = Inl e"
| "bindR (Inr a) f = f a"

definition assertR :: "bool \<Rightarrow> 'a res \<Rightarrow> 'a res" where
  "assertR b r = (if b then r else Inl AssertionError)"

fun mapR :: "('a \<Rightarrow> 'b res) \<Rightarrow> 'a list \<Rightarrow> 'b list res" where
  "mapR f [] = Inr []"
| "mapR f (x # xs) = bindR (f x) (\<lambda>y. bindR (mapR f xs) (\<lambda>ys. Inr (y # ys)))"

lemma assertR_simps [simp]:
  "assertR True r = r"
  "assertR False r = Inl AssertionError"
  by (simp_all add: assertR_def)

lemma bindR_Inr_iff: "bindR r f = Inr b \<longleftrightarrow> (\<exists>a. r = Inr a \<and> f a = Inr b)"
  by (cases r) auto

lemma bindR_Inl_iff: "bindR r f = Inl e \<longleftrightarrow> r = Inl e \<or> (\<exists>a. r = Inr a \<and> f a = Inl e)"
  by (cases r) auto

lemma bindR_Inr_right [simp]: "bindR r Inr = r"
  by (cases r) auto

lemma assertR_Inr_iff: "assertR b r = Inr x \<longleftrightarrow> b \<and> r = Inr x"
  by (simp add: assertR_def)

lemma mapR_total: "(\<And>x. x \<in> set xs \<Longrightarrow> f x = Inr (g x)) \<Longrightarrow> mapR f xs = Inr (map g xs)"
  by (induction xs) auto

text \<open>The nullish coalescing operator \<open>a ?? b\<close>.\<close>

definition coalesce :: "'a option \<Rightarrow> 'a \<Rightarrow> 'a" where
  "coalesce a b = (case a of None \<Rightarrow> b | Some x \<Rightarrow> x)"

lemma coalesce_simps [simp]: "coalesce None b = b" "coalesce (Some x) b = x"
  by (simp_all add: coalesce_def)

section \<open>Strings\<close>

definition is_digit :: "char \<Rightarrow> bool" where
  "is_digit c \<longleftrightarrow> 48 \<le> (of_char c :: nat) \<and> (of_char c :: nat) \<le> 57"

definition digit_char :: "nat \<Rightarrow> char" where
  "digit_char d = char_of (48 + d)"

definition digit_val :: "char \<Rightarrow> nat" where
  "digit_val c = of_char c - 48"

lemma is_digit_digit_char [simp]: "d < 10 \<Longrightarrow> is_digit (digit_char d)"
  by (simp add: is_digit_def digit_char_def)

lemma digit_val_digit_char [simp]: "d < 10 \<Longrightarrow> digit_val (digit_char d) = d"
  by (simp add: digit_val_def digit_char_def)

lemma digit_val_less: "is_digit c \<Longrightarrow> digit_val c < 10"
  unfolding digit_val_def is_digit_def by linarith

lemma digit_char_0 [simp]: "digit_char 0 = CHR ''0''"
  unfolding digit_char_def by code_simp

lemma is_digit_literals [simp]:
  "is_digit (CHR ''0'')" "\<not> is_digit (CHR ''.'')" "\<not> is_digit (CHR ''e'')"
  "\<not> is_digit (CHR '','')" "\<not> is_digit (CHR ''-'')" "\<not> is_digit (CHR ''+'')"
  by (simp_all add: is_digit_def)

lemma digit_val_0 [simp]: "digit_val (CHR ''0'') = 0"
  by (simp add: digit_val_def)

lemma digit_val_eq_0: "is_digit c \<Longrightarrow> digit_val c = 0 \<longleftrightarrow> c = CHR ''0''"
proof -
  assume "is_digit c"
  then have "digit_val c = 0 \<longleftrightarrow> (of_char c :: nat) = of_char (CHR ''0'')"
    by (simp add: digit_val_def is_digit_def) arith
  then show ?thesis by (metis char_of_char)
qed

text \<open>\<open>s.split(c)\<close> for a one-character separator: the parts between the separators.\<close>

fun split_on :: "char \<Rightarrow> string \<Rightarrow> string list" where
  "split_on c [] = [[]]"
| "split_on c (x # xs) =
     (if x = c then [] # split_on c xs
      else (case split_on c xs of [] \<Rightarrow> [[x]] | p # ps \<Rightarrow> (x # p) # ps))"

lemma split_on_nonempty [simp]: "split_on c s \<noteq> []"
  by (induction s) (auto split: list.splits)

lemma split_on_absent: "c \<notin> set s \<Longrightarrow> split_on c s = [s]"
  by (induction s) auto

lemma split_on_append: "c \<notin> set s \<Longrightarrow> split_on c (s @ c # t) = s # split_on c t"
  by (induction s) auto

lemma split_on_hd: "c \<in> set s \<Longrightarrow> split_on c s = takeWhile (\<lambda>x. x \<noteq> c) s # tl (split_on c s)"
  by (induction s) (auto split: list.splits simp: split_on_absent)

text \<open>\<open>s.padStart(n, "0")\<close>, \<open>s + "0".repeat(n - s.length)\<close> and removal of \<open>/0*$/\<close>.\<close>

definition pad_start :: "nat \<Rightarrow> string \<Rightarrow> string" where
  "pad_start n s = replicate (n - length s) (CHR ''0'') @ s"

definition pad_end :: "nat \<Rightarrow> string \<Rightarrow> string" where
  "pad_end n s = s @ replicate (n - length s) (CHR ''0'')"

definition strip_zeros :: "string \<Rightarrow> string" where
  "strip_zeros s = rev (dropWhile (\<lambda>c. c = CHR ''0'') (rev s))"

lemma set_strip_zeros: "set (strip_zeros s) \<subseteq> set s"
  by (auto simp: strip_zeros_def dest: set_dropWhileD)

lemma length_strip_zeros: "length (strip_zeros s) \<le> length s"
  unfolding strip_zeros_def by (metis length_dropWhile_le length_rev)

lemma strip_zeros_eq:
  "s = strip_zeros s @ replicate (length s - length (strip_zeros s)) (CHR ''0'')"
proof -
  let ?p = "\<lambda>c. c = CHR ''0''"
  have "takeWhile ?p (rev s) = replicate (length (takeWhile ?p (rev s))) (CHR ''0'')"
    by (rule replicate_length_same [symmetric]) (auto dest: set_takeWhileD)
  moreover have "rev (takeWhile ?p (rev s) @ dropWhile ?p (rev s)) = s"
    by simp
  moreover have "length (takeWhile ?p (rev s)) = length s - length (dropWhile ?p (rev s))"
    by (metis add_diff_cancel_right' length_append length_rev takeWhile_dropWhile_id)
  ultimately show ?thesis
    unfolding strip_zeros_def by (metis length_rev rev_append rev_replicate)
qed

lemma pad_end_strip_zeros: "length s = n \<Longrightarrow> pad_end n (strip_zeros s) = s"
  using strip_zeros_eq [of s] by (simp add: pad_end_def)

section \<open>Decimal notation\<close>

text \<open>
  \<open>dec_string\<close> is the decimal numeral of a natural number (\<open>toString()\<close> of an
  integer), \<open>dec_value\<close> the number denoted by a string of digits.
\<close>

fun dec_string :: "nat \<Rightarrow> string" where
  "dec_string n =
     (if n < 10 then [digit_char n] else dec_string (n div 10) @ [digit_char (n mod 10)])"

declare dec_string.simps [simp del]

definition dec_value :: "string \<Rightarrow> nat" where
  "dec_value s = foldl (\<lambda>a c. 10 * a + digit_val c) 0 s"

lemma dec_string_nonempty [simp]: "dec_string n \<noteq> []"
  by (subst dec_string.simps) simp

lemma dec_string_digits [simp]: "list_all is_digit (dec_string n)"
proof (induction n rule: dec_string.induct)
  case (1 n)
  then show ?case by (subst dec_string.simps) auto
qed

lemma foldl_dec: "foldl (\<lambda>a c. 10 * a + digit_val c) k s = k * 10 ^ length s + dec_value s"
proof (induction s arbitrary: k)
  case Nil
  then show ?case by (simp add: dec_value_def)
next
  case (Cons c s)
  have "foldl (\<lambda>a c. 10 * a + digit_val c) k (c # s)
      = (10 * k + digit_val c) * 10 ^ length s + dec_value s"
    using Cons by simp
  also have "\<dots> = k * 10 ^ length (c # s) + (digit_val c * 10 ^ length s + dec_value s)"
    by (simp add: algebra_simps)
  also have "digit_val c * 10 ^ length s + dec_value s = dec_value (c # s)"
    using Cons [of "digit_val c"] by (simp add: dec_value_def)
  finally show ?case .
qed

lemma dec_value_Nil [simp]: "dec_value [] = 0"
  by (simp add: dec_value_def)

lemma dec_value_append: "dec_value (s @ t) = dec_value s * 10 ^ length t + dec_value t"
proof -
  have "dec_value (s @ t) = foldl (\<lambda>a c. 10 * a + digit_val c) (dec_value s) t"
    by (simp add: dec_value_def)
  then show ?thesis by (simp only: foldl_dec)
qed

lemma dec_value_single [simp]: "dec_value [c] = digit_val c"
  by (simp add: dec_value_def)

lemma dec_value_Cons: "dec_value (c # s) = digit_val c * 10 ^ length s + dec_value s"
  using dec_value_append [of "[c]" s] by simp

lemma dec_value_zeros [simp]: "dec_value (replicate k (CHR ''0'')) = 0"
  by (induction k) (simp_all add: dec_value_Cons)

lemma dec_value_dec_string [simp]: "dec_value (dec_string n) = n"
proof (induction n rule: dec_string.induct)
  case (1 n)
  then show ?case by (subst dec_string.simps) (auto simp: dec_value_append)
qed

lemma dec_value_pad_start [simp]: "dec_value (pad_start n s) = dec_value s"
  by (simp add: pad_start_def dec_value_append)

lemma dec_value_pad_end: "length s \<le> n \<Longrightarrow> dec_value (pad_end n s) = dec_value s * 10 ^ (n - length s)"
  by (simp add: pad_end_def dec_value_append)

lemma dec_value_less: "list_all is_digit s \<Longrightarrow> dec_value s < 10 ^ length s"
proof (induction s)
  case Nil
  then show ?case by simp
next
  case (Cons c s)
  then have c: "digit_val c \<le> 9" and s: "dec_value s < 10 ^ length s"
    using digit_val_less [of c] by auto
  from c have "digit_val c * 10 ^ length s \<le> 9 * 10 ^ length s" by (rule mult_le_mono1)
  with s have "digit_val c * 10 ^ length s + dec_value s < 9 * 10 ^ length s + 10 ^ length s"
    by linarith
  then show ?case by (simp add: dec_value_Cons)
qed

lemma dec_value_take:
  assumes "list_all is_digit s" and "p \<le> length s"
  shows "dec_value (take p s) = dec_value s div 10 ^ (length s - p)"
proof -
  have "list_all is_digit (drop p s)"
    using assms(1) by (auto simp: list_all_iff dest: in_set_dropD)
  from dec_value_less [OF this] have "dec_value (drop p s) < 10 ^ (length s - p)" by simp
  moreover have "dec_value s = dec_value (take p s) * 10 ^ (length s - p) + dec_value (drop p s)"
    using dec_value_append [of "take p s" "drop p s"] by simp
  ultimately show ?thesis by simp
qed

lemma length_dec_string_le: "0 < k \<Longrightarrow> n < 10 ^ k \<Longrightarrow> length (dec_string n) \<le> k"
proof (induction n arbitrary: k rule: dec_string.induct)
  case (1 n)
  show ?case
  proof (cases "n < 10")
    case True
    with "1.prems" show ?thesis by (subst dec_string.simps) simp
  next
    case False
    with "1.prems" obtain j where k: "k = Suc j" and j: "0 < j"
      by (cases k; cases "k - 1") auto
    from "1.prems" k have "n div 10 < 10 ^ j" by (simp add: less_mult_imp_div_less mult.commute)
    with "1.IH" False j have "length (dec_string (n div 10)) \<le> j" by blast
    with False k show ?thesis by (subst dec_string.simps) simp
  qed
qed

lemma length_pad_start [simp]: "length (pad_start n s) = max n (length s)"
  by (simp add: pad_start_def)

lemma digits_pad_start [simp]: "list_all is_digit s \<Longrightarrow> list_all is_digit (pad_start n s)"
  by (induction "n - length s") (auto simp: pad_start_def list_all_iff)

lemma digit_not_mem: "list_all is_digit s \<Longrightarrow> \<not> is_digit c \<Longrightarrow> c \<notin> set s"
  by (auto simp: list_all_iff)

lemmas dec_string_not_mem [simp] = digit_not_mem [OF dec_string_digits]

section \<open>Searching strings\<close>

text \<open>\<open>String.includes\<close>.\<close>

fun is_prefix :: "string \<Rightarrow> string \<Rightarrow> bool" where
  "is_prefix [] _ = True"
| "is_prefix (_ # _) [] = False"
| "is_prefix (x # xs) (y # ys) = (x = y \<and> is_prefix xs ys)"

fun str_includes :: "string \<Rightarrow> string \<Rightarrow> bool" where
  "str_includes [] needle = (needle = [])"
| "str_includes (c # cs) needle = (is_prefix needle (c # cs) \<or> str_includes cs needle)"

section \<open>Loops that repeat an attempt\<close>

text \<open>The first attempt from \<open>n\<close> on that ends the loop.\<close>

definition first_from :: "(nat \<Rightarrow> bool) \<Rightarrow> nat \<Rightarrow> nat \<Rightarrow> bool" where
  "first_from P n k \<longleftrightarrow> n \<le> k \<and> P k \<and> (\<forall>j. n \<le> j \<and> j < k \<longrightarrow> \<not> P j)"

lemma first_from_here: "P n \<Longrightarrow> first_from P n k \<longleftrightarrow> k = n"
  by (auto simp: first_from_def)

lemma first_from_Suc: "\<not> P n \<Longrightarrow> first_from P n k \<longleftrightarrow> first_from P (Suc n) k"
  unfolding first_from_def by (metis Suc_leD Suc_leI le_neq_implies_less)

lemma first_from_ex: "P m \<Longrightarrow> n \<le> m \<Longrightarrow> \<exists>k \<le> m. first_from P n k"
proof (induction m arbitrary: n rule: less_induct)
  case (less m)
  show ?case
  proof (cases "\<exists>j. n \<le> j \<and> j < m \<and> P j")
    case True
    with less.IH show ?thesis by (meson le_trans less_imp_le_nat)
  next
    case False
    with less.prems show ?thesis by (auto simp: first_from_def)
  qed
qed

text \<open>A loop that ends where \<open>P\<close> holds with the value \<open>g\<close> of the attempt, and otherwise goes on: its value by the first
  such attempt, if there is one.\<close>

lemma loop_first:
  assumes "\<And>n. f n = (if P n then Some (g n) else f (Suc n))" and "first_from P n k"
  shows "f n = Some (g k)"
proof -
  have "n \<le> k" using assms(2) by (simp add: first_from_def)
  then show ?thesis
    using assms(2)
  proof (induction rule: inc_induct)
    case base
    then show ?case by (subst assms(1)) (simp add: first_from_def)
  next
    case (step m)
    then have "\<not> P m" by (auto simp: first_from_def)
    with step show ?case by (subst assms(1)) (simp add: first_from_Suc)
  qed
qed

end
