(* ===== verification/Decimal.thy ===== *)
theory Decimal
  imports Prelude
begin

text \<open>
  The fixed-point numbers of \<open>packages/lib-base/src/Decimal.ts\<close>: the class \<open>Decimal\<close>
  (18 digits of precision), the class \<open>Difference\<close> of signed differences and the
  class \<open>Percent\<close>.

  A \<open>BigNumber\<close> is the integer it denotes (the package documents arbitrary-precision
  integers whose \<open>div\<close> truncates).  The constructor of \<open>Decimal\<close> refuses negative
  numbers, so a \<open>Decimal\<close> holds a natural number; operations whose \<open>BigNumber\<close> result
  cannot be negative are total, and \<open>new_Decimal_agrees\<close> shows that the constructor
  accepts exactly their results.  Parameters of type \<open>Decimalish\<close> are taken after
  \<open>Decimal.from\<close>, which is itself modelled (\<open>Decimal_from\<close>) and is the identity on
  \<open>Decimal\<close> values.  The infinity sign is one UTF-16 code unit; as HOL characters are
  bytes it is represented by one non-ASCII character.
\<close>

section \<open>Constants and representation\<close>

definition getDigits :: "nat \<Rightarrow> nat" where
  "getDigits numDigits = 10 ^ numDigits"

definition MAX_UINT_256 :: nat where
  "MAX_UINT_256 = 2 ^ 256 - 1"

definition PRECISION :: nat where
  "PRECISION = 18"

definition DIGITS :: nat where
  "DIGITS = getDigits PRECISION"

definition magnitudes :: "string list" where
  "magnitudes = ['''', ''K'', ''M'', ''B'', ''T'']"

datatype decimal = Dec (bn: nat)

definition new_Decimal :: "int \<Rightarrow> decimal res" where
  "new_Decimal bigNumber =
     (if bigNumber < 0 then Inl (Error ''negatives not supported by Decimal'')
      else Inr (Dec (nat bigNumber)))"

definition Decimal_INFINITY :: decimal where
  "Decimal_INFINITY = Dec MAX_UINT_256"

definition Decimal_ZERO :: decimal where
  "Decimal_ZERO = Dec 0"

definition Decimal_HALF :: decimal where
  "Decimal_HALF = Dec (5 * 10 ^ 17)"

definition Decimal_ONE :: decimal where
  "Decimal_ONE = Dec (10 ^ 18)"

definition roundedMul :: "nat \<Rightarrow> nat \<Rightarrow> nat" where
  "roundedMul x y = (x * y + bn Decimal_HALF) div DIGITS"

lemma DIGITS_eq: "DIGITS = 10 ^ 18"
  by (simp add: DIGITS_def getDigits_def PRECISION_def)

lemma DIGITS_num: "DIGITS = 1000000000000000000"
  by (simp add: DIGITS_eq)

lemma DIGITS_pos [simp]: "0 < DIGITS"
  by (simp add: DIGITS_eq)

lemma bn_const [simp]:
  "bn Decimal_ZERO = 0" "bn Decimal_ONE = DIGITS" "bn Decimal_HALF = 5 * 10 ^ 17"
  "bn Decimal_INFINITY = MAX_UINT_256"
  by (simp_all add: Decimal_ZERO_def Decimal_ONE_def Decimal_HALF_def Decimal_INFINITY_def DIGITS_eq)

lemma new_Decimal_int [simp]: "new_Decimal (int n) = Inr (Dec n)"
  by (simp add: new_Decimal_def)

text \<open>Decimals are ordered by the number they hold.\<close>

instantiation decimal :: linorder
begin

definition less_eq_decimal :: "decimal \<Rightarrow> decimal \<Rightarrow> bool" where
  "less_eq_decimal a b \<longleftrightarrow> bn a \<le> bn b"

definition less_decimal :: "decimal \<Rightarrow> decimal \<Rightarrow> bool" where
  "less_decimal a b \<longleftrightarrow> bn a < bn b"

instance
  by standard (auto simp: less_eq_decimal_def less_decimal_def decimal.expand)

end

section \<open>Parsing\<close>

text \<open>The regular expression \<open>/^[0-9]*(\.[0-9]*)?(e[-+]?[0-9]+)?$/\<close>.\<close>

definition stringRepresentationFormat :: "string \<Rightarrow> bool" where
  "stringRepresentationFormat s =
     (let afterCharacteristic = dropWhile is_digit s;
          afterMantissa =
            (case afterCharacteristic of
               [] \<Rightarrow> []
             | c # r \<Rightarrow> if c = CHR ''.'' then dropWhile is_digit r else c # r)
      in (case afterMantissa of
            [] \<Rightarrow> True
          | c # r \<Rightarrow>
              c = CHR ''e'' \<and>
              (let exponent =
                 (case r of
                    [] \<Rightarrow> []
                  | d # r' \<Rightarrow> if d = CHR ''-'' \<or> d = CHR ''+'' then r' else d # r')
               in exponent \<noteq> [] \<and> list_all is_digit exponent)))"

lemma split_on_shorter: "split_on c s = a # b # r \<Longrightarrow> length a < length s"
proof -
  assume *: "split_on c s = a # b # r"
  then have "c \<in> set s" using split_on_absent by (metis list.distinct(1) list.inject)
  then obtain u v where s: "s = u @ c # v" and u: "c \<notin> set u" by (meson split_list_first)
  with * split_on_append [OF u, of v] have "a = u" by simp
  with s show ?thesis by simp
qed

function Decimal_fromString :: "string \<Rightarrow> decimal res" where
  "Decimal_fromString representation =
     (if representation = [] \<or> \<not> stringRepresentationFormat representation then
        Inl (Error (''bad decimal format: '' @ [CHR 0x22] @ representation @ [CHR 0x22]))
      else if CHR ''e'' \<in> set representation then
        (case split_on (CHR ''e'') representation of
           coefficient # exponent # _ \<Rightarrow>
             if take 1 exponent = ''-'' then
               bindR (Decimal_fromString coefficient)
                 (\<lambda>d. new_Decimal (int (bn d div 10 ^ dec_value (drop 1 exponent))))
             else
               (let exponent' = (if take 1 exponent = ''+'' then drop 1 exponent else exponent)
                in bindR (Decimal_fromString coefficient)
                     (\<lambda>d. new_Decimal (int (bn d * 10 ^ dec_value exponent'))))
         | _ \<Rightarrow> Inl TypeError)
      else if CHR ''.'' \<notin> set representation then
        new_Decimal (int (dec_value representation * DIGITS))
      else
        (case split_on (CHR ''.'') representation of
           characteristic # mantissa # _ \<Rightarrow>
             (let mantissa' =
                (if length mantissa < PRECISION then pad_end PRECISION mantissa
                 else take PRECISION mantissa)
              in new_Decimal (int (dec_value characteristic * DIGITS + dec_value mantissa')))
         | _ \<Rightarrow> Inl TypeError))"
  by pat_completeness auto
termination
  by (relation "measure length") (auto dest: split_on_shorter)

declare Decimal_fromString.simps [simp del]

text \<open>A JavaScript number enters only through its \<open>toString()\<close>.\<close>

datatype decimalish = DDecimal decimal | DNumber string | DString string | DOther

fun Decimal_from :: "decimalish \<Rightarrow> decimal res" where
  "Decimal_from (DDecimal d) = Inr d"
| "Decimal_from (DString s) = Decimal_fromString s"
| "Decimal_from (DNumber s) = Decimal_fromString s"
| "Decimal_from DOther = Inl (Error ''invalid Decimalish value'')"

section \<open>Arithmetic\<close>

definition Decimal_isZero :: "decimal \<Rightarrow> bool" where
  "Decimal_isZero d \<longleftrightarrow> bn d = 0"

definition Decimal_lt :: "decimal \<Rightarrow> decimal \<Rightarrow> bool" where
  "Decimal_lt a b \<longleftrightarrow> bn a < bn b"

definition Decimal_eq :: "decimal \<Rightarrow> decimal \<Rightarrow> bool" where
  "Decimal_eq a b \<longleftrightarrow> bn a = bn b"

definition Decimal_gt :: "decimal \<Rightarrow> decimal \<Rightarrow> bool" where
  "Decimal_gt a b \<longleftrightarrow> bn a > bn b"

definition Decimal_gte :: "decimal \<Rightarrow> decimal \<Rightarrow> bool" where
  "Decimal_gte a b \<longleftrightarrow> bn a \<ge> bn b"

definition Decimal_lte :: "decimal \<Rightarrow> decimal \<Rightarrow> bool" where
  "Decimal_lte a b \<longleftrightarrow> bn a \<le> bn b"

definition Decimal_zero :: "decimal \<Rightarrow> decimal option" where
  "Decimal_zero d = (if Decimal_isZero d then Some d else None)"

definition Decimal_nonZero :: "decimal \<Rightarrow> decimal option" where
  "Decimal_nonZero d = (if \<not> Decimal_isZero d then Some d else None)"

definition Decimal_infinite :: "decimal \<Rightarrow> decimal option" where
  "Decimal_infinite d = (if Decimal_eq d Decimal_INFINITY then Some d else None)"

definition Decimal_finite :: "decimal \<Rightarrow> decimal option" where
  "Decimal_finite d = (if \<not> Decimal_eq d Decimal_INFINITY then Some d else None)"

definition Decimal_absoluteValue :: "decimal \<Rightarrow> decimal" where
  "Decimal_absoluteValue d = d"

definition Decimal_add :: "decimal \<Rightarrow> decimal \<Rightarrow> decimal" where
  "Decimal_add a b = Dec (bn a + bn b)"

definition Decimal_sub :: "decimal \<Rightarrow> decimal \<Rightarrow> decimal res" where
  "Decimal_sub a b = new_Decimal (int (bn a) - int (bn b))"

definition Decimal_mul :: "decimal \<Rightarrow> decimal \<Rightarrow> decimal" where
  "Decimal_mul a b = Dec (bn a * bn b div DIGITS)"

definition Decimal_div :: "decimal \<Rightarrow> decimal \<Rightarrow> decimal" where
  "Decimal_div a divider =
     (if Decimal_isZero divider then Decimal_INFINITY
      else Dec (bn a * DIGITS div bn divider))"

definition Decimal_divCeil :: "decimal \<Rightarrow> decimal \<Rightarrow> decimal" where
  "Decimal_divCeil a divider =
     (if Decimal_isZero divider then Decimal_INFINITY
      else Dec ((bn a * DIGITS + (bn divider - 1)) div bn divider))"

definition Decimal_mulDiv :: "decimal \<Rightarrow> decimal \<Rightarrow> decimal \<Rightarrow> decimal" where
  "Decimal_mulDiv a multiplier divider =
     (if Decimal_isZero divider then Decimal_INFINITY
      else Dec (bn a * bn multiplier div bn divider))"

text \<open>
  \<open>pow\<close>: the exponent is a JavaScript integer; \<open>exponent >>>= 1\<close> and \<open>exponent & 1\<close> are
  halving and parity in the asserted range.
\<close>

function pow_loop :: "nat \<Rightarrow> nat \<Rightarrow> nat \<Rightarrow> nat \<times> nat" where
  "pow_loop x y exponent =
     (if 1 < exponent then
        pow_loop (roundedMul x x) (if odd exponent then roundedMul x y else y) (exponent div 2)
      else (x, y))"
  by pat_completeness auto
termination
  by (relation "measure (\<lambda>(x, y, e). e)") auto

declare pow_loop.simps [simp del]

definition Decimal_pow :: "decimal \<Rightarrow> int \<Rightarrow> decimal res" where
  "Decimal_pow d exponent =
     assertR (0 \<le> exponent \<and> exponent \<le> 0xffffffff)
       (if exponent = 0 then Inr Decimal_ONE
        else if exponent = 1 then Inr d
        else (let (x, y) = pow_loop (bn d) DIGITS (nat exponent)
              in new_Decimal (int (roundedMul x y))))"

definition Decimal_min :: "decimal \<Rightarrow> decimal \<Rightarrow> decimal" where
  "Decimal_min a b = (if Decimal_lt a b then a else b)"

definition Decimal_max :: "decimal \<Rightarrow> decimal \<Rightarrow> decimal" where
  "Decimal_max a b = (if Decimal_gt a b then a else b)"

section \<open>Printing\<close>

definition infinity_sign :: string where
  "infinity_sign = [CHR 0xFE]"

definition Decimal_toStringWithAutomaticPrecision :: "decimal \<Rightarrow> string" where
  "Decimal_toStringWithAutomaticPrecision d =
     (let characteristic = bn d div DIGITS;
          mantissa = bn d mod DIGITS
      in if mantissa = 0 then dec_string characteristic
         else (let paddedMantissa = pad_start PRECISION (dec_string mantissa);
                   trimmedMantissa = strip_zeros paddedMantissa
               in dec_string characteristic @ ''.'' @ trimmedMantissa))"

definition Decimal_roundUp :: "decimal \<Rightarrow> nat \<Rightarrow> nat" where
  "Decimal_roundUp d precision = bn d + getDigits (PRECISION - 1 - precision) * 5"

definition Decimal_toStringWithPrecision :: "decimal \<Rightarrow> int \<Rightarrow> string res" where
  "Decimal_toStringWithPrecision d precision =
     (if precision < 0 then Inl (Error ''precision must not be negative'')
      else
        (let value = (if precision < int PRECISION then Decimal_roundUp d (nat precision) else bn d);
             characteristic = value div DIGITS;
             mantissa = value mod DIGITS
         in if precision = 0 then Inr (dec_string characteristic)
            else (let paddedMantissa = pad_start PRECISION (dec_string mantissa);
                      trimmedMantissa = take (nat precision) paddedMantissa
                  in Inr (dec_string characteristic @ ''.'' @ trimmedMantissa))))"

definition Decimal_toString :: "decimal \<Rightarrow> int option \<Rightarrow> string res" where
  "Decimal_toString d precision =
     (if Decimal_infinite d \<noteq> None then Inr infinity_sign
      else (case precision of
              Some p \<Rightarrow> Decimal_toStringWithPrecision d p
            | None \<Rightarrow> Inr (Decimal_toStringWithAutomaticPrecision d)))"

text \<open>
  The replacement \<open>/(\d)(?=(\d{3})+(?!\d))/g\<close> by \<open>"$1,"\<close>: a comma after each digit that is
  followed by a run of digits whose length is a positive multiple of three.
\<close>

fun insert_commas :: "string \<Rightarrow> string" where
  "insert_commas [] = []"
| "insert_commas (c # cs) =
     (let n = length (takeWhile is_digit cs)
      in if is_digit c \<and> 0 < n \<and> n mod 3 = 0 then c # CHR '','' # insert_commas cs
         else c # insert_commas cs)"

definition Decimal_prettify :: "decimal \<Rightarrow> int \<Rightarrow> string res" where
  "Decimal_prettify d precision =
     bindR (Decimal_toString d (Some precision))
       (\<lambda>s. case split_on (CHR ''.'') s of
              characteristic # mantissa # _ \<Rightarrow>
                Inr (insert_commas characteristic @ ''.'' @ mantissa)
            | [characteristic] \<Rightarrow> Inr (insert_commas characteristic)
            | [] \<Rightarrow> Inl TypeError)"

definition Decimal_shorten :: "decimal \<Rightarrow> string res" where
  "Decimal_shorten d =
     bindR (Decimal_toString d (Some 0))
       (\<lambda>s. let characteristicLength = length s;
                magnitude = min ((characteristicLength - 1) div 3) (length magnitudes - 1);
                precision = max (3 * (int magnitude + 1) - int characteristicLength) 0;
                normalized = Decimal_div d (Dec (getDigits (PRECISION + 3 * magnitude)))
            in bindR (Decimal_prettify normalized precision)
                 (\<lambda>p. Inr (p @ magnitudes ! magnitude)))"

section \<open>Basic facts\<close>

lemmas cmp_defs =
  Decimal_lt_def Decimal_eq_def Decimal_gt_def Decimal_gte_def Decimal_lte_def Decimal_isZero_def

lemma bn_ops [simp]:
  "bn (Decimal_add a b) = bn a + bn b"
  "bn (Decimal_mul a b) = bn a * bn b div DIGITS"
  "bn (Decimal_min a b) = min (bn a) (bn b)"
  "bn (Decimal_max a b) = max (bn a) (bn b)"
  by (simp_all add: Decimal_add_def Decimal_mul_def Decimal_min_def Decimal_max_def cmp_defs)

lemma cmp_iff [dec_simps]:
  "Decimal_lt a b \<longleftrightarrow> a < b" "Decimal_gt a b \<longleftrightarrow> b < a"
  "Decimal_lte a b \<longleftrightarrow> a \<le> b" "Decimal_gte a b \<longleftrightarrow> b \<le> a"
  "Decimal_eq a b \<longleftrightarrow> a = b" "Decimal_isZero a \<longleftrightarrow> a = Decimal_ZERO"
  by (simp_all add: cmp_defs less_eq_decimal_def less_decimal_def Decimal_ZERO_def decimal.expand
      decimal.collapse [symmetric])
     (metis decimal.collapse decimal.sel)+

lemma decimal_eq_iff: "a = b \<longleftrightarrow> bn a = bn b"
  by (auto simp: decimal.expand)

lemma Decimal_sub_eq:
  "Decimal_sub a b =
     (if bn b \<le> bn a then Inr (Dec (bn a - bn b))
      else Inl (Error ''negatives not supported by Decimal''))"
  by (auto simp: Decimal_sub_def new_Decimal_def nat_diff_distrib)

lemma Decimal_sub_ok [simp]: "bn b \<le> bn a \<Longrightarrow> Decimal_sub a b = Inr (Dec (bn a - bn b))"
  by (simp add: Decimal_sub_eq)

lemma Decimal_infinite_None [simp]: "Decimal_infinite d = None \<longleftrightarrow> bn d \<noteq> MAX_UINT_256"
  by (simp add: Decimal_infinite_def Decimal_eq_def)

lemma Decimal_finite_Some [simp]: "Decimal_finite d = Some e \<longleftrightarrow> bn d \<noteq> MAX_UINT_256 \<and> e = d"
  by (auto simp: Decimal_finite_def Decimal_eq_def)

text \<open>
  The constructor accepts the \<open>BigNumber\<close> results of the operations modelled as total, and
  returns exactly the modelled value.
\<close>

lemma new_Decimal_agrees:
  "new_Decimal (int (bn a) + int (bn b)) = Inr (Decimal_add a b)"
  "new_Decimal (int (bn a) * int (bn b) div int DIGITS) = Inr (Decimal_mul a b)"
  "bn b \<noteq> 0 \<Longrightarrow> new_Decimal (int (bn a) * int DIGITS div int (bn b)) = Inr (Decimal_div a b)"
  "bn b \<noteq> 0 \<Longrightarrow>
     new_Decimal ((int (bn a) * int DIGITS + (int (bn b) - 1)) div int (bn b))
       = Inr (Decimal_divCeil a b)"
  "bn c \<noteq> 0 \<Longrightarrow>
     new_Decimal (int (bn a) * int (bn b) div int (bn c)) = Inr (Decimal_mulDiv a b c)"
proof -
  show "new_Decimal (int (bn a) + int (bn b)) = Inr (Decimal_add a b)"
    by (simp add: Decimal_add_def flip: of_nat_add)
  show "new_Decimal (int (bn a) * int (bn b) div int DIGITS) = Inr (Decimal_mul a b)"
    by (simp add: Decimal_mul_def flip: of_nat_mult of_nat_div)
  show "bn b \<noteq> 0 \<Longrightarrow>
      new_Decimal (int (bn a) * int DIGITS div int (bn b)) = Inr (Decimal_div a b)"
    by (simp add: Decimal_div_def Decimal_isZero_def flip: of_nat_mult of_nat_div)
  show "bn c \<noteq> 0 \<Longrightarrow>
      new_Decimal (int (bn a) * int (bn b) div int (bn c)) = Inr (Decimal_mulDiv a b c)"
    by (simp add: Decimal_mulDiv_def Decimal_isZero_def flip: of_nat_mult of_nat_div)
  assume b: "bn b \<noteq> 0"
  then have "int (bn b) - 1 = int (bn b - 1)" by simp
  then have "(int (bn a) * int DIGITS + (int (bn b) - 1)) div int (bn b)
      = int ((bn a * DIGITS + (bn b - 1)) div bn b)"
    by (simp only: of_nat_mult of_nat_div of_nat_add)
  with b show "new_Decimal ((int (bn a) * int DIGITS + (int (bn b) - 1)) div int (bn b))
       = Inr (Decimal_divCeil a b)"
    by (simp add: Decimal_divCeil_def Decimal_isZero_def)
qed

section \<open>Rounding of quotients\<close>

text \<open>Ceiling division of natural numbers, and the two Galois connections.\<close>

lemma ceil_div_le_iff:
  fixes c :: nat
  assumes "0 < c"
  shows "(a + (c - 1)) div c \<le> k \<longleftrightarrow> a \<le> k * c"
proof -
  have "(a + (c - 1)) div c \<le> k \<longleftrightarrow> (a + (c - 1)) div c < Suc k"
    by (simp only: less_Suc_eq_le)
  also have "\<dots> \<longleftrightarrow> a + (c - 1) < Suc k * c"
    using assms by (simp add: div_less_iff_less_mult)
  also have "\<dots> \<longleftrightarrow> a \<le> k * c" using assms by auto
  finally show ?thesis .
qed

lemma le_div_iff: "0 < (c::nat) \<Longrightarrow> k \<le> a div c \<longleftrightarrow> k * c \<le> a"
  by (simp add: less_eq_div_iff_mult_less_eq)

lemma divCeil_le_iff:
  "bn c \<noteq> 0 \<Longrightarrow> bn (Decimal_divCeil a c) \<le> k \<longleftrightarrow> bn a * DIGITS \<le> k * bn c"
  using ceil_div_le_iff [of "bn c" "bn a * DIGITS" k]
  by (simp only: Decimal_divCeil_def Decimal_isZero_def if_False decimal.sel)

lemma mul_ge_iff: "k \<le> bn (Decimal_mul a b) \<longleftrightarrow> k * DIGITS \<le> bn a * bn b"
  by (simp add: le_div_iff)

section \<open>Parsing what was printed\<close>

lemma dropWhile_digits [simp]: "list_all is_digit s \<Longrightarrow> dropWhile is_digit s = []"
  by (simp add: dropWhile_eq_Nil_conv list_all_iff)

lemma dropWhile_digits_append:
  "list_all is_digit s \<Longrightarrow> dropWhile is_digit (s @ t) = dropWhile is_digit t"
  by (simp add: dropWhile_append2 list_all_iff)

lemma format_digits: "list_all is_digit s \<Longrightarrow> stringRepresentationFormat s"
  by (simp add: stringRepresentationFormat_def)

lemma format_point:
  "list_all is_digit s \<Longrightarrow> list_all is_digit t \<Longrightarrow> stringRepresentationFormat (s @ CHR ''.'' # t)"
  by (simp add: stringRepresentationFormat_def dropWhile_digits_append)

lemma fromString_digits:
  assumes "list_all is_digit s" and "s \<noteq> []"
  shows "Decimal_fromString s = Inr (Dec (dec_value s * DIGITS))"
  using assms digit_not_mem [OF assms(1)]
  by (simp add: Decimal_fromString.simps [of s] format_digits del: of_nat_mult)

lemma fromString_point:
  assumes s: "list_all is_digit s" and t: "list_all is_digit t"
  shows "Decimal_fromString (s @ CHR ''.'' # t) =
    Inr (Dec (dec_value s * DIGITS
      + dec_value (if length t < PRECISION then pad_end PRECISION t else take PRECISION t)))"
  using digit_not_mem [OF s] digit_not_mem [OF t]
  by (simp add: Decimal_fromString.simps [of "s @ CHR ''.'' # t"] format_point [OF s t]
      split_on_append split_on_absent Let_def del: of_nat_mult of_nat_add)

text \<open>Evaluation of a literal after \<open>fromString_digits\<close> or \<open>fromString_point\<close>.\<close>

lemmas literal_simps =
  is_digit_def digit_val_def dec_value_Cons dec_value_pad_end PRECISION_def DIGITS_num

lemma mantissa_length: "n < DIGITS \<Longrightarrow> length (pad_start PRECISION (dec_string n)) = PRECISION"
  using length_dec_string_le [of PRECISION n] by (simp add: DIGITS_eq PRECISION_def max_def)

lemma toString_automatic_parses: "Decimal_fromString (Decimal_toStringWithAutomaticPrecision d) = Inr d"
proof -
  let ?c = "bn d div DIGITS" and ?m = "bn d mod DIGITS"
  let ?p = "pad_start PRECISION (dec_string ?m)"
  have len: "length ?p = PRECISION" by (rule mantissa_length) simp
  have digs: "list_all is_digit (strip_zeros ?p)"
    using set_strip_zeros [of ?p] digits_pad_start [OF dec_string_digits, of PRECISION ?m]
    by (auto simp: list_all_iff)
  have pad: "pad_end PRECISION (strip_zeros ?p) = ?p" by (rule pad_end_strip_zeros [OF len])
  have full: "\<not> length (strip_zeros ?p) < PRECISION \<Longrightarrow> take PRECISION (strip_zeros ?p) = ?p"
    using pad length_strip_zeros [of ?p] len by (simp add: pad_end_def)
  have "Decimal_fromString (Decimal_toStringWithAutomaticPrecision d) = Inr (Dec (?c * DIGITS + ?m))"
    using pad full fromString_point [OF dec_string_digits digs]
    by (auto simp: Decimal_toStringWithAutomaticPrecision_def Let_def fromString_digits)
  then show ?thesis by simp
qed

text \<open>C8: printing a finite \<open>Decimal\<close> with \<open>toString()\<close> and parsing the result with
  \<open>Decimal.from\<close> gives the same \<open>Decimal\<close> back, to the last of the 18 digits.\<close>

theorem Decimal_toString_roundtrip:
  assumes "Decimal_finite d = Some d"
  shows "bindR (Decimal_toString d None) (\<lambda>s. Decimal_from (DString s)) = Inr d"
  using assms by (simp add: Decimal_toString_def toString_automatic_parses)

theorem Decimal_toString_roundtrip_witness:
  "bindR (Decimal_toString (Dec 1500000000000000001) None) (\<lambda>s. Decimal_from (DString s))
     = Inr (Dec 1500000000000000001)"
  by (rule Decimal_toString_roundtrip) (simp add: MAX_UINT_256_def)

text \<open>\<open>toString(precision)\<close> rounds half up: for \<open>1 \<le> precision \<le> 17\<close> the printed digits,
  read without the point, denote the integer nearest to \<open>d * 10 ^ precision\<close> (ties upwards),
  and exactly \<open>precision\<close> digits follow the point.\<close>

theorem Decimal_toString_rounds_half_up:
  assumes "Decimal_finite d = Some d" and "0 < p" and "p < PRECISION"
  shows "\<exists>characteristic mantissa.
    Decimal_toString d (Some (int p)) = Inr (characteristic @ ''.'' @ mantissa) \<and>
    length mantissa = p \<and>
    dec_value (characteristic @ mantissa) =
      (2 * bn d + 10 ^ (PRECISION - p)) div (2 * 10 ^ (PRECISION - p))"
proof -
  let ?v = "bn d + 10 ^ (17 - p) * 5" and ?k = "PRECISION - p"
  let ?m = "pad_start PRECISION (dec_string (?v mod DIGITS))"
  have "?k = Suc (17 - p)" and "p + ?k = 18" using assms(3) by (auto simp: PRECISION_def)
  then have k: "(10::nat) ^ ?k = 10 * 10 ^ (17 - p)" and pk: "(10::nat) ^ p * 10 ^ ?k = DIGITS"
    by (simp_all add: DIGITS_eq flip: power_add)
  have len: "length ?m = PRECISION" by (rule mantissa_length) simp
  have take: "dec_value (take p ?m) = ?v mod DIGITS div 10 ^ ?k"
    using dec_value_take [OF digits_pad_start [OF dec_string_digits], of p PRECISION "?v mod DIGITS"]
      len assms(3) by simp
  have "?v div DIGITS * 10 ^ p + ?v mod DIGITS div 10 ^ ?k = ?v div 10 ^ ?k"
  proof -
    have "?v = ?v div DIGITS * 10 ^ p * 10 ^ ?k + ?v mod DIGITS"
      by (simp add: pk mult.assoc)
    then show ?thesis by (metis div_mult_self3 power_eq_0_iff zero_neq_numeral)
  qed
  moreover have "?v div 10 ^ ?k = (2 * bn d + 10 ^ ?k) div (2 * 10 ^ ?k)"
  proof -
    have "2 * bn d + 10 ^ ?k = 2 * ?v" by (simp add: k)
    then show ?thesis by (simp only: div_mult_mult1 zero_neq_numeral not_False_eq_True)
  qed
  ultimately have "dec_value (dec_string (?v div DIGITS) @ take p ?m)
      = (2 * bn d + 10 ^ ?k) div (2 * 10 ^ ?k)"
    using len assms(3) take by (simp add: dec_value_append)
  moreover have "Decimal_toString d (Some (int p)) = Inr (dec_string (?v div DIGITS) @ ''.'' @ take p ?m)"
    using assms by (simp add: Decimal_toString_def Decimal_toStringWithPrecision_def Let_def
        Decimal_roundUp_def getDigits_def PRECISION_def)
  ultimately show ?thesis using len assms(3) by fastforce
qed

theorem Decimal_toString_rounds_half_up_witness:
  "\<exists>characteristic mantissa.
    Decimal_toString (Dec 1005000000000000000) (Some (int 2)) = Inr (characteristic @ ''.'' @ mantissa) \<and>
    length mantissa = 2 \<and> dec_value (characteristic @ mantissa) = 101"
  using Decimal_toString_rounds_half_up [of "Dec 1005000000000000000" 2]
  by (simp add: MAX_UINT_256_def PRECISION_def)

section \<open>Thousands separators\<close>

lemma takeWhile_digits [simp]: "list_all is_digit s \<Longrightarrow> takeWhile is_digit s = s"
  by (simp add: takeWhile_eq_all_conv list_all_iff)

lemma takeWhile_digits_append:
  "list_all is_digit s \<Longrightarrow> takeWhile is_digit (s @ t) = s @ takeWhile is_digit t"
  by (simp add: takeWhile_append2 list_all_iff)

lemma insert_commas_short: "list_all is_digit s \<Longrightarrow> length s \<le> 3 \<Longrightarrow> insert_commas s = s"
  by (induction s) (auto simp: Let_def)

lemma insert_commas_three:
  assumes "list_all is_digit t" and "length t = 3"
  shows "list_all is_digit s \<Longrightarrow> s \<noteq> [] \<Longrightarrow> insert_commas (s @ t) = insert_commas s @ CHR '','' # t"
proof (induction s)
  case Nil
  then show ?case by simp
next
  case (Cons c s)
  have tw: "length (takeWhile is_digit (s @ t)) = length s + 3"
    using assms Cons.prems by (simp add: takeWhile_digits_append)
  show ?case
  proof (cases "s = []")
    case True
    with assms Cons.prems show ?thesis by (simp add: insert_commas_short)
  next
    case False
    with Cons have "insert_commas (s @ t) = insert_commas s @ CHR '','' # t" by simp
    with tw Cons.prems False show ?thesis by (simp add: Let_def)
  qed
qed

lemma filter_insert_commas:
  "CHR '','' \<notin> set s \<Longrightarrow> filter (\<lambda>c. c \<noteq> CHR '','') (insert_commas s) = s"
  by (induction s) (auto simp: Let_def)

text \<open>the separators of \<open>prettify\<close> split a run of digits into groups of three from the
  right: a run of at most three digits is unchanged, and appending three digits to a
  non-empty run appends a comma and those digits.\<close>

theorem insert_commas_groups:
  "(\<forall>s. list_all is_digit s \<and> length s \<le> 3 \<longrightarrow> insert_commas s = s) \<and>
   (\<forall>s t. list_all is_digit (s @ t) \<and> s \<noteq> [] \<and> length t = 3 \<longrightarrow>
      insert_commas (s @ t) = insert_commas s @ '','' @ t)"
  by (simp add: insert_commas_short insert_commas_three)

theorem insert_commas_groups_witness:
  "insert_commas ''12'' = ''12'' \<and> insert_commas (''1234'' @ ''567'') = ''1,234'' @ '','' @ ''567''"
proof -
  have "insert_commas ''12'' = ''12''"
    using insert_commas_groups by (simp add: is_digit_def)
  moreover have "insert_commas (''1234'' @ ''567'') = insert_commas ''1234'' @ '','' @ ''567''"
    using insert_commas_groups by (simp add: is_digit_def)
  moreover have "insert_commas ''1234'' = ''1,234''" by (simp add: is_digit_def)
  ultimately show ?thesis by simp
qed

lemma comma_notin_take:
  "list_all is_digit s \<Longrightarrow> CHR '','' \<notin> set (take n s) \<and> CHR ''.'' \<notin> set (take n s)"
  by (auto simp: list_all_iff dest!: in_set_takeD)

text \<open>deleting the commas from what \<open>prettify\<close> prints gives what \<open>toString\<close> prints at the
  same precision, for every value, infinity included; and \<open>prettify\<close> throws only on a
  negative precision.\<close>

theorem Decimal_prettify_erases:
  "(case Decimal_prettify d p of
      Inr s \<Rightarrow> Decimal_toString d (Some p) = Inr (filter (\<lambda>c. c \<noteq> CHR '','') s)
    | Inl e \<Rightarrow> p < 0 \<and> e = Error ''precision must not be negative'')"
proof (cases "Decimal_infinite d = None")
  case False
  then show ?thesis
    by (auto simp: Decimal_prettify_def Decimal_toString_def infinity_sign_def Let_def)
next
  case fin: True
  let ?v = "if p < int PRECISION then Decimal_roundUp d (nat p) else bn d"
  let ?m = "take (nat p) (pad_start PRECISION (dec_string (?v mod DIGITS)))"
  have m: "CHR '','' \<notin> set ?m" "CHR ''.'' \<notin> set ?m"
    using comma_notin_take [OF digits_pad_start [OF dec_string_digits]] by blast+
  have "filter (\<lambda>c. c \<noteq> CHR '','') ?m = ?m" using m(1) unfolding filter_id_conv by blast
  with fin m show ?thesis
    by (auto simp: Decimal_prettify_def Decimal_toString_def Decimal_toStringWithPrecision_def
        Let_def split_on_append split_on_absent filter_insert_commas filter_id_conv)
qed

end
