(* ===== verification/Decimal_Pow.thy ===== *)
theory Decimal_Pow
  imports Complex_Main Decimal
begin

text \<open>
  The square-and-multiply loop of \<open>Decimal.pow\<close> (\<open>packages/lib-base/src/Decimal.ts\<close>): its
  result against the exact power, on whole numbers and on ratios up to one.
\<close>

section \<open>One rounded product\<close>

lemma roundedMul_whole: "roundedMul (a * DIGITS) (b * DIGITS) = a * b * DIGITS"
proof -
  have "a * DIGITS * (b * DIGITS) + bn Decimal_HALF = (a * b * DIGITS) * DIGITS + 5 * 10 ^ 17"
    by (simp add: algebra_simps)
  moreover have "5 * 10 ^ 17 < DIGITS" by (simp add: DIGITS_num)
  ultimately show ?thesis unfolding roundedMul_def by (simp only: div_mult_self3) simp
qed

lemma roundedMul_le: "y \<le> DIGITS \<Longrightarrow> roundedMul x y \<le> x"
proof -
  assume "y \<le> DIGITS"
  then have "x * y \<le> x * DIGITS" by (rule mult_le_mono2)
  then have "x * y + bn Decimal_HALF < x * DIGITS + DIGITS"
    by (rule add_le_less_mono) (simp add: DIGITS_num)
  then have "x * y + bn Decimal_HALF < Suc x * DIGITS" by simp
  then have "roundedMul x y < Suc x"
    unfolding roundedMul_def by (simp add: div_less_iff_less_mult)
  then show ?thesis by simp
qed

lemma roundedMul_mono: "a \<le> x \<Longrightarrow> b \<le> y \<Longrightarrow> roundedMul a b \<le> roundedMul x y"
  by (simp add: roundedMul_def div_le_mono mult_le_mono)

text \<open>The ratio a \<open>BigNumber\<close> stands for, and half a unit in the last place.\<close>

definition ratio :: "nat \<Rightarrow> real" where
  "ratio x = real x / real DIGITS"

definition half_ulp :: real where
  "half_ulp = 1 / (2 * real DIGITS)"

lemma ratio_bounds: "x \<le> DIGITS \<Longrightarrow> 0 \<le> ratio x \<and> ratio x \<le> 1"
  by (simp add: ratio_def)

lemma roundedMul_error: "\<bar>ratio (roundedMul x y) - ratio x * ratio y\<bar> \<le> half_ulp"
proof -
  let ?n = "x * y + 5 * 10 ^ 17" and ?D = "real DIGITS"
  have D: "?D = 10 ^ 18" by (simp add: DIGITS_eq)
  have q: "real ?n = real (?n div DIGITS) * ?D + real (?n mod DIGITS)"
    by (metis div_mult_mod_eq of_nat_add of_nat_mult)
  have r: "real (?n mod DIGITS) < ?D" by (simp add: DIGITS_num)
  have "\<bar>real (?n div DIGITS) * ?D - real x * real y\<bar> \<le> ?D / 2"
    using q r by (simp add: D abs_le_iff)
  then have "\<bar>real (?n div DIGITS) * ?D - real x * real y\<bar> / (?D * ?D) \<le> (?D / 2) / (?D * ?D)"
    by (simp add: divide_right_mono D)
  moreover have "ratio (roundedMul x y) - ratio x * ratio y
      = (real (?n div DIGITS) * ?D - real x * real y) / (?D * ?D)"
    by (simp add: ratio_def roundedMul_def D field_simps)
  ultimately have "\<bar>ratio (roundedMul x y) - ratio x * ratio y\<bar> \<le> (?D / 2) / (?D * ?D)"
    by (simp only: abs_divide abs_mult abs_of_nat)
  then show ?thesis by (simp add: half_ulp_def D)
qed

lemma product_error:
  fixes x y X Y a b :: real
  assumes "\<bar>x - X\<bar> \<le> a" "\<bar>y - Y\<bar> \<le> b" "0 \<le> y" "y \<le> 1" "0 \<le> X" "X \<le> 1"
  shows "\<bar>x * y - X * Y\<bar> \<le> a + b"
proof -
  have "x * y - X * Y = (x - X) * y + X * (y - Y)" by (simp add: algebra_simps)
  then have "\<bar>x * y - X * Y\<bar> \<le> \<bar>x - X\<bar> * \<bar>y\<bar> + \<bar>X\<bar> * \<bar>y - Y\<bar>"
    by (metis abs_mult abs_triangle_ineq)
  also have "\<bar>x - X\<bar> * \<bar>y\<bar> \<le> a * 1" using assms by (intro mult_mono) auto
  also have "\<bar>X\<bar> * \<bar>y - Y\<bar> \<le> 1 * b" using assms by (intro mult_mono) auto
  finally show ?thesis by simp
qed

lemma roundedMul_close:
  assumes "\<bar>ratio x - X\<bar> \<le> a" "\<bar>ratio y - Y\<bar> \<le> b" "y \<le> DIGITS" "0 \<le> X" "X \<le> 1"
  shows "\<bar>ratio (roundedMul x y) - X * Y\<bar> \<le> a + b + half_ulp"
proof -
  have "\<bar>ratio x * ratio y - X * Y\<bar> \<le> a + b"
    using assms ratio_bounds [of y] by (intro product_error) auto
  then show ?thesis using roundedMul_error [of x y] by linarith
qed

section \<open>The loop\<close>

lemma pow_loop_whole:
  "0 < e \<Longrightarrow> (case pow_loop (a * DIGITS) (b * DIGITS) e of (x, y) \<Rightarrow> roundedMul x y) = a ^ e * b * DIGITS"
proof (induction e arbitrary: a b rule: less_induct)
  case (less e)
  show ?case
  proof (cases "1 < e")
    case False
    with less.prems have "e = 1" by simp
    then show ?thesis by (simp add: pow_loop.simps roundedMul_whole)
  next
    case True
    then have half: "e div 2 < e" "0 < e div 2" by auto
    show ?thesis
    proof (cases "odd e")
      case True
      then have "a ^ e = (a * a) ^ (e div 2) * a"
        by (metis odd_two_times_div_two_succ power_Suc2 power_mult power2_eq_square Suc_eq_plus1)
      moreover have "pow_loop (a * DIGITS) (b * DIGITS) e
          = pow_loop (a * a * DIGITS) (a * b * DIGITS) (e div 2)"
        using \<open>1 < e\<close> True by (subst pow_loop.simps) (simp add: roundedMul_whole)
      ultimately show ?thesis using less.IH [OF half, of "a * a" "a * b"] by simp
    next
      case False
      then have "a ^ e = (a * a) ^ (e div 2)"
        by (metis dvd_mult_div_cancel power_mult power2_eq_square)
      with \<open>1 < e\<close> False less.IH [OF half, of "a * a" b] show ?thesis
        by (simp add: pow_loop.simps [of "a * DIGITS" _ e] roundedMul_whole)
    qed
  qed
qed

lemma pow_loop_le:
  "x \<le> DIGITS \<Longrightarrow> y \<le> DIGITS \<Longrightarrow> pow_loop x y e = (x', y') \<Longrightarrow> x' \<le> x \<and> y' \<le> y"
proof (induction x y e rule: pow_loop.induct)
  case (1 x y e)
  show ?case
  proof (cases "1 < e")
    case False
    with "1.prems" show ?thesis by (simp add: pow_loop.simps)
  next
    case True
    let ?y = "if odd e then roundedMul x y else y"
    have x: "roundedMul x x \<le> x" by (rule roundedMul_le) (rule "1.prems")
    have "roundedMul x y \<le> roundedMul y x" by (simp add: roundedMul_def mult.commute)
    then have y: "?y \<le> y" using roundedMul_le [of x y] "1.prems" by simp
    from True "1.prems" have "pow_loop (roundedMul x x) ?y (e div 2) = (x', y')"
      by (simp add: pow_loop.simps [of x y e])
    from "1.IH" [OF True _ _ this] x y "1.prems" have "x' \<le> roundedMul x x \<and> y' \<le> ?y"
      by linarith
    with x y show ?thesis by linarith
  qed
qed

lemma pow_loop_error:
  assumes "0 < e" "x \<le> DIGITS" "y \<le> DIGITS" "0 \<le> X" "X \<le> 1"
    and "\<bar>ratio x - X\<bar> \<le> a" "\<bar>ratio y - Y\<bar> \<le> b"
  shows "\<bar>ratio (case pow_loop x y e of (x', y') \<Rightarrow> roundedMul x' y') - X ^ e * Y\<bar>
    \<le> real e * a + b + (2 * real e - 1) * half_ulp"
  using assms
proof (induction e arbitrary: x y X Y a b rule: less_induct)
  case (less e)
  note xy = less.prems(2,3) and X = less.prems(4,5) and ab = less.prems(6,7)
  have h: "0 \<le> half_ulp" by (simp add: half_ulp_def)
  show ?case
  proof (cases "1 < e")
    case False
    with less.prems(1) have "e = 1" by simp
    with roundedMul_close [OF ab xy(2) X] show ?thesis by (simp add: pow_loop.simps)
  next
    case True
    then have half: "e div 2 < e" "0 < e div 2" by auto
    have sq: "\<bar>ratio (roundedMul x x) - X * X\<bar> \<le> a + a + half_ulp"
      by (rule roundedMul_close [OF ab(1) ab(1) xy(1) X])
    have xle: "roundedMul x x \<le> DIGITS" using roundedMul_le [OF xy(1), of x] xy by simp
    have XX: "0 \<le> X * X" "X * X \<le> 1" using X by (auto simp: mult_le_one)
    show ?thesis
    proof (cases "odd e")
      case True
      then obtain k where k: "e = 2 * k + 1" by (auto elim: oddE)
      have yle: "roundedMul x y \<le> DIGITS" using roundedMul_le [OF xy(2), of x] xy by simp
      have "\<bar>ratio (case pow_loop (roundedMul x x) (roundedMul x y) k of (x', y') \<Rightarrow> roundedMul x' y')
          - (X * X) ^ k * (X * Y)\<bar>
          \<le> real k * (a + a + half_ulp) + (a + b + half_ulp) + (2 * real k - 1) * half_ulp"
        using less.IH [OF half xle yle XX sq roundedMul_close [OF ab xy(2) X]] k by simp
      also have "\<dots> = real e * a + b + 3 * real k * half_ulp"
        by (simp add: k algebra_simps)
      also have "\<dots> \<le> real e * a + b + (2 * real e - 1) * half_ulp"
        using h by (simp add: k mult_right_mono)
      finally have "\<bar>ratio (case pow_loop (roundedMul x x) (roundedMul x y) k of
            (x', y') \<Rightarrow> roundedMul x' y') - (X * X) ^ k * (X * Y)\<bar>
          \<le> real e * a + b + (2 * real e - 1) * half_ulp" .
      moreover have "(X * X) ^ k * (X * Y) = X ^ e * Y"
        by (simp add: k power_mult power2_eq_square)
      moreover have "pow_loop x y e = pow_loop (roundedMul x x) (roundedMul x y) k"
        using \<open>1 < e\<close> True k by (subst pow_loop.simps) simp
      ultimately show ?thesis by simp
    next
      case False
      then obtain k where k: "e = 2 * k" by (auto elim: evenE)
      have "\<bar>ratio (case pow_loop (roundedMul x x) y k of (x', y') \<Rightarrow> roundedMul x' y')
          - (X * X) ^ k * Y\<bar>
          \<le> real k * (a + a + half_ulp) + b + (2 * real k - 1) * half_ulp"
        using less.IH [OF half xle xy(2) XX sq ab(2)] k by simp
      also have "\<dots> = real e * a + b + (3 * real k - 1) * half_ulp"
        by (simp add: k algebra_simps)
      also have "\<dots> \<le> real e * a + b + (2 * real e - 1) * half_ulp"
        using h by (simp add: k mult_right_mono)
      finally have "\<bar>ratio (case pow_loop (roundedMul x x) y k of
            (x', y') \<Rightarrow> roundedMul x' y') - (X * X) ^ k * Y\<bar>
          \<le> real e * a + b + (2 * real e - 1) * half_ulp" .
      moreover have "(X * X) ^ k * Y = X ^ e * Y"
        by (simp add: k power_mult power2_eq_square)
      moreover have "pow_loop x y e = pow_loop (roundedMul x x) y k"
        using \<open>1 < e\<close> False k by (subst pow_loop.simps) simp
      ultimately show ?thesis by simp
    qed
  qed
qed

lemma Decimal_pow_loop:
  assumes "1 < n" "n \<le> 0xffffffff"
  shows "Decimal_pow d n =
    Inr (Dec (case pow_loop (bn d) DIGITS (nat n) of (x, y) \<Rightarrow> roundedMul x y))"
  using assms by (simp add: Decimal_pow_def split: prod.split)

section \<open>Properties of pow\<close>

text \<open>on whole numbers \<open>pow\<close> is exact, for every exponent it accepts.\<close>

theorem Decimal_pow_whole:
  assumes "0 \<le> n" and "n \<le> 0xffffffff"
  shows "Decimal_pow (Dec (k * DIGITS)) n = Inr (Dec (k ^ nat n * DIGITS))"
proof (cases "1 < n")
  case True
  with assms show ?thesis
    using pow_loop_whole [of "nat n" k 1] by (simp add: Decimal_pow_loop)
next
  case False
  with assms consider "n = 0" | "n = 1" by linarith
  then show ?thesis by cases (simp_all add: Decimal_pow_def Decimal_ONE_def DIGITS_eq)
qed

theorem Decimal_pow_whole_witness: "Decimal_pow (Dec (3 * DIGITS)) 13 = Inr (Dec (1594323 * DIGITS))"
  using Decimal_pow_whole [of 13 3] by simp

text \<open>C9: raising a ratio of at most one to the power \<open>n\<close> is accurate to \<open>n\<close> units in the
  18th digit: the result differs from the real power by less than \<open>n * 10\<^sup>-\<^sup>1\<^sup>8\<close>, does not exceed
  one, and for \<open>n \<ge> 1\<close> does not exceed the base.\<close>

theorem Decimal_pow_accurate:
  assumes "bn d \<le> DIGITS" and "1 \<le> n" and "n \<le> 0xffffffff"
  shows "\<exists>r. Decimal_pow d n = Inr r \<and> bn r \<le> bn d \<and>
    \<bar>ratio (bn r) - ratio (bn d) ^ nat n\<bar> < real_of_int n / 10 ^ 18"
proof (cases "n = 1")
  case True
  then show ?thesis by (simp add: Decimal_pow_def)
next
  case False
  with assms have n: "1 < n" by simp
  obtain x y where l: "pow_loop (bn d) DIGITS (nat n) = (x, y)" by fastforce
  have le: "x \<le> bn d \<and> y \<le> DIGITS" using pow_loop_le [OF assms(1) order_refl l] .
  have "\<bar>ratio (roundedMul x y) - ratio (bn d) ^ nat n * ratio DIGITS\<bar>
      \<le> real (nat n) * 0 + 0 + (2 * real (nat n) - 1) * half_ulp"
    using pow_loop_error [of "nat n" "bn d" DIGITS "ratio (bn d)" 0 "ratio DIGITS" 0]
      assms(1) n ratio_bounds [OF assms(1)] l by simp
  then have "\<bar>ratio (roundedMul x y) - ratio (bn d) ^ nat n\<bar> \<le> (2 * real_of_int n - 1) * half_ulp"
    using n by (simp add: ratio_def DIGITS_num)
  also have "\<dots> < real_of_int n / 10 ^ 18"
    by (simp add: half_ulp_def DIGITS_num field_simps)
  finally have "\<bar>ratio (roundedMul x y) - ratio (bn d) ^ nat n\<bar> < real_of_int n / 10 ^ 18" .
  moreover have "roundedMul x y \<le> bn d" using roundedMul_le [of y x] le by linarith
  ultimately show ?thesis using Decimal_pow_loop [OF n assms(3)] l by auto
qed

theorem Decimal_pow_accurate_witness:
  "\<exists>r. Decimal_pow (Dec 999037758833783000) 720 = Inr r \<and> bn r \<le> bn (Dec 999037758833783000) \<and>
    \<bar>ratio (bn r) - ratio (bn (Dec 999037758833783000)) ^ nat 720\<bar> < real_of_int 720 / 10 ^ 18"
  by (rule Decimal_pow_accurate) (simp_all add: DIGITS_num)

end
