(* ===== verification/Difference.thy ===== *)
theory Difference
  imports Decimal
begin

text \<open>
  The classes \<open>Difference\<close> and \<open>Percent\<close> of \<open>packages/lib-base/src/Decimal.ts\<close>.  A
  \<open>Difference\<close> wraps an optional signed amount; \<open>undefined\<close> stands for a difference that is
  not a number.  \<open>Percent\<close> is generic in the ratio it wraps; the libraries use it on a
  \<open>Decimal\<close> and on a \<open>Difference\<close>, the two constructors of \<open>ratio_value\<close>.
\<close>

section \<open>Difference\<close>

datatype sign = NoSign | Plus | Minus

fun sign_string :: "sign \<Rightarrow> string" where
  "sign_string NoSign = ''''"
| "sign_string Plus = ''+''"
| "sign_string Minus = ''-''"

record differenceRepresentation =
  sign :: sign
  absoluteValue :: decimal

type_synonym difference = "differenceRepresentation option"

definition Difference_between :: "decimal option \<Rightarrow> decimal option \<Rightarrow> difference res" where
  "Difference_between d1 d2 =
     (case (d1, d2) of
        (Some a, Some b) \<Rightarrow>
          if Decimal_infinite a \<noteq> None \<and> Decimal_infinite b \<noteq> None then Inr None
          else if Decimal_infinite a \<noteq> None then Inr (Some \<lparr>sign = Plus, absoluteValue = a\<rparr>)
          else if Decimal_infinite b \<noteq> None then Inr (Some \<lparr>sign = Minus, absoluteValue = b\<rparr>)
          else if Decimal_gt a b then
            bindR (Decimal_sub a b) (\<lambda>v. Inr (Some \<lparr>sign = Plus, absoluteValue = v\<rparr>))
          else if Decimal_gt b a then
            bindR (Decimal_sub b a) (\<lambda>v. Inr (Some \<lparr>sign = Minus, absoluteValue = v\<rparr>))
          else Inr (Some \<lparr>sign = NoSign, absoluteValue = Decimal_ZERO\<rparr>)
      | _ \<Rightarrow> Inr None)"

definition Difference_toString :: "difference \<Rightarrow> int option \<Rightarrow> string res" where
  "Difference_toString n precision =
     (case n of
        None \<Rightarrow> Inr ''N/A''
      | Some r \<Rightarrow> bindR (Decimal_toString (absoluteValue r) precision)
          (\<lambda>s. Inr (sign_string (sign r) @ s)))"

definition Difference_prettify :: "difference \<Rightarrow> int \<Rightarrow> string res" where
  "Difference_prettify n precision =
     (case n of
        None \<Rightarrow> Difference_toString n None
      | Some r \<Rightarrow> bindR (Decimal_prettify (absoluteValue r) precision)
          (\<lambda>s. Inr (sign_string (sign r) @ s)))"

definition zeroish :: "nat \<Rightarrow> string" where
  "zeroish precision = ''0.'' @ replicate precision (CHR ''0'') @ ''5''"

definition Difference_nonZeroish :: "difference \<Rightarrow> nat \<Rightarrow> difference option res" where
  "Difference_nonZeroish n precision =
     (case n of
        None \<Rightarrow> Inr None
      | Some r \<Rightarrow> bindR (Decimal_from (DString (zeroish precision)))
          (\<lambda>z. Inr (if Decimal_gte (absoluteValue r) z then Some n else None)))"

definition Difference_mul :: "difference \<Rightarrow> decimal \<Rightarrow> difference" where
  "Difference_mul n multiplier =
     (case n of
        None \<Rightarrow> None
      | Some r \<Rightarrow> Some \<lparr>sign = sign r, absoluteValue = Decimal_mul (absoluteValue r) multiplier\<rparr>)"

definition Difference_nonZero :: "difference \<Rightarrow> difference option" where
  "Difference_nonZero n =
     (case n of
        None \<Rightarrow> None
      | Some r \<Rightarrow> if Decimal_nonZero (absoluteValue r) \<noteq> None then Some n else None)"

definition Difference_positive :: "difference \<Rightarrow> difference option" where
  "Difference_positive n =
     (case n of None \<Rightarrow> None | Some r \<Rightarrow> if sign r = Plus then Some n else None)"

definition Difference_negative :: "difference \<Rightarrow> difference option" where
  "Difference_negative n =
     (case n of None \<Rightarrow> None | Some r \<Rightarrow> if sign r = Minus then Some n else None)"

definition Difference_absoluteValue :: "difference \<Rightarrow> decimal option" where
  "Difference_absoluteValue n = map_option absoluteValue n"

definition Difference_infinite :: "difference \<Rightarrow> difference option" where
  "Difference_infinite n =
     (case n of
        None \<Rightarrow> None
      | Some r \<Rightarrow> if Decimal_infinite (absoluteValue r) \<noteq> None then Some n else None)"

definition Difference_finite :: "difference \<Rightarrow> difference option" where
  "Difference_finite n =
     (case n of
        None \<Rightarrow> None
      | Some r \<Rightarrow> if Decimal_finite (absoluteValue r) \<noteq> None then Some n else None)"

section \<open>Percent\<close>

datatype ratio_value = RDecimal decimal | RDifference difference

fun ratio_infinite :: "ratio_value \<Rightarrow> ratio_value option" where
  "ratio_infinite (RDecimal d) = map_option RDecimal (Decimal_infinite d)"
| "ratio_infinite (RDifference n) = map_option RDifference (Difference_infinite n)"

fun ratio_absoluteValue :: "ratio_value \<Rightarrow> decimal option" where
  "ratio_absoluteValue (RDecimal d) = Some (Decimal_absoluteValue d)"
| "ratio_absoluteValue (RDifference n) = Difference_absoluteValue n"

fun ratio_mul :: "ratio_value \<Rightarrow> decimal \<Rightarrow> ratio_value" where
  "ratio_mul (RDecimal d) m = RDecimal (Decimal_mul d m)"
| "ratio_mul (RDifference n) m = RDifference (Difference_mul n m)"

fun ratio_toString :: "ratio_value \<Rightarrow> int option \<Rightarrow> string res" where
  "ratio_toString (RDecimal d) p = Decimal_toString d p"
| "ratio_toString (RDifference n) p = Difference_toString n p"

definition hundred :: decimal where
  "hundred = Dec (100 * 10 ^ 18)"

definition new_Percent :: "ratio_value \<Rightarrow> ratio_value" where
  "new_Percent ratio =
     (case ratio_infinite ratio of Some r \<Rightarrow> r | None \<Rightarrow> ratio_mul ratio hundred)"

definition Percent_nonZeroish :: "ratio_value \<Rightarrow> nat \<Rightarrow> ratio_value option res" where
  "Percent_nonZeroish percent precision =
     (case ratio_absoluteValue percent of
        None \<Rightarrow> Inr None
      | Some v \<Rightarrow> bindR (Decimal_from (DString (zeroish precision)))
          (\<lambda>z. Inr (if Decimal_gte v z then Some percent else None)))"

definition Percent_toString :: "ratio_value \<Rightarrow> int \<Rightarrow> string res" where
  "Percent_toString percent precision =
     bindR (ratio_toString percent (Some precision))
       (\<lambda>s. Inr (s @ (if ratio_absoluteValue percent \<noteq> None \<and> ratio_infinite percent = None
                      then ''%'' else '''')))"

definition absolute_gte :: "ratio_value \<Rightarrow> string \<Rightarrow> bool res" where
  "absolute_gte percent bound =
     (case ratio_absoluteValue percent of
        None \<Rightarrow> Inr False
      | Some v \<Rightarrow> bindR (Decimal_from (DString bound)) (\<lambda>b. Inr (Decimal_gte v b)))"

definition Percent_prettify :: "ratio_value \<Rightarrow> string res" where
  "Percent_prettify percent =
     bindR (absolute_gte percent ''1000'')
       (\<lambda>thousand.
          if thousand then Percent_toString percent 0
          else bindR (absolute_gte percent ''10'')
            (\<lambda>ten. if ten then Percent_toString percent 1 else Percent_toString percent 2))"

section \<open>Facts\<close>

lemma hundred_parses: "Decimal_from (DNumber ''100'') = Inr hundred"
  by (simp add: fromString_digits is_digit_def dec_value_def digit_val_def hundred_def DIGITS_num)

lemma zeroish_parses:
  assumes "p < PRECISION"
  shows "Decimal_from (DString (zeroish p)) = Inr (Dec (5 * 10 ^ (17 - p)))"
proof -
  let ?t = "replicate p (CHR ''0'') @ ''5''"
  have t: "list_all is_digit ?t" by (auto simp: list_all_iff is_digit_def)
  have v: "dec_value ?t = 5" by (simp add: dec_value_append digit_val_def)
  have "Decimal_fromString (''0'' @ CHR ''.'' # ?t)
      = Inr (Dec (dec_value ''0'' * DIGITS
          + dec_value (if length ?t < PRECISION then pad_end PRECISION ?t else take PRECISION ?t)))"
    by (rule fromString_point [OF _ t]) simp
  moreover have "dec_value (if length ?t < PRECISION then pad_end PRECISION ?t else take PRECISION ?t)
      = 5 * 10 ^ (17 - p)"
  proof (cases "length ?t < PRECISION")
    case True
    then have "dec_value (pad_end PRECISION ?t) = dec_value ?t * 10 ^ (PRECISION - length ?t)"
      by (intro dec_value_pad_end) simp
    with True v show ?thesis by (simp add: PRECISION_def)
  next
    case False
    with assms have "p = 17" by (simp add: PRECISION_def)
    with v show ?thesis by (simp add: PRECISION_def)
  qed
  ultimately show ?thesis by (simp add: zeroish_def)
qed

text \<open>a finite \<open>Difference.between(d1, d2)\<close> is the exact signed difference: added to \<open>d2\<close>
  when positive, or subtracted when negative, it gives \<open>d1\<close>; its sign is that of \<open>d1 - d2\<close>;
  the function never throws.\<close>

theorem Difference_between_exact:
  assumes "Decimal_finite a = Some a" and "Decimal_finite b = Some b"
  shows "\<exists>r. Difference_between (Some a) (Some b) = Inr (Some r) \<and>
    (case sign r of
       Plus \<Rightarrow> b < a \<and> Decimal_add b (absoluteValue r) = a
     | Minus \<Rightarrow> a < b \<and> Decimal_add a (absoluteValue r) = b
     | NoSign \<Rightarrow> a = b \<and> absoluteValue r = Decimal_ZERO)"
  using assms
  by (auto simp: Difference_between_def dec_simps less_decimal_def Decimal_add_def
      decimal_eq_iff not_less)

theorem Difference_between_exact_witness:
  "\<exists>r. Difference_between (Some (Dec 5)) (Some (Dec 7)) = Inr (Some r) \<and>
    (case sign r of
       Plus \<Rightarrow> Dec 7 < Dec 5 \<and> Decimal_add (Dec 7) (absoluteValue r) = Dec 5
     | Minus \<Rightarrow> Dec 5 < Dec 7 \<and> Decimal_add (Dec 5) (absoluteValue r) = Dec 7
     | NoSign \<Rightarrow> Dec 5 = Dec 7 \<and> absoluteValue r = Decimal_ZERO)"
  by (rule Difference_between_exact) (simp_all add: MAX_UINT_256_def)

text \<open>\<open>nonZeroish(precision)\<close> keeps exactly the differences whose magnitude is at least half
  a unit in the last of the \<open>precision\<close> fractional digits; it never throws below 18 digits.\<close>

theorem Difference_nonZeroish_iff:
  assumes "p < PRECISION"
  shows "Difference_nonZeroish (Some r) p =
    Inr (if 10 ^ (PRECISION - p) \<le> 2 * bn (absoluteValue r) then Some (Some r) else None)"
proof -
  have "PRECISION - p = Suc (17 - p)" using assms by (auto simp: PRECISION_def)
  then have "10 ^ (PRECISION - p) \<le> 2 * bn (absoluteValue r)
      \<longleftrightarrow> 5 * 10 ^ (17 - p) \<le> bn (absoluteValue r)"
    by simp
  then show ?thesis
    unfolding Difference_nonZeroish_def by (simp only: zeroish_parses [OF assms] option.case bindR.simps
        Decimal_gte_def decimal.sel)
qed

theorem Difference_nonZeroish_iff_witness:
  "Difference_nonZeroish (Some \<lparr>sign = Plus, absoluteValue = Dec (5 * 10 ^ 15)\<rparr>) 2 =
     Inr (Some (Some \<lparr>sign = Plus, absoluteValue = Dec (5 * 10 ^ 15)\<rparr>))"
  by (subst Difference_nonZeroish_iff) (simp_all add: PRECISION_def)

end
