(* ===== verification/Constants.thy ===== *)
theory Constants
  imports Decimal
begin

text \<open>
  The protocol constants of \<open>packages/lib-base/src/constants.ts\<close>.  Each is written as the
  number it holds; \<open>constants_parse\<close> shows that it is what \<open>Decimal.from\<close> makes of the
  literal in the source.
\<close>

definition CRITICAL_COLLATERAL_RATIO :: decimal where
  "CRITICAL_COLLATERAL_RATIO = Dec (15 * 10 ^ 17)"

definition MINIMUM_COLLATERAL_RATIO :: decimal where
  "MINIMUM_COLLATERAL_RATIO = Dec (11 * 10 ^ 17)"

definition THUSD_LIQUIDATION_RESERVE :: decimal where
  "THUSD_LIQUIDATION_RESERVE = Dec (200 * 10 ^ 18)"

definition THUSD_MINIMUM_NET_DEBT :: decimal where
  "THUSD_MINIMUM_NET_DEBT = Dec (1800 * 10 ^ 18)"

definition THUSD_MINIMUM_DEBT :: decimal where
  "THUSD_MINIMUM_DEBT = Decimal_add THUSD_LIQUIDATION_RESERVE THUSD_MINIMUM_NET_DEBT"

definition MINIMUM_BORROWING_RATE :: decimal where
  "MINIMUM_BORROWING_RATE = Dec (5 * 10 ^ 15)"

definition MAXIMUM_BORROWING_RATE :: decimal where
  "MAXIMUM_BORROWING_RATE = Dec (5 * 10 ^ 16)"

definition MINIMUM_REDEMPTION_RATE :: decimal where
  "MINIMUM_REDEMPTION_RATE = Dec (5 * 10 ^ 15)"

lemma constants_parse:
  "Decimal_from (DNumber ''1.5'') = Inr CRITICAL_COLLATERAL_RATIO"
  "Decimal_from (DNumber ''1.1'') = Inr MINIMUM_COLLATERAL_RATIO"
  "Decimal_from (DNumber ''200'') = Inr THUSD_LIQUIDATION_RESERVE"
  "Decimal_from (DNumber ''1800'') = Inr THUSD_MINIMUM_NET_DEBT"
  "Decimal_from (DNumber ''0.005'') = Inr MINIMUM_BORROWING_RATE"
  "Decimal_from (DNumber ''0.05'') = Inr MAXIMUM_BORROWING_RATE"
  "Decimal_from (DNumber ''0.5'') = Inr Decimal_HALF"
  "Decimal_from (DNumber ''0'') = Inr Decimal_ZERO"
  "Decimal_from (DNumber ''1'') = Inr Decimal_ONE"
  using fromString_point [of "''1''" "''5''"] fromString_point [of "''1''" "''1''"]
    fromString_point [of "''0''" "''005''"] fromString_point [of "''0''" "''05''"]
    fromString_point [of "''0''" "''5''"]
  by (simp_all add: fromString_digits literal_simps CRITICAL_COLLATERAL_RATIO_def
      MINIMUM_COLLATERAL_RATIO_def THUSD_LIQUIDATION_RESERVE_def THUSD_MINIMUM_NET_DEBT_def
      MINIMUM_BORROWING_RATE_def MAXIMUM_BORROWING_RATE_def Decimal_HALF_def Decimal_ZERO_def
      Decimal_ONE_def)

lemma bn_constants [simp]:
  "bn CRITICAL_COLLATERAL_RATIO = 15 * 10 ^ 17"
  "bn MINIMUM_COLLATERAL_RATIO = 11 * 10 ^ 17"
  "bn THUSD_LIQUIDATION_RESERVE = 200 * 10 ^ 18"
  "bn THUSD_MINIMUM_NET_DEBT = 1800 * 10 ^ 18"
  "bn THUSD_MINIMUM_DEBT = 2000 * 10 ^ 18"
  "bn MINIMUM_BORROWING_RATE = 5 * 10 ^ 15"
  "bn MAXIMUM_BORROWING_RATE = 5 * 10 ^ 16"
  "bn MINIMUM_REDEMPTION_RATE = 5 * 10 ^ 15"
  by (simp_all add: CRITICAL_COLLATERAL_RATIO_def MINIMUM_COLLATERAL_RATIO_def
      THUSD_LIQUIDATION_RESERVE_def THUSD_MINIMUM_NET_DEBT_def THUSD_MINIMUM_DEBT_def
      MINIMUM_BORROWING_RATE_def MAXIMUM_BORROWING_RATE_def MINIMUM_REDEMPTION_RATE_def)

end
