(* ===== verification/Trove.thy ===== *)
theory Trove
  imports Constants
begin

text \<open>
  Troves of \<open>packages/lib-base/src/Trove.ts\<close>: the parameters of trove transactions and their
  normalisation, the class \<open>Trove\<close> with \<open>whatChanged\<close> and \<open>apply\<close>, and its subclasses
  \<open>UserTrove\<close> and \<open>TroveWithPendingRedistribution\<close>, which are record extensions.
\<close>

section \<open>Transaction parameters\<close>

record troveCreationParams =
  depositCollateral :: decimal
  borrowTHUSD :: decimal

record troveClosureParams =
  withdrawCollateral :: decimal
  repayTHUSD :: "decimal option"

text \<open>The four optional properties of an adjustment carry the prefix \<open>adj\<close>.\<close>

record troveAdjustmentParams =
  adjDepositCollateral :: "decimal option"
  adjWithdrawCollateral :: "decimal option"
  adjBorrowTHUSD :: "decimal option"
  adjRepayTHUSD :: "decimal option"

datatype troveCreationError = MissingLiquidationReserve

datatype setToZero = ZeroCollateral | ZeroDebt

record trove =
  collateral :: decimal
  debt :: decimal

datatype troveChange =
    InvalidCreation trove troveCreationError
  | Creation troveCreationParams
  | Closure troveClosureParams
  | Adjustment troveAdjustmentParams "setToZero option"

text \<open>
  Untyped parameter objects are the list of their entries in order; JavaScript objects have
  distinct keys.
\<close>

type_synonym entries = "(string \<times> decimalish option) list"

definition definedEntries :: "entries \<Rightarrow> (string \<times> decimalish) list" where
  "definedEntries params = [(k, v). (k, Some v) \<leftarrow> params]"

fun decimalize :: "string \<times> decimalish \<Rightarrow> (string \<times> decimal) res" where
  "decimalize (k, v) = bindR (Decimal_from v) (\<lambda>d. Inr (k, d))"

definition nonZero :: "string \<times> decimal \<Rightarrow> bool" where
  "nonZero entry \<longleftrightarrow> \<not> Decimal_isZero (snd entry)"

text \<open>The list of quoted keys of the error messages, \<open>keys.map(k => `'${k}'`).join(", ")\<close>.\<close>

fun quoted_keys :: "string list \<Rightarrow> string" where
  "quoted_keys [] = ''''"
| "quoted_keys [k] = [CHR 0x27] @ k @ [CHR 0x27]"
| "quoted_keys (k # ks) = [CHR 0x27] @ k @ [CHR 0x27] @ '', '' @ quoted_keys ks"

definition allowedTroveCreationKeys :: "string list" where
  "allowedTroveCreationKeys = [''depositCollateral'', ''borrowTHUSD'']"

definition checkAllowedTroveCreationKeys :: "(string \<times> 'v) list \<Rightarrow> unit res" where
  "checkAllowedTroveCreationKeys es =
     (let badKeys = filter (\<lambda>k. k \<notin> set allowedTroveCreationKeys) (map fst es)
      in if 0 < length badKeys
         then Inl (Error (''TroveCreationParams: property '' @ quoted_keys badKeys @ '' not allowed''))
         else Inr ())"

definition troveCreationParamsFromEntries :: "(string \<times> decimal) list \<Rightarrow> troveCreationParams res" where
  "troveCreationParamsFromEntries es =
     (let params = map_of (rev es);
          missingKeys = filter (\<lambda>k. params k = None) allowedTroveCreationKeys
      in if 0 < length missingKeys
         then Inl (Error (''TroveCreationParams: property '' @ quoted_keys missingKeys @ '' missing''))
         else Inr \<lparr>depositCollateral = the (params ''depositCollateral''),
                   borrowTHUSD = the (params ''borrowTHUSD'')\<rparr>)"

definition normalizeTroveCreation :: "entries \<Rightarrow> troveCreationParams res" where
  "normalizeTroveCreation params =
     bindR (checkAllowedTroveCreationKeys (definedEntries params))
       (\<lambda>_. bindR (mapR decimalize (definedEntries params)) troveCreationParamsFromEntries)"

definition allowedTroveAdjustmentKeys :: "string list" where
  "allowedTroveAdjustmentKeys =
     [''depositCollateral'', ''withdrawCollateral'', ''borrowTHUSD'', ''repayTHUSD'']"

definition checkAllowedTroveAdjustmentKeys :: "(string \<times> 'v) list \<Rightarrow> unit res" where
  "checkAllowedTroveAdjustmentKeys es =
     (let badKeys = filter (\<lambda>k. k \<notin> set allowedTroveAdjustmentKeys) (map fst es)
      in if 0 < length badKeys
         then Inl (Error (''TroveAdjustmentParams: property '' @ quoted_keys badKeys @ '' not allowed''))
         else Inr ())"

text \<open>A collateral or debt change: the defined one of two optional properties.\<close>

definition collateralChangeFrom ::
    "decimal option \<Rightarrow> decimal option \<Rightarrow> (decimal option \<times> decimal option) option res" where
  "collateralChangeFrom deposit withdraw =
     (if deposit \<noteq> None \<and> withdraw \<noteq> None then
        Inl (Error (''TroveAdjustmentParams: '' @ quoted_keys [''depositCollateral''] @ '' and ''
          @ quoted_keys [''withdrawCollateral''] @ '' can'' @ [CHR 0x27] @ ''t be present at the same time''))
      else if deposit \<noteq> None then Inr (Some (deposit, None))
      else if withdraw \<noteq> None then Inr (Some (None, withdraw))
      else Inr None)"

definition debtChangeFrom ::
    "decimal option \<Rightarrow> decimal option \<Rightarrow> (decimal option \<times> decimal option) option res" where
  "debtChangeFrom borrow repay =
     (if borrow \<noteq> None \<and> repay \<noteq> None then
        Inl (Error (''TroveAdjustmentParams: '' @ quoted_keys [''borrowTHUSD''] @ '' and ''
          @ quoted_keys [''repayTHUSD''] @ '' can'' @ [CHR 0x27] @ ''t be present at the same time''))
      else if borrow \<noteq> None then Inr (Some (borrow, None))
      else if repay \<noteq> None then Inr (Some (None, repay))
      else Inr None)"

definition mkAdjustment ::
    "decimal option \<times> decimal option \<Rightarrow> decimal option \<times> decimal option \<Rightarrow> troveAdjustmentParams" where
  "mkAdjustment cc dc =
     \<lparr>adjDepositCollateral = fst cc, adjWithdrawCollateral = snd cc,
      adjBorrowTHUSD = fst dc, adjRepayTHUSD = snd dc\<rparr>"

definition troveAdjustmentParamsFromEntries ::
    "(string \<times> decimal) list \<Rightarrow> troveAdjustmentParams res" where
  "troveAdjustmentParamsFromEntries es =
     (let params = map_of (rev es)
      in bindR (collateralChangeFrom (params ''depositCollateral'') (params ''withdrawCollateral''))
        (\<lambda>collateralChange.
           bindR (debtChangeFrom (params ''borrowTHUSD'') (params ''repayTHUSD''))
             (\<lambda>debtChange.
                case (collateralChange, debtChange) of
                  (Some cc, Some dc) \<Rightarrow> Inr (mkAdjustment cc dc)
                | (Some cc, None) \<Rightarrow> Inr (mkAdjustment cc (None, None))
                | (None, Some dc) \<Rightarrow> Inr (mkAdjustment (None, None) dc)
                | (None, None) \<Rightarrow>
                    Inl (Error ''TroveAdjustmentParams: must include at least one non-zero parameter''))))"

definition normalizeTroveAdjustment :: "entries \<Rightarrow> troveAdjustmentParams res" where
  "normalizeTroveAdjustment params =
     bindR (checkAllowedTroveAdjustmentKeys (definedEntries params))
       (\<lambda>_. bindR (mapR decimalize (definedEntries params))
          (\<lambda>es. troveAdjustmentParamsFromEntries (filter nonZero es)))"

section \<open>Fees\<close>

definition applyFee :: "decimal \<Rightarrow> decimal \<Rightarrow> decimal" where
  "applyFee borrowingRate debtIncrease =
     Decimal_mul debtIncrease (Decimal_add Decimal_ONE borrowingRate)"

definition unapplyFee :: "decimal \<Rightarrow> decimal \<Rightarrow> decimal" where
  "unapplyFee borrowingRate debtIncrease =
     Decimal_divCeil debtIncrease (Decimal_add Decimal_ONE borrowingRate)"

section \<open>The class Trove\<close>

text \<open>A trove of a subclass seen as a plain \<open>Trove\<close>.\<close>

definition toTrove :: "'a trove_scheme \<Rightarrow> trove" where
  "toTrove t = \<lparr>collateral = collateral t, debt = debt t\<rparr>"

definition NOMINAL_COLLATERAL_RATIO_PRECISION :: decimal where
  "NOMINAL_COLLATERAL_RATIO_PRECISION = Dec (100 * 10 ^ 18)"

definition emptyTrove :: trove where
  "emptyTrove = \<lparr>collateral = Decimal_ZERO, debt = Decimal_ZERO\<rparr>"

definition Trove_isEmpty :: "'a trove_scheme \<Rightarrow> bool" where
  "Trove_isEmpty t \<longleftrightarrow> Decimal_isZero (collateral t) \<and> Decimal_isZero (debt t)"

definition Trove_netDebt :: "'a trove_scheme \<Rightarrow> decimal res" where
  "Trove_netDebt t =
     (if Decimal_lt (debt t) THUSD_LIQUIDATION_RESERVE
      then Inl (Error ''netDebt should not be used when debt < 200'')
      else Decimal_sub (debt t) THUSD_LIQUIDATION_RESERVE)"

definition Trove_nominalCollateralRatio :: "'a trove_scheme \<Rightarrow> decimal" where
  "Trove_nominalCollateralRatio t =
     Decimal_mulDiv (collateral t) NOMINAL_COLLATERAL_RATIO_PRECISION (debt t)"

definition Trove_collateralRatio :: "'a trove_scheme \<Rightarrow> decimal \<Rightarrow> decimal" where
  "Trove_collateralRatio t price = Decimal_mulDiv (collateral t) price (debt t)"

definition Trove_collateralRatioIsBelowMinimum :: "'a trove_scheme \<Rightarrow> decimal \<Rightarrow> bool" where
  "Trove_collateralRatioIsBelowMinimum t price =
     Decimal_lt (Trove_collateralRatio t price) MINIMUM_COLLATERAL_RATIO"

definition Trove_collateralRatioIsBelowCritical :: "'a trove_scheme \<Rightarrow> decimal \<Rightarrow> bool" where
  "Trove_collateralRatioIsBelowCritical t price =
     Decimal_lt (Trove_collateralRatio t price) CRITICAL_COLLATERAL_RATIO"

definition Trove_isOpenableInRecoveryMode :: "'a trove_scheme \<Rightarrow> decimal \<Rightarrow> bool" where
  "Trove_isOpenableInRecoveryMode t price =
     Decimal_gte (Trove_collateralRatio t price) CRITICAL_COLLATERAL_RATIO"

definition Trove_toString :: "'a trove_scheme \<Rightarrow> string res" where
  "Trove_toString t =
     bindR (Decimal_toString (collateral t) None)
       (\<lambda>c. bindR (Decimal_toString (debt t) None)
          (\<lambda>d. Inr (''{ collateral: '' @ c @ '', debt: '' @ d @ '' }'')))"

definition Trove_equals :: "'a trove_scheme \<Rightarrow> 'b trove_scheme \<Rightarrow> bool" where
  "Trove_equals t that \<longleftrightarrow>
     Decimal_eq (collateral t) (collateral that) \<and> Decimal_eq (debt t) (debt that)"

definition Trove_add :: "'a trove_scheme \<Rightarrow> 'b trove_scheme \<Rightarrow> trove" where
  "Trove_add t that =
     \<lparr>collateral = Decimal_add (collateral t) (collateral that),
      debt = Decimal_add (debt t) (debt that)\<rparr>"

definition Trove_addCollateral :: "'a trove_scheme \<Rightarrow> decimal \<Rightarrow> trove" where
  "Trove_addCollateral t c = \<lparr>collateral = Decimal_add (collateral t) c, debt = debt t\<rparr>"

definition Trove_addDebt :: "'a trove_scheme \<Rightarrow> decimal \<Rightarrow> trove" where
  "Trove_addDebt t d = \<lparr>collateral = collateral t, debt = Decimal_add (debt t) d\<rparr>"

text \<open>\<open>x.gt(y) ? x.sub(y) : Decimal.ZERO\<close>, which the three subtractions share.\<close>

definition sub_or_zero :: "decimal \<Rightarrow> decimal \<Rightarrow> decimal res" where
  "sub_or_zero x y = (if Decimal_gt x y then Decimal_sub x y else Inr Decimal_ZERO)"

definition Trove_subtract :: "'a trove_scheme \<Rightarrow> 'b trove_scheme \<Rightarrow> trove res" where
  "Trove_subtract t that =
     bindR (sub_or_zero (collateral t) (collateral that))
       (\<lambda>c. bindR (sub_or_zero (debt t) (debt that))
          (\<lambda>d. Inr \<lparr>collateral = c, debt = d\<rparr>))"

definition Trove_subtractCollateral :: "'a trove_scheme \<Rightarrow> decimal \<Rightarrow> trove res" where
  "Trove_subtractCollateral t c =
     bindR (sub_or_zero (collateral t) c) (\<lambda>c'. Inr \<lparr>collateral = c', debt = debt t\<rparr>)"

definition Trove_subtractDebt :: "'a trove_scheme \<Rightarrow> decimal \<Rightarrow> trove res" where
  "Trove_subtractDebt t d =
     bindR (sub_or_zero (debt t) d) (\<lambda>d'. Inr \<lparr>collateral = collateral t, debt = d'\<rparr>)"

definition Trove_multiply :: "'a trove_scheme \<Rightarrow> decimal \<Rightarrow> trove" where
  "Trove_multiply t multiplier =
     \<lparr>collateral = Decimal_mul (collateral t) multiplier, debt = Decimal_mul (debt t) multiplier\<rparr>"

definition Trove_setCollateral :: "'a trove_scheme \<Rightarrow> decimal \<Rightarrow> trove" where
  "Trove_setCollateral t c = \<lparr>collateral = c, debt = debt t\<rparr>"

definition Trove_setDebt :: "'a trove_scheme \<Rightarrow> decimal \<Rightarrow> trove" where
  "Trove_setDebt t d = \<lparr>collateral = collateral t, debt = d\<rparr>"

definition Trove_debtChange ::
    "'a trove_scheme \<Rightarrow> 'b trove_scheme \<Rightarrow> decimal \<Rightarrow> (decimal option \<times> decimal option) res" where
  "Trove_debtChange t that borrowingRate =
     (if Decimal_gt (debt that) (debt t)
      then bindR (Decimal_sub (debt that) (debt t))
             (\<lambda>d. Inr (Some (unapplyFee borrowingRate d), None))
      else bindR (Decimal_sub (debt t) (debt that)) (\<lambda>d. Inr (None, Some d)))"

definition Trove_collateralChange ::
    "'a trove_scheme \<Rightarrow> 'b trove_scheme \<Rightarrow> (decimal option \<times> decimal option) res" where
  "Trove_collateralChange t that =
     (if Decimal_gt (collateral that) (collateral t)
      then bindR (Decimal_sub (collateral that) (collateral t)) (\<lambda>c. Inr (Some c, None))
      else bindR (Decimal_sub (collateral t) (collateral that)) (\<lambda>c. Inr (None, Some c)))"

text \<open>\<open>d.zero && name\<close>.\<close>

definition zero_then :: "decimal \<Rightarrow> 'a \<Rightarrow> 'a option" where
  "zero_then d x = (if Decimal_zero d \<noteq> None then Some x else None)"

definition Trove_whatChanged ::
    "'a trove_scheme \<Rightarrow> 'b trove_scheme \<Rightarrow> decimal \<Rightarrow> troveChange option res" where
  "Trove_whatChanged t that borrowingRate =
     (if Decimal_eq (collateral t) (collateral that) \<and> Decimal_eq (debt t) (debt that) then Inr None
      else if Trove_isEmpty t then
        (if Decimal_lt (debt that) THUSD_LIQUIDATION_RESERVE
         then Inr (Some (InvalidCreation (toTrove that) MissingLiquidationReserve))
         else bindR (Trove_netDebt that)
           (\<lambda>n. Inr (Some (Creation \<lparr>depositCollateral = collateral that,
                                      borrowTHUSD = unapplyFee borrowingRate n\<rparr>))))
      else if Trove_isEmpty that then
        bindR (Trove_netDebt t)
          (\<lambda>n. Inr (Some (Closure
             (if Decimal_nonZero n \<noteq> None
              then \<lparr>withdrawCollateral = collateral t, repayTHUSD = Some n\<rparr>
              else \<lparr>withdrawCollateral = collateral t, repayTHUSD = None\<rparr>))))
      else if Decimal_eq (collateral t) (collateral that) then
        bindR (Trove_debtChange t that borrowingRate)
          (\<lambda>dc. Inr (Some (Adjustment (mkAdjustment (None, None) dc) (zero_then (debt that) ZeroDebt))))
      else if Decimal_eq (debt t) (debt that) then
        bindR (Trove_collateralChange t that)
          (\<lambda>cc. Inr (Some (Adjustment (mkAdjustment cc (None, None))
                            (zero_then (collateral that) ZeroCollateral))))
      else
        bindR (Trove_debtChange t that borrowingRate)
          (\<lambda>dc. bindR (Trove_collateralChange t that)
             (\<lambda>cc. Inr (Some (Adjustment (mkAdjustment cc dc)
                (case zero_then (debt that) ZeroDebt of
                   Some z \<Rightarrow> Some z
                 | None \<Rightarrow> zero_then (collateral that) ZeroCollateral))))))"

definition Trove_apply ::
    "'a trove_scheme \<Rightarrow> troveChange option \<Rightarrow> decimal \<Rightarrow> trove res" where
  "Trove_apply t change borrowingRate =
     (case change of
        None \<Rightarrow> Inr (toTrove t)
      | Some (InvalidCreation invalidTrove _) \<Rightarrow>
          if \<not> Trove_isEmpty t then Inl (Error (''Can'' @ [CHR 0x27] @ ''t create onto existing Trove''))
          else Inr invalidTrove
      | Some (Creation params) \<Rightarrow>
          if \<not> Trove_isEmpty t then Inl (Error (''Can'' @ [CHR 0x27] @ ''t create onto existing Trove''))
          else Inr \<lparr>collateral = depositCollateral params,
                    debt = Decimal_add THUSD_LIQUIDATION_RESERVE
                             (applyFee borrowingRate (borrowTHUSD params))\<rparr>
      | Some (Closure _) \<Rightarrow>
          if Trove_isEmpty t then Inl (Error (''Can'' @ [CHR 0x27] @ ''t close empty Trove''))
          else Inr emptyTrove
      | Some (Adjustment params setToZero) \<Rightarrow>
          (let collateralDecrease = coalesce (adjWithdrawCollateral params) Decimal_ZERO;
               collateralIncrease = coalesce (adjDepositCollateral params) Decimal_ZERO;
               debtDecrease = coalesce (adjRepayTHUSD params) Decimal_ZERO;
               debtIncrease = (case adjBorrowTHUSD params of
                                 Some b \<Rightarrow> applyFee borrowingRate b
                               | None \<Rightarrow> Decimal_ZERO)
           in case setToZero of
                Some ZeroCollateral \<Rightarrow>
                  Trove_subtractDebt (Trove_addDebt (Trove_setCollateral t Decimal_ZERO) debtIncrease)
                    debtDecrease
              | Some ZeroDebt \<Rightarrow>
                  Trove_subtractCollateral
                    (Trove_addCollateral (Trove_setDebt t Decimal_ZERO) collateralIncrease)
                    collateralDecrease
              | None \<Rightarrow>
                  Trove_subtract
                    (Trove_add t \<lparr>collateral = collateralIncrease, debt = debtIncrease\<rparr>)
                    (\<lparr>collateral = collateralDecrease, debt = debtDecrease\<rparr> :: trove)))"

text \<open>An omitted borrowing rate takes the default of \<open>apply\<close> and \<open>whatChanged\<close>.\<close>

definition rate_or_default :: "decimal option \<Rightarrow> decimal" where
  "rate_or_default r = coalesce r MINIMUM_BORROWING_RATE"

definition Trove_create :: "entries \<Rightarrow> decimal option \<Rightarrow> trove res" where
  "Trove_create params borrowingRate =
     bindR (normalizeTroveCreation params)
       (\<lambda>p. Trove_apply emptyTrove (Some (Creation p)) (rate_or_default borrowingRate))"

definition Trove_recreate :: "'a trove_scheme \<Rightarrow> decimal option \<Rightarrow> troveCreationParams res" where
  "Trove_recreate that borrowingRate =
     bindR (Trove_whatChanged emptyTrove that (rate_or_default borrowingRate))
       (\<lambda>change. case change of Some (Creation params) \<Rightarrow> Inr params | _ \<Rightarrow> Inl AssertionError)"

definition Trove_adjust :: "'a trove_scheme \<Rightarrow> entries \<Rightarrow> decimal option \<Rightarrow> trove res" where
  "Trove_adjust t params borrowingRate =
     bindR (normalizeTroveAdjustment params)
       (\<lambda>p. Trove_apply t (Some (Adjustment p None)) (rate_or_default borrowingRate))"

definition Trove_adjustTo ::
    "'a trove_scheme \<Rightarrow> 'b trove_scheme \<Rightarrow> decimal option \<Rightarrow> troveAdjustmentParams res" where
  "Trove_adjustTo t that borrowingRate =
     bindR (Trove_whatChanged t that (rate_or_default borrowingRate))
       (\<lambda>change. case change of Some (Adjustment params _) \<Rightarrow> Inr params | _ \<Rightarrow> Inl AssertionError)"

section \<open>Troves of users\<close>

datatype userTroveStatus =
  NonExistent | Open | ClosedByOwner | ClosedByLiquidation | ClosedByRedemption

fun status_string :: "userTroveStatus \<Rightarrow> string" where
  "status_string NonExistent = ''nonExistent''"
| "status_string Open = ''open''"
| "status_string ClosedByOwner = ''closedByOwner''"
| "status_string ClosedByLiquidation = ''closedByLiquidation''"
| "status_string ClosedByRedemption = ''closedByRedemption''"

record userTrove = trove +
  ownerAddress :: string
  status :: userTroveStatus

definition UserTrove_equals :: "'a userTrove_scheme \<Rightarrow> 'b userTrove_scheme \<Rightarrow> bool" where
  "UserTrove_equals t that \<longleftrightarrow>
     Trove_equals t that \<and> ownerAddress t = ownerAddress that \<and> status t = status that"

definition UserTrove_toString :: "'a userTrove_scheme \<Rightarrow> string res" where
  "UserTrove_toString t =
     bindR (Decimal_toString (collateral t) None)
       (\<lambda>c. bindR (Decimal_toString (debt t) None)
          (\<lambda>d. Inr (''{ ownerAddress: '' @ [CHR 0x22] @ ownerAddress t @ [CHR 0x22]
                 @ '', collateral: '' @ c @ '', debt: '' @ d
                 @ '', status: '' @ [CHR 0x22] @ status_string (status t) @ [CHR 0x22] @ '' }'')))"

record troveWithPendingRedistribution = userTrove +
  stake :: decimal
  snapshotOfTotalRedistributed :: trove

definition applyRedistribution ::
    "'a troveWithPendingRedistribution_scheme \<Rightarrow> 'b trove_scheme \<Rightarrow> userTrove res" where
  "applyRedistribution t totalRedistributed =
     bindR (Trove_subtract totalRedistributed (snapshotOfTotalRedistributed t))
       (\<lambda>pending.
          let afterRedistribution = Trove_add t (Trove_multiply pending (stake t))
          in Inr \<lparr>collateral = collateral afterRedistribution, debt = debt afterRedistribution,
                  ownerAddress = ownerAddress t, status = status t\<rparr>)"

definition TroveWithPendingRedistribution_equals ::
    "'a troveWithPendingRedistribution_scheme \<Rightarrow> 'b troveWithPendingRedistribution_scheme \<Rightarrow> bool" where
  "TroveWithPendingRedistribution_equals t that \<longleftrightarrow>
     UserTrove_equals t that \<and> Decimal_eq (stake t) (stake that) \<and>
     Trove_equals (snapshotOfTotalRedistributed t) (snapshotOfTotalRedistributed that)"

end
