(* ===== verification/Change_Codec.thy ===== *)
theory Change_Codec
  imports Prelude
begin

text \<open>
  The interface between a value that can be edited and the form that edits it: \<open>whatChanged\<close>
  describes the step from the current value to a desired one, \<open>apply\<close> replays such a step.
  Troves and stability deposits provide it; the reducers of the front end
  (\<open>VaultManager.tsx\<close>, \<open>StabilityDepositManager.tsx\<close>) rely on it when the store updates the
  value under an edit in progress.
\<close>

locale change_codec =
  fixes current :: "'a \<Rightarrow> 'b"
    and possible :: "'a \<Rightarrow> 'b \<Rightarrow> bool"
    and whatChanged :: "'a \<Rightarrow> 'b \<Rightarrow> 'c option res"
    and change_apply :: "'a \<Rightarrow> 'c option \<Rightarrow> 'b res"
  assumes apply_whatChanged: "possible a b \<Longrightarrow> bindR (whatChanged a b) (change_apply a) = Inr b"
    and whatChanged_None: "whatChanged a b = Inr None \<longleftrightarrow> current a = b"
    and apply_None: "change_apply a None = Inr (current a)"
begin

text \<open>Rebasing an edit: the change from the old value to the edited one, replayed on the new value.\<close>

definition rebase :: "'a \<Rightarrow> 'a \<Rightarrow> 'b \<Rightarrow> 'b res" where
  "rebase old new edited = bindR (whatChanged old edited) (change_apply new)"

lemma rebase_same: "possible a b \<Longrightarrow> rebase a a b = Inr b"
  by (simp add: rebase_def apply_whatChanged)

lemma rebase_untouched: "rebase old new (current old) = Inr (current new)"
  using whatChanged_None [of old "current old"] by (simp add: rebase_def apply_None)

lemma change_determines_target:
  assumes "possible a b" and "possible a b'" and "whatChanged a b = whatChanged a b'"
  shows "b = b'"
proof -
  have "Inr b = bindR (whatChanged a b') (change_apply a)"
    using apply_whatChanged [OF assms(1)] unfolding assms(3) by (rule sym)
  also have "\<dots> = Inr b'" by (rule apply_whatChanged [OF assms(2)])
  finally show ?thesis by (rule sum.inject(2) [THEN iffD1])
qed

end

end
