(* ===== verification/Trove_Correct.thy ===== *)
theory Trove_Correct
  imports Trove Change_Codec
begin

text \<open>
  Correctness of the trove operations: the fee conversions, the round trips between
  \<open>whatChanged\<close> and \<open>apply\<close>, the errors of \<open>apply\<close>, the collateral-ratio tests and the
  application of pending redistributions.
\<close>

section \<open>Total forms of the operations\<close>

lemma sub_or_zero_eq [simp]: "sub_or_zero x y = Inr (Dec (bn x - bn y))"
  by (auto simp: sub_or_zero_def Decimal_gt_def Decimal_ZERO_def)

lemma Trove_subtract_eq [trove_simps]:
  "Trove_subtract t u =
     Inr \<lparr>collateral = Dec (bn (collateral t) - bn (collateral u)),
          debt = Dec (bn (debt t) - bn (debt u))\<rparr>"
  by (simp add: Trove_subtract_def)

lemma Trove_subtract_part_eq [trove_simps]:
  "Trove_subtractCollateral t c =
     Inr \<lparr>collateral = Dec (bn (collateral t) - bn c), debt = debt t\<rparr>"
  "Trove_subtractDebt t d = Inr \<lparr>collateral = collateral t, debt = Dec (bn (debt t) - bn d)\<rparr>"
  by (simp_all add: Trove_subtractCollateral_def Trove_subtractDebt_def)

lemma Trove_netDebt_eq [trove_simps]:
  "Trove_netDebt t =
     (if bn (debt t) < bn THUSD_LIQUIDATION_RESERVE
      then Inl (Error ''netDebt should not be used when debt < 200'')
      else Inr (Dec (bn (debt t) - bn THUSD_LIQUIDATION_RESERVE)))"
  by (simp add: Trove_netDebt_def Decimal_lt_def del: bn_constants)

lemma Trove_change_eq [trove_simps]:
  "Trove_debtChange t u r =
     Inr (if bn (debt t) < bn (debt u)
          then (Some (unapplyFee r (Dec (bn (debt u) - bn (debt t)))), None)
          else (None, Some (Dec (bn (debt t) - bn (debt u)))))"
  "Trove_collateralChange t u =
     Inr (if bn (collateral t) < bn (collateral u)
          then (Some (Dec (bn (collateral u) - bn (collateral t))), None)
          else (None, Some (Dec (bn (collateral t) - bn (collateral u)))))"
  by (simp_all add: Trove_debtChange_def Trove_collateralChange_def Decimal_gt_def)

lemmas trove_op_defs =
  Trove_add_def Trove_addCollateral_def Trove_addDebt_def Trove_setCollateral_def Trove_setDebt_def
  Trove_multiply_def mkAdjustment_def toTrove_def emptyTrove_def

lemma zero_then_eq [trove_simps]: "zero_then d x = (if bn d = 0 then Some x else None)"
  by (simp add: zero_then_def Decimal_zero_def Decimal_isZero_def)

lemma Trove_isEmpty_iff: "Trove_isEmpty t \<longleftrightarrow> bn (collateral t) = 0 \<and> bn (debt t) = 0"
  by (simp add: Trove_isEmpty_def Decimal_isZero_def)

lemma trove_eq_iff:
  "(t :: trove) = u \<longleftrightarrow> bn (collateral t) = bn (collateral u) \<and> bn (debt t) = bn (debt u)"
  by (cases t; cases u) (simp add: decimal_eq_iff)

lemma toTrove_sel [simp]: "collateral (toTrove t) = collateral t" "debt (toTrove t) = debt t"
  by (simp_all add: toTrove_def)

section \<open>Borrowing fees\<close>

lemma unapplyFee_bounds:
  fixes x u :: nat
  assumes u: "u = (x * DIGITS + (c - 1)) div c" and "0 < c"
  shows "x * DIGITS \<le> u * c" and "u * c < x * DIGITS + c"
proof -
  have *: "u \<le> k \<longleftrightarrow> x * DIGITS \<le> k * c" for k
    unfolding u using ceil_div_le_iff [OF \<open>0 < c\<close>, of "x * DIGITS" k] .
  then show "x * DIGITS \<le> u * c" by blast
  show "u * c < x * DIGITS + c"
  proof (cases u)
    case 0
    with \<open>0 < c\<close> show ?thesis by simp
  next
    case (Suc v)
    then have "\<not> x * DIGITS \<le> v * c" using * [of v] by simp
    with Suc show ?thesis by simp
  qed
qed

lemma fee_divider [simp]: "bn (Decimal_add Decimal_ONE r) = DIGITS + bn r"
  by simp

lemma applyFee_unapplyFee:
  "bn x \<le> bn (applyFee r (unapplyFee r x))"
  "bn r \<le> DIGITS \<Longrightarrow> bn (applyFee r (unapplyFee r x)) \<le> bn x + 1"
proof -
  let ?c = "DIGITS + bn r"
  let ?u = "(bn x * DIGITS + (?c - 1)) div ?c"
  have c: "0 < ?c" by simp
  have bu: "bn (unapplyFee r x) = ?u"
    by (simp only: unapplyFee_def Decimal_divCeil_def Decimal_isZero_def fee_divider decimal.sel)
       (simp add: DIGITS_num)
  have app: "bn (applyFee r (unapplyFee r x)) = ?u * ?c div DIGITS"
    by (simp only: applyFee_def bn_ops(2) bu fee_divider)
  note b = unapplyFee_bounds [OF refl c, of "bn x"]
  show "bn x \<le> bn (applyFee r (unapplyFee r x))"
    using b(1) by (simp only: app le_div_iff [OF DIGITS_pos])
  assume "bn r \<le> DIGITS"
  with b(2) have "?u * ?c < (bn x + 2) * DIGITS" by simp
  then have "?u * ?c div DIGITS < bn x + 2" by (simp add: div_less_iff_less_mult)
  then show "bn (applyFee r (unapplyFee r x)) \<le> bn x + 1" using app by linarith
qed

lemma unapplyFee_applyFee [simp]: "unapplyFee r (applyFee r b) = b"
proof -
  let ?c = "DIGITS + bn r"
  let ?a = "bn b * ?c div DIGITS"
  let ?u = "(?a * DIGITS + (?c - 1)) div ?c"
  have c: "0 < ?c" by simp
  have "?a * DIGITS \<le> bn b * ?c" by simp
  then have le: "?u \<le> bn b" by (simp only: ceil_div_le_iff [OF c])
  have "bn b * ?c < ?a * DIGITS + DIGITS"
    by (metis DIGITS_pos add.commute dividend_less_times_div mult.commute)
  moreover have "?a * DIGITS \<le> ?u * ?c" by (rule unapplyFee_bounds(1) [OF refl c])
  ultimately have "bn b * ?c < (?u + 1) * ?c" by simp
  then have "bn b < ?u + 1" by (metis mult_less_cancel2)
  with le have "?u = bn b" by linarith
  then have "bn (unapplyFee r (applyFee r b)) = bn b"
    by (simp only: unapplyFee_def applyFee_def Decimal_divCeil_def Decimal_isZero_def fee_divider
        bn_ops(2) decimal.sel) (simp add: DIGITS_num)
  then show ?thesis by (simp add: decimal_eq_iff)
qed

lemma applyFee_zero [simp]: "applyFee Decimal_ZERO x = x"
  by (simp add: applyFee_def decimal_eq_iff)

lemma unapplyFee_zero [simp]: "unapplyFee Decimal_ZERO x = x"
  using unapplyFee_applyFee [of Decimal_ZERO x] by simp


text \<open>A debt raised from \<open>k\<close> to \<open>n\<close> by borrowing what \<open>unapplyFee\<close> tells.\<close>

lemma fee_replay:
  fixes r :: decimal
  assumes "k \<le> n"
  defines "d \<equiv> k + bn (applyFee r (unapplyFee r (Dec (n - k))))"
  shows "n \<le> d" and "bn r \<le> DIGITS \<Longrightarrow> d \<le> n + 1" and "r = Decimal_ZERO \<Longrightarrow> d = n"
  using assms(1) applyFee_unapplyFee [where x = "Dec (n - k)" and r = r] by (auto simp: d_def)

section \<open>What changed, and applying it\<close>

lemma Trove_whatChanged_None: "Trove_whatChanged t u r = Inr None \<longleftrightarrow> toTrove t = toTrove u"
  by (simp add: Trove_whatChanged_def Trove_netDebt_eq Trove_change_eq Decimal_eq_def trove_eq_iff)

lemma Trove_whatChanged_throws_iff:
  "Trove_whatChanged t u r = Inl e \<longleftrightarrow>
     \<not> Trove_isEmpty t \<and> Trove_isEmpty u \<and> bn (debt t) < bn THUSD_LIQUIDATION_RESERVE \<and>
     e = Error ''netDebt should not be used when debt < 200''"
  by (auto simp: Trove_whatChanged_def Trove_netDebt_eq Trove_change_eq Decimal_eq_def Decimal_lt_def
      Trove_isEmpty_iff simp del: bn_constants)

text \<open>\<open>whatChanged\<close> throws in one situation only: an existing trove whose debt is below the
  liquidation reserve is compared with the empty trove, and then with the error of \<open>netDebt\<close>.\<close>

theorem Trove_whatChanged_throws:
  "(\<exists>e. Trove_whatChanged t u r = Inl e) \<longleftrightarrow>
     \<not> Trove_isEmpty t \<and> Trove_isEmpty u \<and> bn (debt t) < bn THUSD_LIQUIDATION_RESERVE"
  by (simp add: Trove_whatChanged_throws_iff del: bn_constants)

lemma Trove_apply_Adjustment:
  "Trove_apply t (Some (Adjustment p None)) r =
     Inr \<lparr>collateral = Dec (bn (collateral t) + bn (coalesce (adjDepositCollateral p) Decimal_ZERO)
                             - bn (coalesce (adjWithdrawCollateral p) Decimal_ZERO)),
          debt = Dec (bn (debt t)
                       + (case adjBorrowTHUSD p of Some b \<Rightarrow> bn (applyFee r b) | None \<Rightarrow> 0)
                       - bn (coalesce (adjRepayTHUSD p) Decimal_ZERO))\<rparr>"
  by (simp add: Trove_apply_def Let_def Trove_subtract_eq trove_op_defs split: option.splits)

text \<open>The adjustment that \<open>whatChanged\<close> computes, in one form for its three branches.\<close>

definition adjustment_between :: "'a trove_scheme \<Rightarrow> 'b trove_scheme \<Rightarrow> decimal \<Rightarrow> troveAdjustmentParams" where
  "adjustment_between t u r =
     \<lparr>adjDepositCollateral =
        (if collateral t < collateral u then Some (Dec (bn (collateral u) - bn (collateral t))) else None),
      adjWithdrawCollateral =
        (if collateral u < collateral t then Some (Dec (bn (collateral t) - bn (collateral u))) else None),
      adjBorrowTHUSD =
        (if debt t < debt u then Some (unapplyFee r (Dec (bn (debt u) - bn (debt t)))) else None),
      adjRepayTHUSD =
        (if debt u < debt t then Some (Dec (bn (debt t) - bn (debt u))) else None)\<rparr>"

lemma Trove_whatChanged_adjustment:
  assumes "toTrove t \<noteq> toTrove u" and "\<not> Trove_isEmpty t" and "\<not> Trove_isEmpty u"
  shows "Trove_whatChanged t u r =
    Inr (Some (Adjustment (adjustment_between t u r)
       (if bn (debt u) = 0 \<and> debt t \<noteq> debt u then Some ZeroDebt
        else if bn (collateral u) = 0 \<and> collateral t \<noteq> collateral u then Some ZeroCollateral
        else None)))"
  using assms
  by (auto simp: Trove_whatChanged_def Trove_change_eq Decimal_eq_def zero_then_eq mkAdjustment_def
      adjustment_between_def less_decimal_def decimal_eq_iff trove_eq_iff Trove_isEmpty_iff
      split: option.splits)

lemma adjustment_between_applies:
  fixes t :: "'a trove_scheme" and u :: "'b trove_scheme"
  defines "d \<equiv> \<lambda>r.
    if debt t < debt u then Dec (bn (debt t) + bn (applyFee r (unapplyFee r (Dec (bn (debt u) - bn (debt t))))))
    else debt u"
  shows "Trove_apply t (Some (Adjustment (adjustment_between t u r) None)) r =
         Inr \<lparr>collateral = collateral u, debt = d r\<rparr>"
    and "bn (debt u) \<le> bn (d r)"
    and "bn r \<le> DIGITS \<Longrightarrow> bn (d r) \<le> bn (debt u) + 1"
    and "bn (debt u) \<le> bn (debt t) \<or> r = Decimal_ZERO \<Longrightarrow> d r = debt u"
  using fee_replay [of "bn (debt t)" "bn (debt u)" r]
  by (auto simp: d_def Trove_apply_Adjustment adjustment_between_def less_decimal_def decimal_eq_iff)

lemma Trove_apply_setToZero:
  "bn (debt u) = 0 \<Longrightarrow> debt t \<noteq> debt u \<Longrightarrow>
     Trove_apply t (Some (Adjustment (adjustment_between t u r) (Some ZeroDebt))) r = Inr (toTrove u)"
  "bn (collateral u) = 0 \<Longrightarrow> collateral t \<noteq> collateral u \<Longrightarrow>
     Trove_apply t (Some (Adjustment (adjustment_between t u r) (Some ZeroCollateral))) r =
     Trove_apply t (Some (Adjustment (adjustment_between t u r) None)) r"
  by (auto simp: Trove_apply_def Let_def Trove_subtract_eq Trove_subtract_part_eq trove_op_defs
      adjustment_between_def less_decimal_def decimal_eq_iff split: option.splits)

text \<open>What a description of the step from \<open>t\<close> to \<open>u\<close> must do when it is replayed on \<open>t\<close>.\<close>

definition reaches :: "'a trove_scheme \<Rightarrow> 'b trove_scheme \<Rightarrow> decimal \<Rightarrow> troveChange option \<Rightarrow> bool" where
  "reaches t u r change \<longleftrightarrow>
     (case Trove_apply t change r of
        Inl _ \<Rightarrow> False
      | Inr v \<Rightarrow> collateral v = collateral u \<and> bn (debt u) \<le> bn (debt v) \<and>
               (bn r \<le> DIGITS \<longrightarrow> bn (debt v) \<le> bn (debt u) + 1) \<and>
               (bn (debt u) \<le> bn (debt t) \<or> r = Decimal_ZERO \<longrightarrow> debt v = debt u))"

lemma Trove_whatChanged_create:
  assumes "toTrove t \<noteq> toTrove u" and "Trove_isEmpty t"
  shows "Trove_whatChanged t u r =
    Inr (Some (if bn (debt u) < bn THUSD_LIQUIDATION_RESERVE
               then InvalidCreation (toTrove u) MissingLiquidationReserve
               else Creation \<lparr>depositCollateral = collateral u,
                      borrowTHUSD = unapplyFee r (Dec (bn (debt u) - bn THUSD_LIQUIDATION_RESERVE))\<rparr>))"
  using assms
  by (auto simp: Trove_whatChanged_def Decimal_eq_def Decimal_lt_def trove_eq_iff Trove_netDebt_eq
      simp del: bn_constants)

lemma Trove_apply_create:
  assumes "Trove_isEmpty t"
  shows "Trove_apply t (Some (InvalidCreation v e)) r = Inr v"
    and "Trove_apply t (Some (Creation p)) r =
      Inr \<lparr>collateral = depositCollateral p,
           debt = Dec (bn THUSD_LIQUIDATION_RESERVE + bn (applyFee r (borrowTHUSD p)))\<rparr>"
  using assms by (simp_all add: Trove_apply_def Decimal_add_def)

lemma whatChanged_reaches:
  assumes "Trove_whatChanged t u r = Inr change"
  shows "reaches t u r change"
proof -
  consider (same) "toTrove t = toTrove u"
    | (create) "toTrove t \<noteq> toTrove u" "Trove_isEmpty t"
    | (close) "toTrove t \<noteq> toTrove u" "\<not> Trove_isEmpty t" "Trove_isEmpty u"
    | (adjust) "toTrove t \<noteq> toTrove u" "\<not> Trove_isEmpty t" "\<not> Trove_isEmpty u"
    by blast
  then show ?thesis
  proof cases
    case same
    then show ?thesis using assms Trove_whatChanged_None [of t u r]
      by (auto simp: reaches_def Trove_apply_def trove_eq_iff decimal_eq_iff)
  next
    case create
    moreover from create(2) have "bn (debt t) = 0" by (simp add: Trove_isEmpty_iff)
    moreover have "0 < bn THUSD_LIQUIDATION_RESERVE" by simp
    ultimately show ?thesis
      using assms fee_replay [of "bn THUSD_LIQUIDATION_RESERVE" "bn (debt u)" r]
      by (auto simp: reaches_def Trove_whatChanged_create Trove_apply_create
          decimal_eq_iff [where b = "debt u"] simp del: bn_constants split: if_splits)
  next
    case close
    with assms show ?thesis
      by (auto simp: reaches_def Trove_apply_def Trove_whatChanged_def Decimal_eq_def emptyTrove_def
          trove_eq_iff Trove_isEmpty_iff decimal_eq_iff bindR_Inr_iff)
  next
    case adjust
    then show ?thesis
      using assms adjustment_between_applies [where t = t and u = u and r = r] Trove_apply_setToZero [of u t r]
      by (auto simp: Trove_whatChanged_adjustment reaches_def split: if_splits)
  qed
qed

text \<open>C1: replaying on \<open>t\<close> the change that \<open>t.whatChanged(u, rate)\<close> describes gives \<open>u\<close>: its
  collateral exactly, its debt at most one unit of the last digit too high and never too low
  (for rates up to 100\%), and exactly when nothing is borrowed or the rate is zero.\<close>

theorem Trove_apply_whatChanged:
  assumes "Trove_whatChanged t u r = Inr change" and "bn r \<le> DIGITS"
  shows "\<exists>v. Trove_apply t change r = Inr v \<and> collateral v = collateral u \<and>
    bn (debt u) \<le> bn (debt v) \<and> bn (debt v) \<le> bn (debt u) + 1 \<and>
    (bn (debt u) \<le> bn (debt t) \<or> r = Decimal_ZERO \<longrightarrow> v = toTrove u)"
  using whatChanged_reaches [OF assms(1)] assms(2)
  by (cases "Trove_apply t change r") (auto simp: reaches_def toTrove_def)

definition trove_100_2000 :: trove where
  "trove_100_2000 = \<lparr>collateral = Dec (100 * 10 ^ 18), debt = Dec (2000 * 10 ^ 18)\<rparr>"

definition trove_50_2600 :: trove where
  "trove_50_2600 = \<lparr>collateral = Dec (50 * 10 ^ 18), debt = Dec (2600 * 10 ^ 18)\<rparr>"

lemma example_troves [simp]:
  "collateral trove_100_2000 = Dec (100 * 10 ^ 18)" "debt trove_100_2000 = Dec (2000 * 10 ^ 18)"
  "collateral trove_50_2600 = Dec (50 * 10 ^ 18)" "debt trove_50_2600 = Dec (2600 * 10 ^ 18)"
  by (simp_all add: trove_100_2000_def trove_50_2600_def)

lemma example_whatChanged:
  "Trove_whatChanged trove_100_2000 trove_50_2600 MINIMUM_BORROWING_RATE =
     Inr (Some (Adjustment \<lparr>adjDepositCollateral = None,
       adjWithdrawCollateral = Some (Dec (50 * 10 ^ 18)),
       adjBorrowTHUSD = Some (Dec 597014925373134328359), adjRepayTHUSD = None\<rparr> None))"
  by (simp add: Trove_whatChanged_adjustment trove_eq_iff Trove_isEmpty_iff adjustment_between_def
      less_decimal_def unapplyFee_def Decimal_divCeil_def Decimal_isZero_def DIGITS_num)

theorem Trove_apply_whatChanged_witness:
  "\<exists>v. Trove_apply trove_100_2000 (Some (Adjustment \<lparr>adjDepositCollateral = None,
       adjWithdrawCollateral = Some (Dec (50 * 10 ^ 18)),
       adjBorrowTHUSD = Some (Dec 597014925373134328359), adjRepayTHUSD = None\<rparr> None))
     MINIMUM_BORROWING_RATE = Inr v \<and>
     collateral v = Dec (50 * 10 ^ 18) \<and> bn (debt v) \<le> 2600 * 10 ^ 18 + 1"
  using Trove_apply_whatChanged [OF example_whatChanged] by (auto simp: DIGITS_num)


text \<open>C18: \<open>recreate\<close> inverts \<open>create\<close>: whenever a trove can be created from some parameters, at any
  rate, \<open>Trove.recreate\<close> of it returns those parameters, to the last digit.\<close>

theorem Trove_recreate_create:
  assumes "Trove_create params rate = Inr t"
  shows "\<exists>p. normalizeTroveCreation params = Inr p \<and> Trove_recreate t rate = Inr p"
proof -
  from assms obtain p where p: "normalizeTroveCreation params = Inr p"
    and t: "t = \<lparr>collateral = depositCollateral p,
           debt = Dec (bn THUSD_LIQUIDATION_RESERVE + bn (applyFee (rate_or_default rate) (borrowTHUSD p)))\<rparr>"
    by (auto simp: Trove_create_def bindR_Inr_iff Trove_apply_create Trove_isEmpty_iff emptyTrove_def
        simp del: bn_constants)
  have "toTrove emptyTrove \<noteq> toTrove t" "Trove_isEmpty emptyTrove"
    by (simp_all add: t trove_eq_iff emptyTrove_def Trove_isEmpty_iff)
  then have "Trove_recreate t rate = Inr p"
    by (simp add: Trove_recreate_def Trove_whatChanged_create t decimal.expand)
  with p show ?thesis by blast
qed

definition example_creation :: entries where
  "example_creation = [(''depositCollateral'', Some (DDecimal (Dec (10 * 10 ^ 18)))),
                       (''borrowTHUSD'', Some (DDecimal (Dec (2000 * 10 ^ 18))))]"

theorem Trove_recreate_create_witness:
  "\<exists>p. normalizeTroveCreation example_creation = Inr p \<and>
     Trove_recreate (\<lparr>collateral = Dec (10 * 10 ^ 18), debt = Dec (2210 * 10 ^ 18)\<rparr> :: trove) None = Inr p"
  by (rule Trove_recreate_create)
     (simp add: example_creation_def Trove_create_def normalizeTroveCreation_def definedEntries_def
      checkAllowedTroveCreationKeys_def allowedTroveCreationKeys_def troveCreationParamsFromEntries_def
      rate_or_default_def Trove_apply_create Trove_isEmpty_iff emptyTrove_def applyFee_def Decimal_mul_def
      DIGITS_num)



section \<open>Normalised parameters\<close>

text \<open>C31: normalised adjustment parameters never ask to deposit and withdraw, or to borrow and
  repay, at the same time; every amount they carry is non-zero, and there is at least one.\<close>

theorem normalizeTroveAdjustment_wellformed:
  assumes "normalizeTroveAdjustment params = Inr p"
  shows "(adjDepositCollateral p = None \<or> adjWithdrawCollateral p = None) \<and>
    (adjBorrowTHUSD p = None \<or> adjRepayTHUSD p = None) \<and>
    (let amounts = [adjDepositCollateral p, adjWithdrawCollateral p, adjBorrowTHUSD p, adjRepayTHUSD p]
     in (\<exists>d. Some d \<in> set amounts) \<and> (\<forall>d. Some d \<in> set amounts \<longrightarrow> \<not> Decimal_isZero d))"
proof -
  from assms obtain es where "troveAdjustmentParamsFromEntries (filter nonZero es) = Inr p"
    by (auto simp: normalizeTroveAdjustment_def bindR_Inr_iff)
  moreover have "\<not> Decimal_isZero d" if "map_of (rev (filter nonZero es)) k = Some d" for k d
    using map_of_SomeD [OF that] by (simp add: nonZero_def)
  ultimately show ?thesis
    by (auto simp: troveAdjustmentParamsFromEntries_def Let_def bindR_Inr_iff collateralChangeFrom_def
        debtChangeFrom_def mkAdjustment_def split: if_splits option.splits)
qed

definition example_adjustment :: entries where
  "example_adjustment = [(''depositCollateral'', Some (DDecimal (Dec (10 * 10 ^ 18)))),
     (''withdrawCollateral'', Some (DDecimal Decimal_ZERO)), (''repayTHUSD'', Some (DDecimal (Dec 7)))]"

theorem normalizeTroveAdjustment_wellformed_witness:
  "\<exists>p. normalizeTroveAdjustment example_adjustment = Inr p \<and> adjWithdrawCollateral p = None"
proof -
  let ?p = "\<lparr>adjDepositCollateral = Some (Dec (10 * 10 ^ 18)), adjWithdrawCollateral = None,
             adjBorrowTHUSD = None, adjRepayTHUSD = Some (Dec 7)\<rparr>"
  have p: "normalizeTroveAdjustment example_adjustment = Inr ?p"
    by (simp add: normalizeTroveAdjustment_def example_adjustment_def definedEntries_def
        checkAllowedTroveAdjustmentKeys_def allowedTroveAdjustmentKeys_def nonZero_def Decimal_isZero_def
        troveAdjustmentParamsFromEntries_def collateralChangeFrom_def debtChangeFrom_def mkAdjustment_def)
  from normalizeTroveAdjustment_wellformed [OF p] p show ?thesis by auto
qed

section \<open>Collateral ratios\<close>

lemma mulDiv_less_iff:
  "bn c \<noteq> 0 \<Longrightarrow> bn (Decimal_mulDiv a b c) < k \<longleftrightarrow> bn a * bn b < k * bn c"
  by (simp add: Decimal_mulDiv_def Decimal_isZero_def div_less_iff_less_mult)

lemma ratio_less_iff:
  "bn k \<le> 2 * DIGITS \<Longrightarrow>
   Decimal_lt (Trove_collateralRatio t price) k \<longleftrightarrow> bn (collateral t) * bn price < bn k * bn (debt t)"
  by (cases "bn (debt t) = 0")
     (simp_all add: Trove_collateralRatio_def mulDiv_less_iff Decimal_lt_def Decimal_mulDiv_def
       Decimal_isZero_def MAX_UINT_256_def DIGITS_num div_less_iff_less_mult)

lemma belowMinimum_iff:
  "Trove_collateralRatioIsBelowMinimum t price \<longleftrightarrow>
     100 * (bn (collateral t) * bn price) < 110 * (bn (debt t) * DIGITS)"
  by (simp add: Trove_collateralRatioIsBelowMinimum_def ratio_less_iff DIGITS_num mult.commute)

lemma belowCritical_iff:
  "Trove_collateralRatioIsBelowCritical t price \<longleftrightarrow>
     100 * (bn (collateral t) * bn price) < 150 * (bn (debt t) * DIGITS)"
  by (simp add: Trove_collateralRatioIsBelowCritical_def ratio_less_iff DIGITS_num mult.commute)

lemma openable_iff:
  "Trove_isOpenableInRecoveryMode t price \<longleftrightarrow> \<not> Trove_collateralRatioIsBelowCritical t price"
  by (simp add: Trove_isOpenableInRecoveryMode_def Trove_collateralRatioIsBelowCritical_def
      Decimal_gte_def Decimal_lt_def not_less)

text \<open>C29: the collateral-ratio tests are exact: although the ratio is truncated to 18 digits,
  a trove with debt is below the minimum (critical) ratio exactly when collateral times price
  is below 110\% (150\%) of its debt; without debt it is never below, and a trove is openable in
  recovery mode exactly when it is not below the critical ratio.\<close>

theorem Trove_ratio_tests_exact:
  "(Trove_collateralRatioIsBelowMinimum t price \<longleftrightarrow>
      100 * (bn (collateral t) * bn price) < 110 * (bn (debt t) * DIGITS)) \<and>
   (Trove_collateralRatioIsBelowCritical t price \<longleftrightarrow>
      100 * (bn (collateral t) * bn price) < 150 * (bn (debt t) * DIGITS)) \<and>
   (Trove_isOpenableInRecoveryMode t price \<longleftrightarrow> \<not> Trove_collateralRatioIsBelowCritical t price)"
  by (simp add: belowMinimum_iff belowCritical_iff openable_iff)

section \<open>Redistribution\<close>

lemma applyRedistribution_eq:
  "applyRedistribution t redistributed =
     Inr \<lparr>collateral = Dec (bn (collateral t) + (bn (collateral redistributed)
            - bn (collateral (snapshotOfTotalRedistributed t))) * bn (stake t) div DIGITS),
          debt = Dec (bn (debt t) + (bn (debt redistributed)
            - bn (debt (snapshotOfTotalRedistributed t))) * bn (stake t) div DIGITS),
          ownerAddress = ownerAddress t, status = status t\<rparr>"
  by (simp add: applyRedistribution_def Trove_subtract_eq trove_op_defs Let_def Decimal_add_def
      Decimal_mul_def)

lemma share_bounds:
  fixes p :: nat
  shows "p * s div DIGITS * DIGITS \<le> p * s" and "p * s \<le> p * s div DIGITS * DIGITS + (DIGITS - 1)"
proof -
  show "p * s div DIGITS * DIGITS \<le> p * s" by simp
  have "p * s div DIGITS * DIGITS + p * s mod DIGITS = p * s" by simp
  moreover have "p * s mod DIGITS < DIGITS" by (rule mod_less_divisor) simp
  ultimately show "p * s \<le> p * s div DIGITS * DIGITS + (DIGITS - 1)" by linarith
qed

lemma sum_shares:
  fixes p :: nat
  shows "(\<Sum>t\<leftarrow>ts. p * f t div DIGITS) * DIGITS \<le> p * (\<Sum>t\<leftarrow>ts. f t)"
    and "p * (\<Sum>t\<leftarrow>ts. f t) \<le> (\<Sum>t\<leftarrow>ts. p * f t div DIGITS) * DIGITS + length ts * (DIGITS - 1)"
proof (induction ts)
  case (Cons t ts)
  { case 1 show ?case using add_mono [OF share_bounds(1) [of p "f t"] Cons.IH(1)]
      by (simp only: list.map sum_list.Cons distrib_right distrib_left) }
  { case 2 show ?case using add_mono [OF share_bounds(2) [of p "f t"] Cons.IH(2)]
      by (simp only: list.map sum_list.Cons distrib_right distrib_left list.size mult_Suc add_ac
          plus_nat.add_0 mult_1 One_nat_def) }
qed simp_all

text \<open>C30: redistribution conserves collateral up to rounding: when it is applied to any number
  of troves that took their snapshot at the same time, the collateral they gain together is at
  most the pending amount per unit staked times the sum of their stakes, and falls short of it
  by less than one unit of the last digit per trove.\<close>

theorem applyRedistribution_conserves:
  assumes snap: "\<forall>t\<in>set ts. snapshotOfTotalRedistributed t = snapshot"
    and le: "bn (collateral snapshot) \<le> bn (collateral redistributed)"
    and app: "mapR (\<lambda>t. applyRedistribution t redistributed) ts = Inr us"
  defines "before \<equiv> \<Sum>t\<leftarrow>ts. bn (collateral t)" and "after \<equiv> \<Sum>u\<leftarrow>us. bn (collateral u)"
    and "entitled \<equiv> (bn (collateral redistributed) - bn (collateral snapshot)) * (\<Sum>t\<leftarrow>ts. bn (stake t))"
  shows "before \<le> after \<and> (after - before) * DIGITS \<le> entitled \<and>
    entitled \<le> (after - before) * DIGITS + length ts * (DIGITS - 1)"
proof -
  let ?p = "bn (collateral redistributed) - bn (collateral snapshot)"
  let ?gain = "\<Sum>t\<leftarrow>ts. ?p * bn (stake t) div DIGITS"
  have "us = map (\<lambda>t. the (Some (projr (applyRedistribution t redistributed)))) ts"
    using app mapR_total [of ts "\<lambda>t. applyRedistribution t redistributed" "\<lambda>t. projr (applyRedistribution t redistributed)"]
    by (simp add: applyRedistribution_eq)
  then have "after = (\<Sum>t\<leftarrow>ts. bn (collateral (projr (applyRedistribution t redistributed))))"
    by (simp add: after_def comp_def)
  also have "\<dots> = (\<Sum>t\<leftarrow>ts. bn (collateral t) + ?p * bn (stake t) div DIGITS)"
    using snap by (intro arg_cong [where f = sum_list] map_cong) (simp_all add: applyRedistribution_eq)
  also have "\<dots> = before + ?gain" by (simp add: before_def sum_list_addf)
  finally have "after - before = ?gain" and "before \<le> after" by simp_all
  then show ?thesis
    using sum_shares [of ?p "\<lambda>t. bn (stake t)" ts] by (simp add: entitled_def)
qed

definition example_pending :: troveWithPendingRedistribution where
  "example_pending = \<lparr>collateral = Dec (3 * 10 ^ 18), debt = Dec (2000 * 10 ^ 18), ownerAddress = ''0xA'',
     status = Open, stake = Dec (2 * 10 ^ 18), snapshotOfTotalRedistributed = emptyTrove\<rparr>"

theorem applyRedistribution_conserves_witness:
  "\<exists>us. mapR (\<lambda>t. applyRedistribution t trove_50_2600) [example_pending, example_pending] = Inr us \<and>
     ((\<Sum>u\<leftarrow>us. bn (collateral u)) - 6 * 10 ^ 18) * DIGITS \<le> 50 * 10 ^ 18 * (4 * 10 ^ 18)"
proof -
  let ?u = "projr (applyRedistribution example_pending trove_50_2600)"
  have us: "mapR (\<lambda>t. applyRedistribution t trove_50_2600) [example_pending, example_pending] = Inr [?u, ?u]"
    by (simp add: applyRedistribution_eq)
  from applyRedistribution_conserves [OF _ _ us, of emptyTrove] us show ?thesis
    by (auto simp: example_pending_def emptyTrove_def)
qed

section \<open>Troves as editable values\<close>

text \<open>
  At rate zero a trove and its changes satisfy the interface of \<open>Change_Codec\<close>, unless the step
  is the closing of a trove with less debt than the reserve.
\<close>

definition changeable :: "trove \<Rightarrow> trove \<Rightarrow> bool" where
  "changeable t u \<longleftrightarrow>
     \<not> (\<not> Trove_isEmpty t \<and> Trove_isEmpty u \<and> Decimal_lt (debt t) THUSD_LIQUIDATION_RESERVE)"

lemma toTrove_id [simp]: "toTrove (t :: trove) = t"
  by (simp add: toTrove_def)

interpretation trove_codec: change_codec
  "\<lambda>t. t" changeable "\<lambda>t u. Trove_whatChanged t u Decimal_ZERO" "\<lambda>t c. Trove_apply t c Decimal_ZERO"
proof
  fix a b :: trove
  assume "changeable a b"
  then obtain c where c: "Trove_whatChanged a b Decimal_ZERO = Inr c"
    using Trove_whatChanged_throws_iff [of a b Decimal_ZERO]
    by (cases "Trove_whatChanged a b Decimal_ZERO") (auto simp: changeable_def Decimal_lt_def)
  with whatChanged_reaches [OF c]
  show "bindR (Trove_whatChanged a b Decimal_ZERO) (\<lambda>c. Trove_apply a c Decimal_ZERO) = Inr b"
    by (auto simp: reaches_def trove_eq_iff split: sum.splits)
next
  fix a b :: trove
  show "Trove_whatChanged a b Decimal_ZERO = Inr None \<longleftrightarrow> a = b"
    by (simp add: Trove_whatChanged_None)
next
  fix a :: trove
  show "Trove_apply a None Decimal_ZERO = Inr a" by (simp add: Trove_apply_def)
qed

end
