(* ===== verification/Deposits.thy ===== *)
theory Deposits
  imports Constants Change_Codec
begin

text \<open>
  Deposits of \<open>packages/lib-base/src/StabilityDeposit.ts\<close> and
  \<open>packages/lib-base/src/BammDeposit.ts\<close>: what changed between the current amount and a desired
  one, and the amount after a change is applied.  Both classes describe a change by the same
  type.  A \<open>BammDeposit\<close> compares two of its \<open>Decimal\<close> properties with \<open>===\<close>, so these carry the
  identity of the object beside its value.
\<close>

section \<open>Objects with identity\<close>

text \<open>
  A JavaScript object that is compared with \<open>===\<close>: its identity and its value.  One identity
  never has two values, so equality of the pair is \<open>===\<close>.
\<close>

datatype 'a obj = Obj (oid: nat) (val: 'a)

definition strictEquals :: "'a \<Rightarrow> 'a \<Rightarrow> bool" where
  "strictEquals a b \<longleftrightarrow> a = b"

section \<open>Stability deposits\<close>

datatype stabilityDepositChange =
    DepositTHUSD decimal
  | WithdrawTHUSD decimal (withdrawAllTHUSD: bool)

record stabilityDeposit =
  initialTHUSD :: decimal
  currentTHUSD :: decimal
  collateralGain :: decimal

definition new_StabilityDeposit :: "decimal \<Rightarrow> decimal \<Rightarrow> decimal \<Rightarrow> stabilityDeposit res" where
  "new_StabilityDeposit initial current gain =
     (if Decimal_gt current initial
      then Inl (Error (''currentTHUSD can'' @ [CHR 0x27] @ ''t be greater than initialTHUSD''))
      else Inr \<lparr>initialTHUSD = initial, currentTHUSD = current, collateralGain = gain\<rparr>)"

definition StabilityDeposit_isEmpty :: "stabilityDeposit \<Rightarrow> bool" where
  "StabilityDeposit_isEmpty d \<longleftrightarrow>
     Decimal_isZero (initialTHUSD d) \<and> Decimal_isZero (currentTHUSD d) \<and>
     Decimal_isZero (collateralGain d)"

definition StabilityDeposit_toString :: "stabilityDeposit \<Rightarrow> string res" where
  "StabilityDeposit_toString d =
     bindR (Decimal_toString (initialTHUSD d) None)
       (\<lambda>i. bindR (Decimal_toString (currentTHUSD d) None)
          (\<lambda>c. bindR (Decimal_toString (collateralGain d) None)
             (\<lambda>g. Inr (''{ initialTHUSD: '' @ i @ '', currentTHUSD: '' @ c
                    @ '', collateralGain: '' @ g @ '' }''))))"

definition StabilityDeposit_equals :: "stabilityDeposit \<Rightarrow> stabilityDeposit \<Rightarrow> bool" where
  "StabilityDeposit_equals d that \<longleftrightarrow>
     Decimal_eq (initialTHUSD d) (initialTHUSD that) \<and>
     Decimal_eq (currentTHUSD d) (currentTHUSD that) \<and>
     Decimal_eq (collateralGain d) (collateralGain that)"

definition StabilityDeposit_whatChanged ::
    "stabilityDeposit \<Rightarrow> decimal \<Rightarrow> stabilityDepositChange option res" where
  "StabilityDeposit_whatChanged d thatTHUSD =
     (if Decimal_lt thatTHUSD (currentTHUSD d) then
        bindR (Decimal_sub (currentTHUSD d) thatTHUSD)
          (\<lambda>w. Inr (Some (WithdrawTHUSD w (Decimal_isZero thatTHUSD))))
      else if Decimal_gt thatTHUSD (currentTHUSD d) then
        bindR (Decimal_sub thatTHUSD (currentTHUSD d)) (\<lambda>x. Inr (Some (DepositTHUSD x)))
      else Inr None)"

definition StabilityDeposit_apply ::
    "stabilityDeposit \<Rightarrow> stabilityDepositChange option \<Rightarrow> decimal res" where
  "StabilityDeposit_apply d change =
     (case change of
        None \<Rightarrow> Inr (currentTHUSD d)
      | Some (WithdrawTHUSD w withdrawAll) \<Rightarrow>
          if withdrawAll \<or> Decimal_lte (currentTHUSD d) w then Inr Decimal_ZERO
          else Decimal_sub (currentTHUSD d) w
      | Some (DepositTHUSD x) \<Rightarrow> Inr (Decimal_add (currentTHUSD d) x))"

section \<open>B.AMM deposits\<close>

record bammDeposit =
  bammPoolShare :: decimal
  poolShare :: decimal
  bammInitialTHUSD :: decimal
  currentUSD :: decimal
  bammCurrentTHUSD :: decimal
  bammCollateralGain :: decimal
  totalCollateralInBamm :: "decimal obj"
  totalThusdInBamm :: "decimal obj"

definition BammDeposit_isEmpty :: "bammDeposit \<Rightarrow> bool" where
  "BammDeposit_isEmpty d \<longleftrightarrow>
     Decimal_isZero (bammInitialTHUSD d) \<and> Decimal_isZero (bammCurrentTHUSD d) \<and>
     Decimal_isZero (bammCollateralGain d)"

definition BammDeposit_toString :: "bammDeposit \<Rightarrow> string res" where
  "BammDeposit_toString d =
     bindR (mapR (\<lambda>(label, x). bindR (Decimal_toString x None) (\<lambda>s. Inr (label @ s)))
       [(''{ bammPoolShare: '', bammPoolShare d), ('', poolShare: '', poolShare d),
        ('', initialTHUSD: '', bammInitialTHUSD d), ('', currentTHUSD: '', bammCurrentTHUSD d),
        ('', collateralGain: '', bammCollateralGain d),
        ('', totalCollateralInBamm: '', val (totalCollateralInBamm d)),
        ('', totalThusdInBamm: '', val (totalThusdInBamm d))])
       (\<lambda>parts. Inr (concat parts))"

definition BammDeposit_equals :: "bammDeposit \<Rightarrow> bammDeposit \<Rightarrow> bool" where
  "BammDeposit_equals d that \<longleftrightarrow>
     Decimal_eq (bammPoolShare d) (bammPoolShare that) \<and>
     Decimal_eq (poolShare d) (poolShare that) \<and>
     Decimal_eq (currentUSD d) (currentUSD that) \<and>
     Decimal_eq (bammInitialTHUSD d) (bammInitialTHUSD that) \<and>
     Decimal_eq (bammCurrentTHUSD d) (bammCurrentTHUSD that) \<and>
     Decimal_eq (bammCollateralGain d) (bammCollateralGain that) \<and>
     strictEquals (totalCollateralInBamm d) (totalCollateralInBamm that) \<and>
     strictEquals (totalThusdInBamm d) (totalThusdInBamm that)"

definition BammDeposit_whatChanged ::
    "bammDeposit \<Rightarrow> decimal \<Rightarrow> stabilityDepositChange option res" where
  "BammDeposit_whatChanged d thatUSD =
     (if Decimal_lt thatUSD (bammCurrentTHUSD d) then
        bindR (Decimal_sub (bammCurrentTHUSD d) thatUSD)
          (\<lambda>w. Inr (Some (WithdrawTHUSD w (Decimal_isZero thatUSD))))
      else if Decimal_gt thatUSD (bammCurrentTHUSD d) then
        bindR (Decimal_sub thatUSD (bammCurrentTHUSD d)) (\<lambda>x. Inr (Some (DepositTHUSD x)))
      else Inr None)"

definition BammDeposit_apply :: "bammDeposit \<Rightarrow> stabilityDepositChange option \<Rightarrow> decimal res" where
  "BammDeposit_apply d change =
     (case change of
        None \<Rightarrow> Inr (currentUSD d)
      | Some (WithdrawTHUSD w withdrawAll) \<Rightarrow>
          if withdrawAll \<or> Decimal_lte (currentUSD d) w then Inr Decimal_ZERO
          else Decimal_sub (bammCurrentTHUSD d) w
      | Some (DepositTHUSD x) \<Rightarrow> Inr (Decimal_add (bammCurrentTHUSD d) x))"

section \<open>Stability deposits as editable values\<close>

lemma StabilityDeposit_whatChanged_eq:
  "StabilityDeposit_whatChanged d x =
     Inr (if bn x < bn (currentTHUSD d)
          then Some (WithdrawTHUSD (Dec (bn (currentTHUSD d) - bn x)) (bn x = 0))
          else if bn (currentTHUSD d) < bn x then Some (DepositTHUSD (Dec (bn x - bn (currentTHUSD d))))
          else None)"
  by (auto simp: StabilityDeposit_whatChanged_def cmp_defs)

lemma BammDeposit_whatChanged_eq:
  "BammDeposit_whatChanged d x =
     Inr (if bn x < bn (bammCurrentTHUSD d)
          then Some (WithdrawTHUSD (Dec (bn (bammCurrentTHUSD d) - bn x)) (bn x = 0))
          else if bn (bammCurrentTHUSD d) < bn x
               then Some (DepositTHUSD (Dec (bn x - bn (bammCurrentTHUSD d))))
          else None)"
  by (auto simp: BammDeposit_whatChanged_def cmp_defs)

interpretation deposit_codec: change_codec
  currentTHUSD "\<lambda>_ _. True" StabilityDeposit_whatChanged StabilityDeposit_apply
  by unfold_locales
    (auto simp: StabilityDeposit_whatChanged_eq StabilityDeposit_apply_def cmp_defs decimal_eq_iff
      split: if_splits)

text \<open>applying to a stability deposit the change towards an amount gives exactly that amount,
  there is a change unless the amount is the current one, different amounts give different
  changes, and no withdrawal of a described change exceeds the deposit.\<close>

theorem StabilityDeposit_apply_whatChanged:
  "bindR (StabilityDeposit_whatChanged d x) (StabilityDeposit_apply d) = Inr x \<and>
   (StabilityDeposit_whatChanged d x = Inr None \<longleftrightarrow> currentTHUSD d = x) \<and>
   (StabilityDeposit_whatChanged d x = StabilityDeposit_whatChanged d y \<longleftrightarrow> x = y) \<and>
   (case StabilityDeposit_whatChanged d x of
      Inr (Some (WithdrawTHUSD w _)) \<Rightarrow> w \<le> currentTHUSD d | _ \<Rightarrow> True)"
  using deposit_codec.apply_whatChanged [of d x] deposit_codec.whatChanged_None [of d x]
    deposit_codec.change_determines_target [of d x y]
  by (auto simp: StabilityDeposit_whatChanged_eq less_eq_decimal_def)

text \<open>\<open>apply\<close> never throws: for every change, also one described against another deposit, it
  returns the current amount minus the withdrawal, or zero when that would be negative or
  everything is withdrawn, or plus the deposit.\<close>

theorem StabilityDeposit_apply_total:
  "StabilityDeposit_apply d change =
     Inr (Dec (case change of
        None \<Rightarrow> bn (currentTHUSD d)
      | Some (DepositTHUSD x) \<Rightarrow> bn (currentTHUSD d) + bn x
      | Some (WithdrawTHUSD w withdrawAll) \<Rightarrow> if withdrawAll then 0 else bn (currentTHUSD d) - bn w))"
  by (auto simp: StabilityDeposit_apply_def cmp_defs Decimal_add_def Decimal_ZERO_def
      split: option.splits stabilityDepositChange.splits)

text \<open>for a B.AMM deposit, applying the change towards an amount gives that amount exactly
  when: the amount is \<open>currentTHUSD\<close> and \<open>currentUSD\<close> is the same; or it is another amount and is
  zero or leaves a withdrawal smaller than \<open>currentUSD\<close>.  (\<open>whatChanged\<close> compares with
  \<open>currentTHUSD\<close>, while \<open>apply\<close> starts from \<open>currentUSD\<close> and tests the withdrawal against it.)\<close>

theorem BammDeposit_apply_whatChanged:
  "bindR (BammDeposit_whatChanged d x) (BammDeposit_apply d) = Inr x \<longleftrightarrow>
     (if bn x = bn (bammCurrentTHUSD d) then currentUSD d = bammCurrentTHUSD d
      else bn x = 0 \<or> bn (bammCurrentTHUSD d) < bn x + bn (currentUSD d))"
  by (auto simp: BammDeposit_whatChanged_eq BammDeposit_apply_def cmp_defs decimal_eq_iff
      Decimal_add_def Decimal_ZERO_def split: if_splits)

text \<open>a B.AMM deposit is equal to a second reading of the same values only if the two share the
  objects of the total amounts, because these are compared with \<open>===\<close>.\<close>

theorem BammDeposit_equals_by_identity:
  "BammDeposit_equals d
     (d\<lparr>totalCollateralInBamm := Obj i (val (totalCollateralInBamm d)),
        totalThusdInBamm := Obj j (val (totalThusdInBamm d))\<rparr>) \<longleftrightarrow>
   i = oid (totalCollateralInBamm d) \<and> j = oid (totalThusdInBamm d)"
  by (cases "totalCollateralInBamm d"; cases "totalThusdInBamm d")
     (auto simp: BammDeposit_equals_def strictEquals_def cmp_defs)

end
