(* ===== verification/Fees.thy ===== *)
theory Fees
  imports Constants
begin

text \<open>
  The fee calculator of \<open>packages/lib-base/src/Fees.ts\<close>.  A \<open>Date\<close> is its time in milliseconds.
\<close>

type_synonym date = int

record fees =
  baseRateWithoutDecay :: decimal
  minuteDecayFactor :: decimal
  beta :: decimal
  lastFeeOperation :: date
  timeOfLatestBlock :: date
  recoveryMode :: bool

definition new_Fees :: "decimal \<Rightarrow> decimal \<Rightarrow> decimal \<Rightarrow> date \<Rightarrow> date \<Rightarrow> bool \<Rightarrow> fees res" where
  "new_Fees baseRate decay b lastOp latestBlock recovery =
     assertR (Decimal_lt decay Decimal_ONE)
       (Inr \<lparr>baseRateWithoutDecay = baseRate, minuteDecayFactor = decay, beta = b,
             lastFeeOperation = lastOp, timeOfLatestBlock = latestBlock, recoveryMode = recovery\<rparr>)"

definition Fees_setRecoveryMode :: "fees \<Rightarrow> bool \<Rightarrow> fees res" where
  "Fees_setRecoveryMode f recovery =
     new_Fees (baseRateWithoutDecay f) (minuteDecayFactor f) (beta f) (lastFeeOperation f)
       (timeOfLatestBlock f) recovery"

definition Fees_equals :: "fees \<Rightarrow> fees \<Rightarrow> bool" where
  "Fees_equals f that \<longleftrightarrow>
     Decimal_eq (baseRateWithoutDecay f) (baseRateWithoutDecay that) \<and>
     Decimal_eq (minuteDecayFactor f) (minuteDecayFactor that) \<and>
     Decimal_eq (beta f) (beta that) \<and>
     lastFeeOperation f = lastFeeOperation that \<and>
     timeOfLatestBlock f = timeOfLatestBlock that \<and>
     recoveryMode f = recoveryMode that"

text \<open>\<open>toLocaleString()\<close> of a date depends on the locale and is a parameter.\<close>

definition Fees_toString :: "(date \<Rightarrow> string) \<Rightarrow> fees \<Rightarrow> string res" where
  "Fees_toString toLocaleString f =
     bindR (Decimal_toString (baseRateWithoutDecay f) None)
       (\<lambda>b. Inr (''{ baseRateWithoutDecay: '' @ b
              @ '', lastFeeOperation: '' @ [CHR 0x22] @ toLocaleString (lastFeeOperation f) @ [CHR 0x22]
              @ '', recoveryMode: '' @ (if recoveryMode f then ''true'' else ''false'') @ '' } ''))"

definition minutesSinceLastFeeOperation :: "fees \<Rightarrow> date option \<Rightarrow> int" where
  "minutesSinceLastFeeOperation f when =
     max (coalesce when (timeOfLatestBlock f) - lastFeeOperation f) 0 div 60000"

definition Fees_baseRate :: "fees \<Rightarrow> date option \<Rightarrow> decimal res" where
  "Fees_baseRate f when =
     bindR (Decimal_pow (minuteDecayFactor f) (minutesSinceLastFeeOperation f when))
       (\<lambda>decay. Inr (Decimal_mul decay (baseRateWithoutDecay f)))"

definition Fees_borrowingRate :: "fees \<Rightarrow> date option \<Rightarrow> decimal res" where
  "Fees_borrowingRate f when =
     (if recoveryMode f then Inr Decimal_ZERO
      else bindR (Fees_baseRate f when)
        (\<lambda>b. Inr (Decimal_min (Decimal_add MINIMUM_BORROWING_RATE b) MAXIMUM_BORROWING_RATE)))"

definition Fees_redemptionRate :: "fees \<Rightarrow> decimal \<Rightarrow> date option \<Rightarrow> decimal res" where
  "Fees_redemptionRate f redeemedFractionOfSupply when =
     bindR (Fees_baseRate f when)
       (\<lambda>b. let baseRate =
              (if Decimal_nonZero redeemedFractionOfSupply \<noteq> None
               then Decimal_add (Decimal_div redeemedFractionOfSupply (beta f)) b else b)
            in Inr (Decimal_min (Decimal_add MINIMUM_REDEMPTION_RATE baseRate) Decimal_ONE))"

section \<open>Invariant\<close>

definition Fees_valid :: "fees \<Rightarrow> bool" where
  "Fees_valid f \<longleftrightarrow> Decimal_lt (minuteDecayFactor f) Decimal_ONE"

lemma new_Fees_valid: "new_Fees b d c l t r = Inr f \<Longrightarrow> Fees_valid f"
  by (auto simp: new_Fees_def assertR_Inr_iff Fees_valid_def)

lemma Fees_setRecoveryMode_eq:
  "Fees_valid f \<Longrightarrow> Fees_setRecoveryMode f r = Inr (f\<lparr>recoveryMode := r\<rparr>)"
  by (simp add: Fees_setRecoveryMode_def new_Fees_def Fees_valid_def)

lemma Fees_valid_recoveryMode [simp]: "Fees_valid (f\<lparr>recoveryMode := r\<rparr>) = Fees_valid f"
  by (simp add: Fees_valid_def)

lemma Fees_equals_iff: "Fees_equals f g \<longleftrightarrow> f = g"
  by (cases f; cases g) (auto simp: Fees_equals_def Decimal_eq_def decimal_eq_iff)

section \<open>Decay\<close>

lemma roundedMul_le_DIGITS: "x \<le> DIGITS \<Longrightarrow> y \<le> DIGITS \<Longrightarrow> roundedMul x y \<le> DIGITS"
proof -
  assume "x \<le> DIGITS" "y \<le> DIGITS"
  then have "x * y \<le> DIGITS * DIGITS" by (rule mult_le_mono)
  moreover have "bn Decimal_HALF < DIGITS" by (simp add: DIGITS_num)
  ultimately have "x * y + bn Decimal_HALF < DIGITS * DIGITS + DIGITS" by (rule add_le_less_mono)
  also have "\<dots> = Suc DIGITS * DIGITS" by (simp only: mult_Suc add.commute)
  finally have "roundedMul x y < Suc DIGITS"
    unfolding roundedMul_def by (simp only: div_less_iff_less_mult DIGITS_pos)
  then show ?thesis by (simp only: less_Suc_eq_le)
qed

lemma pow_loop_le_DIGITS:
  "pow_loop x y n = (a, b) \<Longrightarrow> x \<le> DIGITS \<Longrightarrow> y \<le> DIGITS \<Longrightarrow> a \<le> DIGITS \<and> b \<le> DIGITS"
proof (induction x y n rule: pow_loop.induct)
  case (1 x y n)
  show ?case
  proof (cases "1 < n")
    case True
    then have "pow_loop (roundedMul x x) (if odd n then roundedMul x y else y) (n div 2) = (a, b)"
      using "1.prems"(1) by (simp add: pow_loop.simps [of x y n])
    with "1.IH" [OF True] "1.prems" show ?thesis by (simp add: roundedMul_le_DIGITS)
  next
    case False
    with "1.prems" show ?thesis by (simp add: pow_loop.simps [of x y n])
  qed
qed

lemma pow_le_one:
  assumes "Decimal_pow d n = Inr e" and "bn d \<le> DIGITS"
  shows "bn e \<le> DIGITS"
  using assms pow_loop_le_DIGITS [of "bn d" DIGITS "nat n"] roundedMul_le_DIGITS
  by (auto simp: Decimal_pow_def assertR_Inr_iff split: if_splits prod.splits)

lemma pow_defined: "(\<exists>e. Decimal_pow d n = Inr e) \<longleftrightarrow> 0 \<le> n \<and> n \<le> 0xffffffff"
  by (auto simp: Decimal_pow_def assertR_def split: prod.splits)

lemma minutes_nonneg: "0 \<le> minutesSinceLastFeeOperation f when"
  by (simp add: minutesSinceLastFeeOperation_def)

lemma baseRate_cases:
  obtains (late) "minutesSinceLastFeeOperation f when > 0xffffffff" "Fees_baseRate f when = Inl AssertionError"
  | (ok) b where "minutesSinceLastFeeOperation f when \<le> 0xffffffff" "Fees_baseRate f when = Inr b"
      "Fees_valid f \<Longrightarrow> b \<le> baseRateWithoutDecay f"
proof (cases "minutesSinceLastFeeOperation f when \<le> 0xffffffff")
  case True
  then obtain e where e: "Decimal_pow (minuteDecayFactor f) (minutesSinceLastFeeOperation f when) = Inr e"
    using pow_defined minutes_nonneg by blast
  let ?b = "Decimal_mul e (baseRateWithoutDecay f)"
  have "?b \<le> baseRateWithoutDecay f" if "Fees_valid f"
  proof -
    have "bn e \<le> DIGITS" using pow_le_one [OF e] that by (simp add: Fees_valid_def Decimal_lt_def)
    then have "bn e * bn (baseRateWithoutDecay f) div DIGITS \<le> DIGITS * bn (baseRateWithoutDecay f) div DIGITS"
      by (intro div_le_mono mult_le_mono1)
    then show ?thesis by (simp add: less_eq_decimal_def)
  qed
  with True e show ?thesis by (intro ok [of ?b]) (simp_all add: Fees_baseRate_def)
next
  case False
  then show ?thesis by (intro late) (simp_all add: Fees_baseRate_def Decimal_pow_def)
qed

text \<open>the base rate never exceeds the rate at the last fee operation, is that rate as long as
  less than a minute has passed (or the given time lies before the operation), and is computed
  for every elapsed time up to \<open>2 ^ 32 - 1\<close> minutes, beyond which the assertion of \<open>pow\<close> fails.\<close>

theorem Fees_baseRate_decays:
  assumes "Fees_valid f"
  shows "case Fees_baseRate f when of
      Inr b \<Rightarrow> b \<le> baseRateWithoutDecay f \<and> minutesSinceLastFeeOperation f when \<le> 0xffffffff \<and>
        (coalesce when (timeOfLatestBlock f) < lastFeeOperation f + 60000 \<longrightarrow> b = baseRateWithoutDecay f)
    | Inl e \<Rightarrow> e = AssertionError \<and> minutesSinceLastFeeOperation f when > 0xffffffff"
proof -
  have "Fees_baseRate f when = Inr (baseRateWithoutDecay f)"
    if "coalesce when (timeOfLatestBlock f) < lastFeeOperation f + 60000"
  proof -
    have "minutesSinceLastFeeOperation f when = 0" using that by (simp add: minutesSinceLastFeeOperation_def)
    then show ?thesis by (simp add: Fees_baseRate_def Decimal_pow_def decimal_eq_iff)
  qed
  moreover note assms
  ultimately show ?thesis by (cases f "when" rule: baseRate_cases) auto
qed

definition example_fees :: fees where
  "example_fees = \<lparr>baseRateWithoutDecay = Dec (10 ^ 16), minuteDecayFactor = Dec (9 * 10 ^ 17),
     beta = Dec (2 * 10 ^ 18), lastFeeOperation = 60000, timeOfLatestBlock = 90000, recoveryMode = False\<rparr>"

theorem Fees_baseRate_decays_witness: "Fees_baseRate example_fees None = Inr (Dec (10 ^ 16))"
proof -
  have "Fees_valid example_fees" by (simp add: Fees_valid_def example_fees_def Decimal_lt_def DIGITS_num)
  from Fees_baseRate_decays [OF this, of None] show ?thesis
    by (auto simp: example_fees_def minutesSinceLastFeeOperation_def split: sum.splits)
qed

text \<open>the borrowing rate is zero in recovery mode and otherwise lies between the minimum of
  0.5\% and the maximum of 5\%; it is the minimum plus the base rate unless that exceeds the maximum.\<close>

theorem Fees_borrowingRate_bounds:
  "case Fees_borrowingRate f when of
      Inr r \<Rightarrow> if recoveryMode f then r = Decimal_ZERO
              else MINIMUM_BORROWING_RATE \<le> r \<and> r \<le> MAXIMUM_BORROWING_RATE \<and>
                   (r < MAXIMUM_BORROWING_RATE \<longrightarrow>
                      Fees_baseRate f when = Inr (Dec (bn r - bn MINIMUM_BORROWING_RATE)))
    | Inl _ \<Rightarrow> \<not> recoveryMode f \<and> minutesSinceLastFeeOperation f when > 0xffffffff"
  by (cases f "when" rule: baseRate_cases)
     (auto simp: Fees_borrowingRate_def less_eq_decimal_def less_decimal_def decimal_eq_iff)

theorem Fees_borrowingRate_bounds_witness:
  "Fees_borrowingRate (example_fees\<lparr>timeOfLatestBlock := 60000\<rparr>) None = Inr (Dec (15 * 10 ^ 15))"
proof -
  let ?f = "example_fees\<lparr>timeOfLatestBlock := 60000\<rparr>"
  have "Fees_baseRate ?f None = Inr (Dec (10 ^ 16))"
    by (simp add: example_fees_def Fees_baseRate_def minutesSinceLastFeeOperation_def Decimal_pow_def
        decimal_eq_iff)
  with Fees_borrowingRate_bounds [of ?f None] show ?thesis
    by (auto simp: example_fees_def Fees_borrowingRate_def decimal_eq_iff Decimal_min_def cmp_defs)
qed

lemma div_mono_left: "x \<le> y \<Longrightarrow> Decimal_div x c \<le> Decimal_div y c"
  by (simp add: Decimal_div_def less_eq_decimal_def div_le_mono)

text \<open>the redemption rate lies between the minimum of 0.5\% and 100\%, whatever \<open>beta\<close> is, and
  redeeming a larger fraction of the supply never lowers it.\<close>

theorem Fees_redemptionRate_bounds:
  assumes "Fees_redemptionRate f x when = Inr r" and "Fees_redemptionRate f y when = Inr s"
  shows "MINIMUM_REDEMPTION_RATE \<le> r \<and> r \<le> Decimal_ONE \<and> (x \<le> y \<longrightarrow> r \<le> s)"
proof (cases f "when" rule: baseRate_cases)
  case late
  with assms show ?thesis by (simp add: Fees_redemptionRate_def)
next
  case (ok b)
  from div_mono_left [of x y "beta f"] show ?thesis
    using assms ok(2)
    by (auto simp: Fees_redemptionRate_def Decimal_nonZero_def Decimal_isZero_def less_eq_decimal_def
        min_def DIGITS_num Let_def split: if_splits)
qed

theorem Fees_redemptionRate_bounds_witness:
  "\<exists>r s. Fees_redemptionRate example_fees Decimal_ZERO None = Inr r \<and>
     Fees_redemptionRate example_fees Decimal_ONE None = Inr s \<and> r \<le> s \<and> s \<le> Decimal_ONE"
proof -
  have "Fees_baseRate example_fees None = Inr (Dec (10 ^ 16))"
    by (simp add: example_fees_def Fees_baseRate_def minutesSinceLastFeeOperation_def Decimal_pow_def
        decimal_eq_iff)
  then obtain r s where rs: "Fees_redemptionRate example_fees Decimal_ZERO None = Inr r"
      "Fees_redemptionRate example_fees Decimal_ONE None = Inr s"
    by (simp add: Fees_redemptionRate_def Let_def)
  from Fees_redemptionRate_bounds [OF rs] Fees_redemptionRate_bounds [OF rs(2) rs(2)] rs
  show ?thesis by (auto simp: less_eq_decimal_def)
qed

end
