(* ===== verification/LiquityStore.thy ===== *)
theory LiquityStore
  imports Trove Deposits Fees
begin

text \<open>
  The data store of \<open>packages/lib-base/src/LiquityStore.ts\<close>: base state read from the chain,
  state derived from it, updates that keep the old object of every variable whose value did not
  change, change notifications, and the timer that refreshes the derived state.

  Property values are objects with identity (\<open>'a obj\<close>), because the state change that
  listeners receive is computed with \<open>!==\<close>.  The identities of the objects that \<open>_derive\<close>
  creates are taken from a counter.  Logging to the console is not modelled; the value that
  \<open>_logUpdate\<close> passes through is.
\<close>

section \<open>State\<close>

text \<open>Values of properties, as \<open>Object.entries\<close> sees them.\<close>

datatype jsValue =
    VUndefined
  | VNumber nat
  | VBool bool
  | VString string
  | VDecimal "decimal obj"
  | VTrove "trove obj"
  | VPending "troveWithPendingRedistribution obj"
  | VUserTrove "userTrove obj"
  | VStabilityDeposit "stabilityDeposit obj"
  | VBammDeposit "bammDeposit obj"
  | VFees "fees obj"
  | VFunction nat

type_synonym jsObject = "(string \<times> jsValue) list"

record baseState =
  numberOfTroves :: nat
  accountBalance :: "decimal obj"
  thusdBalance :: "decimal obj"
  erc20TokenBalance :: "decimal obj"
  erc20TokenAllowance :: "decimal obj"
  isStabilityPools :: bool
  isBorrowerOperations :: bool
  isTroveManager :: bool
  collateralSurplusBalance :: "decimal obj"
  price :: "decimal obj"
  marketPrice :: "decimal obj"
  piRedemptionRate :: "decimal obj"
  deviationFactor :: "decimal obj"
  thusdInStabilityPool :: "decimal obj"
  pcvBalance :: "decimal obj"
  total_trove :: "trove obj"
  totalRedistributed :: "trove obj"
  troveBeforeRedistribution :: "troveWithPendingRedistribution obj"
  symbol :: string
  collateralAddress :: string
  stableAddress :: string
  stabilityDeposit :: "stabilityDeposit obj"
  bammDeposit :: "bammDeposit obj"
  mintList :: bool
  feesInNormalMode :: "fees obj"
  riskiestTroveBeforeRedistribution :: "troveWithPendingRedistribution obj"

text \<open>\<open>Partial<LiquityStoreBaseState>\<close>: the property is absent or \<open>undefined\<close> (\<open>None\<close>), or given.\<close>

record baseStateUpdate =
  newNumberOfTroves :: "nat option"
  newAccountBalance :: "(decimal obj) option"
  newThusdBalance :: "(decimal obj) option"
  newErc20TokenBalance :: "(decimal obj) option"
  newErc20TokenAllowance :: "(decimal obj) option"
  newIsStabilityPools :: "bool option"
  newIsBorrowerOperations :: "bool option"
  newIsTroveManager :: "bool option"
  newCollateralSurplusBalance :: "(decimal obj) option"
  newPrice :: "(decimal obj) option"
  newMarketPrice :: "(decimal obj) option"
  newPiRedemptionRate :: "(decimal obj) option"
  newDeviationFactor :: "(decimal obj) option"
  newThusdInStabilityPool :: "(decimal obj) option"
  newPcvBalance :: "(decimal obj) option"
  newTotal_trove :: "(trove obj) option"
  newTotalRedistributed :: "(trove obj) option"
  newTroveBeforeRedistribution :: "(troveWithPendingRedistribution obj) option"
  newSymbol :: "string option"
  newCollateralAddress :: "string option"
  newStableAddress :: "string option"
  newStabilityDeposit :: "(stabilityDeposit obj) option"
  newBammDeposit :: "(bammDeposit obj) option"
  newMintList :: "bool option"
  newFeesInNormalMode :: "(fees obj) option"
  newRiskiestTroveBeforeRedistribution :: "(troveWithPendingRedistribution obj) option"

record derivedState =
  trove :: "userTrove obj"
  currentFees :: "fees obj"
  borrowingRate :: "decimal obj"
  redemptionRate :: "decimal obj"
  haveUndercollateralizedTroves :: bool

section \<open>Reducers\<close>

text \<open>\<open>eq\<close> and \<open>equals\<close> of the source call the method of the values' class.\<close>

definition equalsObj :: "('a \<Rightarrow> 'a \<Rightarrow> bool) \<Rightarrow> 'a obj \<Rightarrow> 'a obj \<Rightarrow> bool" where
  "equalsObj eq a b = eq (val a) (val b)"

definition updateIfChanged :: "('a \<Rightarrow> 'a \<Rightarrow> bool) \<Rightarrow> 'a \<Rightarrow> 'a option \<Rightarrow> 'a" where
  "updateIfChanged eq prev next =
     (case next of Some n \<Rightarrow> if \<not> eq prev n then n else prev | None \<Rightarrow> prev)"

definition silentlyUpdateIfChanged :: "('a \<Rightarrow> 'a \<Rightarrow> bool) \<Rightarrow> 'a \<Rightarrow> 'a option \<Rightarrow> 'a" where
  "silentlyUpdateIfChanged eq prev next =
     (case next of Some n \<Rightarrow> if \<not> eq prev n then n else prev | None \<Rightarrow> prev)"

definition updateFees :: "fees obj \<Rightarrow> fees obj option \<Rightarrow> fees obj" where
  "updateFees prev next =
     (case next of Some n \<Rightarrow> if \<not> Fees_equals (val n) (val prev) then n else prev | None \<Rightarrow> prev)"

definition reduce :: "baseState \<Rightarrow> baseStateUpdate \<Rightarrow> baseState" where
  "reduce b u =
     \<lparr>numberOfTroves = updateIfChanged strictEquals (numberOfTroves b) (newNumberOfTroves u),
      accountBalance = updateIfChanged (equalsObj Decimal_eq) (accountBalance b) (newAccountBalance u),
      thusdBalance = updateIfChanged (equalsObj Decimal_eq) (thusdBalance b) (newThusdBalance u),
      erc20TokenBalance = updateIfChanged (equalsObj Decimal_eq) (erc20TokenBalance b) (newErc20TokenBalance u),
      erc20TokenAllowance = updateIfChanged (equalsObj Decimal_eq) (erc20TokenAllowance b) (newErc20TokenAllowance u),
      isStabilityPools = isStabilityPools b,
      isBorrowerOperations = isBorrowerOperations b,
      isTroveManager = isTroveManager b,
      collateralSurplusBalance = updateIfChanged (equalsObj Decimal_eq) (collateralSurplusBalance b) (newCollateralSurplusBalance u),
      price = updateIfChanged (equalsObj Decimal_eq) (price b) (newPrice u),
      marketPrice = updateIfChanged (equalsObj Decimal_eq) (marketPrice b) (newMarketPrice u),
      piRedemptionRate = updateIfChanged (equalsObj Decimal_eq) (piRedemptionRate b) (newPiRedemptionRate u),
      deviationFactor = updateIfChanged (equalsObj Decimal_eq) (deviationFactor b) (newDeviationFactor u),
      thusdInStabilityPool = updateIfChanged (equalsObj Decimal_eq) (thusdInStabilityPool b) (newThusdInStabilityPool u),
      pcvBalance = updateIfChanged (equalsObj Decimal_eq) (pcvBalance b) (newPcvBalance u),
      total_trove = updateIfChanged (equalsObj Trove_equals) (total_trove b) (newTotal_trove u),
      totalRedistributed = updateIfChanged (equalsObj Trove_equals) (totalRedistributed b) (newTotalRedistributed u),
      troveBeforeRedistribution = updateIfChanged (equalsObj TroveWithPendingRedistribution_equals) (troveBeforeRedistribution b) (newTroveBeforeRedistribution u),
      symbol = symbol b,
      collateralAddress = collateralAddress b,
      stableAddress = stableAddress b,
      stabilityDeposit = updateIfChanged (equalsObj StabilityDeposit_equals) (stabilityDeposit b) (newStabilityDeposit u),
      bammDeposit = updateIfChanged (equalsObj BammDeposit_equals) (bammDeposit b) (newBammDeposit u),
      mintList = mintList b,
      feesInNormalMode = silentlyUpdateIfChanged (equalsObj Fees_equals) (feesInNormalMode b) (newFeesInNormalMode u),
      riskiestTroveBeforeRedistribution = silentlyUpdateIfChanged (equalsObj TroveWithPendingRedistribution_equals) (riskiestTroveBeforeRedistribution b) (newRiskiestTroveBeforeRedistribution u)\<rparr>"

text \<open>The four objects created by \<open>_derive\<close> get the identities \<open>n\<close> to \<open>n + 3\<close>.\<close>

definition derive :: "nat \<Rightarrow> baseState \<Rightarrow> derivedState res" where
  "derive n b =
     bindR (Fees_setRecoveryMode (val (feesInNormalMode b))
              (Trove_collateralRatioIsBelowCritical (val (total_trove b)) (val (price b))))
       (\<lambda>f. bindR (applyRedistribution (val (troveBeforeRedistribution b)) (val (totalRedistributed b)))
          (\<lambda>t. bindR (Fees_borrowingRate f None)
             (\<lambda>br. bindR (Fees_redemptionRate f Decimal_ZERO None)
                (\<lambda>rr. bindR (applyRedistribution (val (riskiestTroveBeforeRedistribution b))
                                (val (totalRedistributed b)))
                   (\<lambda>riskiest. Inr
                      \<lparr>trove = Obj (n + 1) t, currentFees = Obj n f, borrowingRate = Obj (n + 2) br,
                       redemptionRate = Obj (n + 3) rr,
                       haveUndercollateralizedTroves =
                         Trove_collateralRatioIsBelowMinimum riskiest (val (price b))\<rparr>)))))"

definition reduceDerived :: "derivedState \<Rightarrow> derivedState \<Rightarrow> derivedState" where
  "reduceDerived d u =
     \<lparr>trove = updateIfChanged (equalsObj UserTrove_equals) (trove d) (Some (trove u)),
      currentFees = updateFees (currentFees d) (Some (currentFees u)),
      borrowingRate =
        silentlyUpdateIfChanged (equalsObj Decimal_eq) (borrowingRate d) (Some (borrowingRate u)),
      redemptionRate =
        silentlyUpdateIfChanged (equalsObj Decimal_eq) (redemptionRate d) (Some (redemptionRate u)),
      haveUndercollateralizedTroves =
        updateIfChanged strictEquals (haveUndercollateralizedTroves d)
          (Some (haveUndercollateralizedTroves u))\<rparr>"

section \<open>Differences of states\<close>

definition base_entries :: "baseState \<Rightarrow> jsObject" where
  "base_entries b =
     [(''numberOfTroves'', VNumber (numberOfTroves b)), (''accountBalance'', VDecimal (accountBalance b)),
      (''thusdBalance'', VDecimal (thusdBalance b)), (''erc20TokenBalance'', VDecimal (erc20TokenBalance b)),
      (''erc20TokenAllowance'', VDecimal (erc20TokenAllowance b)), (''isStabilityPools'', VBool (isStabilityPools b)),
      (''isBorrowerOperations'', VBool (isBorrowerOperations b)), (''isTroveManager'', VBool (isTroveManager b)),
      (''collateralSurplusBalance'', VDecimal (collateralSurplusBalance b)), (''price'', VDecimal (price b)),
      (''marketPrice'', VDecimal (marketPrice b)), (''piRedemptionRate'', VDecimal (piRedemptionRate b)),
      (''deviationFactor'', VDecimal (deviationFactor b)), (''thusdInStabilityPool'', VDecimal (thusdInStabilityPool b)),
      (''pcvBalance'', VDecimal (pcvBalance b)), (''total'', VTrove (total_trove b)),
      (''totalRedistributed'', VTrove (totalRedistributed b)), (''troveBeforeRedistribution'', VPending (troveBeforeRedistribution b)),
      (''symbol'', VString (symbol b)), (''collateralAddress'', VString (collateralAddress b)),
      (''stableAddress'', VString (stableAddress b)), (''stabilityDeposit'', VStabilityDeposit (stabilityDeposit b)),
      (''bammDeposit'', VBammDeposit (bammDeposit b)), (''mintList'', VBool (mintList b)),
      (''_feesInNormalMode'', VFees (feesInNormalMode b)), (''_riskiestTroveBeforeRedistribution'', VPending (riskiestTroveBeforeRedistribution b))]"

definition derived_entries :: "derivedState \<Rightarrow> jsObject" where
  "derived_entries d =
     [(''trove'', VUserTrove (trove d)), (''fees'', VFees (currentFees d)),
      (''borrowingRate'', VDecimal (borrowingRate d)), (''redemptionRate'', VDecimal (redemptionRate d)),
      (''haveUndercollateralizedTroves'', VBool (haveUndercollateralizedTroves d))]"

text \<open>\<open>Object.assign\<close>: a property that exists keeps its place.\<close>

fun put :: "jsObject \<Rightarrow> string \<times> jsValue \<Rightarrow> jsObject" where
  "put [] kv = [kv]"
| "put ((k, v) # m) kv = (if k = fst kv then kv # m else (k, v) # put m kv)"

definition assign :: "jsObject \<Rightarrow> jsObject \<Rightarrow> jsObject" where
  "assign m source = foldl put m source"

definition property :: "jsObject \<Rightarrow> string \<Rightarrow> jsValue" where
  "property m k = coalesce (map_of m k) VUndefined"

definition difference :: "jsObject \<Rightarrow> jsObject \<Rightarrow> jsObject" where
  "difference a b = filter (\<lambda>(key, value). value \<noteq> property b key) a"

section \<open>The store\<close>

text \<open>
  Listeners are numbered in the order of subscription (\<open>wrap\<close> makes every subscription a
  function of its own); \<open>timers\<close> are the timeouts that are still pending in the runtime.
\<close>

record 'x store =
  loaded :: bool
  hasOnLoaded :: bool
  onLoadedCalls :: nat
  baseStateOf :: "baseState option"
  derivedStateOf :: "derivedState option"
  extraStateOf :: "'x option"
  updateTimeoutId :: "nat option"
  timers :: "nat list"
  nextTimer :: nat
  listeners :: "nat list"
  nextListener :: nat
  nextId :: nat

record listenerParams =
  newState :: jsObject
  oldState :: jsObject
  stateChange :: jsObject

text \<open>What the subclass provides: \<open>_reduceExtra\<close> and the properties of the extra state.\<close>

record ('x, 'u) extraClass =
  reduceExtra :: "'x \<Rightarrow> 'u \<Rightarrow> 'x"
  extra_entries :: "'x \<Rightarrow> jsObject"

definition store_state :: "('x, 'u) extraClass \<Rightarrow> 'x store \<Rightarrow> jsObject" where
  "store_state cls s =
     assign (assign (assign [] (case baseStateOf s of None \<Rightarrow> [] | Some b \<Rightarrow> base_entries b))
       (case derivedStateOf s of None \<Rightarrow> [] | Some d \<Rightarrow> derived_entries d))
       (case extraStateOf s of None \<Rightarrow> [] | Some x \<Rightarrow> extra_entries cls x)"

definition cancelUpdateIfScheduled :: "'x store \<Rightarrow> 'x store" where
  "cancelUpdateIfScheduled s =
     (case updateTimeoutId s of
        Some i \<Rightarrow> s\<lparr>timers := removeAll i (timers s)\<rparr>
      | None \<Rightarrow> s)"

definition scheduleUpdate :: "'x store \<Rightarrow> 'x store" where
  "scheduleUpdate s =
     (let s = cancelUpdateIfScheduled s;
          i = nextTimer s
      in s\<lparr>updateTimeoutId := Some i, timers := timers s @ [i], nextTimer := Suc i\<rparr>)"

text \<open>\<open>subscribe\<close> returns the listener's number, with which the returned function unsubscribes it.\<close>

definition subscribe :: "'x store \<Rightarrow> nat \<times> 'x store" where
  "subscribe s =
     (let l = nextListener s
      in (l, s\<lparr>listeners := listeners s @ [l], nextListener := Suc l\<rparr>))"

definition unsubscribe :: "nat \<Rightarrow> 'x store \<Rightarrow> 'x store" where
  "unsubscribe l s = s\<lparr>listeners := removeAll l (listeners s)\<rparr>"

text \<open>What a listener does to the store when it is called.\<close>

datatype listenerOp = Subscribe | Unsubscribe nat

fun perform :: "'x store \<Rightarrow> listenerOp \<Rightarrow> 'x store" where
  "perform s Subscribe = snd (subscribe s)"
| "perform s (Unsubscribe l) = unsubscribe l s"

text \<open>The loop of \<open>_notify\<close> over the copy; the second component records the calls.\<close>

fun notify_loop ::
    "(nat \<Rightarrow> listenerParams \<Rightarrow> listenerOp list) \<Rightarrow> listenerParams \<Rightarrow> nat list \<Rightarrow> 'x store \<Rightarrow> 'x store \<times> nat list" where
  "notify_loop react params [] s = (s, [])"
| "notify_loop react params (l # copy) s =
     (if l \<in> set (listeners s)
      then (let (s', calls) = notify_loop react params copy (foldl perform s (react l params))
            in (s', l # calls))
      else notify_loop react params copy s)"

definition notify ::
    "(nat \<Rightarrow> listenerParams \<Rightarrow> listenerOp list) \<Rightarrow> listenerParams \<Rightarrow> 'x store \<Rightarrow> 'x store \<times> nat list" where
  "notify react params s = notify_loop react params (listeners s) s"

text \<open>
  \<open>_load\<close> and \<open>_update\<close> return the result together with the store, which keeps what was
  assigned before an exception.
\<close>

definition load :: "baseState \<Rightarrow> 'x option \<Rightarrow> 'x store \<Rightarrow> unit res \<times> 'x store" where
  "load b x s =
     (if loaded s then (Inl AssertionError, s)
      else
        (let s = s\<lparr>baseStateOf := Some b\<rparr>
         in case derive (nextId s) b of
              Inl e \<Rightarrow> (Inl e, s)
            | Inr d \<Rightarrow>
                (let s = scheduleUpdate
                           (s\<lparr>derivedStateOf := Some d, extraStateOf := x, loaded := True,
                              nextId := nextId s + 4\<rparr>)
                 in (Inr (), if hasOnLoaded s then s\<lparr>onLoadedCalls := Suc (onLoadedCalls s)\<rparr> else s))))"

text \<open>The last two statements of \<open>_update\<close>: schedule the next refresh and notify.  The successful
  outcome tells what was passed to the listeners, and to which.\<close>

definition finishUpdate ::
    "('x, 'u) extraClass \<Rightarrow> (nat \<Rightarrow> listenerParams \<Rightarrow> listenerOp list) \<Rightarrow> jsObject \<Rightarrow>
     'x store \<Rightarrow> (listenerParams \<times> nat list) res \<times> 'x store" where
  "finishUpdate cls react old s =
     (let s = scheduleUpdate s;
          params = \<lparr>newState = store_state cls s, oldState = old,
                    stateChange = difference (store_state cls s) old\<rparr>;
          (s, calls) = notify react params s
      in (Inr (params, calls), s))"

definition update ::
    "('x, 'u) extraClass \<Rightarrow> (nat \<Rightarrow> listenerParams \<Rightarrow> listenerOp list) \<Rightarrow>
     baseStateUpdate option \<Rightarrow> 'u option \<Rightarrow> 'x store \<Rightarrow> (listenerParams \<times> nat list) res \<times> 'x store" where
  "update cls react baseStateUpdate extraStateUpdate s =
     (case (baseStateOf s, derivedStateOf s) of
        (Some b, Some d) \<Rightarrow>
          (let old = store_state cls s;
               b' = (case baseStateUpdate of None \<Rightarrow> b | Some u \<Rightarrow> reduce b u);
               s = s\<lparr>baseStateOf := Some b'\<rparr>
           in case derive (nextId s) b' of
                Inl e \<Rightarrow> (Inl e, s)
              | Inr d' \<Rightarrow>
                  (let s = s\<lparr>derivedStateOf := Some (reduceDerived d d'), nextId := nextId s + 4\<rparr>
                   in case extraStateUpdate of
                        None \<Rightarrow> finishUpdate cls react old s
                      | Some u \<Rightarrow>
                          (case extraStateOf s of
                             None \<Rightarrow> (Inl AssertionError, s)
                           | Some x \<Rightarrow>
                               finishUpdate cls react old
                                 (s\<lparr>extraStateOf := Some (reduceExtra cls x u)\<rparr>))))
      | _ \<Rightarrow> (Inl AssertionError, s))"

text \<open>A pending timeout \<open>i\<close> fires.\<close>

definition fireTimer ::
    "('x, 'u) extraClass \<Rightarrow> (nat \<Rightarrow> listenerParams \<Rightarrow> listenerOp list) \<Rightarrow> nat \<Rightarrow>
     'x store \<Rightarrow> (listenerParams \<times> nat list) res \<times> 'x store" where
  "fireTimer cls react i s =
     update cls react None None (s\<lparr>timers := removeAll i (timers s), updateTimeoutId := None\<rparr>)"

end
