(* ===== verification/LiquityStore_Correct.thy ===== *)
theory LiquityStore_Correct
  imports LiquityStore
begin

text \<open>
  Correctness of the store: updates change exactly the variables whose value changed and the
  notification names exactly those; the derived state always agrees with the base state; at most
  one refresh is pending; listeners are called as the comment of \<open>_notify\<close> promises.
\<close>

section \<open>Values with an equality method\<close>

text \<open>
  The reducers rely on the equality methods of the classes of the state variables: they must
  decide equality of the values.
\<close>

locale value_equality =
  fixes eq :: "'a \<Rightarrow> 'a \<Rightarrow> bool"
  assumes eq_iff: "eq a b \<longleftrightarrow> a = b"
begin

lemma val_update:
  "val (updateIfChanged (equalsObj eq) p n) = (case n of None \<Rightarrow> val p | Some x \<Rightarrow> val x)"
  "val (silentlyUpdateIfChanged (equalsObj eq) p n) = (case n of None \<Rightarrow> val p | Some x \<Rightarrow> val x)"
  by (auto simp: updateIfChanged_def silentlyUpdateIfChanged_def equalsObj_def eq_iff split: option.splits)

lemma update_same:
  "val n = val p \<Longrightarrow> updateIfChanged (equalsObj eq) p (Some n) = p"
  "val n = val p \<Longrightarrow> silentlyUpdateIfChanged (equalsObj eq) p (Some n) = p"
  by (auto simp: updateIfChanged_def silentlyUpdateIfChanged_def equalsObj_def eq_iff)

lemma keeps_object:
  "updateIfChanged (equalsObj eq) p n = p \<or> val (updateIfChanged (equalsObj eq) p n) \<noteq> val p"
  "silentlyUpdateIfChanged (equalsObj eq) p n = p \<or>
     val (silentlyUpdateIfChanged (equalsObj eq) p n) \<noteq> val p"
  by (auto simp: updateIfChanged_def silentlyUpdateIfChanged_def equalsObj_def eq_iff split: option.splits)

end

interpretation decimal_eq: value_equality Decimal_eq
  by unfold_locales (simp add: Decimal_eq_def decimal_eq_iff)

interpretation trove_eq: value_equality "Trove_equals :: trove \<Rightarrow> trove \<Rightarrow> bool"
  by unfold_locales (auto simp: Trove_equals_def decimal_eq.eq_iff)

interpretation userTrove_eq: value_equality "UserTrove_equals :: userTrove \<Rightarrow> userTrove \<Rightarrow> bool"
  by unfold_locales (auto simp: UserTrove_equals_def Trove_equals_def decimal_eq.eq_iff)

interpretation pending_eq: value_equality
  "TroveWithPendingRedistribution_equals :: troveWithPendingRedistribution \<Rightarrow> troveWithPendingRedistribution \<Rightarrow> bool"
  by unfold_locales
    (auto simp: TroveWithPendingRedistribution_equals_def UserTrove_equals_def Trove_equals_def
      decimal_eq.eq_iff)

interpretation stabilityDeposit_eq: value_equality StabilityDeposit_equals
  by unfold_locales (auto simp: StabilityDeposit_equals_def decimal_eq.eq_iff)

interpretation bammDeposit_eq: value_equality BammDeposit_equals
  by unfold_locales (auto simp: BammDeposit_equals_def decimal_eq.eq_iff strictEquals_def)

interpretation fees_eq: value_equality Fees_equals
  by unfold_locales (rule Fees_equals_iff)

lemmas val_updates [store_simps] =
  decimal_eq.val_update trove_eq.val_update userTrove_eq.val_update pending_eq.val_update
  stabilityDeposit_eq.val_update bammDeposit_eq.val_update fees_eq.val_update

lemmas keeps_objects =
  decimal_eq.keeps_object trove_eq.keeps_object userTrove_eq.keeps_object pending_eq.keeps_object
  stabilityDeposit_eq.keeps_object bammDeposit_eq.keeps_object fees_eq.keeps_object

lemma updateFees_eq [store_simps]:
  "val (updateFees p n) = (case n of None \<Rightarrow> val p | Some x \<Rightarrow> val x)"
  "updateFees p n = p \<or> val (updateFees p n) \<noteq> val p"
  by (auto simp: updateFees_def Fees_equals_iff split: option.splits)

lemma updateIfChanged_strict [store_simps]: "updateIfChanged strictEquals p n = coalesce n p"
  by (auto simp: updateIfChanged_def strictEquals_def split: option.splits)

section \<open>State changes\<close>

text \<open>The value of a property without the identity of its object.\<close>

fun valueOf :: "jsValue \<Rightarrow> jsValue" where
  "valueOf (VDecimal x) = VDecimal (Obj 0 (val x))"
| "valueOf (VTrove x) = VTrove (Obj 0 (val x))"
| "valueOf (VPending x) = VPending (Obj 0 (val x))"
| "valueOf (VUserTrove x) = VUserTrove (Obj 0 (val x))"
| "valueOf (VStabilityDeposit x) = VStabilityDeposit (Obj 0 (val x))"
| "valueOf (VBammDeposit x) = VBammDeposit (Obj 0 (val x))"
| "valueOf (VFees x) = VFees (Obj 0 (val x))"
| "valueOf v = v"

text \<open>An entry and its successor: the same object, or one with another value.\<close>

definition succ_entry :: "string \<times> jsValue \<Rightarrow> string \<times> jsValue \<Rightarrow> bool" where
  "succ_entry e e' \<longleftrightarrow> fst e' = fst e \<and> (snd e' = snd e \<or> valueOf (snd e') \<noteq> valueOf (snd e))"

lemma succ_entry_obj:
  "x' = x \<or> val x' \<noteq> val x \<Longrightarrow> succ_entry (k, VDecimal x) (k, VDecimal x')"
  "y' = y \<or> val y' \<noteq> val y \<Longrightarrow> succ_entry (k, VTrove y) (k, VTrove y')"
  "z' = z \<or> val z' \<noteq> val z \<Longrightarrow> succ_entry (k, VPending z) (k, VPending z')"
  "u' = u \<or> val u' \<noteq> val u \<Longrightarrow> succ_entry (k, VUserTrove u) (k, VUserTrove u')"
  "d' = d \<or> val d' \<noteq> val d \<Longrightarrow> succ_entry (k, VStabilityDeposit d) (k, VStabilityDeposit d')"
  "b' = b \<or> val b' \<noteq> val b \<Longrightarrow> succ_entry (k, VBammDeposit b) (k, VBammDeposit b')"
  "f' = f \<or> val f' \<noteq> val f \<Longrightarrow> succ_entry (k, VFees f) (k, VFees f')"
  "succ_entry (k, VNumber m) (k, VNumber m')"
  "succ_entry (k, VBool c) (k, VBool c')"
  "succ_entry (k, VString w) (k, VString w')"
  by (auto simp: succ_entry_def)

lemma succ_entry_refl: "succ_entry e e"
  by (simp add: succ_entry_def)

lemma reduce_entries: "list_all2 succ_entry (base_entries b) (base_entries (reduce b u))"
  unfolding base_entries_def reduce_def baseState.select_convs
  by (intro list.rel_intros succ_entry_obj keeps_objects)

lemma reduceDerived_entries: "list_all2 succ_entry (derived_entries d) (derived_entries (reduceDerived d u))"
  unfolding derived_entries_def reduceDerived_def derivedState.select_convs
  by (intro list.rel_intros succ_entry_obj keeps_objects updateFees_eq)

lemma succ_entries_map_of:
  "list_all2 succ_entry xs ys \<Longrightarrow>
     (case map_of ys k of
        None \<Rightarrow> map_of xs k = None
      | Some v' \<Rightarrow> \<exists>v. map_of xs k = Some v \<and> (v' = v \<or> valueOf v' \<noteq> valueOf v))"
  by (induction xs ys rule: list_all2_induct) (auto simp: succ_entry_def split: option.splits)

text \<open>\<open>Object.assign\<close> as an operation on maps.\<close>

lemma map_of_put: "map_of (put m (k, v)) = (map_of m)(k \<mapsto> v)"
  by (induction m "(k, v)" rule: put.induct) (auto simp: fun_eq_iff)

lemma keys_put: "fst ` set (put m kv) = insert (fst kv) (fst ` set m)"
  by (induction m kv rule: put.induct) auto

lemma distinct_put: "distinct (map fst m) \<Longrightarrow> distinct (map fst (put m kv))"
  by (induction m kv rule: put.induct) (auto simp: keys_put)

lemma map_of_assign: "map_of (assign m src) = map_of m ++ map_of (rev src)"
  unfolding assign_def
  by (induction src rule: rev_induct)
     (auto simp: map_of_put map_add_def intro!: ext split: option.splits)

lemma distinct_assign: "distinct (map fst m) \<Longrightarrow> distinct (map fst (assign m src))"
  unfolding assign_def by (induction src rule: rev_induct) (auto simp: distinct_put)

definition store_keys :: "string list" where
  "store_keys =
     [''numberOfTroves'', ''accountBalance'', ''thusdBalance'', ''erc20TokenBalance'',
      ''erc20TokenAllowance'', ''isStabilityPools'', ''isBorrowerOperations'',
      ''isTroveManager'', ''collateralSurplusBalance'', ''price'', ''marketPrice'',
      ''piRedemptionRate'', ''deviationFactor'', ''thusdInStabilityPool'', ''pcvBalance'',
      ''total'', ''totalRedistributed'', ''troveBeforeRedistribution'', ''symbol'',
      ''collateralAddress'', ''stableAddress'', ''stabilityDeposit'', ''bammDeposit'',
      ''mintList'', ''_feesInNormalMode'', ''_riskiestTroveBeforeRedistribution'', ''trove'',
      ''fees'', ''borrowingRate'', ''redemptionRate'', ''haveUndercollateralizedTroves'']"

lemma store_keys: "map fst (base_entries b) @ map fst (derived_entries d) = store_keys"
  by (simp add: base_entries_def derived_entries_def store_keys_def)

lemma distinct_store_keys: "distinct store_keys"
  unfolding store_keys_def by simp

lemma map_of_rev: "distinct (map fst m) \<Longrightarrow> map_of (rev m) = map_of m"
  by (metis distinct_rev map_of_inject_set rev_map set_rev)

lemma map_of_outside: "k \<notin> set (map fst m) \<Longrightarrow> map_of (rev m) k = None"
  by (auto simp: map_of_eq_None_iff)

lemma map_of_store_state:
  assumes "baseStateOf s = Some b" and "derivedStateOf s = Some d"
    and "\<forall>x. extraStateOf s = Some x \<longrightarrow> k \<notin> set (map fst (extra_entries cls x))"
  shows "map_of (store_state cls s) k = map_of (base_entries b @ derived_entries d) k"
proof -
  have "distinct (map fst (base_entries b))" "distinct (map fst (derived_entries d))"
    and disj: "set (map fst (base_entries b)) \<inter> set (map fst (derived_entries d)) = {}"
    using distinct_store_keys store_keys [of b d] by (metis distinct_append)+
  note rev = this(1,2) [THEN map_of_rev]
  have "map_of (store_state cls s) k = (map_of (base_entries b) ++ map_of (derived_entries d)) k"
    using assms by (auto simp: store_state_def map_of_assign rev map_of_outside map_add_def
        split: option.splits)
  also have "\<dots> = (map_of (derived_entries d) ++ map_of (base_entries b)) k"
    using disj by (subst map_add_comm) (auto simp: dom_map_of_conv_image_fst)
  finally show ?thesis by simp
qed

lemma distinct_store_state: "distinct (map fst (store_state cls s))"
  by (simp add: store_state_def distinct_assign)

lemma difference_keys:
  assumes "distinct (map fst a)"
  shows "k \<in> set (map fst (difference a b)) \<longleftrightarrow> (\<exists>v. map_of a k = Some v \<and> v \<noteq> property b k)"
  using assms by (force simp: difference_def)


section \<open>The successful update\<close>

text \<open>What a successful call of \<open>update\<close> does, in one equation for the state it leaves.\<close>

lemma scheduleUpdate_fields [simp]:
  "loaded (scheduleUpdate s) = loaded s" "baseStateOf (scheduleUpdate s) = baseStateOf s"
  "derivedStateOf (scheduleUpdate s) = derivedStateOf s" "extraStateOf (scheduleUpdate s) = extraStateOf s"
  "listeners (scheduleUpdate s) = listeners s" "nextListener (scheduleUpdate s) = nextListener s"
  by (simp_all add: scheduleUpdate_def cancelUpdateIfScheduled_def Let_def split: option.splits)

lemma perform_fields [simp]:
  "baseStateOf (perform s op) = baseStateOf s" "derivedStateOf (perform s op) = derivedStateOf s"
  "extraStateOf (perform s op) = extraStateOf s" "loaded (perform s op) = loaded s"
  "timers (perform s op) = timers s" "updateTimeoutId (perform s op) = updateTimeoutId s"
  "nextTimer (perform s op) = nextTimer s"
  by (cases op; simp add: subscribe_def unsubscribe_def Let_def)+

lemma foldl_perform_fields [simp]:
  "baseStateOf (foldl perform s ops) = baseStateOf s"
  "derivedStateOf (foldl perform s ops) = derivedStateOf s"
  "extraStateOf (foldl perform s ops) = extraStateOf s" "loaded (foldl perform s ops) = loaded s"
  "timers (foldl perform s ops) = timers s" "updateTimeoutId (foldl perform s ops) = updateTimeoutId s"
  "nextTimer (foldl perform s ops) = nextTimer s"
  by (induction ops arbitrary: s) simp_all

lemma notify_loop_fields:
  "notify_loop react params copy s = (s', calls) \<Longrightarrow>
     baseStateOf s' = baseStateOf s \<and> derivedStateOf s' = derivedStateOf s \<and>
     extraStateOf s' = extraStateOf s \<and> loaded s' = loaded s \<and> timers s' = timers s \<and>
     updateTimeoutId s' = updateTimeoutId s \<and> nextTimer s' = nextTimer s"
  by (induction copy arbitrary: s s' calls) (auto simp: Let_def split: if_splits prod.splits)

lemma store_state_cong:
  "baseStateOf s' = baseStateOf s \<Longrightarrow> derivedStateOf s' = derivedStateOf s \<Longrightarrow>
     extraStateOf s' = extraStateOf s \<Longrightarrow> store_state cls s' = store_state cls s"
  by (simp add: store_state_def)

lemma finishUpdate_eq:
  assumes "finishUpdate cls react old t = (r, s')"
  shows "baseStateOf s' = baseStateOf t \<and> derivedStateOf s' = derivedStateOf t \<and>
    extraStateOf s' = extraStateOf t \<and> loaded s' = loaded t \<and>
    timers s' = timers (scheduleUpdate t) \<and> updateTimeoutId s' = updateTimeoutId (scheduleUpdate t) \<and>
    nextTimer s' = nextTimer (scheduleUpdate t) \<and>
    (\<exists>calls params. r = Inr (params, calls) \<and>
       params = \<lparr>newState = store_state cls s', oldState = old,
                 stateChange = difference (store_state cls s') old\<rparr> \<and>
       notify react params (scheduleUpdate t) = (s', calls))"
proof -
  let ?p = "\<lparr>newState = store_state cls (scheduleUpdate t), oldState = old,
             stateChange = difference (store_state cls (scheduleUpdate t)) old\<rparr>"
  obtain calls where n: "notify react ?p (scheduleUpdate t) = (s', calls)" and r: "r = Inr (?p, calls)"
    using assms by (auto simp: finishUpdate_def Let_def split: prod.splits)
  note f = notify_loop_fields [OF n [unfolded notify_def]]
  then have "store_state cls s' = store_state cls (scheduleUpdate t)"
    by (intro store_state_cong) auto
  with f n r show ?thesis by auto
qed

lemma update_success:
  assumes "update cls react bu xu s = (Inr (params, calls), s')"
  obtains b d d' n b' where
    "baseStateOf s = Some b" "derivedStateOf s = Some d"
    "b' = (case bu of None \<Rightarrow> b | Some u \<Rightarrow> reduce b u)" "derive n b' = Inr d'"
    "baseStateOf s' = Some b'" "derivedStateOf s' = Some (reduceDerived d d')"
    "oldState params = store_state cls s" "newState params = store_state cls s'"
    "stateChange params = difference (store_state cls s') (store_state cls s)"
    "loaded s' = loaded s" "xu = None \<Longrightarrow> extraStateOf s' = extraStateOf s"
proof -
  obtain b d where bd: "baseStateOf s = Some b" "derivedStateOf s = Some d"
    using assms by (auto simp: update_def split: option.splits)
  define b' where "b' = (case bu of None \<Rightarrow> b | Some u \<Rightarrow> reduce b u)"
  obtain d' where d': "derive (nextId s) b' = Inr d'"
    using assms bd by (cases "derive (nextId s) b'") (auto simp: update_def Let_def b'_def)
  obtain t where t: "finishUpdate cls react (store_state cls s) t = (Inr (params, calls), s')"
    "baseStateOf t = Some b'" "derivedStateOf t = Some (reduceDerived d d')" "loaded t = loaded s"
    "xu = None \<Longrightarrow> extraStateOf t = extraStateOf s"
    using assms bd d' by (auto simp: update_def Let_def b'_def split: option.splits)
  from finishUpdate_eq [OF t(1)] show thesis
    by (intro that [OF bd b'_def d']) (use t in auto)
qed


lemma base_entries_step:
  "list_all2 succ_entry (base_entries b) (base_entries (case bu of None \<Rightarrow> b | Some u \<Rightarrow> reduce b u))"
  by (cases bu) (simp_all add: reduce_entries list_all2_refl succ_entry_refl)

text \<open>C10: the notification is exact: for each of the store's own variables, the \<open>stateChange\<close> passed
  to listeners has the variable exactly when its new value differs from its old one, as the
  \<open>equals\<close> method of its class sees it; an object that was read again with the same value is not
  reported.\<close>

theorem stateChange_exact:
  assumes upd: "update cls react bu xu s = (Inr (params, calls), s')"
    and k: "k \<in> set store_keys" and extra: "\<forall>x. k \<notin> set (map fst (extra_entries cls x))"
  shows "k \<in> set (map fst (stateChange params)) \<longleftrightarrow>
    valueOf (property (newState params) k) \<noteq> valueOf (property (oldState params) k)"
proof -
  from upd obtain b d d' b' where s: "baseStateOf s = Some b" "derivedStateOf s = Some d"
    and b': "b' = (case bu of None \<Rightarrow> b | Some u \<Rightarrow> reduce b u)"
    and s': "baseStateOf s' = Some b'" "derivedStateOf s' = Some (reduceDerived d d')"
    and p: "oldState params = store_state cls s" "newState params = store_state cls s'"
      "stateChange params = difference (store_state cls s') (store_state cls s)"
    by (rule update_success)
  let ?old = "base_entries b @ derived_entries d"
    and ?new = "base_entries b' @ derived_entries (reduceDerived d d')"
  have "list_all2 succ_entry ?old ?new"
    unfolding b' by (intro list_all2_appendI base_entries_step reduceDerived_entries)
  from succ_entries_map_of [OF this, of k]
  have succ: "case map_of ?new k of None \<Rightarrow> map_of ?old k = None
    | Some v' \<Rightarrow> \<exists>v. map_of ?old k = Some v \<and> (v' = v \<or> valueOf v' \<noteq> valueOf v)" .
  have "k \<in> set (map fst ?new)" using k store_keys [of b'] by (metis map_append)
  then obtain v' where v': "map_of ?new k = Some v'" by (metis map_of_eq_None_iff not_None_eq set_map)
  from succ [unfolded v' option.case]
  obtain v where v: "map_of ?old k = Some v" "v' = v \<or> valueOf v' \<noteq> valueOf v" by blast
  have m: "map_of (store_state cls s) k = Some v" "map_of (store_state cls s') k = Some v'"
    using map_of_store_state [OF s, of k cls] map_of_store_state [OF s', of k cls] extra v v' by auto
  have "k \<in> set (map fst (stateChange params)) \<longleftrightarrow> v' \<noteq> v"
    unfolding p(3) difference_keys [OF distinct_store_state] property_def m by simp
  with v(2) show ?thesis by (auto simp: p property_def m)
qed

lemma update_twice [store_simps]:
  "updateIfChanged eq (updateIfChanged eq p n) n = updateIfChanged eq p n"
  "silentlyUpdateIfChanged eq (silentlyUpdateIfChanged eq p n) n = silentlyUpdateIfChanged eq p n"
  by (auto simp: updateIfChanged_def silentlyUpdateIfChanged_def split: option.splits)

lemma reduce_idem: "reduce (reduce b u) u = reduce b u"
  by (simp add: reduce_def update_twice)

text \<open>Derived states with the same values, the objects aside.\<close>

definition same_derived :: "derivedState \<Rightarrow> derivedState \<Rightarrow> bool" where
  "same_derived d d' \<longleftrightarrow>
     val (trove d) = val (trove d') \<and> val (currentFees d) = val (currentFees d') \<and>
     val (borrowingRate d) = val (borrowingRate d') \<and>
     val (redemptionRate d) = val (redemptionRate d') \<and>
     haveUndercollateralizedTroves d = haveUndercollateralizedTroves d'"

lemma derive_same: "derive n b = Inr d \<Longrightarrow> derive m b = Inr d' \<Longrightarrow> same_derived d d'"
  by (auto simp: derive_def bindR_Inr_iff same_derived_def)

lemma reduceDerived_same: "same_derived (reduceDerived d d') d'"
  by (simp add: same_derived_def reduceDerived_def store_simps)

lemma reduceDerived_keeps: "same_derived d d' \<Longrightarrow> reduceDerived d d' = d"
  by (cases d) (simp add: same_derived_def reduceDerived_def store_simps updateFees_def
      decimal_eq.update_same userTrove_eq.update_same Fees_equals_iff)

lemma same_derived_trans: "same_derived a b \<Longrightarrow> same_derived b c \<Longrightarrow> same_derived a c"
  by (simp add: same_derived_def)

lemma difference_self: "distinct (map fst m) \<Longrightarrow> difference m m = []"
  by (auto simp: difference_def property_def filter_empty_conv)

text \<open>updates are idempotent: repeating an update changes nothing more, and the second
  notification carries an empty \<open>stateChange\<close>.\<close>

theorem update_idempotent:
  assumes "update cls react (Some u) None s = (Inr (params, calls), s')"
    and "update cls react' (Some u) None s' = (Inr (params', calls'), s'')"
  shows "store_state cls s'' = store_state cls s' \<and> stateChange params' = []"
proof -
  from assms(1) obtain b d d1 n where s': "derive n (reduce b u) = Inr d1"
    "baseStateOf s' = Some (reduce b u)" "derivedStateOf s' = Some (reduceDerived d d1)"
    by (rule update_success) auto
  from assms(2) obtain d2 m where s'': "derive m (reduce b u) = Inr d2"
    "baseStateOf s'' = Some (reduce b u)"
    "derivedStateOf s'' = Some (reduceDerived (reduceDerived d d1) d2)"
    "extraStateOf s'' = extraStateOf s'"
    and change: "stateChange params' = difference (store_state cls s'') (store_state cls s')"
    by (rule update_success) (use s' in \<open>auto simp: reduce_idem\<close>)
  have "reduceDerived (reduceDerived d d1) d2 = reduceDerived d d1"
    using derive_same [OF s'(1) s''(1)] reduceDerived_same
    by (intro reduceDerived_keeps) (rule same_derived_trans)
  then have "store_state cls s'' = store_state cls s'"
    using s' s'' by (intro store_state_cong) auto
  with change show ?thesis by (simp add: difference_self distinct_store_state)
qed


section \<open>Reachable stores\<close>

text \<open>
  The fees of a base state were built by the constructor, and the chain's last fee operation is
  not \<open>2 ^ 32\<close> minutes old.
\<close>

definition timely :: "fees obj \<Rightarrow> bool" where
  "timely f \<longleftrightarrow> Fees_valid (val f) \<and> minutesSinceLastFeeOperation (val f) None \<le> 0xffffffff"

definition timely_update :: "baseStateUpdate option \<Rightarrow> bool" where
  "timely_update bu \<longleftrightarrow>
     (case bu of None \<Rightarrow> True
      | Some u \<Rightarrow> (case newFeesInNormalMode u of None \<Rightarrow> True | Some f \<Rightarrow> timely f))"

definition new_store :: "bool \<Rightarrow> 'x store" where
  "new_store onLoaded =
     \<lparr>loaded = False, hasOnLoaded = onLoaded, onLoadedCalls = 0, baseStateOf = None,
      derivedStateOf = None, extraStateOf = None, updateTimeoutId = None, timers = [], nextTimer = 0,
      listeners = [], nextListener = 0, nextId = 0\<rparr>"

text \<open>
  The stores a client can bring about: the first load and later updates by the subclass, whether
  they throw or not, a timeout, (un)subscriptions, the stopping of the store, and the creation of
  objects by others.
\<close>

inductive reachable :: "('x, 'u) extraClass \<Rightarrow> 'x store \<Rightarrow> bool" for cls where
  reach_new: "reachable cls (new_store onLoaded)"
| reach_load: "reachable cls s \<Longrightarrow> timely (feesInNormalMode b) \<Longrightarrow> load b x s = (r, s') \<Longrightarrow> reachable cls s'"
| reach_update: "reachable cls s \<Longrightarrow> timely_update bu \<Longrightarrow> update cls react bu xu s = (r, s') \<Longrightarrow>
    reachable cls s'"
| reach_timer: "reachable cls s \<Longrightarrow> i \<in> set (timers s) \<Longrightarrow> fireTimer cls react i s = (r, s') \<Longrightarrow>
    reachable cls s'"
| reach_perform: "reachable cls s \<Longrightarrow> reachable cls (perform s op)"
| reach_stop: "reachable cls s \<Longrightarrow> reachable cls (cancelUpdateIfScheduled s)"
| reach_alloc: "reachable cls s \<Longrightarrow> nextId s \<le> n \<Longrightarrow> reachable cls (s\<lparr>nextId := n\<rparr>)"

definition timers_ok :: "'x store \<Rightarrow> bool" where
  "timers_ok s \<longleftrightarrow> timers s = [] \<or> (\<exists>i. updateTimeoutId s = Some i \<and> timers s = [i])"

definition state_ok :: "'x store \<Rightarrow> bool" where
  "state_ok s \<longleftrightarrow>
     (case (baseStateOf s, derivedStateOf s) of
        (None, None) \<Rightarrow> \<not> loaded s
      | (Some b, Some d) \<Rightarrow> loaded s \<and> timely (feesInNormalMode b) \<and>
          (\<exists>n d'. derive n b = Inr d' \<and> same_derived d d')
      | _ \<Rightarrow> False)"

definition listeners_ok :: "'x store \<Rightarrow> bool" where
  "listeners_ok s \<longleftrightarrow> distinct (listeners s) \<and> (\<forall>l\<in>set (listeners s). l < nextListener s)"

lemma derive_defined:
  assumes "timely (feesInNormalMode b)"
  shows "\<exists>d. derive n b = Inr d"
proof -
  define f where "f = (val (feesInNormalMode b))\<lparr>recoveryMode :=
    Trove_collateralRatioIsBelowCritical (val (total_trove b)) (val (price b))\<rparr>"
  have f: "Fees_setRecoveryMode (val (feesInNormalMode b))
      (Trove_collateralRatioIsBelowCritical (val (total_trove b)) (val (price b))) = Inr f"
    using assms by (simp add: timely_def Fees_setRecoveryMode_eq f_def)
  have "minutesSinceLastFeeOperation f None \<le> 0xffffffff"
    using assms by (simp add: timely_def f_def minutesSinceLastFeeOperation_def)
  then obtain r where r: "Fees_baseRate f None = Inr r"
    by (cases f "None :: date option" rule: baseRate_cases) auto
  have redist: "\<exists>v. applyRedistribution t m = Inr v" for t :: troveWithPendingRedistribution and m :: trove
    by (simp add: applyRedistribution_def Trove_subtract_def sub_or_zero_def Let_def Decimal_gt_def)
  show ?thesis
    using redist [of "val (troveBeforeRedistribution b)" "val (totalRedistributed b)"]
      redist [of "val (riskiestTroveBeforeRedistribution b)" "val (totalRedistributed b)"] r
    by (auto simp: derive_def f Fees_borrowingRate_def Fees_redemptionRate_def Let_def)
qed

lemma timers_ok_schedule: "timers_ok s \<Longrightarrow> timers_ok (scheduleUpdate s) \<and> length (timers (scheduleUpdate s)) = 1"
  by (auto simp: timers_ok_def scheduleUpdate_def cancelUpdateIfScheduled_def Let_def
      split: option.splits)


lemma timers_ok_cong: "timers s' = timers s \<Longrightarrow> updateTimeoutId s' = updateTimeoutId s \<Longrightarrow> timers_ok s' = timers_ok s"
  by (simp add: timers_ok_def)

lemma state_ok_cong:
  "baseStateOf s' = baseStateOf s \<Longrightarrow> derivedStateOf s' = derivedStateOf s \<Longrightarrow> loaded s' = loaded s \<Longrightarrow>
     state_ok s' = state_ok s"
  by (simp only: state_ok_def)

lemma finishUpdate_ok:
  assumes "finishUpdate cls react old t = (r, s')"
  shows "state_ok s' = state_ok t" and "timers_ok t \<Longrightarrow> timers_ok s' \<and> length (timers s') = 1"
proof -
  note f = finishUpdate_eq [OF assms]
  from f show "state_ok s' = state_ok t" by (intro state_ok_cong) blast+
  assume "timers_ok t"
  from timers_ok_schedule [OF this] show "timers_ok s' \<and> length (timers s') = 1"
    using f timers_ok_cong [of s' "scheduleUpdate t"] by simp
qed

lemma reduce_timely:
  "timely (feesInNormalMode b) \<Longrightarrow> timely_update (Some u) \<Longrightarrow> timely (feesInNormalMode (reduce b u))"
  by (auto simp: timely_def timely_update_def reduce_def store_simps split: option.splits)

text \<open>An update of a loaded store either succeeds, leaving one pending timeout, or fails because
  there is no extra state to update; the invariants hold afterwards in both cases.\<close>

lemma update_ok:
  assumes st: "state_ok s" and tm: "timers_ok s" and bu: "timely_update bu"
    and upd: "update cls react bu xu s = (r, s')"
  shows "state_ok s' \<and> timers_ok s' \<and>
    (case r of
       Inr _ \<Rightarrow> length (timers s') = 1
     | Inl e \<Rightarrow> e = AssertionError \<and> (\<not> loaded s \<or> xu \<noteq> None \<and> extraStateOf s = None))"
proof (cases "baseStateOf s")
  case None
  then show ?thesis using assms by (auto simp: update_def state_ok_def split: option.splits)
next
  case (Some b)
  then obtain d where d: "derivedStateOf s = Some d" and ld: "loaded s"
    and fee: "timely (feesInNormalMode b)" using st by (auto simp: state_ok_def split: option.splits)
  define b' where "b' = (case bu of None \<Rightarrow> b | Some u \<Rightarrow> reduce b u)"
  have tb: "timely (feesInNormalMode b')"
    using fee bu reduce_timely by (auto simp: b'_def split: option.splits)
  then obtain d' where d': "derive (nextId s) b' = Inr d'" using derive_defined by blast
  define t where "t = s\<lparr>baseStateOf := Some b', derivedStateOf := Some (reduceDerived d d'),
    nextId := nextId s + 4\<rparr>"
  have ok: "state_ok (t\<lparr>extraStateOf := x\<rparr>)" "timers_ok (t\<lparr>extraStateOf := x\<rparr>)" for x
    using d' tb ld reduceDerived_same tm by (auto simp: t_def state_ok_def timers_ok_def)
  have t: "t\<lparr>extraStateOf := extraStateOf s\<rparr> = t" by (simp add: t_def)
  consider x where "finishUpdate cls react (store_state cls s) (t\<lparr>extraStateOf := x\<rparr>) = (r, s')"
    | "xu \<noteq> None" "extraStateOf s = None" "r = Inl AssertionError" "s' = t"
  proof (cases xu)
    case None
    then have "finishUpdate cls react (store_state cls s) (t\<lparr>extraStateOf := extraStateOf s\<rparr>) = (r, s')"
      using upd Some d d' unfolding t by (simp add: update_def Let_def b'_def t_def)
    then show ?thesis by (rule that(1))
  next
    case xu: (Some u)
    show ?thesis
    proof (cases "extraStateOf s")
      case None
      then show ?thesis
        using upd Some d d' xu by (intro that(2)) (simp_all add: update_def Let_def b'_def t_def)
    next
      case (Some x)
      have "finishUpdate cls react (store_state cls s) (t\<lparr>extraStateOf := Some (reduceExtra cls x u)\<rparr>) = (r, s')"
        using upd \<open>baseStateOf s = Some b\<close> d d' xu Some by (simp add: update_def Let_def b'_def t_def)
      then show ?thesis by (rule that(1))
    qed
  qed
  then show ?thesis
  proof cases
    case (1 x)
    with finishUpdate_ok [OF 1] ok finishUpdate_eq [OF 1] show ?thesis by auto
  next
    case 2
    with ok [of "extraStateOf s"] t show ?thesis by simp
  qed
qed

lemma load_ok:
  assumes "state_ok s" and "timers_ok s" and "timely (feesInNormalMode b)" and "load b x s = (r, s')"
  shows "state_ok s' \<and> timers_ok s'"
proof (cases "loaded s")
  case True
  then show ?thesis using assms by (simp add: load_def)
next
  case False
  obtain d where d: "derive (nextId s) b = Inr d" using derive_defined [OF assms(3)] by blast
  define t where "t = scheduleUpdate (s\<lparr>baseStateOf := Some b, derivedStateOf := Some d,
    extraStateOf := x, loaded := True, nextId := nextId s + 4\<rparr>)"
  have "timers_ok t" unfolding t_def
    by (rule timers_ok_schedule [THEN conjunct1]) (use assms(2) in \<open>simp add: timers_ok_def\<close>)
  moreover have "state_ok t"
    using d assms(3) by (auto simp: t_def state_ok_def same_derived_def)
  moreover have s': "s' = t \<or> s' = t\<lparr>onLoadedCalls := Suc (onLoadedCalls t)\<rparr>"
    using assms(4) False d by (auto simp: load_def Let_def t_def split: if_splits)
  then have "state_ok s' = state_ok t" by (intro state_ok_cong) auto
  moreover from s' have "timers_ok s' = timers_ok t" by (intro timers_ok_cong) auto
  ultimately show ?thesis by simp
qed

lemma perform_ok: "state_ok (perform s op) = state_ok s" "timers_ok (perform s op) = timers_ok s"
  by (rule state_ok_cong; simp) (simp add: timers_ok_def)

lemma fireTimer_ok:
  assumes "state_ok s" and "timers_ok s" and "i \<in> set (timers s)" and "fireTimer cls react i s = (r, s')"
  shows "state_ok s' \<and> timers_ok s'"
proof -
  let ?t = "s\<lparr>timers := removeAll i (timers s), updateTimeoutId := None\<rparr>"
  have "state_ok ?t" using assms(1) by (subst state_ok_cong [of _ s]) simp_all
  moreover have "timers_ok ?t" using assms(2,3) by (auto simp: timers_ok_def)
  ultimately show ?thesis
    using update_ok [of ?t None cls react None r s'] assms(4)
    by (simp add: fireTimer_def timely_update_def)
qed

lemma cancel_ok: "state_ok (cancelUpdateIfScheduled s) = state_ok s"
    "timers_ok s \<Longrightarrow> timers_ok (cancelUpdateIfScheduled s)"
  by (rule state_ok_cong; simp add: cancelUpdateIfScheduled_def split: option.splits)
     (auto simp: cancelUpdateIfScheduled_def timers_ok_def split: option.splits)

lemma new_store_ok: "state_ok (new_store c)" "timers_ok (new_store c)"
  by (simp_all add: new_store_def state_ok_def timers_ok_def)

lemma alloc_ok: "state_ok (s\<lparr>nextId := n\<rparr>) = state_ok s" "timers_ok (s\<lparr>nextId := n\<rparr>) = timers_ok s"
    "listeners_ok (s\<lparr>nextId := n\<rparr>) = listeners_ok s"
  by (rule state_ok_cong; simp) (simp_all add: timers_ok_def listeners_ok_def)

lemma reachable_ok: "reachable cls s \<Longrightarrow> state_ok s \<and> timers_ok s"
proof (induction rule: reachable.induct)
  case (reach_timer s i react r s')
  then show ?case using fireTimer_ok by blast
qed (auto simp: new_store_ok perform_ok cancel_ok alloc_ok dest: load_ok update_ok simp del: perform.simps)

text \<open>C2: in every reachable store at most one refresh is pending, the store is loaded exactly when
  it has base and derived state, and the derived state has exactly the values that \<open>_derive\<close>
  computes from the current base state.\<close>

theorem store_invariant:
  assumes "reachable cls s"
  shows "length (timers s) \<le> 1 \<and>
    (loaded s \<longleftrightarrow> baseStateOf s \<noteq> None) \<and> (loaded s \<longleftrightarrow> derivedStateOf s \<noteq> None) \<and>
    (case (baseStateOf s, derivedStateOf s) of
       (Some b, Some d) \<Rightarrow> \<exists>d'. derive (nextId s) b = Inr d' \<and> same_derived d d'
     | _ \<Rightarrow> True)"
proof -
  note ok = reachable_ok [OF assms]
  have "length (timers s) \<le> 1" using ok by (auto simp: timers_ok_def)
  moreover have "\<exists>d'. derive (nextId s) b = Inr d' \<and> same_derived d d'"
    if "baseStateOf s = Some b" "derivedStateOf s = Some d" for b d
  proof -
    from ok that obtain n e where e: "derive n b = Inr e" "same_derived d e" "timely (feesInNormalMode b)"
      by (auto simp: state_ok_def)
    then obtain d' where d': "derive (nextId s) b = Inr d'" using derive_defined by blast
    with derive_same [OF e(1) this] e(2) same_derived_trans show ?thesis by blast
  qed
  ultimately show ?thesis using ok by (auto simp: state_ok_def split: option.splits)
qed

text \<open>an update of a reachable loaded store always goes through: it never throws, unless extra
  state is updated in a store that was loaded without any, and it leaves exactly one refresh
  pending.\<close>

theorem update_succeeds:
  assumes "reachable cls s" and "loaded s" and "timely_update bu" and "xu = None \<or> extraStateOf s \<noteq> None"
    and "update cls react bu xu s = (r, s')"
  shows "(\<exists>params calls. r = Inr (params, calls)) \<and> length (timers s') = 1"
proof -
  have "case r of Inr _ \<Rightarrow> length (timers s') = 1
     | Inl e \<Rightarrow> e = AssertionError \<and> (\<not> loaded s \<or> xu \<noteq> None \<and> extraStateOf s = None)"
    using update_ok [OF _ _ assms(3,5)] reachable_ok [OF assms(1)] by simp
  with assms show ?thesis by (cases r) auto
qed

section \<open>Notification\<close>

lemma perform_listeners:
  "set (listeners (perform s op)) \<subseteq> insert (nextListener s) (set (listeners s))"
  "nextListener s \<le> nextListener (perform s op)"
  "l \<noteq> nextListener s \<Longrightarrow>
     l \<in> set (listeners (perform s op)) \<longleftrightarrow> l \<in> set (listeners s) \<and> op \<noteq> Unsubscribe l"
  by (cases op; auto simp: subscribe_def unsubscribe_def Let_def)+

text \<open>Listeners with a smaller number than the next one can only be removed.\<close>

lemma foldl_perform_listeners:
  "l < nextListener s \<Longrightarrow>
     (l \<in> set (listeners (foldl perform s ops)) \<longleftrightarrow> l \<in> set (listeners s) \<and> Unsubscribe l \<notin> set ops) \<and>
     nextListener s \<le> nextListener (foldl perform s ops)"
proof (induction ops arbitrary: s)
  case (Cons op ops)
  have "l < nextListener (perform s op)" using Cons.prems perform_listeners(2) [of s op] by simp
  from Cons.IH [OF this] show ?case
    using Cons.prems perform_listeners(3) [of l s op] perform_listeners(2) [of s op] by auto
qed simp

text \<open>
  The listeners of the copy that are called: those still subscribed and not unsubscribed by one
  called before.
\<close>

fun called :: "(nat \<Rightarrow> listenerParams \<Rightarrow> listenerOp list) \<Rightarrow> listenerParams \<Rightarrow> nat set \<Rightarrow> nat list \<Rightarrow> nat list" where
  "called react params removed [] = []"
| "called react params removed (l # copy) =
     (if l \<in> removed then called react params removed copy
      else l # called react params (removed \<union> {m. Unsubscribe m \<in> set (react l params)}) copy)"

lemma notify_loop_called:
  "notify_loop react params copy s = (s', calls) \<Longrightarrow> \<forall>l\<in>set copy. l < nextListener s \<Longrightarrow>
     \<forall>l\<in>set copy. l \<in> set (listeners s) \<longleftrightarrow> l \<notin> removed \<Longrightarrow>
     calls = called react params removed copy"
proof (induction copy arbitrary: s removed calls)
  case (Cons l copy)
  show ?case
  proof (cases "l \<in> removed")
    case True
    then show ?thesis using Cons.prems Cons.IH [of s calls removed] by auto
  next
    case False
    let ?s = "foldl perform s (react l params)"
    obtain c where c: "notify_loop react params copy ?s = (s', c)" "calls = l # c"
      using Cons.prems False by (auto split: prod.splits)
    have "\<forall>m\<in>set copy. m < nextListener ?s \<and>
        (m \<in> set (listeners ?s) \<longleftrightarrow> m \<notin> removed \<union> {m. Unsubscribe m \<in> set (react l params)})"
      using Cons.prems(2,3) foldl_perform_listeners [of _ s "react l params"] by fastforce
    then have "c = called react params (removed \<union> {m. Unsubscribe m \<in> set (react l params)}) copy"
      using Cons.IH [OF c(1)] by blast
    with False c(2) show ?thesis by simp
  qed
qed simp


lemma called_subset: "set (called react params removed copy) \<subseteq> set copy - removed"
  by (induction react params removed copy rule: called.induct) auto

lemma called_distinct: "distinct copy \<Longrightarrow> distinct (called react params removed copy)"
  using called_subset by (induction react params removed copy rule: called.induct) fastforce+

lemma called_split:
  "distinct (xs @ l # ys) \<Longrightarrow> c = called react params removed (xs @ l # ys) \<Longrightarrow>
     l \<in> set c \<longleftrightarrow> l \<notin> removed \<and> (\<forall>l'\<in>set c \<inter> set xs. Unsubscribe l \<notin> set (react l' params))"
proof (induction xs arbitrary: removed c)
  case Nil
  then show ?case using called_subset [of react params removed ys] by auto
next
  case (Cons x xs)
  let ?removed = "if x \<in> removed then removed else removed \<union> {m. Unsubscribe m \<in> set (react x params)}"
  let ?c = "called react params ?removed (xs @ l # ys)"
  have "x \<notin> set ?c" using Cons.prems called_subset [of react params ?removed "xs @ l # ys"] by auto
  moreover have "l \<in> set ?c \<longleftrightarrow> l \<notin> ?removed \<and> (\<forall>l'\<in>set ?c \<inter> set xs. Unsubscribe l \<notin> set (react l' params))"
    using Cons.IH [OF _ refl, of ?removed] Cons.prems(1) by simp
  ultimately show ?case using Cons.prems by (cases "x \<in> removed") auto
qed

lemma listeners_ok_perform: "listeners_ok s \<Longrightarrow> listeners_ok (perform s op)"
  by (cases op) (auto simp: listeners_ok_def subscribe_def unsubscribe_def Let_def distinct_removeAll less_Suc_eq)

lemma listeners_ok_foldl: "listeners_ok s \<Longrightarrow> listeners_ok (foldl perform s ops)"
  by (induction ops arbitrary: s) (simp_all add: listeners_ok_perform)

lemma listeners_ok_notify_loop:
  "notify_loop react params copy s = (s', calls) \<Longrightarrow> listeners_ok s \<Longrightarrow> listeners_ok s'"
  by (induction copy arbitrary: s s' calls)
     (auto simp: Let_def listeners_ok_foldl split: if_splits prod.splits)

lemma listeners_ok_cong:
  "listeners s' = listeners s \<Longrightarrow> nextListener s' = nextListener s \<Longrightarrow> listeners_ok s' = listeners_ok s"
  by (simp only: listeners_ok_def)

lemma listeners_ok_schedule: "listeners_ok (scheduleUpdate s) = listeners_ok s"
  by (rule listeners_ok_cong) simp_all

lemma listeners_ok_finish: "finishUpdate cls react old t = (r, s') \<Longrightarrow> listeners_ok t \<Longrightarrow> listeners_ok s'"
  by (auto simp: finishUpdate_def notify_def Let_def listeners_ok_schedule split: prod.splits
      dest: listeners_ok_notify_loop)

lemma listeners_ok_update:
  assumes "update cls react bu xu s = (r, s')" and "listeners_ok s"
  shows "listeners_ok s'"
proof -
  have *: "listeners_ok (s\<lparr>baseStateOf := b\<rparr>)"
    "listeners_ok (s\<lparr>baseStateOf := b, derivedStateOf := d, nextId := n\<rparr>)"
    "listeners_ok (s\<lparr>baseStateOf := b, derivedStateOf := d, nextId := n, extraStateOf := x\<rparr>)" for b d x n
    using assms(2) by (simp_all add: listeners_ok_def)
  show ?thesis
    using assms by (auto simp: update_def Let_def * split: option.splits sum.splits dest!: listeners_ok_finish)
qed

lemma listeners_ok_load: "load b x s = (r, s') \<Longrightarrow> listeners_ok s \<Longrightarrow> listeners_ok s'"
proof -
  assume l: "load b x s = (r, s')" and ok: "listeners_ok s"
  then have "listeners s' = listeners s \<and> nextListener s' = nextListener s"
    by (auto simp: load_def Let_def split: if_splits sum.splits)
  with ok show ?thesis by (simp add: listeners_ok_def)
qed

lemma reachable_listeners_ok: "reachable cls s \<Longrightarrow> listeners_ok s"
proof (induction rule: reachable.induct)
  case (reach_timer s i react r s')
  have "listeners_ok (s\<lparr>timers := removeAll i (timers s), updateTimeoutId := None\<rparr>)"
    using reach_timer.IH by (simp add: listeners_ok_def)
  with reach_timer show ?case using listeners_ok_update by (auto simp: fireTimer_def)
next
  case (reach_stop s)
  then show ?case by (auto simp: listeners_ok_def cancelUpdateIfScheduled_def split: option.splits)
next
  case reach_new
  then show ?case by (simp add: new_store_def listeners_ok_def)
qed (auto simp: listeners_ok_perform alloc_ok simp del: perform.simps
     dest: listeners_ok_load listeners_ok_update)

text \<open>\<open>_notify\<close> calls each subscribed listener at most once, never one subscribed during the
  notification, and skips a listener exactly when a listener called before it has unsubscribed
  it.\<close>

theorem notify_calls:
  assumes "reachable cls s" and "notify react params s = (s', calls)" and "listeners s = before @ l # after"
  shows "distinct calls \<and> set calls \<subseteq> set (listeners s) \<and>
    (l \<in> set calls \<longleftrightarrow> (\<forall>l'\<in>set calls \<inter> set before. Unsubscribe l \<notin> set (react l' params)))"
proof -
  have ok: "distinct (listeners s)" "\<forall>l\<in>set (listeners s). l < nextListener s"
    using reachable_listeners_ok [OF assms(1)] by (auto simp: listeners_ok_def)
  have c: "calls = called react params {} (listeners s)"
    using notify_loop_called [OF assms(2) [unfolded notify_def] ok(2), of "{}"] by simp
  from called_split [of before l after, OF _ c [unfolded assms(3)]] ok(1) show ?thesis
    using called_distinct [OF ok(1)] called_subset [of react params "{}" "listeners s"]
    by (simp add: c assms(3))
qed


section \<open>An example store\<close>

definition example_extra :: "(unit, unit) extraClass" where
  "example_extra = \<lparr>reduceExtra = \<lambda>x u. x, extra_entries = \<lambda>x. []\<rparr>"

definition example_trove :: troveWithPendingRedistribution where
  "example_trove = \<lparr>collateral = Dec (3 * 10 ^ 18), debt = Dec (2000 * 10 ^ 18), ownerAddress = ''0xA'',
     status = Open, stake = Dec (3 * 10 ^ 18), snapshotOfTotalRedistributed = emptyTrove\<rparr>"

definition example_bamm :: bammDeposit where
  "example_bamm = \<lparr>bammPoolShare = Dec 0, poolShare = Dec 0, bammInitialTHUSD = Dec 0, currentUSD = Dec 0,
     bammCurrentTHUSD = Dec 0, bammCollateralGain = Dec 0, totalCollateralInBamm = Obj 20 (Dec 7),
     totalThusdInBamm = Obj 21 (Dec 9)\<rparr>"

definition example_base :: baseState where
  "example_base =
     \<lparr>numberOfTroves = 1, accountBalance = Obj 0 (Dec 0), thusdBalance = Obj 1 (Dec 0),
      erc20TokenBalance = Obj 2 (Dec 0), erc20TokenAllowance = Obj 3 (Dec 0), isStabilityPools = True,
      isBorrowerOperations = True, isTroveManager = True, collateralSurplusBalance = Obj 4 (Dec 0),
      price = Obj 5 (Dec (1000 * 10 ^ 18)), marketPrice = Obj 6 (Dec (1000 * 10 ^ 18)),
      piRedemptionRate = Obj 7 (Dec 0), deviationFactor = Obj 8 (Dec 0), thusdInStabilityPool = Obj 9 (Dec 0),
      pcvBalance = Obj 10 (Dec 0),
      total_trove = Obj 11 \<lparr>collateral = Dec (3 * 10 ^ 18), debt = Dec (2000 * 10 ^ 18)\<rparr>,
      totalRedistributed = Obj 12 emptyTrove, troveBeforeRedistribution = Obj 13 example_trove,
      symbol = ''ETH'', collateralAddress = ''0xC'', stableAddress = ''0xD'',
      stabilityDeposit = Obj 14 \<lparr>initialTHUSD = Dec 0, currentTHUSD = Dec 0, collateralGain = Dec 0\<rparr>,
      bammDeposit = Obj 15 example_bamm, mintList = True, feesInNormalMode = Obj 16 example_fees,
      riskiestTroveBeforeRedistribution = Obj 17 example_trove\<rparr>"

definition no_update :: baseStateUpdate where
  "no_update =
     \<lparr>newNumberOfTroves = None, newAccountBalance = None, newThusdBalance = None,
      newErc20TokenBalance = None, newErc20TokenAllowance = None, newIsStabilityPools = None,
      newIsBorrowerOperations = None, newIsTroveManager = None, newCollateralSurplusBalance = None,
      newPrice = None, newMarketPrice = None, newPiRedemptionRate = None, newDeviationFactor = None,
      newThusdInStabilityPool = None, newPcvBalance = None, newTotal_trove = None,
      newTotalRedistributed = None, newTroveBeforeRedistribution = None, newSymbol = None,
      newCollateralAddress = None, newStableAddress = None, newStabilityDeposit = None,
      newBammDeposit = None, newMintList = None, newFeesInNormalMode = None,
      newRiskiestTroveBeforeRedistribution = None\<rparr>"

definition example_update :: baseStateUpdate where
  "example_update = no_update\<lparr>newPrice := Some (Obj 30 (Dec (900 * 10 ^ 18)))\<rparr>"

definition example_store :: "unit store" where
  "example_store = snd (subscribe (snd (subscribe (snd (load example_base None (new_store False))))))"

lemma example_timely: "timely (feesInNormalMode example_base)"
  by (simp add: timely_def example_base_def Fees_valid_def example_fees_def minutesSinceLastFeeOperation_def
      Decimal_lt_def DIGITS_num)

lemma example_reachable: "reachable example_extra example_store"
proof -
  have "reachable example_extra (snd (load example_base None (new_store False)))"
    by (rule reach_load [OF reach_new example_timely]) (rule prod.collapse [symmetric])
  from reach_perform [OF reach_perform [OF this, of Subscribe], of Subscribe] show ?thesis
    by (simp add: example_store_def)
qed

lemma example_loaded:
  "loaded example_store" "baseStateOf example_store = Some example_base"
  "extraStateOf example_store = None" "listeners example_store = [0, 1]"
proof -
  obtain d where "derive 0 example_base = Inr d" using derive_defined [OF example_timely] by blast
  then show "loaded example_store" "baseStateOf example_store = Some example_base"
    "extraStateOf example_store = None" "listeners example_store = [0, 1]"
    by (simp_all add: example_store_def load_def new_store_def Let_def subscribe_def)
qed

lemma example_timely_update: "timely_update (Some example_update)"
  by (simp add: timely_update_def example_update_def no_update_def)

lemma example_update_runs:
  obtains params calls s' where
    "update example_extra react (Some example_update) None example_store = (Inr (params, calls), s')"
    "reachable example_extra s'" "loaded s'" "baseStateOf s' = Some (reduce example_base example_update)"
    "newState params = store_state example_extra s'" "oldState params = store_state example_extra example_store"
proof -
  obtain r s' where u: "update example_extra react (Some example_update) None example_store = (r, s')"
    by (cases "update example_extra react (Some example_update) None example_store")
  have "case r of Inr _ \<Rightarrow> True | Inl e \<Rightarrow> False"
    using update_ok [OF _ _ example_timely_update u] reachable_ok [OF example_reachable] example_loaded
    by (auto split: sum.splits)
  then obtain p c where r: "r = Inr (p, c)" by (cases r) auto
  have s': "reachable example_extra s'"
    by (rule reach_update [OF example_reachable example_timely_update u])
  show thesis
    by (rule update_success [OF u [unfolded r]]) (use that s' u r example_loaded in auto)
qed

lemma example_price:
  assumes "baseStateOf s = Some b" "reachable example_extra s"
  shows "property (store_state example_extra s) ''price'' = VDecimal (price b)"
proof -
  obtain d where "derivedStateOf s = Some d"
    using assms reachable_ok by (fastforce simp: state_ok_def split: option.splits)
  then show ?thesis
    using map_of_store_state [OF assms(1), of d "''price''" example_extra]
    by (simp add: property_def example_extra_def base_entries_def)
qed

theorem stateChange_exact_witness:
  "\<exists>params calls s'. update example_extra (\<lambda>_ _. []) (Some example_update) None example_store
       = (Inr (params, calls), s') \<and> ''price'' \<in> set (map fst (stateChange params))"
proof -
  obtain params calls s' where u: "update example_extra (\<lambda>_ _. []) (Some example_update) None example_store
       = (Inr (params, calls), s')" "reachable example_extra s'"
      "baseStateOf s' = Some (reduce example_base example_update)"
    and p: "newState params = store_state example_extra s'"
      "oldState params = store_state example_extra example_store"
    by (rule example_update_runs)
  have "valueOf (property (newState params) ''price'') \<noteq> valueOf (property (oldState params) ''price'')"
    unfolding p example_price [OF u(3,2)] example_price [OF example_loaded(2) example_reachable]
    by (simp add: reduce_def example_update_def no_update_def example_base_def store_simps)
  with stateChange_exact [OF u(1), of "''price''"] u(1) show ?thesis
    by (auto simp: store_keys_def example_extra_def)
qed

theorem update_idempotent_witness:
  "\<exists>params calls s' s''. update example_extra (\<lambda>_ _. []) (Some example_update) None
       (snd (update example_extra (\<lambda>_ _. []) (Some example_update) None example_store))
       = (Inr (params, calls), s'') \<and> stateChange params = []"
proof -
  obtain p c s' where u: "update example_extra (\<lambda>_ _. []) (Some example_update) None example_store
       = (Inr (p, c), s')" "reachable example_extra s'" "loaded s'"
    by (rule example_update_runs)
  obtain r s'' where v: "update example_extra (\<lambda>_ _. []) (Some example_update) None s' = (r, s'')"
    by (cases "update example_extra (\<lambda>_ _. []) (Some example_update) None s'")
  from update_ok [OF _ _ example_timely_update v] reachable_ok [OF u(2)] u(3)
  obtain p' c' where "r = Inr (p', c')" by (cases r) auto
  with update_idempotent [OF u(1), of "\<lambda>_ _. []" p' c' s''] u(1) v show ?thesis by auto
qed

theorem store_invariant_witness: "length (timers example_store) \<le> 1 \<and> derivedStateOf example_store \<noteq> None"
  using store_invariant [OF example_reachable] example_loaded by simp

theorem update_succeeds_witness:
  "\<exists>params calls s'. update example_extra (\<lambda>_ _. []) (Some example_update) None example_store
     = (Inr (params, calls), s') \<and> length (timers s') = 1"
proof -
  obtain r s' where u: "update example_extra (\<lambda>_ _. []) (Some example_update) None example_store = (r, s')"
    by (cases "update example_extra (\<lambda>_ _. []) (Some example_update) None example_store")
  from update_succeeds [OF example_reachable example_loaded(1) example_timely_update _ u] u
  show ?thesis by auto
qed

text \<open>The first listener unsubscribes the second.\<close>

theorem notify_calls_witness:
  "\<exists>s' calls. notify (\<lambda>l _. if l = 0 then [Unsubscribe 1] else [])
     \<lparr>newState = [], oldState = [], stateChange = []\<rparr> example_store = (s', calls) \<and>
     0 \<in> set calls \<and> 1 \<notin> set calls"
proof -
  let ?react = "\<lambda>l (_ :: listenerParams). if l = (0::nat) then [Unsubscribe 1] else []"
  let ?p = "\<lparr>newState = [], oldState = [], stateChange = []\<rparr> :: listenerParams"
  obtain s' calls where n: "notify ?react ?p example_store = (s', calls)"
    by (cases "notify ?react ?p example_store")
  from notify_calls [OF example_reachable n, of "[]" 0 "[1]"] have "0 \<in> set calls"
    by (simp add: example_loaded)
  moreover from this notify_calls [OF example_reachable n, of "[0]" 1 "[]"] have "1 \<notin> set calls"
    by (simp add: example_loaded)
  ultimately show ?thesis using n by blast
qed

end
