(* ===== verification/ReadableEthers.thy ===== *)
theory ReadableEthers
  imports Trove Deposits Fees
begin

text \<open>
  Reading the protocol's state from the chain: \<open>packages/lib-ethers/src/ReadableEthersLiquity.ts\<close>
  (class \<open>ReadableEthersLiquity\<close>) with the helpers of \<open>_utils.ts\<close> and \<open>_requireAddress\<close> of
  \<open>EthersLiquityConnection.ts\<close>.

  The contracts, the node and the conversion \<open>toNumber\<close> of the \<open>ethers\<close> package are the
  record \<open>chain\<close>, a parameter of every operation: a field gives the reply to a call for the block
  tag of its overrides (\<open>None\<close>: the latest block), or the error it is rejected with.  The contracts
  return unsigned integers.  A \<open>Promise.all\<close> of several calls fails with the error of the first
  in the order of the source.
\<close>

section \<open>The environment\<close>

type_synonym blockTag = "nat option"

record backendTrove =
  bt_status :: nat
  bt_coll :: nat
  bt_debt :: nat
  bt_stake :: nat

record backendListedTrove =
  lt_owner :: string
  lt_coll :: nat
  lt_debt :: nat
  lt_stake :: nat
  lt_snapshotCollateral :: nat
  lt_snapshotTHUSDDebt :: nat

record chain =
  toNumber :: "nat \<Rightarrow> nat res"
  L_Collateral :: "blockTag \<Rightarrow> nat res"
  L_THUSDDebt :: "blockTag \<Rightarrow> nat res"
  Troves :: "string \<Rightarrow> blockTag \<Rightarrow> backendTrove res"
  rewardSnapshots :: "string \<Rightarrow> blockTag \<Rightarrow> (nat \<times> nat) res"
  getTroveOwnersCount :: "blockTag \<Rightarrow> nat res"
  fetchPrice :: "blockTag \<Rightarrow> nat res"
  priceFeed_getMarketPrice :: "blockTag \<Rightarrow> nat res"
  priceFeed_redemptionRate :: "blockTag \<Rightarrow> nat res"
  priceFeed_deviationFactor :: "blockTag \<Rightarrow> nat res"
  activePool_getCollateralBalance :: "blockTag \<Rightarrow> nat res"
  activePool_getTHUSDDebt :: "blockTag \<Rightarrow> nat res"
  defaultPool_getCollateralBalance :: "blockTag \<Rightarrow> nat res"
  defaultPool_getTHUSDDebt :: "blockTag \<Rightarrow> nat res"
  bamm_address :: string
  bamm_stake :: "string \<Rightarrow> blockTag \<Rightarrow> nat res"
  bamm_total :: "blockTag \<Rightarrow> nat res"
  borrowerOperations_address :: string
  borrowerOperations_collateralAddress :: "blockTag \<Rightarrow> string res"
  erc20_symbol :: "blockTag \<Rightarrow> string res"
  erc20_balanceOf :: "string \<Rightarrow> blockTag \<Rightarrow> nat res"
  erc20_allowance :: "string \<Rightarrow> string \<Rightarrow> blockTag \<Rightarrow> nat res"
  troveManager_address :: string
  troveManager_thusdToken :: "blockTag \<Rightarrow> string res"
  stabilityPool_address :: string
  stabilityPool_deposits :: "string \<Rightarrow> blockTag \<Rightarrow> nat res"
  getCompoundedTHUSDDeposit :: "string \<Rightarrow> blockTag \<Rightarrow> nat res"
  getDepositorCollateralGain :: "string \<Rightarrow> blockTag \<Rightarrow> nat res"
  getTotalTHUSDDeposits :: "blockTag \<Rightarrow> nat res"
  provider_getBalance :: "string \<Rightarrow> blockTag \<Rightarrow> nat res"
  pcv_address :: string
  thusdToken_balanceOf :: "string \<Rightarrow> blockTag \<Rightarrow> nat res"
  thusdToken_allowance :: "string \<Rightarrow> string \<Rightarrow> blockTag \<Rightarrow> nat res"
  thusdToken_isStabilityPools :: "string \<Rightarrow> blockTag \<Rightarrow> bool res"
  thusdToken_isBorrowerOperations :: "string \<Rightarrow> blockTag \<Rightarrow> bool res"
  thusdToken_isTroveManager :: "string \<Rightarrow> blockTag \<Rightarrow> bool res"
  thusdToken_mintList :: "string \<Rightarrow> blockTag \<Rightarrow> bool res"
  collSurplusPool_getCollateral :: "string \<Rightarrow> blockTag \<Rightarrow> nat res"
  getMultipleSortedTroves :: "int \<Rightarrow> nat \<Rightarrow> blockTag \<Rightarrow> backendListedTrove list res"
  lastFeeOperationTime :: "blockTag \<Rightarrow> nat res"
  troveManager_baseRate :: "blockTag \<Rightarrow> nat res"
  getBlockTimestamp :: "blockTag \<Rightarrow> nat res"

record connection =
  chain_of :: chain
  userAddress :: "string option"

definition ZERO_ADDRESS :: string where
  "ZERO_ADDRESS = ''0x'' @ replicate 40 (CHR ''0'')"

section \<open>Helpers\<close>

definition decimalify :: "nat \<Rightarrow> decimal" where
  "decimalify bigNumber = Dec bigNumber"

definition decimalifyR :: "nat res \<Rightarrow> decimal res" where
  "decimalifyR r = bindR r (\<lambda>n. Inr (decimalify n))"

definition requireAddress :: "connection \<Rightarrow> string option \<Rightarrow> string res" where
  "requireAddress conn overrides_from =
     (case overrides_from of
        Some a \<Rightarrow> Inr a
      | None \<Rightarrow> (case userAddress conn of
                  Some a \<Rightarrow> Inr a
                | None \<Rightarrow> Inl (Error ''A user address is required'')))"

text \<open>\<open>address ??= _requireAddress(this.connection)\<close>.\<close>

definition addressOr :: "connection \<Rightarrow> string option \<Rightarrow> string res" where
  "addressOr conn address = (case address of Some a \<Rightarrow> Inr a | None \<Rightarrow> requireAddress conn None)"

definition MINUTE_DECAY_FACTOR :: decimal where
  "MINUTE_DECAY_FACTOR = Dec 999037758833783000"

definition BETA :: decimal where
  "BETA = Dec (2 * 10 ^ 18)"

definition userTroveStatusFrom :: "nat \<Rightarrow> userTroveStatus res" where
  "userTroveStatusFrom backendStatus =
     (if backendStatus = 0 then Inr NonExistent
      else if backendStatus = 1 then Inr Open
      else if backendStatus = 2 then Inr ClosedByOwner
      else if backendStatus = 3 then Inr ClosedByLiquidation
      else if backendStatus = 4 then Inr ClosedByRedemption
      else Inl (Error (''invalid backendStatus '' @ dec_string backendStatus)))"

definition convertToDate :: "int \<Rightarrow> date" where
  "convertToDate timestamp = timestamp * 1000"

definition validSortingOptions :: "string list" where
  "validSortingOptions = [''ascendingCollateralRatio'', ''descendingCollateralRatio'']"

text \<open>A JavaScript number that is either an integer or not.\<close>

datatype jsNumber = JInt int | JFraction

definition expectPositiveInt :: "string \<Rightarrow> jsNumber option \<Rightarrow> unit res" where
  "expectPositiveInt key v =
     (case v of
        None \<Rightarrow> Inr ()
      | Some JFraction \<Rightarrow> Inl (Error (key @ '' must be an integer''))
      | Some (JInt i) \<Rightarrow> if i < 0 then Inl (Error (key @ '' must not be negative'')) else Inr ())"

section \<open>Troves\<close>

definition getTotalRedistributed :: "connection \<Rightarrow> blockTag \<Rightarrow> trove res" where
  "getTotalRedistributed conn b =
     bindR (decimalifyR (L_Collateral (chain_of conn) b))
       (\<lambda>c. bindR (decimalifyR (L_THUSDDebt (chain_of conn) b))
          (\<lambda>d. Inr \<lparr>collateral = c, debt = d\<rparr>))"

definition getTroveBeforeRedistribution ::
    "connection \<Rightarrow> string option \<Rightarrow> blockTag \<Rightarrow> troveWithPendingRedistribution res" where
  "getTroveBeforeRedistribution conn address b =
     bindR (addressOr conn address)
       (\<lambda>a. bindR (Troves (chain_of conn) a b)
          (\<lambda>t. bindR (rewardSnapshots (chain_of conn) a b)
             (\<lambda>(snapshotCollateral, snapshotTHUSDDebt).
                bindR (userTroveStatusFrom (bt_status t))
                  (\<lambda>st. if bt_status t = 1
                        then Inr \<lparr>collateral = decimalify (bt_coll t), debt = decimalify (bt_debt t),
                                  ownerAddress = a, status = st, stake = decimalify (bt_stake t),
                                  snapshotOfTotalRedistributed =
                                    \<lparr>collateral = decimalify snapshotCollateral,
                                     debt = decimalify snapshotTHUSDDebt\<rparr>\<rparr>
                        else Inr \<lparr>collateral = Decimal_ZERO, debt = Decimal_ZERO, ownerAddress = a,
                                  status = st, stake = Decimal_ZERO,
                                  snapshotOfTotalRedistributed = emptyTrove\<rparr>))))"

definition getTrove :: "connection \<Rightarrow> string option \<Rightarrow> blockTag \<Rightarrow> userTrove res" where
  "getTrove conn address b =
     bindR (getTroveBeforeRedistribution conn address b)
       (\<lambda>t. bindR (getTotalRedistributed conn b) (\<lambda>r. applyRedistribution t r))"

definition getNumberOfTroves :: "connection \<Rightarrow> blockTag \<Rightarrow> nat res" where
  "getNumberOfTroves conn b =
     bindR (getTroveOwnersCount (chain_of conn) b) (toNumber (chain_of conn))"

section \<open>Prices and totals\<close>

definition getPrice :: "connection \<Rightarrow> blockTag \<Rightarrow> decimal res" where
  "getPrice conn b = decimalifyR (fetchPrice (chain_of conn) b)"

definition getMarketPrice :: "connection \<Rightarrow> blockTag \<Rightarrow> decimal res" where
  "getMarketPrice conn b =
     (case decimalifyR (priceFeed_getMarketPrice (chain_of conn) b) of
        Inl _ \<Rightarrow> Inr Decimal_ZERO
      | Inr d \<Rightarrow> Inr d)"

text \<open>\<open>Decimal.from(1e9)\<close>.\<close>

definition BILLION :: decimal where
  "BILLION = Dec (10 ^ 27)"

definition getRedemptionRate :: "connection \<Rightarrow> blockTag \<Rightarrow> decimal res" where
  "getRedemptionRate conn b =
     bindR (priceFeed_redemptionRate (chain_of conn) b) (\<lambda>n. Inr (Decimal_div (decimalify n) BILLION))"

definition getDeviationFactor :: "connection \<Rightarrow> blockTag \<Rightarrow> decimal res" where
  "getDeviationFactor conn b =
     bindR (priceFeed_deviationFactor (chain_of conn) b) (\<lambda>n. Inr (Decimal_div (decimalify n) BILLION))"

definition getActivePool :: "connection \<Rightarrow> blockTag \<Rightarrow> trove res" where
  "getActivePool conn b =
     bindR (decimalifyR (activePool_getCollateralBalance (chain_of conn) b))
       (\<lambda>c. bindR (decimalifyR (activePool_getTHUSDDebt (chain_of conn) b))
          (\<lambda>d. Inr \<lparr>collateral = c, debt = d\<rparr>))"

definition getDefaultPool :: "connection \<Rightarrow> blockTag \<Rightarrow> trove res" where
  "getDefaultPool conn b =
     bindR (decimalifyR (defaultPool_getCollateralBalance (chain_of conn) b))
       (\<lambda>c. bindR (decimalifyR (defaultPool_getTHUSDDebt (chain_of conn) b))
          (\<lambda>d. Inr \<lparr>collateral = c, debt = d\<rparr>))"

definition getTotal :: "connection \<Rightarrow> blockTag \<Rightarrow> trove res" where
  "getTotal conn b =
     bindR (getActivePool conn b)
       (\<lambda>active. bindR (getDefaultPool conn b) (\<lambda>default. Inr (Trove_add active default)))"

definition getSymbol :: "connection \<Rightarrow> blockTag \<Rightarrow> string res" where
  "getSymbol conn b =
     bindR (borrowerOperations_collateralAddress (chain_of conn) None)
       (\<lambda>a. if a = ZERO_ADDRESS then Inr ''ETH'' else erc20_symbol (chain_of conn) b)"

definition getCollateralAddress :: "connection \<Rightarrow> blockTag \<Rightarrow> string res" where
  "getCollateralAddress conn b = borrowerOperations_collateralAddress (chain_of conn) b"

definition getStableAddress :: "connection \<Rightarrow> blockTag \<Rightarrow> string res" where
  "getStableAddress conn b = troveManager_thusdToken (chain_of conn) b"

section \<open>Deposits and balances\<close>

text \<open>\<open>Decimal.from(100)\<close>.\<close>

definition Decimal_100 :: decimal where
  "Decimal_100 = Dec (100 * 10 ^ 18)"

text \<open>
  The computation of \<open>getBammDeposit\<close> from the replies; the identities \<open>n\<close> and \<open>n + 1\<close> go to the
  two properties that \<open>BammDeposit\<close> compares as objects.
\<close>

definition bammDepositFrom ::
    "nat \<Rightarrow> nat \<Rightarrow> nat \<Rightarrow> nat \<Rightarrow> nat \<Rightarrow> nat \<Rightarrow> nat \<Rightarrow> nat \<Rightarrow> nat \<Rightarrow> bammDeposit" where
  "bammDepositFrom n initialValue currentBammTHUSD bammPendingCollateral totalStake userStake
     totalThusdInSp bammBalance fetchedPrice =
     (let isTotalGreaterThanZero = totalStake > 0;
          isTotalThusdInSpGreaterThanZero = totalThusdInSp > 0;
          currentTHUSD = (if isTotalGreaterThanZero then userStake * currentBammTHUSD div totalStake else 0);
          bammShare = (if isTotalThusdInSpGreaterThanZero
            then Decimal_div (Decimal_mul (Dec currentBammTHUSD) Decimal_100) (Dec totalThusdInSp)
            else Decimal_ZERO);
          share = (if isTotalGreaterThanZero
            then Decimal_div (Decimal_mul bammShare (Dec userStake)) (Dec totalStake)
            else Decimal_ZERO);
          bammCollateralBalance = bammBalance + bammPendingCollateral;
          currentCollateral =
            (if isTotalGreaterThanZero then userStake * bammCollateralBalance div totalStake else 0);
          usd = currentTHUSD + currentCollateral * fetchedPrice div 10 ^ 18;
          bammPoolShareOfUser = (if isTotalGreaterThanZero
            then Decimal_mulDiv (Dec userStake) Decimal_100 (Dec totalStake)
            else Decimal_ZERO)
      in \<lparr>bammPoolShare = bammPoolShareOfUser, poolShare = share,
          bammInitialTHUSD = decimalify initialValue, currentUSD = Dec usd,
          bammCurrentTHUSD = Dec currentTHUSD, bammCollateralGain = Dec currentCollateral,
          totalCollateralInBamm = Obj n (Dec bammCollateralBalance),
          totalThusdInBamm = Obj (n + 1) (Dec currentBammTHUSD)\<rparr>)"

definition getBammDeposit ::
    "nat \<Rightarrow> connection \<Rightarrow> string option \<Rightarrow> blockTag \<Rightarrow> bammDeposit res" where
  "getBammDeposit n conn address b =
     (let c = chain_of conn
      in bindR (addressOr conn address)
        (\<lambda>a. bindR (stabilityPool_deposits c a b)
           (\<lambda>initialValue. bindR (getCompoundedTHUSDDeposit c (bamm_address c) b)
              (\<lambda>currentBammTHUSD. bindR (getDepositorCollateralGain c (bamm_address c) b)
                 (\<lambda>pending. bindR (bamm_total c b)
                    (\<lambda>tot. bindR (bamm_stake c a b)
                       (\<lambda>st. bindR (getTotalTHUSDDeposits c b)
                          (\<lambda>inSp. bindR (provider_getBalance c (bamm_address c) None)
                             (\<lambda>balance. bindR (fetchPrice c b)
                                (\<lambda>p. Inr (bammDepositFrom n initialValue currentBammTHUSD pending
                                       tot st inSp balance p)))))))))))"

text \<open>The test \<open>currentUSD ? ... : ...\<close> is of an object, which is always true.\<close>

definition getWithdrawsSpShare :: "connection \<Rightarrow> decimalish \<Rightarrow> blockTag \<Rightarrow> string res" where
  "getWithdrawsSpShare conn withdrawAmount b =
     bindR (requireAddress conn None)
       (\<lambda>a. bindR (bamm_stake (chain_of conn) a None)
          (\<lambda>st. bindR (getBammDeposit 0 conn (Some a) b)
             (\<lambda>deposit. bindR (Decimal_from withdrawAmount)
                (\<lambda>w. Decimal_toString (Decimal_div (Decimal_mul (decimalify st) w) (currentUSD deposit)) None))))"

definition getStabilityDeposit :: "connection \<Rightarrow> string option \<Rightarrow> blockTag \<Rightarrow> stabilityDeposit res" where
  "getStabilityDeposit conn address b =
     bindR (addressOr conn address)
       (\<lambda>a. bindR (stabilityPool_deposits (chain_of conn) a b)
          (\<lambda>initialValue. bindR (getCompoundedTHUSDDeposit (chain_of conn) a b)
             (\<lambda>current. bindR (getDepositorCollateralGain (chain_of conn) a b)
                (\<lambda>gain. new_StabilityDeposit (decimalify initialValue) (decimalify current)
                          (decimalify gain)))))"

definition getTHUSDInStabilityPool :: "connection \<Rightarrow> blockTag \<Rightarrow> decimal res" where
  "getTHUSDInStabilityPool conn b = decimalifyR (getTotalTHUSDDeposits (chain_of conn) b)"

definition getPCVBalance :: "connection \<Rightarrow> blockTag \<Rightarrow> decimal res" where
  "getPCVBalance conn b =
     decimalifyR (thusdToken_balanceOf (chain_of conn) (pcv_address (chain_of conn)) b)"

definition getTHUSDBalance :: "connection \<Rightarrow> string option \<Rightarrow> blockTag \<Rightarrow> decimal res" where
  "getTHUSDBalance conn address b =
     bindR (addressOr conn address) (\<lambda>a. decimalifyR (thusdToken_balanceOf (chain_of conn) a b))"

definition getErc20TokenBalance :: "connection \<Rightarrow> string option \<Rightarrow> blockTag \<Rightarrow> decimal res" where
  "getErc20TokenBalance conn address b =
     bindR (addressOr conn address)
       (\<lambda>a. bindR (borrowerOperations_collateralAddress (chain_of conn) None)
          (\<lambda>collateralAddress.
             if collateralAddress = ZERO_ADDRESS
             then decimalifyR (provider_getBalance (chain_of conn) a None)
             else decimalifyR (erc20_balanceOf (chain_of conn) a b)))"

definition largeAllowanceDecimal :: decimal where
  "largeAllowanceDecimal = decimalify 0x8888888888888888888888888888888888888888888888888888888888888888"

definition getErc20TokenAllowance :: "connection \<Rightarrow> string option \<Rightarrow> blockTag \<Rightarrow> decimal res" where
  "getErc20TokenAllowance conn address b =
     bindR (addressOr conn address)
       (\<lambda>a. bindR (borrowerOperations_collateralAddress (chain_of conn) None)
          (\<lambda>collateralAddress.
             if collateralAddress = ZERO_ADDRESS then Inr largeAllowanceDecimal
             else decimalifyR
               (erc20_allowance (chain_of conn) a (borrowerOperations_address (chain_of conn)) b)))"

definition readIsStabilityPools :: "connection \<Rightarrow> blockTag \<Rightarrow> bool res" where
  "readIsStabilityPools conn b =
     thusdToken_isStabilityPools (chain_of conn) (stabilityPool_address (chain_of conn)) b"

definition readIsBorrowerOperations :: "connection \<Rightarrow> blockTag \<Rightarrow> bool res" where
  "readIsBorrowerOperations conn b =
     thusdToken_isBorrowerOperations (chain_of conn) (borrowerOperations_address (chain_of conn)) b"

definition readIsTroveManager :: "connection \<Rightarrow> blockTag \<Rightarrow> bool res" where
  "readIsTroveManager conn b =
     thusdToken_isTroveManager (chain_of conn) (troveManager_address (chain_of conn)) b"

definition checkMintList :: "connection \<Rightarrow> blockTag \<Rightarrow> bool res" where
  "checkMintList conn b =
     thusdToken_mintList (chain_of conn) (borrowerOperations_address (chain_of conn)) b"

definition getCollateralSurplusBalance :: "connection \<Rightarrow> string option \<Rightarrow> blockTag \<Rightarrow> decimal res" where
  "getCollateralSurplusBalance conn address b =
     bindR (addressOr conn address)
       (\<lambda>a. decimalifyR (collSurplusPool_getCollateral (chain_of conn) a b))"

definition getBammAllowance :: "connection \<Rightarrow> blockTag \<Rightarrow> decimal res" where
  "getBammAllowance conn b =
     bindR (requireAddress conn None)
       (\<lambda>a. decimalifyR (thusdToken_allowance (chain_of conn) a (bamm_address (chain_of conn)) b))"

section \<open>Listings\<close>

record troveListingParams =
  first :: jsNumber
  sortedBy :: string
  startingAt :: "jsNumber option"
  beforeRedistribution :: bool

definition mapBackendTroves :: "backendListedTrove list \<Rightarrow> troveWithPendingRedistribution list" where
  "mapBackendTroves = map (\<lambda>t.
     \<lparr>collateral = decimalify (lt_coll t), debt = decimalify (lt_debt t), ownerAddress = lt_owner t,
      status = Open, stake = decimalify (lt_stake t),
      snapshotOfTotalRedistributed =
        \<lparr>collateral = decimalify (lt_snapshotCollateral t), debt = decimalify (lt_snapshotTHUSDDebt t)\<rparr>\<rparr>)"

fun number_value :: "jsNumber \<Rightarrow> int" where
  "number_value (JInt i) = i"
| "number_value JFraction = 0"

text \<open>
  The listing before redistribution (\<open>Inl\<close>) or with redistribution applied (\<open>Inr\<close>); the
  two overloads of the source.
\<close>

definition getTroves ::
    "connection \<Rightarrow> troveListingParams \<Rightarrow> blockTag \<Rightarrow>
     (troveWithPendingRedistribution list + userTrove list) res" where
  "getTroves conn params b =
     bindR (expectPositiveInt ''first'' (Some (first params)))
       (\<lambda>_. bindR (expectPositiveInt ''startingAt'' (startingAt params))
          (\<lambda>_. if sortedBy params \<notin> set validSortingOptions
                then Inl (Error (''sortedBy must be one of: '' @ [CHR 0x22] @ ''ascendingCollateralRatio''
                       @ [CHR 0x22] @ '', '' @ [CHR 0x22] @ ''descendingCollateralRatio'' @ [CHR 0x22]))
                else
                  (let start = (case startingAt params of None \<Rightarrow> 0 | Some k \<Rightarrow> number_value k);
                       index = (if sortedBy params = ''descendingCollateralRatio'' then start
                                else - (start + 1));
                       fetch = getMultipleSortedTroves (chain_of conn) index
                                 (nat (number_value (first params))) b
                   in if beforeRedistribution params
                      then bindR fetch (\<lambda>ts. Inr (Inl (mapBackendTroves ts)))
                      else bindR (getTotalRedistributed conn b)
                        (\<lambda>r. bindR fetch
                           (\<lambda>ts. bindR (mapR (\<lambda>t. applyRedistribution t r) (mapBackendTroves ts))
                              (\<lambda>us. Inr (Inr us)))))))"

section \<open>Fees\<close>

type_synonym feesFactory = "int \<Rightarrow> bool \<Rightarrow> fees res"

definition getFeesFactory :: "connection \<Rightarrow> blockTag \<Rightarrow> feesFactory res" where
  "getFeesFactory conn b =
     bindR (lastFeeOperationTime (chain_of conn) b)
       (\<lambda>lastTime. bindR (decimalifyR (troveManager_baseRate (chain_of conn) b))
          (\<lambda>baseRate. Inr (\<lambda>blockTimestamp recovery.
             bindR (toNumber (chain_of conn) lastTime)
               (\<lambda>t. new_Fees baseRate MINUTE_DECAY_FACTOR BETA (convertToDate (int t))
                      (convertToDate blockTimestamp) recovery))))"

definition getFees :: "connection \<Rightarrow> blockTag \<Rightarrow> fees res" where
  "getFees conn b =
     bindR (getFeesFactory conn b)
       (\<lambda>createFees. bindR (getTotal conn b)
          (\<lambda>tot. bindR (getPrice conn b)
             (\<lambda>p. bindR (getBlockTimestamp (chain_of conn) b)
                (\<lambda>timestamp. createFees (int timestamp) (Trove_collateralRatioIsBelowCritical tot p)))))"

end
