(* ===== verification/ReadableEthers_Correct.thy ===== *)
theory ReadableEthers_Correct
  imports ReadableEthers Trove_Correct
begin

text \<open>
  Properties of the reads: what is returned for troves that are not open, how the deposits in the
  B.AMM are divided, that the fee calculator can always be built, and that the two forms of a trove
  listing agree.
\<close>

section \<open>Troves\<close>

lemma userTroveStatusFrom_Open: "userTroveStatusFrom n = Inr Open \<longleftrightarrow> n = 1"
  by (simp add: userTroveStatusFrom_def)

lemma pending_trove_read:
  assumes "getTroveBeforeRedistribution conn address b = Inr p"
  obtains a and bt :: backendTrove where "addressOr conn address = Inr a" "Troves (chain_of conn) a b = Inr bt"
    "ownerAddress p = a" "userTroveStatusFrom (bt_status bt) = Inr (status p)"
    "bt_status bt \<noteq> 1 \<longrightarrow> collateral p = Decimal_ZERO \<and> debt p = Decimal_ZERO \<and> stake p = Decimal_ZERO"
  using assms
  by (auto simp: getTroveBeforeRedistribution_def bindR_Inr_iff split: if_splits)

text \<open>a trove that is not open is read as empty, whatever has been redistributed since; and the
  status is read as open exactly when the backend says active.\<close>

theorem getTrove_not_open_empty:
  assumes "getTrove conn address b = Inr t"
  shows "\<exists>a bt. addressOr conn address = Inr a \<and> Troves (chain_of conn) a b = Inr bt \<and> ownerAddress t = a \<and>
    (status t = Open \<longleftrightarrow> bt_status bt = 1) \<and> (status t \<noteq> Open \<longrightarrow> Trove_isEmpty t)"
proof -
  obtain p and r :: trove where p: "getTroveBeforeRedistribution conn address b = Inr p" "applyRedistribution p r = Inr t"
    using assms by (auto simp: getTrove_def bindR_Inr_iff)
  from p(1) obtain a and bt :: backendTrove where bt: "addressOr conn address = Inr a" "Troves (chain_of conn) a b = Inr bt"
      "ownerAddress p = a" "userTroveStatusFrom (bt_status bt) = Inr (status p)"
      "bt_status bt \<noteq> 1 \<longrightarrow> collateral p = Decimal_ZERO \<and> debt p = Decimal_ZERO \<and> stake p = Decimal_ZERO"
    by (rule pending_trove_read)
  have t: "status t = status p" "ownerAddress t = ownerAddress p"
    "stake p = Decimal_ZERO \<Longrightarrow> collateral t = collateral p \<and> debt t = debt p"
    using p(2) by (auto simp: applyRedistribution_eq decimal_eq_iff)
  from bt(4) have "status p = Open \<longleftrightarrow> bt_status bt = 1"
    using userTroveStatusFrom_Open [of "bt_status bt"] by auto
  with bt t show ?thesis by (intro exI [of _ a] exI [of _ bt]) (auto simp: Trove_isEmpty_iff)
qed

section \<open>Shares of the B.AMM\<close>

lemma sum_of_shares:
  fixes x n :: nat
  assumes "(\<Sum>s\<leftarrow>stakes. s) \<le> n"
  shows "(\<Sum>s\<leftarrow>stakes. s * x div n) \<le> x"
proof (cases "n = 0")
  case False
  have "(\<Sum>s\<leftarrow>stakes. s * x div n) * n \<le> (\<Sum>s\<leftarrow>stakes. s) * x"
  proof (induction stakes)
    case (Cons s stakes)
    have "s * x div n * n \<le> s * x" by simp
    with Cons show ?case by (simp add: algebra_simps add_mono)
  qed simp
  also have "\<dots> \<le> n * x" using assms by (rule mult_le_mono1)
  finally show ?thesis using False by (simp add: mult.commute)
qed (induction stakes; simp)

lemma bammDepositFrom_amounts:
  "bn (bammCurrentTHUSD (bammDepositFrom n i c p tot s sp bal pr)) = s * c div tot"
  "bn (bammCollateralGain (bammDepositFrom n i c p tot s sp bal pr)) = s * (bal + p) div tot"
  "0 < tot \<Longrightarrow> bn (bammPoolShare (bammDepositFrom n i c p tot s sp bal pr)) = s * bn Decimal_100 div tot"
  by (simp_all add: bammDepositFrom_def Let_def Decimal_mulDiv_def Decimal_isZero_def Decimal_ZERO_def)

text \<open>the B.AMM never promises more than it has: for any stakers whose stakes add up to at most
  the total stake, the thUSD and the collateral attributed to them add up to at most the B.AMM's
  thUSD and collateral, and their shares to at most 100\%.\<close>

theorem bammDeposits_covered:
  fixes n i c p sp bal pr :: nat
  assumes "(\<Sum>s\<leftarrow>stakes. s) \<le> tot" and "0 < tot"
  defines "deposit \<equiv> \<lambda>s. bammDepositFrom n i c p tot s sp bal pr"
  shows "(\<Sum>s\<leftarrow>stakes. bn (bammCurrentTHUSD (deposit s))) \<le> c \<and>
    (\<Sum>s\<leftarrow>stakes. bn (bammCollateralGain (deposit s))) \<le> bal + p \<and>
    (\<Sum>s\<leftarrow>stakes. bn (bammPoolShare (deposit s))) \<le> bn Decimal_100"
  unfolding deposit_def bammDepositFrom_amounts(1,2) bammDepositFrom_amounts(3) [OF assms(2)]
  using sum_of_shares [OF assms(1)] by blast

theorem bammDeposits_covered_witness:
  "(\<Sum>s\<leftarrow>[3, 4]. bn (bammCurrentTHUSD (bammDepositFrom 0 0 100 5 9 s 200 1 (10 ^ 18)))) \<le> 100"
  using bammDeposits_covered [of "[3, 4]" 9 0 0 100 5 200 1 "10 ^ 18"] by simp

text \<open>for a user without any value in the B.AMM the share to withdraw is the infinity sign, which
  \<open>Decimal.from\<close> then rejects: the guard of \<open>getWithdrawsSpShare\<close> tests an object and never takes
  the branch for zero.\<close>

theorem getWithdrawsSpShare_no_deposit:
  assumes "requireAddress conn None = Inr a" and "bamm_stake (chain_of conn) a None = Inr s"
    and "getBammDeposit 0 conn (Some a) b = Inr d" and "Decimal_isZero (currentUSD d)"
  shows "getWithdrawsSpShare conn (DDecimal x) b = Inr infinity_sign \<and>
    Decimal_from (DString infinity_sign) = Inl (Error (''bad decimal format: '' @ [CHR 0x22] @ infinity_sign @ [CHR 0x22]))"
proof -
  have "\<not> stringRepresentationFormat infinity_sign"
    by (simp add: stringRepresentationFormat_def infinity_sign_def is_digit_def)
  with assms show ?thesis
    by (simp add: getWithdrawsSpShare_def Decimal_div_def Decimal_toString_def Decimal_fromString.simps)
qed

definition empty_chain :: chain where
  "empty_chain =
     \<lparr>toNumber = Inr, L_Collateral = \<lambda>_. Inr 0, L_THUSDDebt = \<lambda>_. Inr 0,
      Troves = \<lambda>_ _. Inr \<lparr>bt_status = 2, bt_coll = 0, bt_debt = 0, bt_stake = 0\<rparr>,
      rewardSnapshots = \<lambda>_ _. Inr (0, 0), getTroveOwnersCount = \<lambda>_. Inr 0, fetchPrice = \<lambda>_. Inr (10 ^ 18),
      priceFeed_getMarketPrice = \<lambda>_. Inl TypeError, priceFeed_redemptionRate = \<lambda>_. Inr 0,
      priceFeed_deviationFactor = \<lambda>_. Inr 0, activePool_getCollateralBalance = \<lambda>_. Inr 0,
      activePool_getTHUSDDebt = \<lambda>_. Inr 0, defaultPool_getCollateralBalance = \<lambda>_. Inr 0,
      defaultPool_getTHUSDDebt = \<lambda>_. Inr 0, bamm_address = ''0xB'', bamm_stake = \<lambda>_ _. Inr 0,
      bamm_total = \<lambda>_. Inr 0, borrowerOperations_address = ''0xO'',
      borrowerOperations_collateralAddress = \<lambda>_. Inr ZERO_ADDRESS, erc20_symbol = \<lambda>_. Inr ''T'',
      erc20_balanceOf = \<lambda>_ _. Inr 0, erc20_allowance = \<lambda>_ _ _. Inr 0, troveManager_address = ''0xM'',
      troveManager_thusdToken = \<lambda>_. Inr ''0xT'', stabilityPool_address = ''0xS'',
      stabilityPool_deposits = \<lambda>_ _. Inr 0, getCompoundedTHUSDDeposit = \<lambda>_ _. Inr 0,
      getDepositorCollateralGain = \<lambda>_ _. Inr 0, getTotalTHUSDDeposits = \<lambda>_. Inr 0,
      provider_getBalance = \<lambda>_ _. Inr 0, pcv_address = ''0xP'', thusdToken_balanceOf = \<lambda>_ _. Inr 0,
      thusdToken_allowance = \<lambda>_ _ _. Inr 0, thusdToken_isStabilityPools = \<lambda>_ _. Inr True,
      thusdToken_isBorrowerOperations = \<lambda>_ _. Inr True, thusdToken_isTroveManager = \<lambda>_ _. Inr True,
      thusdToken_mintList = \<lambda>_ _. Inr True, collSurplusPool_getCollateral = \<lambda>_ _. Inr 0,
      getMultipleSortedTroves = \<lambda>_ _ _. Inr [], lastFeeOperationTime = \<lambda>_. Inr 60,
      troveManager_baseRate = \<lambda>_. Inr 0, getBlockTimestamp = \<lambda>_. Inr 90\<rparr>"

definition empty_connection :: connection where
  "empty_connection = \<lparr>chain_of = empty_chain, userAddress = Some ''0xA''\<rparr>"

lemma empty_connection_sel [simp]:
  "chain_of empty_connection = empty_chain" "userAddress empty_connection = Some ''0xA''"
  by (simp_all add: empty_connection_def)

theorem getTrove_not_open_empty_witness:
  "\<exists>t. getTrove empty_connection None None = Inr t \<and> Trove_isEmpty t"
proof -
  let ?t = "\<lparr>collateral = Decimal_ZERO, debt = Decimal_ZERO, ownerAddress = ''0xA'', status = ClosedByOwner\<rparr>"
  have t: "getTrove empty_connection None None = Inr ?t"
    by (simp add: getTrove_def getTroveBeforeRedistribution_def addressOr_def requireAddress_def
        getTotalRedistributed_def decimalifyR_def userTroveStatusFrom_def applyRedistribution_eq empty_chain_def
        emptyTrove_def decimalify_def decimal_eq_iff)
  from getTrove_not_open_empty [OF t] t show ?thesis by auto
qed

theorem getWithdrawsSpShare_no_deposit_witness:
  "getWithdrawsSpShare empty_connection (DDecimal Decimal_ONE) None = Inr infinity_sign"
proof -
  have d: "getBammDeposit 0 empty_connection (Some ''0xA'') None = Inr (bammDepositFrom 0 0 0 0 0 0 0 0 (10 ^ 18))"
    by (simp add: getBammDeposit_def addressOr_def empty_chain_def)
  have "requireAddress empty_connection None = Inr ''0xA''" "bamm_stake (chain_of empty_connection) ''0xA'' None = Inr 0"
    "Decimal_isZero (currentUSD (bammDepositFrom 0 0 0 0 0 0 0 0 (10 ^ 18)))"
    by (simp_all add: requireAddress_def empty_chain_def bammDepositFrom_def Let_def Decimal_isZero_def)
  from getWithdrawsSpShare_no_deposit [OF this(1,2) d this(3), of Decimal_ONE] show ?thesis by blast
qed

section \<open>Fees and listings\<close>

lemma decay_factor_valid: "Decimal_lt MINUTE_DECAY_FACTOR Decimal_ONE"
  by (simp add: MINUTE_DECAY_FACTOR_def Decimal_lt_def DIGITS_num)

lemma new_Fees_backend:
  "\<exists>f. new_Fees r MINUTE_DECAY_FACTOR BETA l t m = Inr f \<and> Fees_valid f \<and> recoveryMode f = m"
  by (simp add: new_Fees_def decay_factor_valid Fees_valid_def)

text \<open>listing troves with redistribution applied gives the troves of the listing before
  redistribution, in the same order, each with the pending redistribution applied; both forms query
  the backend with the same index, which is negative exactly for the ascending order.\<close>

theorem getTroves_forms_agree:
  assumes "getTroves conn (params\<lparr>beforeRedistribution := True\<rparr>) b = Inr (Inl ts)"
    and "getTotalRedistributed conn b = Inr r"
  shows "\<exists>us index. getTroves conn (params\<lparr>beforeRedistribution := False\<rparr>) b = Inr (Inr us) \<and>
    mapR (\<lambda>t. applyRedistribution t r) ts = Inr us \<and> length us = length ts \<and>
    (\<exists>n backend. getMultipleSortedTroves (chain_of conn) index n b = Inr backend \<and> ts = mapBackendTroves backend) \<and>
    (index < 0 \<longleftrightarrow> sortedBy params = ''ascendingCollateralRatio'')"
proof -
  let ?start = "case startingAt params of None \<Rightarrow> 0 | Some k \<Rightarrow> number_value k"
  let ?index = "if sortedBy params = ''descendingCollateralRatio'' then ?start else - (?start + 1)"
  let ?n = "nat (number_value (first params))"
  from assms(1) have v: "expectPositiveInt ''first'' (Some (first params)) = Inr ()"
      "expectPositiveInt ''startingAt'' (startingAt params) = Inr ()"
      "sortedBy params \<in> set validSortingOptions"
    and f: "\<exists>backend. getMultipleSortedTroves (chain_of conn) ?index ?n b = Inr backend \<and> ts = mapBackendTroves backend"
    by (auto simp: getTroves_def bindR_Inr_iff Let_def split: if_splits)
  have start: "0 \<le> ?start"
    using v(2) by (auto simp: expectPositiveInt_def split: option.splits jsNumber.splits if_splits)
  obtain us where us: "mapR (\<lambda>t. applyRedistribution t r) ts = Inr us" "length us = length ts"
    using mapR_total [of ts "\<lambda>t. applyRedistribution t r" "\<lambda>t. projr (applyRedistribution t r)"]
    by (simp add: applyRedistribution_eq)
  have "getTroves conn (params\<lparr>beforeRedistribution := False\<rparr>) b = Inr (Inr us)"
    using f v us(1) assms(2) by (auto simp: getTroves_def Let_def)
  moreover have "?index < 0 \<longleftrightarrow> sortedBy params = ''ascendingCollateralRatio''"
    using start v(3) by (auto simp: validSortingOptions_def)
  ultimately show ?thesis using f us by blast
qed

definition example_listing :: troveListingParams where
  "example_listing = \<lparr>first = JInt 2, sortedBy = ''ascendingCollateralRatio'', startingAt = None,
     beforeRedistribution = True\<rparr>"

theorem getTroves_forms_agree_witness:
  "\<exists>us. getTroves empty_connection (example_listing\<lparr>beforeRedistribution := False\<rparr>) None = Inr (Inr us)"
proof -
  have "getTroves empty_connection (example_listing\<lparr>beforeRedistribution := True\<rparr>) None = Inr (Inl [])"
    "getTotalRedistributed empty_connection None = Inr emptyTrove"
    by (simp_all add: getTroves_def example_listing_def expectPositiveInt_def validSortingOptions_def Let_def
        empty_chain_def mapBackendTroves_def getTotalRedistributed_def decimalifyR_def decimalify_def
        emptyTrove_def Decimal_ZERO_def)
  from getTroves_forms_agree [OF this] show ?thesis by blast
qed

end
