(* ===== verification/BlockPolledStore.thy ===== *)
theory BlockPolledStore
  imports LiquityStore_Correct ReadableEthers
begin

text \<open>
  The store of \<open>packages/lib-ethers/src/BlockPolledLiquityStore.ts\<close>, which fetches the whole state
  for every new block, and the reads through it (class \<open>_BlockPolledReadableEthersLiquity\<close> of
  \<open>ReadableEthersLiquity.ts\<close>).

  A fetch is started by \<open>start\<close> (without a block tag) and for every new block, and resolves later;
  fetches in flight may resolve in any order.  \<open>Decimal.ZERO\<close> is one object, with identity 0.
\<close>

section \<open>Extra state\<close>

record polledExtra =
  extraBlockTag :: "nat option"
  extraBlockTimestamp :: nat
  extraFeesFactory :: "feesFactory obj"
  extraBammAllowance :: "decimal obj"

record polledExtraUpdate =
  newBlockTag :: "nat option"
  newBlockTimestamp :: "nat option"
  newFeesFactory :: "(feesFactory obj) option"
  newBammAllowance :: "(decimal obj) option"

definition polled_reduceExtra :: "polledExtra \<Rightarrow> polledExtraUpdate \<Rightarrow> polledExtra" where
  "polled_reduceExtra x u =
     \<lparr>extraBlockTag = (case newBlockTag u of Some t \<Rightarrow> Some t | None \<Rightarrow> extraBlockTag x),
      extraBlockTimestamp = coalesce (newBlockTimestamp u) (extraBlockTimestamp x),
      extraFeesFactory = coalesce (newFeesFactory u) (extraFeesFactory x),
      extraBammAllowance = coalesce (newBammAllowance u) (extraBammAllowance x)\<rparr>"

definition polledClass :: "(polledExtra, polledExtraUpdate) extraClass" where
  "polledClass =
     \<lparr>reduceExtra = polled_reduceExtra,
      extra_entries = (\<lambda>x.
        [(''blockTag'', case extraBlockTag x of Some t \<Rightarrow> VNumber t | None \<Rightarrow> VUndefined),
         (''blockTimestamp'', VNumber (extraBlockTimestamp x)),
         (''_feesFactory'', VFunction (oid (extraFeesFactory x))),
         (''bammAllowance'', VDecimal (extraBammAllowance x))])\<rparr>"

type_synonym polledStore = "polledExtra store"

section \<open>Fetching the state\<close>

definition ZERO_obj :: "decimal obj" where
  "ZERO_obj = Obj 0 Decimal_ZERO"

definition noTrove :: troveWithPendingRedistribution where
  "noTrove = \<lparr>collateral = Decimal_ZERO, debt = Decimal_ZERO, ownerAddress = ZERO_ADDRESS, status = NonExistent,
     stake = Decimal_ZERO, snapshotOfTotalRedistributed = emptyTrove\<rparr>"

definition zeroBammDeposit :: bammDeposit where
  "zeroBammDeposit = \<lparr>bammPoolShare = Decimal_ZERO, poolShare = Decimal_ZERO, bammInitialTHUSD = Decimal_ZERO,
     currentUSD = Decimal_ZERO, bammCurrentTHUSD = Decimal_ZERO, bammCollateralGain = Decimal_ZERO,
     totalCollateralInBamm = ZERO_obj, totalThusdInBamm = ZERO_obj\<rparr>"

definition getRiskiestTroveBeforeRedistribution ::
    "connection \<Rightarrow> blockTag \<Rightarrow> troveWithPendingRedistribution res" where
  "getRiskiestTroveBeforeRedistribution conn b =
     bindR (getTroves conn \<lparr>first = JInt 1, sortedBy = ''ascendingCollateralRatio'', startingAt = None,
              beforeRedistribution = True\<rparr> b)
       (\<lambda>r. case r of
              Inl (t # _) \<Rightarrow> Inr t
            | Inl [] \<Rightarrow> Inr noTrove
            | Inr _ \<Rightarrow> Inl TypeError)"

text \<open>The variables that are fetched for a connected user, or filled in without one.\<close>

record userState =
  us_accountBalance :: "decimal obj"
  us_thusdBalance :: "decimal obj"
  us_erc20TokenBalance :: "decimal obj"
  us_erc20TokenAllowance :: "decimal obj"
  us_collateralSurplusBalance :: "decimal obj"
  us_troveBeforeRedistribution :: "troveWithPendingRedistribution obj"
  us_stabilityDeposit :: "stabilityDeposit obj"
  us_bammDeposit :: "bammDeposit obj"

definition fetchUserState :: "nat \<Rightarrow> connection \<Rightarrow> blockTag \<Rightarrow> userState res" where
  "fetchUserState n conn b =
     (case userAddress conn of
        None \<Rightarrow>
          Inr \<lparr>us_accountBalance = ZERO_obj, us_thusdBalance = ZERO_obj, us_erc20TokenBalance = ZERO_obj,
               us_erc20TokenAllowance = ZERO_obj, us_collateralSurplusBalance = ZERO_obj,
               us_troveBeforeRedistribution = Obj n noTrove,
               us_stabilityDeposit = Obj (n + 1) \<lparr>initialTHUSD = Decimal_ZERO, currentTHUSD = Decimal_ZERO,
                 collateralGain = Decimal_ZERO\<rparr>,
               us_bammDeposit = Obj (n + 2) zeroBammDeposit\<rparr>
      | Some user \<Rightarrow>
          bindR (decimalifyR (provider_getBalance (chain_of conn) user b))
            (\<lambda>account. bindR (getTHUSDBalance conn (Some user) b)
               (\<lambda>thusd. bindR (getErc20TokenBalance conn (Some user) b)
                  (\<lambda>erc20. bindR (getErc20TokenAllowance conn (Some user) b)
                     (\<lambda>allowance. bindR (getCollateralSurplusBalance conn (Some user) b)
                        (\<lambda>surplus. bindR (getTroveBeforeRedistribution conn (Some user) b)
                           (\<lambda>t. bindR (getStabilityDeposit conn (Some user) b)
                              (\<lambda>deposit. Inr
                                 \<lparr>us_accountBalance = Obj n account, us_thusdBalance = Obj (n + 1) thusd,
                                  us_erc20TokenBalance = Obj (n + 2) erc20,
                                  us_erc20TokenAllowance = Obj (n + 3) allowance,
                                  us_collateralSurplusBalance = Obj (n + 4) surplus,
                                  us_troveBeforeRedistribution = Obj (n + 5) t,
                                  us_stabilityDeposit = Obj (n + 6) deposit,
                                  us_bammDeposit = Obj (n + 7) zeroBammDeposit\<rparr>))))))))"

text \<open>\<open>_get\<close>; the objects it creates get identities from \<open>n\<close> on, at most \<open>fetch_objects\<close> of them.\<close>

definition fetch_objects :: nat where
  "fetch_objects = 20"

definition fetchState :: "nat \<Rightarrow> connection \<Rightarrow> blockTag \<Rightarrow> (baseState \<times> polledExtra) res" where
  "fetchState n conn b =
     bindR (getBlockTimestamp (chain_of conn) b)
      (\<lambda>timestamp. bindR (getFeesFactory conn b)
      (\<lambda>factory. bindR (getPrice conn b)
      (\<lambda>p. bindR (getMarketPrice conn b)
      (\<lambda>market. bindR (getRedemptionRate conn b)
      (\<lambda>rate. bindR (getDeviationFactor conn b)
      (\<lambda>deviation. bindR (getNumberOfTroves conn b)
      (\<lambda>number. bindR (getTotalRedistributed conn b)
      (\<lambda>redistributed. bindR (getTotal conn b)
      (\<lambda>tot. bindR (getTHUSDInStabilityPool conn b)
      (\<lambda>inPool. bindR (getRiskiestTroveBeforeRedistribution conn b)
      (\<lambda>riskiest. bindR (getSymbol conn b)
      (\<lambda>sym. bindR (getCollateralAddress conn b)
      (\<lambda>collAddress. bindR (getStableAddress conn b)
      (\<lambda>stable. bindR (checkMintList conn b)
      (\<lambda>mint. bindR (readIsStabilityPools conn b)
      (\<lambda>isPools. bindR (readIsBorrowerOperations conn b)
      (\<lambda>isOperations. bindR (readIsTroveManager conn b)
      (\<lambda>isManager. bindR (fetchUserState (n + 10) conn b)
      (\<lambda>us. bindR (factory (int timestamp) False)
      (\<lambda>f. Inr
        (\<lparr>numberOfTroves = number, accountBalance = us_accountBalance us, thusdBalance = us_thusdBalance us,
          erc20TokenBalance = us_erc20TokenBalance us, erc20TokenAllowance = us_erc20TokenAllowance us,
          isStabilityPools = isPools, isBorrowerOperations = isOperations, isTroveManager = isManager,
          collateralSurplusBalance = us_collateralSurplusBalance us, price = Obj n p,
          marketPrice = Obj (n + 1) market, piRedemptionRate = Obj (n + 2) rate,
          deviationFactor = Obj (n + 3) deviation, thusdInStabilityPool = Obj (n + 4) inPool,
          pcvBalance = ZERO_obj, total_trove = Obj (n + 5) tot, totalRedistributed = Obj (n + 6) redistributed,
          troveBeforeRedistribution = us_troveBeforeRedistribution us, symbol = sym,
          collateralAddress = collAddress, stableAddress = stable, stabilityDeposit = us_stabilityDeposit us,
          bammDeposit = us_bammDeposit us, mintList = mint, feesInNormalMode = Obj (n + 7) f,
          riskiestTroveBeforeRedistribution = Obj (n + 8) riskiest\<rparr>,
         \<lparr>extraBlockTag = b, extraBlockTimestamp = timestamp, extraFeesFactory = Obj (n + 9) factory,
          extraBammAllowance = ZERO_obj\<rparr>)))))))))))))))))))))"

section \<open>Polling\<close>

text \<open>A fetched state passed to \<open>_update\<close>: every property is present.\<close>

definition full_update :: "baseState \<Rightarrow> baseStateUpdate" where
  "full_update b =
     \<lparr>newNumberOfTroves = Some (numberOfTroves b),
      newAccountBalance = Some (accountBalance b), newThusdBalance = Some (thusdBalance b),
      newErc20TokenBalance = Some (erc20TokenBalance b),
      newErc20TokenAllowance = Some (erc20TokenAllowance b),
      newIsStabilityPools = Some (isStabilityPools b),
      newIsBorrowerOperations = Some (isBorrowerOperations b),
      newIsTroveManager = Some (isTroveManager b),
      newCollateralSurplusBalance = Some (collateralSurplusBalance b),
      newPrice = Some (price b), newMarketPrice = Some (marketPrice b),
      newPiRedemptionRate = Some (piRedemptionRate b),
      newDeviationFactor = Some (deviationFactor b),
      newThusdInStabilityPool = Some (thusdInStabilityPool b),
      newPcvBalance = Some (pcvBalance b), newTotal_trove = Some (total_trove b),
      newTotalRedistributed = Some (totalRedistributed b),
      newTroveBeforeRedistribution = Some (troveBeforeRedistribution b),
      newSymbol = Some (symbol b), newCollateralAddress = Some (collateralAddress b),
      newStableAddress = Some (stableAddress b),
      newStabilityDeposit = Some (stabilityDeposit b), newBammDeposit = Some (bammDeposit b),
      newMintList = Some (mintList b), newFeesInNormalMode = Some (feesInNormalMode b),
      newRiskiestTroveBeforeRedistribution = Some (riskiestTroveBeforeRedistribution b)\<rparr>"

definition full_extra :: "polledExtra \<Rightarrow> polledExtraUpdate" where
  "full_extra x =
     \<lparr>newBlockTag = extraBlockTag x, newBlockTimestamp = Some (extraBlockTimestamp x),
      newFeesFactory = Some (extraFeesFactory x), newBammAllowance = Some (extraBammAllowance x)\<rparr>"

text \<open>The fetches that are in flight, by their block tag; \<open>None\<close> is the first one, of \<open>_doStart\<close>.\<close>

record poller =
  storeOf :: polledStore
  inFlight :: "blockTag list"
  listening :: bool

definition new_poller :: "bool \<Rightarrow> poller" where
  "new_poller onLoaded = \<lparr>storeOf = (new_store onLoaded)\<lparr>nextId := 1\<rparr>, inFlight = [], listening = False\<rparr>"

definition startPolling :: "poller \<Rightarrow> poller" where
  "startPolling p = p\<lparr>inFlight := inFlight p @ [None], listening := True\<rparr>"

definition stopPolling :: "poller \<Rightarrow> poller" where
  "stopPolling p = p\<lparr>listening := False, storeOf := cancelUpdateIfScheduled (storeOf p)\<rparr>"

definition onBlock :: "nat \<Rightarrow> poller \<Rightarrow> poller" where
  "onBlock n p = (if listening p then p\<lparr>inFlight := inFlight p @ [Some n]\<rparr> else p)"

text \<open>
  What happens in the store when a fetch has resolved to a state: the callback of \<open>_doStart\<close> or
  of the block listener.
\<close>

definition deliver ::
    "(nat \<Rightarrow> listenerParams \<Rightarrow> listenerOp list) \<Rightarrow> blockTag \<Rightarrow> baseState \<times> polledExtra \<Rightarrow>
     polledStore \<Rightarrow> unit res \<times> polledStore" where
  "deliver react tag st s =
     (case tag of
        None \<Rightarrow> if \<not> loaded s then load (fst st) (Some (snd st)) s else (Inr (), s)
      | Some _ \<Rightarrow>
          if loaded s then
            (let (r, s') = update polledClass react (Some (full_update (fst st))) (Some (full_extra (snd st))) s
             in (bindR r (\<lambda>_. Inr ()), s'))
          else load (fst st) (Some (snd st)) s)"

text \<open>
  A fetch in flight is settled at a moment when the chain is as \<open>conn\<close> says.  A rejected fetch
  leaves the store alone.
\<close>

definition settle ::
    "(nat \<Rightarrow> listenerParams \<Rightarrow> listenerOp list) \<Rightarrow> connection \<Rightarrow> blockTag \<Rightarrow> poller \<Rightarrow> unit res \<times> poller" where
  "settle react conn tag p =
     (let s = storeOf p; p = p\<lparr>inFlight := remove1 tag (inFlight p)\<rparr>
      in case fetchState (nextId s) conn tag of
           Inl e \<Rightarrow> (Inl e, p)
         | Inr st \<Rightarrow>
             (let (r, s') = deliver react tag st (s\<lparr>nextId := nextId s + fetch_objects\<rparr>)
              in (r, p\<lparr>storeOf := s'\<rparr>)))"

section \<open>Reading through the store\<close>

text \<open>
  \<open>None\<close> as a result is \<open>undefined\<close>, which a store that is not loaded gives.
\<close>

definition readThrough :: "bool \<Rightarrow> 'a option \<Rightarrow> 'a res \<Rightarrow> 'a option res" where
  "readThrough hit stored direct = (if hit then Inr stored else bindR direct (\<lambda>x. Inr (Some x)))"

definition blockHit :: "polledStore \<Rightarrow> blockTag \<Rightarrow> bool" where
  "blockHit s b \<longleftrightarrow>
     b = None \<or> (\<exists>x t. extraStateOf s = Some x \<and> b = Some t \<and> extraBlockTag x = Some t)"

definition userHit :: "polledStore \<Rightarrow> connection \<Rightarrow> string option \<Rightarrow> blockTag \<Rightarrow> bool" where
  "userHit s conn address b \<longleftrightarrow> blockHit s b \<and> (address = None \<or> address = userAddress conn)"

definition polled_getTotalRedistributed :: "polledStore \<Rightarrow> connection \<Rightarrow> blockTag \<Rightarrow> trove option res" where
  "polled_getTotalRedistributed s conn b =
     readThrough (blockHit s b) (map_option (\<lambda>b. val (totalRedistributed b)) (baseStateOf s)) (getTotalRedistributed conn b)"

definition polled_getNumberOfTroves :: "polledStore \<Rightarrow> connection \<Rightarrow> blockTag \<Rightarrow> nat option res" where
  "polled_getNumberOfTroves s conn b =
     readThrough (blockHit s b) (map_option numberOfTroves (baseStateOf s)) (getNumberOfTroves conn b)"

definition polled_getPrice :: "polledStore \<Rightarrow> connection \<Rightarrow> blockTag \<Rightarrow> decimal option res" where
  "polled_getPrice s conn b =
     readThrough (blockHit s b) (map_option (\<lambda>b. val (price b)) (baseStateOf s)) (getPrice conn b)"

definition polled_getTotal :: "polledStore \<Rightarrow> connection \<Rightarrow> blockTag \<Rightarrow> trove option res" where
  "polled_getTotal s conn b =
     readThrough (blockHit s b) (map_option (\<lambda>b. val (total_trove b)) (baseStateOf s)) (getTotal conn b)"

definition polled_getSymbol :: "polledStore \<Rightarrow> connection \<Rightarrow> blockTag \<Rightarrow> string option res" where
  "polled_getSymbol s conn b =
     readThrough (blockHit s b) (map_option symbol (baseStateOf s)) (getSymbol conn b)"

definition polled_getCollateralAddress :: "polledStore \<Rightarrow> connection \<Rightarrow> blockTag \<Rightarrow> string option res" where
  "polled_getCollateralAddress s conn b =
     readThrough (blockHit s b) (map_option collateralAddress (baseStateOf s)) (getCollateralAddress conn b)"

definition polled_getTHUSDInStabilityPool :: "polledStore \<Rightarrow> connection \<Rightarrow> blockTag \<Rightarrow> decimal option res" where
  "polled_getTHUSDInStabilityPool s conn b =
     readThrough (blockHit s b) (map_option (\<lambda>b. val (thusdInStabilityPool b)) (baseStateOf s)) (getTHUSDInStabilityPool conn b)"

definition polled_getPCVBalance :: "polledStore \<Rightarrow> connection \<Rightarrow> blockTag \<Rightarrow> decimal option res" where
  "polled_getPCVBalance s conn b =
     readThrough (blockHit s b) (map_option (\<lambda>b. val (pcvBalance b)) (baseStateOf s)) (getPCVBalance conn b)"

definition polled_isStabilityPools :: "polledStore \<Rightarrow> connection \<Rightarrow> blockTag \<Rightarrow> bool option res" where
  "polled_isStabilityPools s conn b =
     readThrough (blockHit s b) (map_option isStabilityPools (baseStateOf s)) (readIsStabilityPools conn b)"

definition polled_isBorrowerOperations :: "polledStore \<Rightarrow> connection \<Rightarrow> blockTag \<Rightarrow> bool option res" where
  "polled_isBorrowerOperations s conn b =
     readThrough (blockHit s b) (map_option isBorrowerOperations (baseStateOf s)) (readIsBorrowerOperations conn b)"

definition polled_isTroveManager :: "polledStore \<Rightarrow> connection \<Rightarrow> blockTag \<Rightarrow> bool option res" where
  "polled_isTroveManager s conn b =
     readThrough (blockHit s b) (map_option isTroveManager (baseStateOf s)) (readIsTroveManager conn b)"

definition polled_checkMintList :: "polledStore \<Rightarrow> connection \<Rightarrow> blockTag \<Rightarrow> bool option res" where
  "polled_checkMintList s conn b =
     readThrough (blockHit s b) (map_option mintList (baseStateOf s)) (checkMintList conn b)"

definition polled_getTroveBeforeRedistribution ::
    "polledStore \<Rightarrow> connection \<Rightarrow> string option \<Rightarrow> blockTag \<Rightarrow> troveWithPendingRedistribution option res" where
  "polled_getTroveBeforeRedistribution s conn address b =
     readThrough (userHit s conn address b) (map_option (\<lambda>b. val (troveBeforeRedistribution b)) (baseStateOf s))
       (getTroveBeforeRedistribution conn address b)"

definition polled_getStabilityDeposit ::
    "polledStore \<Rightarrow> connection \<Rightarrow> string option \<Rightarrow> blockTag \<Rightarrow> stabilityDeposit option res" where
  "polled_getStabilityDeposit s conn address b =
     readThrough (userHit s conn address b) (map_option (\<lambda>b. val (stabilityDeposit b)) (baseStateOf s))
       (getStabilityDeposit conn address b)"

definition polled_getTHUSDBalance ::
    "polledStore \<Rightarrow> connection \<Rightarrow> string option \<Rightarrow> blockTag \<Rightarrow> decimal option res" where
  "polled_getTHUSDBalance s conn address b =
     readThrough (userHit s conn address b) (map_option (\<lambda>b. val (thusdBalance b)) (baseStateOf s))
       (getTHUSDBalance conn address b)"

definition polled_getErc20TokenBalance ::
    "polledStore \<Rightarrow> connection \<Rightarrow> string option \<Rightarrow> blockTag \<Rightarrow> decimal option res" where
  "polled_getErc20TokenBalance s conn address b =
     readThrough (userHit s conn address b) (map_option (\<lambda>b. val (erc20TokenBalance b)) (baseStateOf s))
       (getErc20TokenBalance conn address b)"

definition polled_getErc20TokenAllowance ::
    "polledStore \<Rightarrow> connection \<Rightarrow> string option \<Rightarrow> blockTag \<Rightarrow> decimal option res" where
  "polled_getErc20TokenAllowance s conn address b =
     readThrough (userHit s conn address b) (map_option (\<lambda>b. val (erc20TokenAllowance b)) (baseStateOf s))
       (getErc20TokenAllowance conn address b)"

definition polled_getCollateralSurplusBalance ::
    "polledStore \<Rightarrow> connection \<Rightarrow> string option \<Rightarrow> blockTag \<Rightarrow> decimal option res" where
  "polled_getCollateralSurplusBalance s conn address b =
     readThrough (userHit s conn address b) (map_option (\<lambda>b. val (collateralSurplusBalance b)) (baseStateOf s))
       (getCollateralSurplusBalance conn address b)"

definition polled_getTrove ::
    "polledStore \<Rightarrow> connection \<Rightarrow> string option \<Rightarrow> blockTag \<Rightarrow> userTrove option res" where
  "polled_getTrove s conn address b =
     readThrough (userHit s conn address b) (map_option (\<lambda>d. val (trove d)) (derivedStateOf s))
       (getTrove conn address b)"

definition polled_getFees :: "polledStore \<Rightarrow> connection \<Rightarrow> blockTag \<Rightarrow> fees option res" where
  "polled_getFees s conn b =
     readThrough (blockHit s b) (map_option (\<lambda>d. val (currentFees d)) (derivedStateOf s)) (getFees conn b)"

definition polled_getBammDeposit ::
    "polledStore \<Rightarrow> nat \<Rightarrow> connection \<Rightarrow> string option \<Rightarrow> blockTag \<Rightarrow> bammDeposit option res" where
  "polled_getBammDeposit s n conn address b =
     readThrough (userHit s conn address b) (map_option (\<lambda>b. val (bammDeposit b)) (baseStateOf s))
       (getBammDeposit n conn address b)"

definition polled_getBlockTimestamp :: "polledStore \<Rightarrow> connection \<Rightarrow> blockTag \<Rightarrow> nat option res" where
  "polled_getBlockTimestamp s conn b =
     readThrough (blockHit s b) (map_option extraBlockTimestamp (extraStateOf s))
       (getBlockTimestamp (chain_of conn) b)"

definition polled_getFeesFactory :: "polledStore \<Rightarrow> connection \<Rightarrow> blockTag \<Rightarrow> feesFactory option res" where
  "polled_getFeesFactory s conn b =
     readThrough (blockHit s b) (map_option (\<lambda>x. val (extraFeesFactory x)) (extraStateOf s))
       (getFeesFactory conn b)"

definition polled_getBammAllowance :: "polledStore \<Rightarrow> connection \<Rightarrow> blockTag \<Rightarrow> decimal option res" where
  "polled_getBammAllowance s conn b =
     readThrough (blockHit s b) (map_option (\<lambda>x. val (extraBammAllowance x)) (extraStateOf s))
       (getBammAllowance conn b)"

end
