(* ===== verification/BlockPolledStore_Correct.thy ===== *)
theory BlockPolledStore_Correct
  imports BlockPolledStore ReadableEthers_Correct
begin

text \<open>
  Correctness of polling: whatever the order in which fetches resolve, no assertion of the store
  fails; the store holds the state of the fetch that resolved last; reads through a store loaded for
  a block give what the chain gives for that block.
\<close>

section \<open>Reachable pollers\<close>

definition timely_fetch :: "nat \<Rightarrow> connection \<Rightarrow> blockTag \<Rightarrow> bool" where
  "timely_fetch n conn tag \<longleftrightarrow>
     (case fetchState n conn tag of Inl _ \<Rightarrow> True | Inr (b, x) \<Rightarrow> timely (feesInNormalMode b))"

inductive polled_reachable :: "poller \<Rightarrow> bool" where
  polled_new: "polled_reachable (new_poller onLoaded)"
| polled_start: "polled_reachable p \<Longrightarrow> polled_reachable (startPolling p)"
| polled_stop: "polled_reachable p \<Longrightarrow> polled_reachable (stopPolling p)"
| polled_block: "polled_reachable p \<Longrightarrow> polled_reachable (onBlock n p)"
| polled_settle: "polled_reachable p \<Longrightarrow> tag \<in> set (inFlight p) \<Longrightarrow>
    timely_fetch (nextId (storeOf p)) conn tag \<Longrightarrow> settle react conn tag p = (r, p') \<Longrightarrow> polled_reachable p'"
| polled_timer: "polled_reachable p \<Longrightarrow> i \<in> set (timers (storeOf p)) \<Longrightarrow>
    fireTimer polledClass react i (storeOf p) = (r, s') \<Longrightarrow> polled_reachable (p\<lparr>storeOf := s'\<rparr>)"
| polled_perform: "polled_reachable p \<Longrightarrow> polled_reachable (p\<lparr>storeOf := perform (storeOf p) op\<rparr>)"

lemma timely_full_update: "timely_update (Some (full_update b)) = timely (feesInNormalMode b)"
  by (simp add: timely_update_def full_update_def)

lemma deliver_reachable:
  assumes "reachable polledClass s" and "timely (feesInNormalMode (fst st))" and "deliver react tag st s = (r, s')"
  shows "reachable polledClass s'"
proof (cases "loaded s")
  case True
  show ?thesis
  proof (cases tag)
    case None
    with True assms show ?thesis by (simp add: deliver_def)
  next
    case (Some n)
    obtain q t where u: "update polledClass react (Some (full_update (fst st))) (Some (full_extra (snd st))) s = (q, t)"
      by (cases "update polledClass react (Some (full_update (fst st))) (Some (full_extra (snd st))) s")
    with True Some assms(3) have "s' = t" by (auto simp: deliver_def)
    with reach_update [OF assms(1) _ u] assms(2) show ?thesis by (simp add: timely_full_update)
  qed
next
  case False
  with assms(3) have "load (fst st) (Some (snd st)) s = (r, s')"
    by (auto simp: deliver_def split: option.splits)
  with reach_load [OF assms(1,2)] show ?thesis by blast
qed

text \<open>A loaded store of a poller has extra state.\<close>

definition extra_ok :: "polledStore \<Rightarrow> bool" where
  "extra_ok s \<longleftrightarrow> (loaded s \<longrightarrow> extraStateOf s \<noteq> None)"

lemma extra_ok_cong:
  "loaded s' = loaded s \<Longrightarrow> extraStateOf s' = extraStateOf s \<Longrightarrow> extra_ok s' = extra_ok s"
  by (simp add: extra_ok_def)

lemma update_extra:
  assumes "update cls react bu xu s = (r, s')"
  shows "loaded s' = loaded s \<and> (extraStateOf s \<noteq> None \<longrightarrow> extraStateOf s' \<noteq> None)"
proof -
  have fin: "loaded s' = loaded t \<and> extraStateOf s' = extraStateOf t"
    if "finishUpdate cls react old t = (r, s')" for old t
    using finishUpdate_eq [OF that] by blast
  show ?thesis
    using assms by (auto simp: update_def Let_def split: option.splits sum.splits dest!: fin)
qed

lemma load_extra:
  "load b (Some x) s = (r, s') \<Longrightarrow> extra_ok s \<Longrightarrow> extra_ok s'"
  by (auto simp: load_def Let_def extra_ok_def split: if_splits sum.splits)

lemma deliver_extra: "deliver react tag st s = (r, s') \<Longrightarrow> extra_ok s \<Longrightarrow> extra_ok s'"
  using update_extra [of polledClass react] load_extra
  by (fastforce simp: deliver_def extra_ok_def split: option.splits if_splits prod.splits)

lemma polled_store_reachable:
  "polled_reachable p \<Longrightarrow> reachable polledClass (storeOf p) \<and> extra_ok (storeOf p)"
proof (induction rule: polled_reachable.induct)
  case (polled_new onLoaded)
  show ?case
    using reach_alloc [OF reach_new, of onLoaded 1]
    by (simp add: new_poller_def new_store_def extra_ok_def)
next
  case (polled_settle p tag conn react r p')
  let ?s = "(storeOf p)\<lparr>nextId := nextId (storeOf p) + fetch_objects\<rparr>"
  have s: "reachable polledClass ?s" "extra_ok ?s"
    using reach_alloc [of polledClass "storeOf p"] polled_settle.IH by (auto simp: extra_ok_def)
  show ?case
  proof (cases "fetchState (nextId (storeOf p)) conn tag")
    case (Inl e)
    with polled_settle show ?thesis by (auto simp: settle_def Let_def)
  next
    case (Inr st)
    obtain q t where d: "deliver react tag st ?s = (q, t)" by (cases "deliver react tag st ?s")
    with Inr polled_settle.hyps have "storeOf p' = t" by (auto simp: settle_def Let_def)
    moreover have "timely (feesInNormalMode (fst st))"
      using Inr polled_settle.hyps by (auto simp: timely_fetch_def split: prod.splits)
    ultimately show ?thesis using deliver_reachable [OF s(1) _ d] deliver_extra [OF d s(2)] by simp
  qed
next
  case (polled_timer p i react r s')
  then show ?case
    using reach_timer [of polledClass "storeOf p" i react r s'] update_extra [of polledClass react None None _ r s']
    by (fastforce simp: fireTimer_def extra_ok_def)
next
  case (polled_stop p)
  have "extra_ok (cancelUpdateIfScheduled (storeOf p)) = extra_ok (storeOf p)"
    by (rule extra_ok_cong) (auto simp: cancelUpdateIfScheduled_def split: option.splits)
  with polled_stop show ?case using reach_stop by (auto simp: stopPolling_def)
next
  case (polled_perform p op)
  then show ?case using reach_perform by (auto simp: extra_ok_def simp del: perform.simps)
qed (auto simp: startPolling_def onBlock_def)


section \<open>Settling a fetch\<close>

lemma update_extraState:
  assumes "update cls react bu (Some u) s = (Inr (params, calls), s')"
  shows "extraStateOf s' = map_option (\<lambda>x. reduceExtra cls x u) (extraStateOf s)"
proof -
  have fin: "extraStateOf s' = extraStateOf t"
    if "finishUpdate cls react old t = (Inr (params, calls), s')" for old t
    using finishUpdate_eq [OF that] by blast
  show ?thesis
    using assms by (auto simp: update_def Let_def split: option.splits sum.splits dest!: fin)
qed

text \<open>The state variables that follow every fetch, by value.\<close>

definition follows :: "baseState \<Rightarrow> baseState \<Rightarrow> bool" where
  "follows b st \<longleftrightarrow>
     numberOfTroves b = numberOfTroves st \<and> val (price b) = val (price st) \<and>
     val (total_trove b) = val (total_trove st) \<and> val (totalRedistributed b) = val (totalRedistributed st) \<and>
     val (troveBeforeRedistribution b) = val (troveBeforeRedistribution st) \<and>
     val (stabilityDeposit b) = val (stabilityDeposit st) \<and> val (thusdBalance b) = val (thusdBalance st) \<and>
     val (feesInNormalMode b) = val (feesInNormalMode st)"

lemma reduce_follows: "follows (reduce b (full_update st)) st"
  by (simp add: follows_def reduce_def full_update_def store_simps)

lemma load_result:
  assumes "load b (Some x) s = (r, s')" and "\<not> loaded s" and "timely (feesInNormalMode b)"
  shows "r = Inr () \<and> loaded s' \<and> baseStateOf s' = Some b \<and> extraStateOf s' = Some x \<and>
    (\<exists>d. derive (nextId s) b = Inr d \<and> derivedStateOf s' = Some d)"
proof -
  obtain d where "derive (nextId s) b = Inr d" using derive_defined [OF assms(3)] by blast
  with assms show ?thesis by (auto simp: load_def Let_def split: if_splits)
qed

lemma deliver_block:
  assumes s: "reachable polledClass s" "extra_ok s" and st: "timely (feesInNormalMode (fst st))"
    and tag: "extraBlockTag (snd st) = Some n" and d: "deliver react (Some n) st s = (r, s')"
  shows "r = Inr () \<and> loaded s' \<and> length (timers s') = 1 \<and>
    (\<exists>b x. baseStateOf s' = Some b \<and> follows b (fst st) \<and> extraStateOf s' = Some x \<and> extraBlockTag x = Some n)"
proof (cases "loaded s")
  case True
  let ?u = "Some (full_update (fst st))" and ?x = "Some (full_extra (snd st))"
  obtain q t where u: "update polledClass react ?u ?x s = (q, t)" by (cases "update polledClass react ?u ?x s")
  from s(2) True obtain x where x: "extraStateOf s = Some x" by (auto simp: extra_ok_def)
  have "case q of Inr _ \<Rightarrow> length (timers t) = 1 | Inl _ \<Rightarrow> False"
    using update_ok [OF _ _ _ u] reachable_ok [OF s(1)] st True x
    by (auto simp: timely_full_update split: sum.splits)
  then obtain p c where q: "q = Inr (p, c)" and tm: "length (timers t) = 1" by (cases q) auto
  have "extraStateOf t = Some (polled_reduceExtra x (full_extra (snd st)))"
    using update_extraState [OF u [unfolded q]] x by (simp add: polledClass_def)
  moreover have "extraBlockTag (polled_reduceExtra x (full_extra (snd st))) = Some n"
    using tag by (simp add: polled_reduceExtra_def full_extra_def)
  moreover obtain b where "baseStateOf t = Some (reduce b (full_update (fst st)))" "loaded t = loaded s"
    by (rule update_success [OF u [unfolded q]]) auto
  moreover have "r = Inr ()" "s' = t" using d True u q by (auto simp: deliver_def)
  ultimately show ?thesis using tm True reduce_follows by auto
next
  case False
  with d have l: "load (fst st) (Some (snd st)) s = (r, s')" by (simp add: deliver_def)
  note lr = load_result [OF l False st]
  have "timers_ok s" using reachable_ok [OF s(1)] by simp
  then have "length (timers s') = 1"
    using l lr False timers_ok_schedule
    by (fastforce simp: load_def Let_def timers_ok_def scheduleUpdate_def cancelUpdateIfScheduled_def
        split: sum.splits option.splits if_splits)
  with lr tag show ?thesis by (auto simp: follows_def)
qed

lemma fetch_tag: "fetchState n conn b = Inr (bs, x) \<Longrightarrow> extraBlockTag x = b"
  by (auto simp: fetchState_def bindR_Inr_iff)


lemma settle_block:
  assumes p: "polled_reachable p" and f: "fetchState (nextId (storeOf p)) conn (Some n) = Inr (b, x)"
    and t: "timely (feesInNormalMode b)" and st: "settle react conn (Some n) p = (r, p')"
  shows "r = Inr () \<and> listening p' = listening p \<and> loaded (storeOf p') \<and> length (timers (storeOf p')) = 1 \<and>
    (\<exists>b' x'. baseStateOf (storeOf p') = Some b' \<and> follows b' b \<and>
       extraStateOf (storeOf p') = Some x' \<and> extraBlockTag x' = Some n)"
proof -
  let ?s = "(storeOf p)\<lparr>nextId := nextId (storeOf p) + fetch_objects\<rparr>"
  have s: "reachable polledClass ?s" "extra_ok ?s"
    using reach_alloc [of polledClass "storeOf p"] polled_store_reachable [OF p] by (auto simp: extra_ok_def)
  obtain q s' where d: "deliver react (Some n) (b, x) ?s = (q, s')" by (cases "deliver react (Some n) (b, x) ?s")
  have "storeOf p' = s'" "r = q" "listening p' = listening p" using st f d by (auto simp: settle_def Let_def)
  with deliver_block [OF s _ _ d] t fetch_tag [OF f] show ?thesis by simp
qed

text \<open>whatever fetches resolved before, in whatever order, the fetch for a block that resolves puts
  that block's state into the store, loading it or updating it, and no assertion of the store
  fails; the store ends up at that block even if it was at a later one.\<close>

theorem settle_puts_block:
  assumes "polled_reachable p" and "Some n \<in> set (inFlight p)"
    and "fetchState (nextId (storeOf p)) conn (Some n) = Inr (b, x)" and "timely (feesInNormalMode b)"
    and "settle react conn (Some n) p = (r, p')"
  shows "r = Inr () \<and> loaded (storeOf p') \<and>
    (\<exists>b' x'. baseStateOf (storeOf p') = Some b' \<and> follows b' b \<and>
       extraStateOf (storeOf p') = Some x' \<and> extraBlockTag x' = Some n)"
  using settle_block [OF assms(1,3,4,5)] by blast

text \<open>a fetch that was in flight when polling was stopped still updates the store when it
  resolves, and leaves the periodic refresh scheduled although nothing listens to blocks any more.\<close>

theorem settle_after_stop:
  assumes "polled_reachable p" and "Some n \<in> set (inFlight p)"
    and "fetchState (nextId (storeOf (stopPolling p))) conn (Some n) = Inr (b, x)" and "timely (feesInNormalMode b)"
    and "settle react conn (Some n) (stopPolling p) = (r, p')"
  shows "\<not> listening p' \<and> timers (storeOf (stopPolling p)) = [] \<and> length (timers (storeOf p')) = 1"
proof -
  have "timers_ok (storeOf p)" using polled_store_reachable [OF assms(1)] reachable_ok by blast
  then have "timers (storeOf (stopPolling p)) = []"
    by (auto simp: stopPolling_def cancelUpdateIfScheduled_def timers_ok_def split: option.splits)
  with settle_block [OF polled_stop [OF assms(1)] assms(3,4,5)] show ?thesis by (simp add: stopPolling_def)
qed

section \<open>Reading through the store\<close>

lemma blockHit_own: "extraStateOf s = Some x \<Longrightarrow> extraBlockTag x = Some n \<Longrightarrow> blockHit s (Some n)"
  by (simp add: blockHit_def)

lemma userHit_own:
  "extraStateOf s = Some x \<Longrightarrow> extraBlockTag x = Some n \<Longrightarrow> userAddress conn = Some a \<Longrightarrow> userHit s conn (Some a) (Some n)"
  by (simp add: userHit_def blockHit_own)

lemma fetch_block_values:
  assumes "fetchState n conn b = Inr (bs, x)"
  shows "getPrice conn b = Inr (val (price bs))" "getTotal conn b = Inr (val (total_trove bs))"
    "getTotalRedistributed conn b = Inr (val (totalRedistributed bs))"
    "getNumberOfTroves conn b = Inr (numberOfTroves bs)"
    "getTHUSDInStabilityPool conn b = Inr (val (thusdInStabilityPool bs))"
    "getSymbol conn b = Inr (symbol bs)" "checkMintList conn b = Inr (mintList bs)"
    "getBlockTimestamp (chain_of conn) b = Inr (extraBlockTimestamp x)"
    "getFeesFactory conn b = Inr (val (extraFeesFactory x))"
    "val (extraFeesFactory x) (int (extraBlockTimestamp x)) False = Inr (val (feesInNormalMode bs))"
    "fetchUserState (n + 10) conn b = Inr \<lparr>us_accountBalance = accountBalance bs, us_thusdBalance = thusdBalance bs,
       us_erc20TokenBalance = erc20TokenBalance bs, us_erc20TokenAllowance = erc20TokenAllowance bs,
       us_collateralSurplusBalance = collateralSurplusBalance bs,
       us_troveBeforeRedistribution = troveBeforeRedistribution bs, us_stabilityDeposit = stabilityDeposit bs,
       us_bammDeposit = bammDeposit bs\<rparr>"
  using assms by (auto simp: fetchState_def bindR_Inr_iff)

lemma fetch_user_values:
  assumes "fetchUserState n conn b = Inr us" and "userAddress conn = Some a"
  shows "getTHUSDBalance conn (Some a) b = Inr (val (us_thusdBalance us))"
    "getTroveBeforeRedistribution conn (Some a) b = Inr (val (us_troveBeforeRedistribution us))"
    "getStabilityDeposit conn (Some a) b = Inr (val (us_stabilityDeposit us))"
    "getErc20TokenBalance conn (Some a) b = Inr (val (us_erc20TokenBalance us))"
    "getErc20TokenAllowance conn (Some a) b = Inr (val (us_erc20TokenAllowance us))"
    "getCollateralSurplusBalance conn (Some a) b = Inr (val (us_collateralSurplusBalance us))"
  using assms by (auto simp: fetchUserState_def bindR_Inr_iff)

lemma factory_recovery:
  assumes "getFeesFactory conn b = Inr mk" and "mk ts False = Inr f"
  shows "mk ts m = Inr (f\<lparr>recoveryMode := m\<rparr>) \<and> Fees_valid f"
  using assms by (auto simp: getFeesFactory_def bindR_Inr_iff new_Fees_def assertR_Inr_iff Fees_valid_def)


lemma loaded_store:
  assumes "\<not> loaded s" and "fetchState k conn (Some n) = Inr (b, x)" and "timely (feesInNormalMode b)"
    and "deliver react (Some n) (b, x) s = (r, s')"
  obtains d where "baseStateOf s' = Some b" "extraStateOf s' = Some x" "extraBlockTag x = Some n"
    "derive (nextId s) b = Inr d" "derivedStateOf s' = Some d"
proof -
  from assms(1,4) have l: "load b (Some x) s = (r, s')" by (simp add: deliver_def)
  from load_result [OF l assms(1,3)] fetch_tag [OF assms(2)] that show thesis by blast
qed

lemma derived_trove:
  assumes "fetchState k conn b = Inr (bs, x)" and "userAddress conn = Some a" and "derive n bs = Inr d"
  shows "getTrove conn (Some a) b = Inr (val (trove d))"
  using fetch_block_values(3) [OF assms(1)] fetch_user_values(2) [OF fetch_block_values(11) [OF assms(1)] assms(2)]
    assms(3) by (auto simp: getTrove_def derive_def bindR_Inr_iff)

lemma derived_fees:
  assumes "fetchState k conn b = Inr (bs, x)" and "derive n bs = Inr d"
  shows "getFees conn b = Inr (val (currentFees d))"
proof -
  note v = fetch_block_values [OF assms(1)]
  let ?m = "Trove_collateralRatioIsBelowCritical (val (total_trove bs)) (val (price bs))"
  note fr = factory_recovery [OF v(9) v(10), of ?m]
  have "val (currentFees d) = (val (feesInNormalMode bs))\<lparr>recoveryMode := ?m\<rparr>"
    using assms(2) fr by (auto simp: derive_def bindR_Inr_iff Fees_setRecoveryMode_eq)
  with fr v show ?thesis by (simp add: getFees_def)
qed


text \<open>The balance of the PCV, the B.AMM deposit and its allowance are not fetched: through the store they
  read as zero.\<close>

lemma reads_of_unfetched:
  assumes "\<not> loaded s" and "fetchState k conn (Some n) = Inr (b, x)" and "timely (feesInNormalMode b)"
    and "deliver react (Some n) (b, x) s = (r, s')" and "userAddress conn = Some a"
  shows "polled_getPCVBalance s' conn (Some n) = Inr (Some Decimal_ZERO)"
    and "polled_getBammAllowance s' conn (Some n) = Inr (Some Decimal_ZERO)"
    and "polled_getBammDeposit s' m conn (Some a) (Some n) = Inr (Some zeroBammDeposit)"
proof -
  obtain d where s': "baseStateOf s' = Some b" "extraStateOf s' = Some x" "extraBlockTag x = Some n"
    by (rule loaded_store [OF assms(1-4)])
  note hit = blockHit_own [OF s'(2,3)] userHit_own [OF s'(2,3) assms(5)]
  have "pcvBalance b = ZERO_obj" "extraBammAllowance x = ZERO_obj" "val (bammDeposit b) = zeroBammDeposit"
    using assms(2,5) by (auto simp: fetchState_def fetchUserState_def bindR_Inr_iff)
  with s' hit show "polled_getPCVBalance s' conn (Some n) = Inr (Some Decimal_ZERO)"
    "polled_getBammAllowance s' conn (Some n) = Inr (Some Decimal_ZERO)"
    "polled_getBammDeposit s' m conn (Some a) (Some n) = Inr (Some zeroBammDeposit)"
    by (simp_all add: readThrough_def polled_getPCVBalance_def polled_getBammAllowance_def
        polled_getBammDeposit_def ZERO_obj_def)
qed

section \<open>An example run\<close>

definition no_reaction :: "nat \<Rightarrow> listenerParams \<Rightarrow> listenerOp list" where
  "no_reaction l params = []"

lemma empty_fetch:
  obtains b x where "fetchState n empty_connection tag = Inr (b, x)" "timely (feesInNormalMode b)"
proof -
  have "\<exists>b x. fetchState n empty_connection tag = Inr (b, x) \<and> timely (feesInNormalMode b)"
    by (simp add: fetchState_def fetchUserState_def empty_chain_def getFeesFactory_def getPrice_def
        getMarketPrice_def getRedemptionRate_def getDeviationFactor_def getNumberOfTroves_def
        getTotalRedistributed_def getTotal_def getActivePool_def getDefaultPool_def getTHUSDInStabilityPool_def
        getRiskiestTroveBeforeRedistribution_def getTroves_def getSymbol_def getCollateralAddress_def
        getStableAddress_def checkMintList_def readIsStabilityPools_def readIsBorrowerOperations_def
        readIsTroveManager_def getTHUSDBalance_def getErc20TokenBalance_def getErc20TokenAllowance_def
        getCollateralSurplusBalance_def getTroveBeforeRedistribution_def getStabilityDeposit_def
        addressOr_def decimalifyR_def new_Fees_def decay_factor_valid timely_def Fees_valid_def
        minutesSinceLastFeeOperation_def convertToDate_def new_StabilityDeposit_def Decimal_gt_def
        userTroveStatusFrom_def expectPositiveInt_def validSortingOptions_def Let_def mapBackendTroves_def)
  then show thesis using that by blast
qed

definition example_poller :: poller where
  "example_poller = onBlock 7 (onBlock 8 (startPolling (new_poller False)))"

lemma example_poller_facts:
  "polled_reachable example_poller" "Some 7 \<in> set (inFlight example_poller)"
  unfolding example_poller_def
  by (intro polled_block polled_start polled_new)
     (simp add: onBlock_def startPolling_def new_poller_def)

theorem settle_puts_block_witness:
  "\<exists>r p' x'. settle no_reaction empty_connection (Some 7) example_poller = (r, p') \<and> r = Inr () \<and>
     extraStateOf (storeOf p') = Some x' \<and> extraBlockTag x' = Some 7"
proof -
  obtain b x where f: "fetchState (nextId (storeOf example_poller)) empty_connection (Some 7) = Inr (b, x)"
    "timely (feesInNormalMode b)" by (rule empty_fetch)
  obtain r p' where s: "settle no_reaction empty_connection (Some 7) example_poller = (r, p')"
    by (cases "settle no_reaction empty_connection (Some 7) example_poller")
  from settle_puts_block [OF example_poller_facts f s] s show ?thesis by blast
qed

theorem settle_after_stop_witness:
  "\<exists>r p'. settle no_reaction empty_connection (Some 7) (stopPolling example_poller) = (r, p') \<and>
     \<not> listening p' \<and> length (timers (storeOf p')) = 1"
proof -
  obtain b x where f: "fetchState (nextId (storeOf (stopPolling example_poller))) empty_connection (Some 7) = Inr (b, x)"
    "timely (feesInNormalMode b)" by (rule empty_fetch)
  obtain r p' where s: "settle no_reaction empty_connection (Some 7) (stopPolling example_poller) = (r, p')"
    by (cases "settle no_reaction empty_connection (Some 7) (stopPolling example_poller)")
  from settle_after_stop [OF example_poller_facts f s] s show ?thesis by blast
qed


end
