(* ===== verification/Transactions.thy ===== *)
theory Transactions
  imports ReadableEthers
begin

text \<open>
  Preparing and tracking transactions: \<open>packages/lib-ethers/src/PopulatableEthersLiquity.ts\<close> and
  \<open>buildEstimatedFunctions\<close> of \<open>contracts.ts\<close>.  Modelled are the classification of receipts and
  errors, the search for hints, and the transactions that open and adjust troves and redeem thUSD,
  down to the arguments passed to the contracts.

  Beside the record \<open>chain\<close>, the gas estimates and the hint contracts are parameters (\<open>txEnv\<close>).
\<close>

section \<open>Gas\<close>

definition bigNumberMax :: "nat \<Rightarrow> nat option \<Rightarrow> nat" where
  "bigNumberMax a b = (case b of Some b' \<Rightarrow> if b' > a then b' else a | None \<Rightarrow> a)"

text \<open>\<open>Math.ceil(Math.log2(n))\<close> and \<open>Math.ceil(10 * Math.sqrt(n))\<close> on natural numbers.\<close>

function ceil_log2_from :: "nat \<Rightarrow> nat \<Rightarrow> nat" where
  "ceil_log2_from n k = (if n \<le> 2 ^ k then k else ceil_log2_from n (Suc k))"
  by pat_completeness auto
termination
  by (relation "measure (\<lambda>(n, k). n - 2 ^ k)") (auto intro!: diff_less_mono2)

definition ceil_log2 :: "nat \<Rightarrow> nat" where
  "ceil_log2 n = ceil_log2_from n 0"

function ceil_sqrt_from :: "nat \<Rightarrow> nat \<Rightarrow> nat" where
  "ceil_sqrt_from n k = (if n \<le> k * k then k else ceil_sqrt_from n (Suc k))"
  by pat_completeness auto
termination
  by (relation "measure (\<lambda>(n, k). n - k * k)") (auto intro!: diff_less_mono2)

declare ceil_log2_from.simps [simp del] ceil_sqrt_from.simps [simp del]

definition totalNumberOfTrials :: "nat \<Rightarrow> nat" where
  "totalNumberOfTrials numberOfTroves = ceil_sqrt_from (100 * numberOfTroves) 0"

definition addGasForBaseRateUpdate :: "nat \<Rightarrow> nat \<Rightarrow> nat" where
  "addGasForBaseRateUpdate maxMinutesSinceLastUpdate gas =
     gas + (10000 + 1414 * ceil_log2 (maxMinutesSinceLastUpdate + 1))"

definition addGasForPotentialListTraversal :: "nat \<Rightarrow> nat" where
  "addGasForPotentialListTraversal gas = gas + 80000"

definition addGasForIssuance :: "nat \<Rightarrow> nat" where
  "addGasForIssuance gas = gas + 50000"

record txOverrides =
  ov_from :: "string option"
  ov_nonce :: "nat option"
  ov_gasLimit :: "nat option"
  ov_gasPrice :: "nat option"

text \<open>\<open>estimateAndPopulate\<close>: the overrides with which the transaction is populated.\<close>

definition estimateAndPopulate ::
    "('a \<Rightarrow> txOverrides \<Rightarrow> nat res) \<Rightarrow> txOverrides \<Rightarrow> (nat \<Rightarrow> nat) \<Rightarrow> 'a \<Rightarrow> ('a \<times> txOverrides) res" where
  "estimateAndPopulate estimate overrides adjustEstimate args =
     (case ov_gasLimit overrides of
        None \<Rightarrow> bindR (estimate args overrides)
          (\<lambda>gas. Inr (args, overrides\<lparr>ov_gasLimit := Some (adjustEstimate gas)\<rparr>))
      | Some _ \<Rightarrow> Inr (args, overrides))"

section \<open>Receipts\<close>

record rawLog =
  lg_address :: string
  lg_topics :: "string list"
  lg_data :: string

record rawReceipt =
  rr_status :: "nat option"
  rr_from :: string
  rr_hash :: string
  rr_logs :: "rawLog list"

datatype 'd receipt = PendingReceipt | FailedReceipt rawReceipt | SuccessfulReceipt rawReceipt 'd

text \<open>What \<open>wait()\<close> of a sent transaction rejects with.\<close>

record rawError =
  re_isError :: bool
  re_code :: "string option"
  re_reason :: "string option"
  re_cancelled :: bool
  re_receipt :: rawReceipt

datatype sentError = Rethrown rawError | TransactionCancelledError string rawReceipt | Thrown js_error

definition transactionReplacementReasons :: "string list" where
  "transactionReplacementReasons = [''cancelled'', ''replaced'', ''repriced'']"

definition isTransactionFailedError :: "rawError \<Rightarrow> bool" where
  "isTransactionFailedError e \<longleftrightarrow>
     re_code e = Some ''CALL_EXCEPTION'' \<and> re_reason e = Some ''transaction failed''"

definition isTransactionReplacedError :: "rawError \<Rightarrow> bool" where
  "isTransactionReplacedError e \<longleftrightarrow>
     re_code e = Some ''TRANSACTION_REPLACED'' \<and>
     (case re_reason e of Some r \<Rightarrow> r \<in> set transactionReplacementReasons | None \<Rightarrow> False)"

definition new_EthersTransactionCancelledError :: "rawError \<Rightarrow> sentError" where
  "new_EthersTransactionCancelledError e =
     (if re_reason e = Some ''repriced'' then Thrown AssertionError
      else TransactionCancelledError (''Transaction '' @ coalesce (re_reason e) '''') (re_receipt e))"

definition receiptFrom :: "(rawReceipt \<Rightarrow> 'd res) \<Rightarrow> rawReceipt option \<Rightarrow> 'd receipt res" where
  "receiptFrom parse raw =
     (case raw of
        None \<Rightarrow> Inr PendingReceipt
      | Some r \<Rightarrow>
          if rr_status r \<noteq> None \<and> rr_status r \<noteq> Some 0
          then bindR (parse r) (\<lambda>d. Inr (SuccessfulReceipt r d))
          else Inr (FailedReceipt r))"

definition waitForRawReceipt :: "rawError + rawReceipt option \<Rightarrow> sentError + rawReceipt option" where
  "waitForRawReceipt w =
     (case w of
        Inr r \<Rightarrow> Inr r
      | Inl e \<Rightarrow>
          if re_isError e \<and> isTransactionFailedError e then Inr (Some (re_receipt e))
          else if re_isError e \<and> isTransactionReplacedError e then
            (if re_cancelled e then Inl (new_EthersTransactionCancelledError e)
             else Inr (Some (re_receipt e)))
          else Inl (Rethrown e))"

definition getReceipt ::
    "(rawReceipt \<Rightarrow> 'd res) \<Rightarrow> rawError + rawReceipt option \<Rightarrow> sentError + 'd receipt" where
  "getReceipt parse w =
     (case waitForRawReceipt w of
        Inl e \<Rightarrow> Inl e
      | Inr raw \<Rightarrow> (case receiptFrom parse raw of Inl e \<Rightarrow> Inl (Thrown e) | Inr r \<Rightarrow> Inr r))"

definition waitForReceipt ::
    "(rawReceipt \<Rightarrow> 'd res) \<Rightarrow> rawError + rawReceipt option \<Rightarrow> sentError + 'd receipt" where
  "waitForReceipt parse w =
     (case getReceipt parse w of
        Inl e \<Rightarrow> Inl e
      | Inr PendingReceipt \<Rightarrow> Inl (Thrown AssertionError)
      | Inr r \<Rightarrow> Inr r)"

section \<open>Hints\<close>

definition maxNumberOfTrialsAtOnce :: nat where
  "maxNumberOfTrialsAtOnce = 2500"

function generateTrials_loop :: "nat \<Rightarrow> nat list" where
  "generateTrials_loop remaining =
     (if remaining = 0 then []
      else (let numberOfTrials = min remaining maxNumberOfTrialsAtOnce
            in numberOfTrials # generateTrials_loop (remaining - numberOfTrials)))"
  by pat_completeness auto
termination
  by (relation "measure id") (auto simp: maxNumberOfTrialsAtOnce_def)

declare generateTrials_loop.simps [simp del]

definition generateTrials :: "nat \<Rightarrow> nat list res" where
  "generateTrials n = assertR (n > 0) (Inr (generateTrials_loop n))"

record approxHint =
  ah_diff :: nat
  ah_hintAddress :: string

record txEnv =
  conn_of :: connection
  getApproxHint :: "nat \<Rightarrow> nat \<Rightarrow> nat \<Rightarrow> (approxHint \<times> nat) res"
  sortedTroves_getFirst :: "string res"
  findInsertPosition :: "nat \<Rightarrow> string \<Rightarrow> (string \<times> string) res"
  sortedTroves_getPrev :: "string \<Rightarrow> string res"
  sortedTroves_getNext :: "string \<Rightarrow> string res"
  getRedemptionHints :: "nat \<Rightarrow> nat \<Rightarrow> nat \<Rightarrow> (string \<times> nat \<times> nat) res"
  randomInteger :: nat

text \<open>\<open>collectApproxHint\<close> over the trials, threading the random seed.\<close>

fun collectApproxHints ::
    "(nat \<Rightarrow> nat \<Rightarrow> (approxHint \<times> nat) res) \<Rightarrow> nat \<Rightarrow> approxHint list \<Rightarrow> nat list \<Rightarrow> approxHint list res" where
  "collectApproxHints query seed results [] = Inr results"
| "collectApproxHints query seed results (n # ns) =
     bindR (query n seed) (\<lambda>(result, seed'). collectApproxHints query seed' (results @ [result]) ns)"

text \<open>\<open>results.reduce((a, b) => (a.diff.lt(b.diff) ? a : b))\<close>.\<close>

definition bestHint :: "approxHint list \<Rightarrow> approxHint res" where
  "bestHint results =
     (case results of
        [] \<Rightarrow> Inl TypeError
      | r # rs \<Rightarrow> Inr (foldl (\<lambda>a b. if ah_diff a < ah_diff b then a else b) r rs))"

definition jumpOver :: "txEnv \<Rightarrow> string option \<Rightarrow> string \<times> string \<Rightarrow> (string \<times> string) res" where
  "jumpOver env ownAddress position =
     (case (ownAddress, position) of
        (None, (prev, next)) \<Rightarrow> Inr (prev, next)
      | (Some own, (prev, next)) \<Rightarrow>
          if prev = own then bindR (sortedTroves_getPrev env prev) (\<lambda>p. Inr (p, next))
          else if next = own then bindR (sortedTroves_getNext env next) (\<lambda>n. Inr (prev, n))
          else Inr (prev, next))"

definition avoidZero :: "string \<times> string \<Rightarrow> string \<times> string" where
  "avoidZero position =
     (let (prev, next) = position
      in if prev = ZERO_ADDRESS then (next, next)
         else if next = ZERO_ADDRESS then (prev, prev)
         else (prev, next))"

definition findHintsForNominalCollateralRatio ::
    "txEnv \<Rightarrow> decimal \<Rightarrow> string option \<Rightarrow> (string \<times> string) res" where
  "findHintsForNominalCollateralRatio env nominalCollateralRatio ownAddress =
     bindR (getNumberOfTroves (conn_of env) None)
       (\<lambda>numberOfTroves.
          if numberOfTroves = 0 then Inr (ZERO_ADDRESS, ZERO_ADDRESS)
          else if Decimal_infinite nominalCollateralRatio \<noteq> None
            then bindR (sortedTroves_getFirst env) (\<lambda>f. Inr (ZERO_ADDRESS, f))
          else bindR (generateTrials (totalNumberOfTrials numberOfTroves))
            (\<lambda>trials. bindR (collectApproxHints (getApproxHint env (bn nominalCollateralRatio))
                               (randomInteger env) [] trials)
               (\<lambda>results. bindR (bestHint results)
                  (\<lambda>best. bindR (findInsertPosition env (bn nominalCollateralRatio) (ah_hintAddress best))
                     (\<lambda>position. bindR (jumpOver env ownAddress position)
                        (\<lambda>position. Inr (avoidZero position)))))))"

text \<open>\<open>_findHints\<close>; the models of its callers never pass a trove with pending redistribution.\<close>

definition findHints :: "txEnv \<Rightarrow> 'a trove_scheme \<Rightarrow> string option \<Rightarrow> (string \<times> string) res" where
  "findHints env t ownAddress =
     findHintsForNominalCollateralRatio env (Trove_nominalCollateralRatio t) ownAddress"

section \<open>Optional parameters of borrowing\<close>

datatype borrowingParams =
    NoBorrowingParams
  | MaxBorrowingRate decimalish
  | BorrowingOptions "decimalish option" "nat option"

definition defaultBorrowingRateSlippageTolerance :: decimal where
  "defaultBorrowingRateSlippageTolerance = Dec (5 * 10 ^ 15)"

definition defaultRedemptionRateSlippageTolerance :: decimal where
  "defaultRedemptionRateSlippageTolerance = Dec (10 ^ 15)"

definition defaultBorrowingFeeDecayToleranceMinutes :: nat where
  "defaultBorrowingFeeDecayToleranceMinutes = 10"

definition defaultMaxBorrowingRate :: "decimal option \<Rightarrow> decimal" where
  "defaultMaxBorrowingRate currentBorrowingRate =
     (case currentBorrowingRate of
        Some r \<Rightarrow> Decimal_add r defaultBorrowingRateSlippageTolerance
      | None \<Rightarrow> Decimal_ZERO)"

definition normalizeBorrowingOperationOptionalParams ::
    "borrowingParams \<Rightarrow> decimal option \<Rightarrow> (decimal \<times> nat) res" where
  "normalizeBorrowingOperationOptionalParams params currentBorrowingRate =
     (case params of
        NoBorrowingParams \<Rightarrow>
          Inr (defaultMaxBorrowingRate currentBorrowingRate, defaultBorrowingFeeDecayToleranceMinutes)
      | MaxBorrowingRate r \<Rightarrow>
          bindR (Decimal_from r) (\<lambda>d. Inr (d, defaultBorrowingFeeDecayToleranceMinutes))
      | BorrowingOptions r minutes \<Rightarrow>
          bindR (case r of Some r' \<Rightarrow> Decimal_from r' | None \<Rightarrow> Inr (defaultMaxBorrowingRate currentBorrowingRate))
            (\<lambda>d. Inr (d, coalesce minutes defaultBorrowingFeeDecayToleranceMinutes)))"

section \<open>Opening a trove\<close>

definition creation_entries :: "troveCreationParams \<Rightarrow> entries" where
  "creation_entries p = [(''depositCollateral'', Some (DDecimal (depositCollateral p))),
                         (''borrowTHUSD'', Some (DDecimal (borrowTHUSD p)))]"

definition adjustment_entries :: "troveAdjustmentParams \<Rightarrow> entries" where
  "adjustment_entries p =
     [(''depositCollateral'', map_option DDecimal (adjDepositCollateral p)),
      (''withdrawCollateral'', map_option DDecimal (adjWithdrawCollateral p)),
      (''borrowTHUSD'', map_option DDecimal (adjBorrowTHUSD p)),
      (''repayTHUSD'', map_option DDecimal (adjRepayTHUSD p))]"

record openTroveArgs =
  oa_maxFeePercentage :: nat
  oa_THUSDAmount :: nat
  oa_assetAmount :: nat
  oa_upperHint :: string
  oa_lowerHint :: string
  oa_value :: nat

record ('p, 'a) populatedTroveChange =
  pt_params :: 'p
  pt_args :: 'a
  pt_overrides :: txOverrides
  pt_gasHeadroom :: "nat option"

definition debt_warning :: "nat \<Rightarrow> 'a res" where
  "debt_warning minutes =
     bindR (Decimal_toString THUSD_MINIMUM_DEBT None)
       (\<lambda>s. Inl (Error (''Trove'' @ [CHR 0x27] @ ''s debt might fall below '' @ s @ '' within ''
              @ dec_string minutes @ '' minutes'')))"

definition openTrove ::
    "txEnv \<Rightarrow> (openTroveArgs \<Rightarrow> txOverrides \<Rightarrow> nat res) \<Rightarrow> entries \<Rightarrow> borrowingParams \<Rightarrow> txOverrides \<Rightarrow>
     (troveCreationParams, openTroveArgs) populatedTroveChange res" where
  "openTrove env estimateGas params optionalParams overrides =
     (let conn = conn_of env
      in bindR (normalizeTroveCreation params)
        (\<lambda>p. bindR (getFeesFactory conn None)
        (\<lambda>fees. bindR (getBlockTimestamp (chain_of conn) None)
        (\<lambda>blockTimestamp. bindR (getTotal conn None)
        (\<lambda>tot. bindR (getPrice conn None)
        (\<lambda>currentPrice. bindR (getCollateralAddress conn None)
        (\<lambda>collAddress.
          let isCollateralEth = collAddress = ZERO_ADDRESS;
              recovery = Trove_collateralRatioIsBelowCritical tot currentPrice;
              decayBorrowingRate = (\<lambda>seconds. bindR (fees (int blockTimestamp + seconds) recovery)
                                                (\<lambda>f. Fees_borrowingRate f None))
          in bindR (decayBorrowingRate 0)
            (\<lambda>currentBorrowingRate. bindR (Trove_create (creation_entries p) (Some currentBorrowingRate))
            (\<lambda>newTrove. bindR (findHints env newTrove None)
            (\<lambda>(upper, lower). bindR (normalizeBorrowingOperationOptionalParams optionalParams (Some currentBorrowingRate))
            (\<lambda>(maxBorrowingRate, minutes).
              let txParams = (\<lambda>borrow.
                    \<lparr>oa_maxFeePercentage = bn maxBorrowingRate, oa_THUSDAmount = bn borrow,
                     oa_assetAmount = bn (if isCollateralEth then Decimal_ZERO else depositCollateral p),
                     oa_upperHint = upper, oa_lowerHint = lower,
                     oa_value = bn (if isCollateralEth then depositCollateral p else Decimal_ZERO)\<rparr>)
              in case ov_gasLimit overrides of
                   Some _ \<Rightarrow>
                     Inr \<lparr>pt_params = p, pt_args = txParams (borrowTHUSD p), pt_overrides = overrides,
                          pt_gasHeadroom = None\<rparr>
                 | None \<Rightarrow>
                     bindR (decayBorrowingRate (60 * int minutes))
                     (\<lambda>decayedBorrowingRate. bindR (Trove_create (creation_entries p) (Some decayedBorrowingRate))
                     (\<lambda>decayedTrove. bindR (Trove_recreate decayedTrove (Some currentBorrowingRate))
                     (\<lambda>simulated.
                       if Decimal_lt (debt decayedTrove) THUSD_MINIMUM_DEBT then debt_warning minutes
                       else bindR (estimateGas (txParams (borrowTHUSD p)) overrides)
                         (\<lambda>gasNow. bindR (estimateGas (txParams (borrowTHUSD simulated)) overrides)
                         (\<lambda>gasLater.
                           let gasLimit = addGasForBaseRateUpdate minutes
                                 (bigNumberMax (addGasForPotentialListTraversal gasNow) (Some gasLater))
                           in bindR (toNumber (chain_of conn) (gasLimit - gasNow))
                             (\<lambda>headroom. Inr
                               \<lparr>pt_params = p, pt_args = txParams (borrowTHUSD p),
                                pt_overrides = overrides\<lparr>ov_gasLimit := Some gasLimit\<rparr>,
                                pt_gasHeadroom = Some headroom\<rparr>)))))))))))))))))"


section \<open>Adjusting a trove\<close>

record adjustTroveArgs =
  aa_maxFeePercentage :: nat
  aa_collWithdrawal :: nat
  aa_THUSDChange :: nat
  aa_isDebtIncrease :: bool
  aa_assetAmount :: nat
  aa_upperHint :: string
  aa_lowerHint :: string
  aa_value :: nat

record feeVars =
  fv_fees :: feesFactory
  fv_blockTimestamp :: nat
  fv_total :: trove
  fv_price :: decimal

text \<open>\<open>borrowTHUSD && promiseAllValues(...)\<close>.\<close>

definition fetchFeeVars :: "connection \<Rightarrow> decimal option \<Rightarrow> feeVars option res" where
  "fetchFeeVars conn borrow =
     (case borrow of
        None \<Rightarrow> Inr None
      | Some _ \<Rightarrow>
          bindR (getFeesFactory conn None)
            (\<lambda>fees. bindR (getBlockTimestamp (chain_of conn) None)
            (\<lambda>timestamp. bindR (getTotal conn None)
            (\<lambda>tot. bindR (getPrice conn None)
            (\<lambda>p. Inr (Some \<lparr>fv_fees = fees, fv_blockTimestamp = timestamp, fv_total = tot, fv_price = p\<rparr>))))))"

definition decayBorrowingRate :: "feeVars option \<Rightarrow> int \<Rightarrow> decimal option res" where
  "decayBorrowingRate vars seconds =
     (case vars of
        None \<Rightarrow> Inr None
      | Some v \<Rightarrow>
          bindR (fv_fees v (int (fv_blockTimestamp v) + seconds)
                   (Trove_collateralRatioIsBelowCritical (fv_total v) (fv_price v)))
            (\<lambda>f. bindR (Fees_borrowingRate f None) (\<lambda>r. Inr (Some r))))"

definition adjustTxParams ::
    "troveAdjustmentParams \<Rightarrow> decimal \<Rightarrow> bool \<Rightarrow> string \<times> string \<Rightarrow> decimal option \<Rightarrow> adjustTroveArgs" where
  "adjustTxParams p maxBorrowingRate isCollateralEth hints borrow =
     \<lparr>aa_maxFeePercentage = bn maxBorrowingRate,
      aa_collWithdrawal = bn (coalesce (adjWithdrawCollateral p) Decimal_ZERO),
      aa_THUSDChange =
        bn (case borrow of Some x \<Rightarrow> x | None \<Rightarrow> coalesce (adjRepayTHUSD p) Decimal_ZERO),
      aa_isDebtIncrease = (borrow \<noteq> None),
      aa_assetAmount =
        bn (if isCollateralEth then Decimal_ZERO else coalesce (adjDepositCollateral p) Decimal_ZERO),
      aa_upperHint = fst hints, aa_lowerHint = snd hints,
      aa_value =
        bn (if isCollateralEth then coalesce (adjDepositCollateral p) Decimal_ZERO else Decimal_ZERO)\<rparr>"

text \<open>The block for an unset gas limit: the gas limit and the headroom it leaves.\<close>

definition adjustTroveGas ::
    "txEnv \<Rightarrow> (adjustTroveArgs \<Rightarrow> txOverrides \<Rightarrow> nat res) \<Rightarrow> (decimal option \<Rightarrow> adjustTroveArgs) \<Rightarrow>
     troveAdjustmentParams \<Rightarrow> 'a trove_scheme \<Rightarrow> feeVars option \<Rightarrow> decimal option \<Rightarrow> nat \<Rightarrow> txOverrides \<Rightarrow> (nat \<times> nat) res" where
  "adjustTroveGas env estimateGas txParams p t vars currentBorrowingRate minutes overrides =
     bindR (decayBorrowingRate vars (60 * int minutes))
     (\<lambda>decayedBorrowingRate. bindR (Trove_adjust t (adjustment_entries p) decayedBorrowingRate)
     (\<lambda>decayedTrove. bindR (Trove_adjustTo t decayedTrove currentBorrowingRate)
     (\<lambda>simulated.
       if Decimal_lt (debt decayedTrove) THUSD_MINIMUM_DEBT then debt_warning minutes
       else bindR (estimateGas (txParams (adjBorrowTHUSD p)) overrides)
         (\<lambda>gasNow. bindR (case adjBorrowTHUSD p of
                            None \<Rightarrow> Inr None
                          | Some _ \<Rightarrow> bindR (estimateGas (txParams (adjBorrowTHUSD simulated)) overrides)
                                       (\<lambda>g. Inr (Some g)))
         (\<lambda>gasLater.
           let gas = bigNumberMax (addGasForPotentialListTraversal gasNow) gasLater;
               gasLimit = (if adjBorrowTHUSD p \<noteq> None then addGasForBaseRateUpdate minutes gas else gas)
           in bindR (toNumber (chain_of (conn_of env)) (gasLimit - gasNow))
                (\<lambda>headroom. Inr (gasLimit, headroom)))))))"

definition adjustTrove ::
    "txEnv \<Rightarrow> (adjustTroveArgs \<Rightarrow> txOverrides \<Rightarrow> nat res) \<Rightarrow> entries \<Rightarrow> borrowingParams \<Rightarrow> txOverrides \<Rightarrow>
     (troveAdjustmentParams, adjustTroveArgs) populatedTroveChange res" where
  "adjustTrove env estimateGas params optionalParams overrides =
     (let conn = conn_of env
      in bindR (requireAddress conn (ov_from overrides))
        (\<lambda>address. bindR (normalizeTroveAdjustment params)
        (\<lambda>p. bindR (getTrove conn (Some address) None)
        (\<lambda>t. bindR (getCollateralAddress conn None)
        (\<lambda>collAddress. bindR (fetchFeeVars conn (adjBorrowTHUSD p))
        (\<lambda>vars. bindR (decayBorrowingRate vars 0)
        (\<lambda>currentBorrowingRate. bindR (Trove_adjust t (adjustment_entries p) currentBorrowingRate)
        (\<lambda>adjustedTrove. bindR (findHints env adjustedTrove (Some address))
        (\<lambda>hints. bindR (normalizeBorrowingOperationOptionalParams optionalParams currentBorrowingRate)
        (\<lambda>(maxBorrowingRate, minutes).
          let txParams = adjustTxParams p maxBorrowingRate (collAddress = ZERO_ADDRESS) hints
          in case ov_gasLimit overrides of
               Some _ \<Rightarrow>
                 Inr \<lparr>pt_params = p, pt_args = txParams (adjBorrowTHUSD p), pt_overrides = overrides,
                      pt_gasHeadroom = None\<rparr>
             | None \<Rightarrow>
                 bindR (adjustTroveGas env estimateGas txParams p t vars currentBorrowingRate minutes overrides)
                   (\<lambda>(gasLimit, headroom). Inr
                      \<lparr>pt_params = p, pt_args = txParams (adjBorrowTHUSD p),
                       pt_overrides = overrides\<lparr>ov_gasLimit := Some gasLimit\<rparr>,
                       pt_gasHeadroom = Some headroom\<rparr>)))))))))))"

type_synonym adjustResult = "(troveAdjustmentParams, adjustTroveArgs) populatedTroveChange res"

definition populate_depositCollateral ::
    "txEnv \<Rightarrow> (adjustTroveArgs \<Rightarrow> txOverrides \<Rightarrow> nat res) \<Rightarrow> decimalish \<Rightarrow> txOverrides \<Rightarrow> adjustResult" where
  "populate_depositCollateral env estimateGas amount overrides =
     adjustTrove env estimateGas [(''depositCollateral'', Some amount)] NoBorrowingParams overrides"

definition populate_withdrawCollateral ::
    "txEnv \<Rightarrow> (adjustTroveArgs \<Rightarrow> txOverrides \<Rightarrow> nat res) \<Rightarrow> decimalish \<Rightarrow> txOverrides \<Rightarrow> adjustResult" where
  "populate_withdrawCollateral env estimateGas amount overrides =
     adjustTrove env estimateGas [(''withdrawCollateral'', Some amount)] NoBorrowingParams overrides"

definition populate_borrowTHUSD ::
    "txEnv \<Rightarrow> (adjustTroveArgs \<Rightarrow> txOverrides \<Rightarrow> nat res) \<Rightarrow> decimalish \<Rightarrow> decimalish option \<Rightarrow> txOverrides \<Rightarrow>
     adjustResult" where
  "populate_borrowTHUSD env estimateGas amount maxBorrowingRate overrides =
     adjustTrove env estimateGas [(''borrowTHUSD'', Some amount)]
       (case maxBorrowingRate of None \<Rightarrow> NoBorrowingParams | Some r \<Rightarrow> MaxBorrowingRate r) overrides"

definition populate_repayTHUSD ::
    "txEnv \<Rightarrow> (adjustTroveArgs \<Rightarrow> txOverrides \<Rightarrow> nat res) \<Rightarrow> decimalish \<Rightarrow> txOverrides \<Rightarrow> adjustResult" where
  "populate_repayTHUSD env estimateGas amount overrides =
     adjustTrove env estimateGas [(''repayTHUSD'', Some amount)] NoBorrowingParams overrides"

section \<open>Redeeming\<close>

definition redeemMaxIterations :: nat where
  "redeemMaxIterations = 70"

record redemptionHints =
  rh_truncatedAmount :: decimal
  rh_firstRedemptionHint :: string
  rh_upperHint :: string
  rh_lowerHint :: string
  rh_NICR :: nat

definition findRedemptionHints :: "txEnv \<Rightarrow> decimal \<Rightarrow> redemptionHints res" where
  "findRedemptionHints env amount =
     bindR (getPrice (conn_of env) None)
       (\<lambda>p. bindR (getRedemptionHints env (bn amount) (bn p) redeemMaxIterations)
          (\<lambda>(firstHint, nicr, truncated).
             bindR (if nicr = 0 then Inr (ZERO_ADDRESS, ZERO_ADDRESS)
                    else findHintsForNominalCollateralRatio env (decimalify nicr) None)
               (\<lambda>(upper, lower). Inr
                  \<lparr>rh_truncatedAmount = decimalify truncated, rh_firstRedemptionHint = firstHint,
                   rh_upperHint = upper, rh_lowerHint = lower, rh_NICR = nicr\<rparr>)))"

record redeemArgs =
  ra_amount :: nat
  ra_firstRedemptionHint :: string
  ra_upperHint :: string
  ra_lowerHint :: string
  ra_NICR :: nat
  ra_maxIterations :: nat
  ra_maxFeePercentage :: nat

text \<open>What \<open>populateRedemption\<close> closes over.\<close>

record redeemContext =
  rc_estimateGas :: "redeemArgs \<Rightarrow> txOverrides \<Rightarrow> nat res"
  rc_overrides :: txOverrides
  rc_fees :: fees
  rc_total :: trove
  rc_firstRedemptionHint :: string

text \<open>
  A \<open>PopulatedEthersRedemption\<close>; \<open>pr_increase\<close> is the argument captured by its
  \<open>_increaseAmountByMinimumNetDebt\<close>, the maximum rate passed by the user, and \<open>None\<close> without it.
\<close>

record populatedRedemption =
  pr_args :: redeemArgs
  pr_overrides :: txOverrides
  attemptedTHUSDAmount :: decimal
  redeemableTHUSDAmount :: decimal
  isTruncated :: bool
  pr_increase :: "decimalish option option"

definition defaultMaxRedemptionRate :: "redeemContext \<Rightarrow> decimal \<Rightarrow> decimal res" where
  "defaultMaxRedemptionRate ctx amount =
     bindR (Fees_redemptionRate (rc_fees ctx) (Decimal_div amount (debt (rc_total ctx))) None)
       (\<lambda>r. Inr (Decimal_min (Decimal_add r defaultRedemptionRateSlippageTolerance) Decimal_ONE))"

definition populateRedemption ::
    "redeemContext \<Rightarrow> decimal \<Rightarrow> decimalish option \<Rightarrow> decimal \<Rightarrow> string \<times> string \<times> nat \<Rightarrow> populatedRedemption res" where
  "populateRedemption ctx attempted maxRedemptionRate truncatedAmount partialHints =
     bindR (case maxRedemptionRate of
              Some r \<Rightarrow> Decimal_from r
            | None \<Rightarrow> defaultMaxRedemptionRate ctx truncatedAmount)
       (\<lambda>maxRate.
          bindR (estimateAndPopulate (rc_estimateGas ctx) (rc_overrides ctx) (addGasForBaseRateUpdate 10)
                   \<lparr>ra_amount = bn truncatedAmount, ra_firstRedemptionHint = rc_firstRedemptionHint ctx,
                    ra_upperHint = fst partialHints, ra_lowerHint = fst (snd partialHints),
                    ra_NICR = snd (snd partialHints), ra_maxIterations = redeemMaxIterations,
                    ra_maxFeePercentage = bn maxRate\<rparr>)
            (\<lambda>(args, ov). Inr
               \<lparr>pr_args = args, pr_overrides = ov, attemptedTHUSDAmount = attempted,
                redeemableTHUSDAmount = truncatedAmount, isTruncated = Decimal_lt truncatedAmount attempted,
                pr_increase = (if Decimal_lt truncatedAmount attempted then Some maxRedemptionRate else None)\<rparr>))"

definition redeemTHUSD ::
    "txEnv \<Rightarrow> (redeemArgs \<Rightarrow> txOverrides \<Rightarrow> nat res) \<Rightarrow> decimalish \<Rightarrow> decimalish option \<Rightarrow> txOverrides \<Rightarrow>
     (redeemContext \<times> populatedRedemption) res" where
  "redeemTHUSD env estimateGas amount maxRedemptionRate overrides =
     bindR (Decimal_from amount)
       (\<lambda>attempted. bindR (getFees (conn_of env) None)
       (\<lambda>fees. bindR (getTotal (conn_of env) None)
       (\<lambda>tot. bindR (findRedemptionHints env attempted)
       (\<lambda>h. if Decimal_isZero (rh_truncatedAmount h) then
              bindR (Decimal_toString THUSD_MINIMUM_NET_DEBT None)
                (\<lambda>s. Inl (Error (''redeemTHUSD: amount too low to redeem (try at least '' @ s @ '')'')))
            else
              (let ctx = \<lparr>rc_estimateGas = estimateGas, rc_overrides = overrides, rc_fees = fees,
                          rc_total = tot, rc_firstRedemptionHint = rh_firstRedemptionHint h\<rparr>
               in bindR (populateRedemption ctx attempted maxRedemptionRate (rh_truncatedAmount h)
                           (rh_upperHint h, rh_lowerHint h, rh_NICR h))
                    (\<lambda>r. Inr (ctx, r)))))))"

definition increaseAmountByMinimumNetDebt ::
    "redeemContext \<Rightarrow> populatedRedemption \<Rightarrow> decimalish option \<Rightarrow> populatedRedemption res" where
  "increaseAmountByMinimumNetDebt ctx r newMaxRedemptionRate =
     (case pr_increase r of
        None \<Rightarrow> Inl (Error (''PopulatedEthersRedemption: increaseAmountByMinimumNetDebt() can ''
                  @ ''only be called when amount is truncated''))
      | Some maxRedemptionRate \<Rightarrow>
          (let amount = Decimal_add (redeemableTHUSDAmount r) THUSD_MINIMUM_NET_DEBT
           in populateRedemption ctx amount
                (case newMaxRedemptionRate of Some x \<Rightarrow> Some x | None \<Rightarrow> maxRedemptionRate)
                amount (ZERO_ADDRESS, ZERO_ADDRESS, 0)))"

end
