(* ===== verification/Transactions_Correct.thy ===== *)
theory Transactions_Correct
  imports Transactions ReadableEthers_Correct
begin

text \<open>
  Properties of prepared transactions: the number of trials in the search for a hint and the quality
  of the hint found, the arguments and gas limits of trove transactions, truncated redemptions, and
  the receipts of sent transactions.
\<close>

section \<open>Trials\<close>

lemma ceil_sqrt_from_spec:
  assumes "k = 0 \<or> (k - 1) * (k - 1) < n"
  shows "n \<le> ceil_sqrt_from n k * ceil_sqrt_from n k \<and>
    (ceil_sqrt_from n k = 0 \<or> (ceil_sqrt_from n k - 1) * (ceil_sqrt_from n k - 1) < n)"
  using assms
proof (induction n k rule: ceil_sqrt_from.induct)
  case (1 n k)
  then show ?case by (cases "n \<le> k * k") (simp_all add: ceil_sqrt_from.simps [of n k])
qed

lemma generateTrials_loop_spec:
  "sum_list (generateTrials_loop n) = n \<and>
   (\<forall>t\<in>set (generateTrials_loop n). 0 < t \<and> t \<le> maxNumberOfTrialsAtOnce) \<and>
   length (generateTrials_loop n) = (n + (maxNumberOfTrialsAtOnce - 1)) div maxNumberOfTrialsAtOnce"
proof (induction n rule: generateTrials_loop.induct)
  case (1 n)
  show ?case
  proof (cases "n = 0")
    case True
    then show ?thesis by (simp add: generateTrials_loop.simps [of 0] maxNumberOfTrialsAtOnce_def)
  next
    case False
    let ?m = "min n maxNumberOfTrialsAtOnce"
    have g: "generateTrials_loop n = ?m # generateTrials_loop (n - ?m)"
      using False by (simp add: generateTrials_loop.simps [of n] Let_def)
    have "Suc ((n - ?m + 2499) div 2500) = (n + 2499) div 2500"
    proof (cases "n \<le> 2500")
      case True
      then have "n + 2499 = (n - 1) + 2500" using False by simp
      then have "(n + 2499) div 2500 = Suc ((n - 1) div 2500)" by simp
      with True False show ?thesis by (simp add: maxNumberOfTrialsAtOnce_def)
    next
      case n: False
      then have "n + 2499 = (n - 2500 + 2499) + 2500" by simp
      then have "(n + 2499) div 2500 = Suc ((n - 2500 + 2499) div 2500)" by simp
      with n show ?thesis by (simp add: maxNumberOfTrialsAtOnce_def)
    qed
    then have len: "Suc ((n - ?m + (maxNumberOfTrialsAtOnce - 1)) div maxNumberOfTrialsAtOnce) =
        (n + (maxNumberOfTrialsAtOnce - 1)) div maxNumberOfTrialsAtOnce"
      by (simp only: maxNumberOfTrialsAtOnce_def) simp
    note ih = "1.IH" [OF False refl]
    have m: "0 < ?m" "?m \<le> maxNumberOfTrialsAtOnce" "?m \<le> n"
      using False by (simp_all add: maxNumberOfTrialsAtOnce_def)
    have "sum_list (?m # generateTrials_loop (n - ?m)) = n"
      using ih m(3) by (metis le_add_diff_inverse sum_list.Cons)
    moreover have "\<forall>t\<in>set (?m # generateTrials_loop (n - ?m)). 0 < t \<and> t \<le> maxNumberOfTrialsAtOnce"
      using ih m(1,2) by (metis set_ConsD)
    moreover have "length (?m # generateTrials_loop (n - ?m)) =
        (n + (maxNumberOfTrialsAtOnce - 1)) div maxNumberOfTrialsAtOnce"
      using ih len by (metis length_Cons)
    ultimately show ?thesis unfolding g by blast
  qed
qed



section \<open>Hints\<close>

lemma foldl_best:
  "let m = foldl (\<lambda>a b. if ah_diff a < ah_diff b then a else b) r rs
   in m \<in> set (r # rs) \<and> (\<forall>x\<in>set (r # rs). ah_diff m \<le> ah_diff x)"
proof (induction rs arbitrary: r)
  case (Cons x rs)
  from Cons.IH [of "if ah_diff r < ah_diff x then r else x"] show ?case
    by (auto simp: Let_def split: if_splits)
qed simp

lemma bestHint_minimal:
  "bestHint results = Inr best \<Longrightarrow> best \<in> set results \<and> (\<forall>r\<in>set results. ah_diff best \<le> ah_diff r)"
  using foldl_best by (cases results) (auto simp: bestHint_def Let_def)

lemma collectApproxHints_length:
  "collectApproxHints query seed results trials = Inr rs \<Longrightarrow> length rs = length results + length trials"
  by (induction trials arbitrary: seed results) (auto simp: bindR_Inr_iff)

lemma collectApproxHints_prefix:
  "collectApproxHints query seed results trials = Inr rs \<Longrightarrow> set results \<subseteq> set rs"
  by (induction trials arbitrary: seed results) (fastforce simp: bindR_Inr_iff)+

lemma bestHint_exists: "results \<noteq> [] \<Longrightarrow> \<exists>best. bestHint results = Inr best"
  by (cases results) (simp_all add: bestHint_def)

lemma avoidZero_zero:
  "avoidZero position = (p, n) \<Longrightarrow> p = ZERO_ADDRESS \<or> n = ZERO_ADDRESS \<Longrightarrow> position = (ZERO_ADDRESS, ZERO_ADDRESS)"
  by (auto simp: avoidZero_def split: prod.splits if_splits)

lemma avoidZero_from: "avoidZero (x, y) = (p, n) \<Longrightarrow> p \<in> {x, y} \<and> n \<in> {x, y}"
  by (auto simp: avoidZero_def split: if_splits)

lemma jumpOver_own:
  assumes "jumpOver env (Some own) (x, y) = Inr (p, n)" and "x \<noteq> y"
    and "\<And>q. sortedTroves_getPrev env own = Inr q \<Longrightarrow> q \<noteq> own"
    and "\<And>q. sortedTroves_getNext env own = Inr q \<Longrightarrow> q \<noteq> own"
  shows "p \<noteq> own \<and> n \<noteq> own"
  using assms by (auto simp: jumpOver_def bindR_Inr_iff split: if_splits)


definition example_env :: txEnv where
  "example_env =
     \<lparr>conn_of = empty_connection\<lparr>chain_of := empty_chain\<lparr>getTroveOwnersCount := \<lambda>_. Inr 1\<rparr>\<rparr>,
      getApproxHint = \<lambda>_ _ seed. Inr (\<lparr>ah_diff = 3, ah_hintAddress = ''0xH''\<rparr>, seed + 1),
      sortedTroves_getFirst = Inr ''0xH'', findInsertPosition = \<lambda>_ _. Inr (''0xA'', ''0xH''),
      sortedTroves_getPrev = \<lambda>_. Inr ZERO_ADDRESS, sortedTroves_getNext = \<lambda>_. Inr ''0xN'',
      getRedemptionHints = \<lambda>_ _ _. Inr (''0xF'', 0, 5), randomInteger = 1\<rparr>"

lemma zero_address_distinct [simp]: "ZERO_ADDRESS \<noteq> ''0xA''" "''0xA'' \<noteq> ZERO_ADDRESS"
    "ZERO_ADDRESS \<noteq> ''0xH''" "''0xH'' \<noteq> ZERO_ADDRESS" "ZERO_ADDRESS \<noteq> ''0xN''"
  by (simp_all add: ZERO_ADDRESS_def numeral_eq_Suc)

lemma ten_trials: "totalNumberOfTrials (Suc 0) = 10" "generateTrials_loop 10 = [10]"
  by (simp_all add: totalNumberOfTrials_def ceil_sqrt_from.simps generateTrials_loop.simps Let_def
      maxNumberOfTrialsAtOnce_def)

lemma example_hints:
  "findHintsForNominalCollateralRatio example_env (Dec 5) (Some ''0xA'') = Inr (''0xH'', ''0xH'')"
  by (simp add: findHintsForNominalCollateralRatio_def example_env_def getNumberOfTroves_def empty_chain_def
      generateTrials_def ten_trials bestHint_def jumpOver_def avoidZero_def MAX_UINT_256_def)



section \<open>Trove transactions\<close>

lemma gas_limit_covers:
  "gasNow + 90000 \<le> addGasForBaseRateUpdate minutes (bigNumberMax (addGasForPotentialListTraversal gasNow) later)"
  by (auto simp: addGasForBaseRateUpdate_def bigNumberMax_def addGasForPotentialListTraversal_def split: option.splits)

lemma bigNumberMax_ge: "a \<le> bigNumberMax a b"
  by (auto simp: bigNumberMax_def split: option.splits)


lemma normalizeTroveAdjustment_exclusive:
  assumes "normalizeTroveAdjustment params = Inr p"
  shows "(adjDepositCollateral p = None \<or> adjWithdrawCollateral p = None) \<and>
    (adjBorrowTHUSD p = None \<or> adjRepayTHUSD p = None)"
  using assms
  by (auto simp: normalizeTroveAdjustment_def bindR_Inr_iff troveAdjustmentParamsFromEntries_def Let_def
      collateralChangeFrom_def debtChangeFrom_def mkAdjustment_def split: if_splits option.splits)

lemma adjust_gas_covers:
  "gasNow + 80000 \<le> bigNumberMax (addGasForPotentialListTraversal gasNow) later"
  "gasNow + 80000 \<le> addGasForBaseRateUpdate m (bigNumberMax (addGasForPotentialListTraversal gasNow) later)"
  using bigNumberMax_ge [of "addGasForPotentialListTraversal gasNow" later]
  by (simp_all add: addGasForPotentialListTraversal_def addGasForBaseRateUpdate_def)

lemma adjustTroveGas_covers:
  assumes "adjustTroveGas env estimateGas txParams p t vars rate minutes overrides = Inr (gasLimit, headroom)"
  shows "\<exists>gasNow. estimateGas (txParams (adjBorrowTHUSD p)) overrides = Inr gasNow \<and> gasNow + 80000 \<le> gasLimit"
  using assms adjust_gas_covers
  by (auto simp: adjustTroveGas_def Let_def bindR_Inr_iff debt_warning_def split: if_splits)

lemma adjustTrove_result:
  assumes "adjustTrove env estimateGas params optionalParams overrides = Inr r"
  obtains rate hints a where "normalizeTroveAdjustment params = Inr (pt_params r)"
    "getCollateralAddress (conn_of env) None = Inr a"
    "pt_args r = adjustTxParams (pt_params r) rate (a = ZERO_ADDRESS) hints (adjBorrowTHUSD (pt_params r))"
    "case ov_gasLimit overrides of
       Some _ \<Rightarrow> pt_overrides r = overrides \<and> pt_gasHeadroom r = None
     | None \<Rightarrow> \<exists>gasNow gasLimit. estimateGas (pt_args r) overrides = Inr gasNow \<and>
         ov_gasLimit (pt_overrides r) = Some gasLimit \<and> gasNow + 80000 \<le> gasLimit"
proof (cases "ov_gasLimit overrides")
  case None
  with assms show thesis
    by (auto simp: adjustTrove_def Let_def bindR_Inr_iff dest!: adjustTroveGas_covers intro!: that)
next
  case (Some g)
  with assms show thesis by (auto simp: adjustTrove_def Let_def bindR_Inr_iff intro!: that)
qed

text \<open>C20: an adjusting transaction carries exactly the normalised parameters: the collateral to
  withdraw, the debt change with its direction, and the deposit as native currency or tokens; it
  never deposits and withdraws at once.  Unless the caller sets a gas limit, the limit exceeds the
  estimate by at least 80,000.\<close>

theorem adjustTrove_transaction:
  assumes "adjustTrove env estimateGas params optionalParams overrides = Inr r"
  shows "normalizeTroveAdjustment params = Inr (pt_params r) \<and>
    aa_collWithdrawal (pt_args r) = bn (coalesce (adjWithdrawCollateral (pt_params r)) Decimal_ZERO) \<and>
    aa_assetAmount (pt_args r) + aa_value (pt_args r) = bn (coalesce (adjDepositCollateral (pt_params r)) Decimal_ZERO) \<and>
    (if getCollateralAddress (conn_of env) None = Inr ZERO_ADDRESS
     then aa_assetAmount (pt_args r) = 0 else aa_value (pt_args r) = 0) \<and>
    (aa_collWithdrawal (pt_args r) = 0 \<or> aa_assetAmount (pt_args r) + aa_value (pt_args r) = 0) \<and>
    (if aa_isDebtIncrease (pt_args r)
     then adjBorrowTHUSD (pt_params r) = Some (Dec (aa_THUSDChange (pt_args r))) \<and> adjRepayTHUSD (pt_params r) = None
     else adjBorrowTHUSD (pt_params r) = None \<and>
       aa_THUSDChange (pt_args r) = bn (coalesce (adjRepayTHUSD (pt_params r)) Decimal_ZERO)) \<and>
    (case ov_gasLimit overrides of
       Some _ \<Rightarrow> pt_overrides r = overrides \<and> pt_gasHeadroom r = None
     | None \<Rightarrow> \<exists>gasNow gasLimit. estimateGas (pt_args r) overrides = Inr gasNow \<and>
         ov_gasLimit (pt_overrides r) = Some gasLimit \<and> gasNow + 80000 \<le> gasLimit)"
proof -
  obtain rate hints a where n: "normalizeTroveAdjustment params = Inr (pt_params r)"
    and a: "getCollateralAddress (conn_of env) None = Inr a"
    and args: "pt_args r = adjustTxParams (pt_params r) rate (a = ZERO_ADDRESS) hints (adjBorrowTHUSD (pt_params r))"
    and gas: "case ov_gasLimit overrides of
       Some _ \<Rightarrow> pt_overrides r = overrides \<and> pt_gasHeadroom r = None
     | None \<Rightarrow> \<exists>gasNow gasLimit. estimateGas (pt_args r) overrides = Inr gasNow \<and>
         ov_gasLimit (pt_overrides r) = Some gasLimit \<and> gasNow + 80000 \<le> gasLimit"
    by (rule adjustTrove_result [OF assms])
  show ?thesis
    using normalizeTroveAdjustment_exclusive [OF n] n a gas
    by (auto simp: args adjustTxParams_def split: option.splits)
qed

section \<open>Redemptions\<close>

lemma populateRedemption_result:
  assumes "populateRedemption ctx attempted rate truncated hints = Inr r"
  shows "attemptedTHUSDAmount r = attempted \<and> redeemableTHUSDAmount r = truncated \<and>
    ra_amount (pr_args r) = bn truncated \<and> isTruncated r = Decimal_lt truncated attempted \<and>
    pr_increase r = (if Decimal_lt truncated attempted then Some rate else None) \<and>
    (rate = None \<longrightarrow> ra_maxFeePercentage (pr_args r) \<le> DIGITS)"
  using assms
  by (auto simp: populateRedemption_def bindR_Inr_iff estimateAndPopulate_def defaultMaxRedemptionRate_def
      split: option.splits)


section \<open>Receipts\<close>

text \<open>C28: waiting for the receipt of a transaction whose \<open>wait()\<close> was rejected: a failed transaction
  gives its failed receipt, one that was only repriced the receipt of its replacement, a cancelled or
  replaced one the cancellation error, and every other error is passed on; provided \<open>ethers\<close> marks as
  cancelled the replacements that are not repricings, and a failed transaction has status zero.
  A pending receipt is never returned.\<close>

theorem waitForReceipt_outcomes:
  assumes "re_isError e"
    and "isTransactionReplacedError e \<longrightarrow> (re_cancelled e \<longleftrightarrow> re_reason e \<noteq> Some ''repriced'')"
    and "isTransactionFailedError e \<longrightarrow> rr_status (re_receipt e) = Some 0"
  shows "waitForReceipt parse (Inl e) =
      (if isTransactionFailedError e then Inr (FailedReceipt (re_receipt e))
       else if isTransactionReplacedError e then
         (if re_reason e = Some ''repriced'' then waitForReceipt parse (Inr (Some (re_receipt e)))
          else Inl (TransactionCancelledError (''Transaction '' @ the (re_reason e)) (re_receipt e)))
       else Inl (Rethrown e)) \<and>
    waitForReceipt parse w \<noteq> Inr PendingReceipt"
proof -
  have "isTransactionReplacedError e \<Longrightarrow> re_reason e \<noteq> None"
    by (auto simp: isTransactionReplacedError_def split: option.splits)
  with assms show ?thesis
    by (auto simp: waitForReceipt_def getReceipt_def waitForRawReceipt_def receiptFrom_def coalesce_def
        new_EthersTransactionCancelledError_def split: sum.splits option.splits receipt.splits)
qed


section \<open>Examples\<close>

definition no_overrides :: txOverrides where
  "no_overrides = \<lparr>ov_from = None, ov_nonce = None, ov_gasLimit = None, ov_gasPrice = None\<rparr>"

text \<open>A system without troves: no hints are needed.\<close>

definition fresh_env :: txEnv where
  "fresh_env = example_env\<lparr>conn_of := empty_connection\<rparr>"

definition opening_params :: entries where
  "opening_params = [(''depositCollateral'', Some (DDecimal (Dec (10 * 10 ^ 18)))),
              (''borrowTHUSD'', Some (DDecimal (Dec (2000 * 10 ^ 18))))]"

lemmas reading_defs =
  getFeesFactory_def getTotal_def getActivePool_def getDefaultPool_def getPrice_def getCollateralAddress_def
  getNumberOfTroves_def decimalifyR_def decimalify_def empty_chain_def

lemma normalize_opening:
  "normalizeTroveCreation opening_params = Inr \<lparr>depositCollateral = Dec (10 * 10 ^ 18), borrowTHUSD = Dec (2000 * 10 ^ 18)\<rparr>"
  "normalizeTroveCreation (creation_entries p) = Inr p"
  by (simp_all add: opening_params_def creation_entries_def normalizeTroveCreation_def definedEntries_def
      checkAllowedTroveCreationKeys_def allowedTroveCreationKeys_def troveCreationParamsFromEntries_def)

lemma create_entries:
  "Trove_create (creation_entries p) (Some r) =
     Inr \<lparr>collateral = depositCollateral p,
          debt = Dec (bn THUSD_LIQUIDATION_RESERVE + bn (applyFee r (borrowTHUSD p)))\<rparr>"
  by (simp add: Trove_create_def normalize_opening rate_or_default_def Trove_apply_create Trove_isEmpty_iff
      emptyTrove_def)

lemma fresh_hints: "findHints fresh_env t own = Inr (ZERO_ADDRESS, ZERO_ADDRESS)"
  by (simp add: findHints_def findHintsForNominalCollateralRatio_def fresh_env_def example_env_def reading_defs)

lemma opening_ready:
  "openTrove fresh_env (\<lambda>_ _. Inr 300000) opening_params NoBorrowingParams (no_overrides\<lparr>ov_gasLimit := Some 1000000\<rparr>) =
     Inr \<lparr>pt_params = \<lparr>depositCollateral = Dec (10 * 10 ^ 18), borrowTHUSD = Dec (2000 * 10 ^ 18)\<rparr>,
          pt_args = \<lparr>oa_maxFeePercentage = 10 ^ 16, oa_THUSDAmount = 2000 * 10 ^ 18, oa_assetAmount = 0,
            oa_upperHint = ZERO_ADDRESS, oa_lowerHint = ZERO_ADDRESS, oa_value = 10 * 10 ^ 18\<rparr>,
          pt_overrides = no_overrides\<lparr>ov_gasLimit := Some 1000000\<rparr>, pt_gasHeadroom = None\<rparr>"
  by (simp add: openTrove_def normalize_opening fresh_hints create_entries)
     (simp add: fresh_env_def example_env_def reading_defs Trove_add_def Let_def no_overrides_def
      Trove_collateralRatioIsBelowCritical_def Trove_collateralRatio_def Decimal_mulDiv_def cmp_defs
      new_Fees_def MINUTE_DECAY_FACTOR_def DIGITS_num Fees_borrowingRate_def Fees_baseRate_def
      minutesSinceLastFeeOperation_def convertToDate_def Decimal_pow_def Decimal_min_def
      normalizeBorrowingOperationOptionalParams_def defaultMaxBorrowingRate_def
      defaultBorrowingRateSlippageTolerance_def MAX_UINT_256_def)



text \<open>An open trove of the user in a system with a debt of 10,000 thUSD.\<close>

definition busy_chain :: chain where
  "busy_chain = empty_chain
     \<lparr>Troves := \<lambda>_ _. Inr \<lparr>bt_status = 1, bt_coll = 10 * 10 ^ 18, bt_debt = 5000 * 10 ^ 18, bt_stake = 10 * 10 ^ 18\<rparr>,
      activePool_getCollateralBalance := \<lambda>_. Inr (20 * 10 ^ 18), activePool_getTHUSDDebt := \<lambda>_. Inr (10000 * 10 ^ 18),
      fetchPrice := \<lambda>_. Inr (2000 * 10 ^ 18)\<rparr>"

definition busy_env :: txEnv where
  "busy_env = example_env\<lparr>conn_of := \<lparr>chain_of = busy_chain, userAddress = Some ''0xA''\<rparr>\<rparr>"

definition repayment :: entries where
  "repayment = [(''repayTHUSD'', Some (DDecimal (Dec (1000 * 10 ^ 18))))]"

lemma normalize_repayment:
  "normalizeTroveAdjustment repayment = Inr \<lparr>adjDepositCollateral = None, adjWithdrawCollateral = None,
     adjBorrowTHUSD = None, adjRepayTHUSD = Some (Dec (1000 * 10 ^ 18))\<rparr>"
  by (simp add: repayment_def normalizeTroveAdjustment_def definedEntries_def checkAllowedTroveAdjustmentKeys_def
      allowedTroveAdjustmentKeys_def nonZero_def Decimal_isZero_def troveAdjustmentParamsFromEntries_def
      collateralChangeFrom_def debtChangeFrom_def mkAdjustment_def)

lemma adjust_repayment:
  "0 < x \<Longrightarrow> Trove_adjust t (adjustment_entries \<lparr>adjDepositCollateral = None, adjWithdrawCollateral = None,
     adjBorrowTHUSD = None, adjRepayTHUSD = Some (Dec x)\<rparr>) r =
   Inr \<lparr>collateral = Dec (bn (collateral t)), debt = Dec (bn (debt t) - x)\<rparr>"
  by (simp add: Trove_adjust_def adjustment_entries_def normalizeTroveAdjustment_def definedEntries_def
      checkAllowedTroveAdjustmentKeys_def allowedTroveAdjustmentKeys_def nonZero_def Decimal_isZero_def
      troveAdjustmentParamsFromEntries_def collateralChangeFrom_def debtChangeFrom_def mkAdjustment_def
      Trove_apply_Adjustment)

lemma busy_hints: "findHints busy_env t own = Inr (ZERO_ADDRESS, ZERO_ADDRESS)"
  by (simp add: findHints_def findHintsForNominalCollateralRatio_def busy_env_def busy_chain_def example_env_def
      reading_defs)

lemma repayment_ready:
  "adjustTrove busy_env (\<lambda>_ _. Inr 200000) repayment NoBorrowingParams (no_overrides\<lparr>ov_gasLimit := Some 1000000\<rparr>) =
     Inr \<lparr>pt_params = \<lparr>adjDepositCollateral = None, adjWithdrawCollateral = None, adjBorrowTHUSD = None,
            adjRepayTHUSD = Some (Dec (1000 * 10 ^ 18))\<rparr>,
          pt_args = \<lparr>aa_maxFeePercentage = 0, aa_collWithdrawal = 0, aa_THUSDChange = 1000 * 10 ^ 18,
            aa_isDebtIncrease = False, aa_assetAmount = 0, aa_upperHint = ZERO_ADDRESS,
            aa_lowerHint = ZERO_ADDRESS, aa_value = 0\<rparr>,
          pt_overrides = no_overrides\<lparr>ov_gasLimit := Some 1000000\<rparr>, pt_gasHeadroom = None\<rparr>"
  by (simp add: adjustTrove_def normalize_repayment busy_hints fetchFeeVars_def decayBorrowingRate_def
      adjust_repayment)
     (simp add: busy_env_def busy_chain_def reading_defs requireAddress_def no_overrides_def getTrove_def
      getTroveBeforeRedistribution_def addressOr_def userTroveStatusFrom_def getTotalRedistributed_def
      applyRedistribution_eq adjust_repayment normalizeBorrowingOperationOptionalParams_def
      defaultMaxBorrowingRate_def adjustTxParams_def)

theorem adjustTrove_transaction_witness:
  "\<exists>r. adjustTrove busy_env (\<lambda>_ _. Inr 200000) repayment NoBorrowingParams
         (no_overrides\<lparr>ov_gasLimit := Some 1000000\<rparr>) = Inr r \<and>
     \<not> aa_isDebtIncrease (pt_args r) \<and> aa_THUSDChange (pt_args r) = 1000 * 10 ^ 18"
  using adjustTrove_transaction [OF repayment_ready] repayment_ready by auto

lemma redemption_ready:
  obtains ctx r where "redeemTHUSD busy_env (\<lambda>_ _. Inr 700000) (DDecimal (Dec 9)) (Some (DDecimal (Dec (10 ^ 17)))) no_overrides = Inr (ctx, r)"
    "redeemableTHUSDAmount r = Dec 5" "attemptedTHUSDAmount r = Dec 9"
proof -
  have f: "\<exists>f. getFees (conn_of busy_env) None = Inr f"
    by (simp add: getFees_def busy_env_def busy_chain_def reading_defs new_Fees_def decay_factor_valid)
  have t: "\<exists>t. getTotal (conn_of busy_env) None = Inr t"
    by (simp add: busy_env_def busy_chain_def reading_defs)
  have h: "findRedemptionHints busy_env (Dec 9) = Inr \<lparr>rh_truncatedAmount = Dec 5, rh_firstRedemptionHint = ''0xF'',
      rh_upperHint = ZERO_ADDRESS, rh_lowerHint = ZERO_ADDRESS, rh_NICR = 0\<rparr>"
    by (simp add: findRedemptionHints_def busy_env_def busy_chain_def example_env_def reading_defs)
  have "\<exists>ctx r. redeemTHUSD busy_env (\<lambda>_ _. Inr 700000) (DDecimal (Dec 9)) (Some (DDecimal (Dec (10 ^ 17)))) no_overrides
      = Inr (ctx, r) \<and> redeemableTHUSDAmount r = Dec 5 \<and> attemptedTHUSDAmount r = Dec 9"
    using f t
    by (auto simp: redeemTHUSD_def h Let_def Decimal_isZero_def populateRedemption_def estimateAndPopulate_def
        no_overrides_def)
  then show thesis using that by blast
qed


definition replaced_error :: rawError where
  "replaced_error = \<lparr>re_isError = True, re_code = Some ''TRANSACTION_REPLACED'', re_reason = Some ''cancelled'',
     re_cancelled = True, re_receipt = \<lparr>rr_status = Some 1, rr_from = ''0xA'', rr_hash = ''0x1'', rr_logs = []\<rparr>\<rparr>"

theorem waitForReceipt_outcomes_witness:
  "waitForReceipt (\<lambda>_. Inr ()) (Inl replaced_error) =
     Inl (TransactionCancelledError ''Transaction cancelled'' (re_receipt replaced_error))"
proof -
  have *: "re_isError replaced_error"
    "isTransactionReplacedError replaced_error \<longrightarrow> (re_cancelled replaced_error \<longleftrightarrow> re_reason replaced_error \<noteq> Some ''repriced'')"
    "isTransactionFailedError replaced_error \<longrightarrow> rr_status (re_receipt replaced_error) = Some 0"
    "isTransactionReplacedError replaced_error" "\<not> isTransactionFailedError replaced_error"
    by (simp_all add: replaced_error_def isTransactionReplacedError_def isTransactionFailedError_def
        transactionReplacementReasons_def)
  from waitForReceipt_outcomes [OF *(1,2,3), of "\<lambda>_. Inr ()"] *(4,5) show ?thesis
    by (simp add: replaced_error_def)
qed

end
