(* ===== verification/Receipts.thy ===== *)
theory Receipts
  imports Transactions
begin

text \<open>
  The other transactions of \<open>packages/lib-ethers/src/PopulatableEthersLiquity.ts\<close>, the details that are
  read from the logs of their receipts, and the printing of logs of \<open>parseLogs.ts\<close>.

  The parser of a contract's logs belongs to the ethers package and is a field of the contract; a
  log description has the arguments of its event by name.  A missing argument is \<open>undefined\<close>, on which
  \<open>decimalify\<close> throws.  \<open>key in object\<close> is membership in the object's own keys: addresses and argument
  strings are not the names of members of \<open>Object.prototype\<close>.
\<close>

section \<open>Logs\<close>

datatype logArg = ArgNumber nat | ArgString string | ArgOther string

record logDescription =
  ld_name :: string
  ld_args :: "(string \<times> logArg) list"

record liquityContract =
  ct_address :: string
  parseLog :: "rawLog \<Rightarrow> logDescription res"

definition extractEvents :: "liquityContract \<Rightarrow> rawLog list \<Rightarrow> string \<Rightarrow> logDescription list res" where
  "extractEvents c logs name =
     bindR (mapR (parseLog c) (filter (\<lambda>l. lg_address l = ct_address c) logs))
       (\<lambda>es. Inr (filter (\<lambda>e. ld_name e = name) es))"

text \<open>\<open>decimalify(args.key)\<close> and \<open>args.key\<close>.\<close>

definition numberArg :: "string \<Rightarrow> logDescription \<Rightarrow> decimal res" where
  "numberArg key e = (case map_of (ld_args e) key of Some (ArgNumber n) \<Rightarrow> Inr (decimalify n) | _ \<Rightarrow> Inl TypeError)"

definition stringArg :: "string \<Rightarrow> logDescription \<Rightarrow> string option" where
  "stringArg key e = (case map_of (ld_args e) key of Some (ArgString a) \<Rightarrow> Some a | _ \<Rightarrow> None)"

text \<open>\<open>const [x] = events.map(f)\<close>: every event is mapped and the first result taken, if there is one.\<close>

definition firstOf :: "('a \<Rightarrow> 'b res) \<Rightarrow> 'a list \<Rightarrow> 'b option res" where
  "firstOf f es = bindR (mapR f es) (\<lambda>xs. Inr (case xs of [] \<Rightarrow> None | x # _ \<Rightarrow> Some x))"

definition troveArgs :: "string \<Rightarrow> string \<Rightarrow> logDescription \<Rightarrow> trove res" where
  "troveArgs c d e =
     bindR (numberArg c e) (\<lambda>coll. bindR (numberArg d e) (\<lambda>debt'. Inr \<lparr>collateral = coll, debt = debt'\<rparr>))"

section \<open>Details of receipts\<close>

record contracts =
  ct_activePool :: liquityContract
  ct_borrowerOperations :: liquityContract
  ct_troveManager :: liquityContract
  ct_thusdToken :: liquityContract
  ct_stabilityPool :: liquityContract
  ct_bamm :: liquityContract
  ct_erc20 :: liquityContract
  ct_priceFeedIsTestnet :: bool

record 'p troveChangeDetails =
  td_params :: 'p
  td_newTrove :: "trove option"
  td_fee :: "decimal option"

definition troveChangeWithFees_details :: "contracts \<Rightarrow> 'p \<Rightarrow> rawReceipt \<Rightarrow> 'p troveChangeDetails res" where
  "troveChangeWithFees_details cs params r =
     bindR (extractEvents (ct_borrowerOperations cs) (rr_logs r) ''TroveUpdated'')
       (\<lambda>updates. bindR (firstOf (troveArgs ''_coll'' ''_debt'') updates)
       (\<lambda>newTrove. bindR (extractEvents (ct_borrowerOperations cs) (rr_logs r) ''THUSDBorrowingFeePaid'')
       (\<lambda>paid. bindR (firstOf (numberArg ''_THUSDFee'') paid)
       (\<lambda>fee. Inr \<lparr>td_params = params, td_newTrove = newTrove, td_fee = fee\<rparr>))))"

record closureDetails =
  cd_withdrawCollateral :: "decimal option"
  cd_repayTHUSD :: "decimal option"

definition troveClosure_details :: "contracts \<Rightarrow> rawReceipt \<Rightarrow> closureDetails res" where
  "troveClosure_details cs r =
     bindR (extractEvents (ct_thusdToken cs) (rr_logs r) ''Transfer'')
       (\<lambda>transfers. bindR (firstOf (numberArg ''value'')
            (filter (\<lambda>e. stringArg ''from'' e = Some (rr_from r) \<and> stringArg ''to'' e = Some ZERO_ADDRESS) transfers))
       (\<lambda>repay. bindR (extractEvents (ct_activePool cs) (rr_logs r) ''CollateralSent'')
       (\<lambda>sent. bindR (firstOf (numberArg ''_amount'') (filter (\<lambda>e. stringArg ''_to'' e = Some (rr_from r)) sent))
       (\<lambda>withdraw. case repay of
          None \<Rightarrow> Inl TypeError
        | Some d \<Rightarrow>
            Inr \<lparr>cd_withdrawCollateral = withdraw,
                 cd_repayTHUSD = (if Decimal_nonZero d \<noteq> None then Some d else None)\<rparr>))))"

record liquidationTotals =
  lt_collateralGasCompensation :: decimal
  lt_thusdGasCompensation :: decimal
  lt_totalLiquidated :: trove

record liquidationDetails =
  lq_liquidatedAddresses :: "string option list"
  lq_totals :: "liquidationTotals option"

definition liquidationTotals_from :: "logDescription \<Rightarrow> liquidationTotals res" where
  "liquidationTotals_from e =
     bindR (numberArg ''_collGasCompensation'' e)
       (\<lambda>collGas. bindR (numberArg ''_THUSDGasCompensation'' e)
       (\<lambda>thusdGas. bindR (troveArgs ''_liquidatedColl'' ''_liquidatedDebt'' e)
       (\<lambda>liquidated. Inr \<lparr>lt_collateralGasCompensation = collGas, lt_thusdGasCompensation = thusdGas,
                          lt_totalLiquidated = liquidated\<rparr>)))"

definition liquidation_details :: "contracts \<Rightarrow> rawReceipt \<Rightarrow> liquidationDetails res" where
  "liquidation_details cs r =
     bindR (extractEvents (ct_troveManager cs) (rr_logs r) ''TroveLiquidated'')
       (\<lambda>liquidated. bindR (extractEvents (ct_troveManager cs) (rr_logs r) ''Liquidation'')
       (\<lambda>totals. bindR (firstOf liquidationTotals_from totals)
       (\<lambda>t. Inr \<lparr>lq_liquidatedAddresses = map (stringArg ''_borrower'') liquidated, lq_totals = t\<rparr>)))"

record gainsDetails =
  gd_thusdLoss :: decimal
  gd_newTHUSDDeposit :: "decimal option"
  gd_collateralGain :: decimal

text \<open>\<open>const [[collateralGain, thusdLoss]] = ...\<close> throws if there is no event.\<close>

definition stabilityPoolGains_details :: "contracts \<Rightarrow> rawLog list \<Rightarrow> gainsDetails res" where
  "stabilityPoolGains_details cs logs =
     bindR (extractEvents (ct_stabilityPool cs) logs ''UserDepositChanged'')
       (\<lambda>changes. bindR (firstOf (numberArg ''_newDeposit'') changes)
       (\<lambda>newDeposit. bindR (extractEvents (ct_stabilityPool cs) logs ''CollateralGainWithdrawn'')
       (\<lambda>gains. bindR (firstOf (\<lambda>e. bindR (numberArg ''_collateral'' e)
                          (\<lambda>c. bindR (numberArg ''_THUSDLoss'' e) (\<lambda>l. Inr (c, l)))) gains)
       (\<lambda>gain. case gain of
          None \<Rightarrow> Inl TypeError
        | Some (c, l) \<Rightarrow> Inr \<lparr>gd_thusdLoss = l, gd_newTHUSDDeposit = newDeposit, gd_collateralGain = c\<rparr>))))"

record depositChangeDetails = gainsDetails +
  dd_depositTHUSD :: "decimal option"
  dd_withdrawTHUSD :: "decimal option"
  dd_withdrawAllTHUSD :: bool

definition stabilityDepositTopup_details :: "contracts \<Rightarrow> decimal \<Rightarrow> rawReceipt \<Rightarrow> depositChangeDetails res" where
  "stabilityDepositTopup_details cs amount r =
     bindR (stabilityPoolGains_details cs (rr_logs r))
       (\<lambda>g. Inr (gainsDetails.extend g (depositChangeDetails.fields (Some amount) None False)))"

definition stabilityDepositWithdrawal_details :: "contracts \<Rightarrow> rawReceipt \<Rightarrow> depositChangeDetails res" where
  "stabilityDepositWithdrawal_details cs r =
     bindR (stabilityPoolGains_details cs (rr_logs r))
       (\<lambda>g. bindR (extractEvents (ct_thusdToken cs) (rr_logs r) ''Transfer'')
       (\<lambda>transfers. bindR (firstOf (numberArg ''value'')
            (filter (\<lambda>e. stringArg ''from'' e = Some (ct_address (ct_stabilityPool cs)) \<and>
                         stringArg ''to'' e = Some (rr_from r)) transfers))
       (\<lambda>withdraw. case gd_newTHUSDDeposit g of
          None \<Rightarrow> Inl TypeError
        | Some d \<Rightarrow>
            Inr (gainsDetails.extend g (depositChangeDetails.fields None withdraw (Decimal_isZero d))))))"

record gainTransferDetails = gainsDetails +
  gt_newTrove :: "trove option"

definition collateralGainTransfer_details :: "contracts \<Rightarrow> rawReceipt \<Rightarrow> gainTransferDetails res" where
  "collateralGainTransfer_details cs r =
     bindR (extractEvents (ct_borrowerOperations cs) (rr_logs r) ''TroveUpdated'')
       (\<lambda>updates. bindR (firstOf (troveArgs ''_coll'' ''_debt'') updates)
       (\<lambda>newTrove. bindR (stabilityPoolGains_details cs (rr_logs r))
       (\<lambda>g. Inr (gainsDetails.extend g (gainTransferDetails.fields newTrove)))))"

record redemptionDetails =
  rd_attemptedTHUSDAmount :: decimal
  rd_actualTHUSDAmount :: decimal
  rd_collateralTaken :: decimal
  rd_fee :: decimal

definition redemption_details :: "contracts \<Rightarrow> rawReceipt \<Rightarrow> redemptionDetails option res" where
  "redemption_details cs r =
     bindR (extractEvents (ct_troveManager cs) (rr_logs r) ''Redemption'')
       (firstOf (\<lambda>e. bindR (numberArg ''_attemptedTHUSDAmount'' e)
          (\<lambda>attempted. bindR (numberArg ''_actualTHUSDAmount'' e)
          (\<lambda>actual. bindR (numberArg ''_collateralSent'' e)
          (\<lambda>sent. bindR (numberArg ''_collateralFee'' e)
          (\<lambda>fee. Inr \<lparr>rd_attemptedTHUSDAmount = attempted, rd_actualTHUSDAmount = actual,
                      rd_collateralTaken = sent, rd_fee = fee\<rparr>))))))"

section \<open>Prepared transactions\<close>

datatype contractCall =
    Call_closeTrove
  | Call_claimCollateral
  | Call_setPrice nat
  | Call_liquidate string
  | Call_batchLiquidateTroves "string list"
  | Call_liquidateTroves nat
  | Call_approve string string nat
  | Call_bammDeposit nat
  | Call_bammWithdraw nat
  | Call_provideToSP nat
  | Call_withdrawFromSP nat
  | Call_withdrawCollateralGainToTrove string string
  | Call_transfer string nat
  | Call_mint string nat

text \<open>\<open>PopulatedEthersLiquityTransaction\<close>: the call with its overrides and the parser of the receipt.\<close>

record 'd populatedTx =
  px_call :: contractCall
  px_overrides :: txOverrides
  px_parse :: "rawReceipt \<Rightarrow> 'd res"

type_synonym estimator = "contractCall \<Rightarrow> txOverrides \<Rightarrow> nat res"

definition populate ::
    "estimator \<Rightarrow> txOverrides \<Rightarrow> (nat \<Rightarrow> nat) \<Rightarrow> contractCall \<Rightarrow> (rawReceipt \<Rightarrow> 'd res) \<Rightarrow> 'd populatedTx res" where
  "populate estimate overrides adjustGas call parse =
     bindR (estimateAndPopulate estimate overrides adjustGas call)
       (\<lambda>(c, ov). Inr \<lparr>px_call = c, px_overrides = ov, px_parse = parse\<rparr>)"

definition noDetails :: "rawReceipt \<Rightarrow> unit res" where
  "noDetails _ = Inr ()"

definition simpleAddGas :: "nat \<Rightarrow> nat" where
  "simpleAddGas gas = gas + 1000"

definition closeTrove :: "contracts \<Rightarrow> estimator \<Rightarrow> txOverrides \<Rightarrow> closureDetails populatedTx res" where
  "closeTrove cs estimate ov = populate estimate ov id Call_closeTrove (troveClosure_details cs)"

definition claimCollateralSurplus :: "estimator \<Rightarrow> txOverrides \<Rightarrow> unit populatedTx res" where
  "claimCollateralSurplus estimate ov = populate estimate ov id Call_claimCollateral noDetails"

definition setPrice :: "contracts \<Rightarrow> estimator \<Rightarrow> decimalish \<Rightarrow> txOverrides \<Rightarrow> unit populatedTx res" where
  "setPrice cs estimate newPrice' ov =
     (if \<not> ct_priceFeedIsTestnet cs then Inl (Error ''setPrice() unavailable on this deployment of Liquity'')
      else bindR (Decimal_from newPrice') (\<lambda>p. populate estimate ov id (Call_setPrice (bn p)) noDetails))"

text \<open>The argument is an array of addresses (\<open>Inr\<close>) or one address (\<open>Inl\<close>).\<close>

definition liquidate ::
    "contracts \<Rightarrow> estimator \<Rightarrow> string + string list \<Rightarrow> txOverrides \<Rightarrow> liquidationDetails populatedTx res" where
  "liquidate cs estimate address ov =
     (case address of
        Inr addresses \<Rightarrow> populate estimate ov addGasForIssuance (Call_batchLiquidateTroves addresses) (liquidation_details cs)
      | Inl a \<Rightarrow> populate estimate ov addGasForIssuance (Call_liquidate a) (liquidation_details cs))"

definition liquidateUpTo :: "contracts \<Rightarrow> estimator \<Rightarrow> nat \<Rightarrow> txOverrides \<Rightarrow> liquidationDetails populatedTx res" where
  "liquidateUpTo cs estimate maximumNumberOfTrovesToLiquidate ov =
     populate estimate ov addGasForIssuance (Call_liquidateTroves maximumNumberOfTrovesToLiquidate) (liquidation_details cs)"

definition bammUnlock :: "contracts \<Rightarrow> estimator \<Rightarrow> txOverrides \<Rightarrow> unit populatedTx res" where
  "bammUnlock cs estimate ov =
     populate estimate ov simpleAddGas
       (Call_approve (ct_address (ct_thusdToken cs)) (ct_address (ct_bamm cs)) MAX_UINT_256) noDetails"

definition depositTHUSDInBammPool :: "contracts \<Rightarrow> estimator \<Rightarrow> decimalish \<Rightarrow> txOverrides \<Rightarrow> depositChangeDetails populatedTx res" where
  "depositTHUSDInBammPool cs estimate amount ov =
     bindR (Decimal_from amount)
       (\<lambda>d. populate estimate ov addGasForIssuance (Call_bammDeposit (bn d)) (stabilityDepositTopup_details cs d))"

definition withdrawTHUSDFromBammPool ::
    "contracts \<Rightarrow> connection \<Rightarrow> estimator \<Rightarrow> decimalish \<Rightarrow> txOverrides \<Rightarrow> depositChangeDetails populatedTx res" where
  "withdrawTHUSDFromBammPool cs conn estimate amount ov =
     bindR (getWithdrawsSpShare conn amount None)
       (\<lambda>share. bindR (Decimal_from (DString share))
          (\<lambda>d. populate estimate ov addGasForIssuance (Call_bammWithdraw (bn d)) (stabilityDepositWithdrawal_details cs)))"

definition withdrawGainsFromBammPool :: "contracts \<Rightarrow> estimator \<Rightarrow> txOverrides \<Rightarrow> gainsDetails populatedTx res" where
  "withdrawGainsFromBammPool cs estimate ov =
     populate estimate ov addGasForIssuance (Call_bammWithdraw (bn Decimal_ZERO))
       (\<lambda>r. stabilityPoolGains_details cs (rr_logs r))"

definition depositTHUSDInStabilityPool ::
    "contracts \<Rightarrow> estimator \<Rightarrow> decimalish \<Rightarrow> txOverrides \<Rightarrow> depositChangeDetails populatedTx res" where
  "depositTHUSDInStabilityPool cs estimate amount ov =
     bindR (Decimal_from amount)
       (\<lambda>d. populate estimate ov addGasForIssuance (Call_provideToSP (bn d)) (stabilityDepositTopup_details cs d))"

definition withdrawTHUSDFromStabilityPool ::
    "contracts \<Rightarrow> estimator \<Rightarrow> decimalish \<Rightarrow> txOverrides \<Rightarrow> depositChangeDetails populatedTx res" where
  "withdrawTHUSDFromStabilityPool cs estimate amount ov =
     bindR (Decimal_from amount)
       (\<lambda>d. populate estimate ov addGasForIssuance (Call_withdrawFromSP (bn d)) (stabilityDepositWithdrawal_details cs))"

definition withdrawGainsFromStabilityPool :: "contracts \<Rightarrow> estimator \<Rightarrow> txOverrides \<Rightarrow> gainsDetails populatedTx res" where
  "withdrawGainsFromStabilityPool cs estimate ov =
     populate estimate ov addGasForIssuance (Call_withdrawFromSP (bn Decimal_ZERO))
       (\<lambda>r. stabilityPoolGains_details cs (rr_logs r))"

definition transferGas :: "nat \<Rightarrow> nat" where
  "transferGas = addGasForPotentialListTraversal \<circ> addGasForIssuance"

definition transferCollateralGainToTrove ::
    "contracts \<Rightarrow> txEnv \<Rightarrow> estimator \<Rightarrow> txOverrides \<Rightarrow> gainTransferDetails populatedTx res" where
  "transferCollateralGainToTrove cs env estimate ov =
     bindR (requireAddress (conn_of env) (ov_from ov))
       (\<lambda>address. bindR (getTrove (conn_of env) (Some address) None)
       (\<lambda>initialTrove. bindR (getStabilityDeposit (conn_of env) (Some address) None)
       (\<lambda>deposit. bindR (findHints env (Trove_addCollateral initialTrove (collateralGain deposit)) (Some address))
       (\<lambda>(upper, lower). populate estimate ov transferGas (Call_withdrawCollateralGainToTrove upper lower)
                           (collateralGainTransfer_details cs)))))"

definition transferBammCollateralGainToTrove ::
    "contracts \<Rightarrow> txEnv \<Rightarrow> estimator \<Rightarrow> txOverrides \<Rightarrow> gainTransferDetails populatedTx res" where
  "transferBammCollateralGainToTrove cs env estimate ov =
     bindR (requireAddress (conn_of env) (ov_from ov))
       (\<lambda>address. bindR (getTrove (conn_of env) (Some address) None)
       (\<lambda>initialTrove. bindR (getBammDeposit 0 (conn_of env) (Some address) None)
       (\<lambda>deposit. bindR (findHints env (Trove_addCollateral initialTrove (bammCollateralGain deposit)) (Some address))
       (\<lambda>(upper, lower). populate estimate ov transferGas (Call_withdrawCollateralGainToTrove upper lower)
                           (collateralGainTransfer_details cs)))))"

definition sendTHUSD :: "estimator \<Rightarrow> string \<Rightarrow> decimalish \<Rightarrow> txOverrides \<Rightarrow> unit populatedTx res" where
  "sendTHUSD estimate toAddress amount ov =
     bindR (Decimal_from amount) (\<lambda>d. populate estimate ov id (Call_transfer toAddress (bn d)) noDetails)"

definition approveErc20 :: "contracts \<Rightarrow> estimator \<Rightarrow> decimalish option \<Rightarrow> txOverrides \<Rightarrow> unit populatedTx res" where
  "approveErc20 cs estimate allowance ov =
     bindR (Decimal_from (coalesce allowance (DDecimal Decimal_INFINITY)))
       (\<lambda>d. populate estimate ov id
          (Call_approve (ct_address (ct_erc20 cs)) (ct_address (ct_borrowerOperations cs)) (bn d)) noDetails)"

definition mintErc20 :: "estimator \<Rightarrow> string \<Rightarrow> decimalish \<Rightarrow> txOverrides \<Rightarrow> unit populatedTx res" where
  "mintErc20 estimate toAddress amount ov =
     bindR (Decimal_from amount) (\<lambda>d. populate estimate ov id (Call_mint toAddress (bn d)) noDetails)"

text \<open>\<open>send\<close> of a prepared transaction, followed by \<open>waitForReceipt\<close>; \<open>network\<close> is what becomes of the
  transaction that the signer sent.\<close>

definition requireSigner :: "bool \<Rightarrow> unit res" where
  "requireSigner hasSigner = (if hasSigner then Inr () else Inl (Error ''Must be connected through a Signer''))"

definition sendAndWait ::
    "bool \<Rightarrow> (contractCall \<Rightarrow> txOverrides \<Rightarrow> rawError + rawReceipt option) \<Rightarrow> 'd populatedTx \<Rightarrow>
     sentError + 'd receipt" where
  "sendAndWait hasSigner network px =
     (case requireSigner hasSigner of
        Inl e \<Rightarrow> Inl (Thrown e)
      | Inr _ \<Rightarrow> waitForReceipt (px_parse px) (network (px_call px) (px_overrides px)))"

section \<open>Printing logs\<close>

type_synonym nameLookup = "(string \<times> string) list"

text \<open>The lookups are made of the contracts' entries; later entries of the same address win.\<close>

definition interfaceLookupFrom :: "(string \<times> liquityContract) list \<Rightarrow> string \<Rightarrow> (rawLog \<Rightarrow> logDescription res) option" where
  "interfaceLookupFrom contracts = map_of (rev (map (\<lambda>(_, c). (ct_address c, parseLog c)) contracts))"

definition nameLookupFrom :: "(string \<times> liquityContract) list \<Rightarrow> string \<Rightarrow> string option" where
  "nameLookupFrom contracts = map_of (rev (map (\<lambda>(name, c). (ct_address c, name)) contracts))"

definition tryToParseLog ::
    "(string \<Rightarrow> (rawLog \<Rightarrow> logDescription res) option) \<Rightarrow> rawLog \<Rightarrow> (string \<times> logDescription) option" where
  "tryToParseLog interfaces log =
     (case interfaces (lg_address log) of
        None \<Rightarrow> None
      | Some parse \<Rightarrow> (case parse log of Inr d \<Rightarrow> Some (lg_address log, d) | Inl _ \<Rightarrow> None))"

fun parseLogs ::
    "(string \<Rightarrow> (rawLog \<Rightarrow> logDescription res) option) \<Rightarrow> rawLog list \<Rightarrow> (string \<times> logDescription) list \<times> rawLog list" where
  "parseLogs interfaces [] = ([], [])"
| "parseLogs interfaces (log # logs) =
     (let (parsed, unparsed) = parseLogs interfaces logs
      in case tryToParseLog interfaces log of
           Some p \<Rightarrow> (p # parsed, unparsed)
         | None \<Rightarrow> (parsed, log # unparsed))"

definition prettifyArg :: "(string \<Rightarrow> string option) \<Rightarrow> logArg \<Rightarrow> string res" where
  "prettifyArg names arg =
     (case arg of
        ArgNumber n \<Rightarrow>
          if n \<ge> 10 ^ 9 then bindR (Decimal_toString (decimalify n) None) (\<lambda>s. Inr (s @ ''e18''))
          else Inr (dec_string n)
      | ArgString a \<Rightarrow> Inr (if a = ZERO_ADDRESS then ''address(0)'' else coalesce (names a) a)
      | ArgOther s \<Rightarrow> Inr s)"

fun join :: "string \<Rightarrow> string list \<Rightarrow> string" where
  "join sep [] = ''''"
| "join sep [x] = x"
| "join sep (x # y # xs) = x @ sep @ join sep (y # xs)"

definition logDescriptionToString :: "(string \<Rightarrow> string option) \<Rightarrow> logDescription \<Rightarrow> string res" where
  "logDescriptionToString names d =
     bindR (mapR (\<lambda>(key, arg). bindR (prettifyArg names arg) (\<lambda>s. Inr (key @ '': '' @ s)))
              (filter (\<lambda>(key, _). \<not> (key \<noteq> [] \<and> is_digit (hd key))) (ld_args d)))
       (\<lambda>entries'. Inr (ld_name d @ ''({ '' @ join '', '' entries' @ '' })''))"

definition logsToString :: "(string \<times> liquityContract) list \<Rightarrow> rawReceipt \<Rightarrow> string res" where
  "logsToString contracts receipt =
     (let contractNames = nameLookupFrom contracts;
          names = (\<lambda>a. case contractNames a of Some n \<Rightarrow> Some n
                       | None \<Rightarrow> if a = rr_from receipt then Some ''user'' else None);
          (parsed, unparsed) = parseLogs (interfaceLookupFrom contracts) (rr_logs receipt)
      in if parsed \<noteq> [] then
           bindR (mapR (\<lambda>(address, d). bindR (logDescriptionToString names d)
                    (\<lambda>s. Inr (''  '' @ coalesce (contractNames address) ''undefined'' @ ''.'' @ s))) parsed)
             (\<lambda>ls. Inr (''Logs of tx '' @ rr_hash receipt @ '':'' @ [CHR 0x0A] @ join [CHR 0x0A] ls))
         else Inr (''No logs were parsed in tx '' @ rr_hash receipt))"

end
