(* ===== verification/Receipts_Correct.thy ===== *)
theory Receipts_Correct
  imports Receipts ReadableEthers_Correct
begin

text \<open>
  What the prepared transactions ask for, what their receipts report, and how printing accounts for
  every log.
\<close>

section \<open>Preparation\<close>

lemma populate_result:
  "populate estimate ov adjustGas call parse = Inr px \<longleftrightarrow>
     (\<exists>ov'. px = \<lparr>px_call = call, px_overrides = ov', px_parse = parse\<rparr> \<and>
        (case ov_gasLimit ov of
           Some _ \<Rightarrow> ov' = ov
         | None \<Rightarrow> \<exists>gas. estimate call ov = Inr gas \<and> ov' = ov\<lparr>ov_gasLimit := Some (adjustGas gas)\<rparr>))"
  by (auto simp: populate_def estimateAndPopulate_def bindR_Inr_iff split: option.splits)

text \<open>The share of the B.AMM that a withdrawal asks for is printed and parsed back without loss.\<close>

lemma share_roundtrip:
  assumes "bn x < MAX_UINT_256"
  shows "Decimal_toString x None = Inr (Decimal_toStringWithAutomaticPrecision x)"
    and "Decimal_from (DString (Decimal_toStringWithAutomaticPrecision x)) = Inr x"
  using assms by (simp_all add: Decimal_toString_def toString_automatic_parses Decimal_infinite_def
      Decimal_INFINITY_def Decimal_eq_def)

lemma bamm_share_bounds:
  fixes st amount usd :: nat
  assumes "0 < usd" and "amount \<le> usd"
  defines "n \<equiv> st * amount div DIGITS * DIGITS div usd"
  shows "n \<le> st" and "n * usd \<le> st * amount" and "st * amount < (n + 1) * usd + DIGITS"
proof -
  let ?k = "st * amount div DIGITS * DIGITS"
  have k: "?k \<le> st * amount" "st * amount < ?k + DIGITS"
    using div_mult_mod_eq [of "st * amount" DIGITS] mod_less_divisor [OF DIGITS_pos, of "st * amount"] by linarith+
  have n: "n * usd \<le> ?k" "?k < (n + 1) * usd"
    using assms(1) div_mult_mod_eq [of ?k usd] mod_less_divisor [of usd ?k] unfolding n_def by (simp_all, linarith)
  show "n * usd \<le> st * amount" using n(1) k(1) by linarith
  also have "\<dots> \<le> st * usd" using assms(2) by simp
  finally show "n \<le> st" using assms(1) by simp
  show "st * amount < (n + 1) * usd + DIGITS" using n(2) k(2) by linarith
qed

text \<open>A withdrawal from the B.AMM of at most the value of the user's deposit asks the contract for at most
  the user's stake: for the share that corresponds to the amount, rounded down, and short of the exact proportion
  by less than one unit of the share and one unit of the amount's last digit.\<close>

theorem bammWithdrawal_share:
  assumes "requireAddress conn None = Inr a" and "bamm_stake (chain_of conn) a None = Inr st"
    and "getBammDeposit 0 conn (Some a) None = Inr deposit"
    and "Decimal_from amount' = Inr amount"
    and "0 < bn (currentUSD deposit)" and "bn amount \<le> bn (currentUSD deposit)" and "st < MAX_UINT_256"
  shows "\<exists>n. withdrawTHUSDFromBammPool cs conn estimate amount' ov =
      populate estimate ov addGasForIssuance (Call_bammWithdraw n) (stabilityDepositWithdrawal_details cs) \<and>
    n \<le> st \<and> n * bn (currentUSD deposit) \<le> st * bn amount \<and>
    st * bn amount < (n + 1) * bn (currentUSD deposit) + DIGITS"
proof -
  let ?x = "Decimal_div (Decimal_mul (decimalify st) amount) (currentUSD deposit)"
  have x: "bn ?x = st * bn amount div DIGITS * DIGITS div bn (currentUSD deposit)"
    using assms(5) by (simp add: Decimal_div_def Decimal_mul_def decimalify_def Decimal_isZero_def)
  note bounds = bamm_share_bounds [OF assms(5,6), of st, folded x]
  have "bn ?x < MAX_UINT_256" using bounds(1) assms(7) by linarith
  note rt = share_roundtrip [OF this]
  have "withdrawTHUSDFromBammPool cs conn estimate amount' ov =
      populate estimate ov addGasForIssuance (Call_bammWithdraw (bn ?x)) (stabilityDepositWithdrawal_details cs)"
    using assms(1-4) by (simp add: withdrawTHUSDFromBammPool_def getWithdrawsSpShare_def rt del: Decimal_from.simps)
  with bounds show ?thesis by blast
qed

text \<open>Contracts whose parsers give the event of a burn and the event of a payout.\<close>

definition exampleContract :: "string \<Rightarrow> logDescription \<Rightarrow> liquityContract" where
  "exampleContract a d = \<lparr>ct_address = a, parseLog = \<lambda>_. Inr d\<rparr>"

definition burnEvent :: logDescription where
  "burnEvent = \<lparr>ld_name = ''Transfer'', ld_args = [(''from'', ArgString ''0xA''), (''to'', ArgString ZERO_ADDRESS), (''value'', ArgNumber 5)]\<rparr>"

definition payoutEvent :: logDescription where
  "payoutEvent = \<lparr>ld_name = ''CollateralSent'', ld_args = [(''_to'', ArgString ''0xA''), (''_amount'', ArgNumber 2)]\<rparr>"

definition exampleContracts :: contracts where
  "exampleContracts = (let other = exampleContract ''0x9'' burnEvent in
     \<lparr>ct_activePool = exampleContract ''0x1'' payoutEvent, ct_borrowerOperations = other, ct_troveManager = other,
      ct_thusdToken = exampleContract ''0x2'' burnEvent, ct_stabilityPool = other, ct_bamm = other, ct_erc20 = other,
      ct_priceFeedIsTestnet = False\<rparr>)"

text \<open>A user with half of the stake of a B.AMM that holds 6 thUSD withdraws 2 of the 3 that belong to the user.\<close>

definition bamm_connection :: connection where
  "bamm_connection = empty_connection\<lparr>chain_of := empty_chain\<lparr>bamm_stake := \<lambda>_ _. Inr (10 ^ 18),
     bamm_total := \<lambda>_. Inr (2 * 10 ^ 18), getCompoundedTHUSDDeposit := \<lambda>_ _. Inr (6 * 10 ^ 18)\<rparr>\<rparr>"

definition noOverrides :: txOverrides where
  "noOverrides = \<lparr>ov_from = None, ov_nonce = None, ov_gasLimit = None, ov_gasPrice = None\<rparr>"

theorem bammWithdrawal_share_witness:
  "\<exists>n. withdrawTHUSDFromBammPool exampleContracts bamm_connection (\<lambda>_ _. Inr 21000) (DDecimal (Dec (2 * 10 ^ 18))) noOverrides =
      populate (\<lambda>_ _. Inr 21000) noOverrides addGasForIssuance (Call_bammWithdraw n) (stabilityDepositWithdrawal_details exampleContracts) \<and>
    n \<le> 10 ^ 18"
proof -
  let ?d = "bammDepositFrom 0 0 (6 * 10 ^ 18) 0 (2 * 10 ^ 18) (10 ^ 18) 0 0 (10 ^ 18)"
  have "requireAddress bamm_connection None = Inr ''0xA''" "bamm_stake (chain_of bamm_connection) ''0xA'' None = Inr (10 ^ 18)"
    "getBammDeposit 0 bamm_connection (Some ''0xA'') None = Inr ?d"
    by (simp_all add: requireAddress_def bamm_connection_def getBammDeposit_def addressOr_def empty_chain_def)
  moreover have "bn (currentUSD ?d) = 3 * 10 ^ 18"
    by (simp add: bammDepositFrom_def Let_def)
  ultimately show ?thesis
    using bammWithdrawal_share [of bamm_connection "''0xA''" "10 ^ 18" ?d "DDecimal (Dec (2 * 10 ^ 18))" "Dec (2 * 10 ^ 18)" exampleContracts "\<lambda>_ _. Inr 21000" noOverrides]
    by (force simp: MAX_UINT_256_def)
qed

section \<open>Details\<close>

definition ownLogs :: "contracts \<Rightarrow> rawLog \<Rightarrow> bool" where
  "ownLogs cs l \<longleftrightarrow> lg_address l \<in> ct_address ` {ct_activePool cs, ct_borrowerOperations cs, ct_troveManager cs,
     ct_thusdToken cs, ct_stabilityPool cs}"

definition withoutForeignLogs :: "contracts \<Rightarrow> rawReceipt \<Rightarrow> rawReceipt" where
  "withoutForeignLogs cs r = r\<lparr>rr_logs := filter (ownLogs cs) (rr_logs r)\<rparr>"

lemma extractEvents_own:
  assumes "\<And>l. lg_address l = ct_address c \<Longrightarrow> P l"
  shows "extractEvents c (filter P logs) name = extractEvents c logs name"
proof -
  have "filter (\<lambda>l. P l \<and> lg_address l = ct_address c) logs = filter (\<lambda>l. lg_address l = ct_address c) logs"
    using assms by (intro filter_cong) auto
  then show ?thesis by (simp add: extractEvents_def filter_filter conj_commute)
qed

text \<open>The details of every receipt are read from the logs of the protocol's own contracts: logs that another
  contract emitted in the transaction, of whatever name and arguments, do not change them.\<close>

theorem details_own_logs:
  "troveChangeWithFees_details cs p (withoutForeignLogs cs r) = troveChangeWithFees_details cs p r \<and>
    troveClosure_details cs (withoutForeignLogs cs r) = troveClosure_details cs r \<and>
    liquidation_details cs (withoutForeignLogs cs r) = liquidation_details cs r \<and>
    stabilityDepositTopup_details cs d (withoutForeignLogs cs r) = stabilityDepositTopup_details cs d r \<and>
    stabilityDepositWithdrawal_details cs (withoutForeignLogs cs r) = stabilityDepositWithdrawal_details cs r \<and>
    collateralGainTransfer_details cs (withoutForeignLogs cs r) = collateralGainTransfer_details cs r \<and>
    redemption_details cs (withoutForeignLogs cs r) = redemption_details cs r"
proof -
  have own: "extractEvents c (filter (ownLogs cs) (rr_logs r)) name = extractEvents c (rr_logs r) name"
    if "c \<in> {ct_activePool cs, ct_borrowerOperations cs, ct_troveManager cs, ct_thusdToken cs, ct_stabilityPool cs}"
    for c name
    by (rule extractEvents_own) (use that in \<open>auto simp: ownLogs_def\<close>)
  show ?thesis
    by (simp add: withoutForeignLogs_def troveChangeWithFees_details_def troveClosure_details_def liquidation_details_def
        stabilityDepositTopup_details_def stabilityDepositWithdrawal_details_def collateralGainTransfer_details_def
        redemption_details_def stabilityPoolGains_details_def own)
qed

section \<open>Printing\<close>

lemma parseLogs_partition:
  "parseLogs interfaces logs =
     (map (the \<circ> tryToParseLog interfaces) (filter (\<lambda>l. tryToParseLog interfaces l \<noteq> None) logs),
      filter (\<lambda>l. tryToParseLog interfaces l = None) logs)"
  by (induction logs) (auto split: option.splits)

lemma prettifyArg_defined: "\<exists>s. prettifyArg names arg = Inr s"
  by (auto simp: prettifyArg_def Decimal_toString_def split: logArg.splits)

lemma mapR_defined: "(\<And>x. \<exists>y. f x = Inr y) \<Longrightarrow> \<exists>ys. mapR f xs = Inr ys \<and> length ys = length xs"
proof (induction xs)
  case (Cons x xs)
  then obtain y ys where "f x = Inr y" "mapR f xs = Inr ys" "length ys = length xs" by blast
  then show ?case by simp
qed simp

lemma bindR_defined: "\<exists>y. r = Inr y \<Longrightarrow> \<exists>z. bindR r (\<lambda>s. Inr (g s)) = Inr z"
  by auto

lemma logDescriptionToString_defined: "\<exists>s. logDescriptionToString names d = Inr s"
proof -
  have "\<exists>ys. mapR (\<lambda>(key, arg). bindR (prettifyArg names arg) (\<lambda>s. Inr (key @ '': '' @ s)))
      (filter (\<lambda>(key, _). \<not> (key \<noteq> [] \<and> is_digit (hd key))) (ld_args d)) = Inr ys \<and> length ys = length (filter (\<lambda>(key, _). \<not> (key \<noteq> [] \<and> is_digit (hd key))) (ld_args d))"
    by (rule mapR_defined) (auto split: prod.splits intro!: bindR_defined prettifyArg_defined)
  then show ?thesis by (auto simp: logDescriptionToString_def)
qed

text \<open>Printing the logs of a receipt never throws, whatever the logs hold, and the text has one line for every
  log that its contract can parse, in the order of the logs.\<close>

theorem logsToString_lines:
  "\<exists>ls. length ls = length (filter (\<lambda>l. tryToParseLog (interfaceLookupFrom contracts) l \<noteq> None) (rr_logs receipt)) \<and>
     logsToString contracts receipt =
       Inr (if ls = [] then ''No logs were parsed in tx '' @ rr_hash receipt
            else ''Logs of tx '' @ rr_hash receipt @ '':'' @ [CHR 0x0A] @ join [CHR 0x0A] ls)"
proof -
  let ?names = "\<lambda>a. case nameLookupFrom contracts a of Some n \<Rightarrow> Some n
                      | None \<Rightarrow> if a = rr_from receipt then Some ''user'' else None"
  let ?f = "\<lambda>(address, d). bindR (logDescriptionToString ?names d)
      (\<lambda>s. Inr (''  '' @ coalesce (nameLookupFrom contracts address) ''undefined'' @ ''.'' @ s))"
  let ?parsed = "fst (parseLogs (interfaceLookupFrom contracts) (rr_logs receipt))"
  have "\<exists>ys. mapR ?f ?parsed = Inr ys \<and> length ys = length ?parsed"
    by (rule mapR_defined) (auto split: prod.splits intro!: bindR_defined logDescriptionToString_defined)
  then obtain ys where ys: "mapR ?f ?parsed = Inr ys" "length ys = length ?parsed" by blast
  then have "logsToString contracts receipt =
      Inr (if ys = [] then ''No logs were parsed in tx '' @ rr_hash receipt
           else ''Logs of tx '' @ rr_hash receipt @ '':'' @ [CHR 0x0A] @ join [CHR 0x0A] ys)"
    by (cases "?parsed = []") (auto simp: logsToString_def Let_def split: prod.splits)
  moreover have "length ys = length (filter (\<lambda>l. tryToParseLog (interfaceLookupFrom contracts) l \<noteq> None) (rr_logs receipt))"
    using ys(2) by (simp add: parseLogs_partition)
  ultimately show ?thesis by blast
qed

section \<open>Sent transactions\<close>

lemma firstOf_total:
  assumes "\<And>e. e \<in> set es \<Longrightarrow> \<exists>y. f e = Inr y"
  shows "firstOf f es = Inr (case es of [] \<Rightarrow> None | e # _ \<Rightarrow> Some (projr (f e)))"
proof -
  have "\<exists>ys. mapR f es = Inr ys \<and> ys = map (projr \<circ> f) es"
    using assms
  proof (induction es)
    case (Cons e es)
    then obtain y where "f e = Inr y" by auto
    moreover obtain ys where "mapR f es = Inr ys" "ys = map (projr \<circ> f) es" using Cons by auto
    ultimately show ?case by simp
  qed simp
  then show ?thesis by (auto simp: firstOf_def split: list.splits)
qed

text \<open>The burns of the sender and the collateral sent to it, among the events of a receipt.\<close>

definition burns :: "rawReceipt \<Rightarrow> logDescription list \<Rightarrow> logDescription list" where
  "burns r = filter (\<lambda>e. ld_name e = ''Transfer'' \<and> stringArg ''from'' e = Some (rr_from r) \<and>
     stringArg ''to'' e = Some ZERO_ADDRESS)"

definition payouts :: "rawReceipt \<Rightarrow> logDescription list \<Rightarrow> logDescription list" where
  "payouts r = filter (\<lambda>e. ld_name e = ''CollateralSent'' \<and> stringArg ''_to'' e = Some (rr_from r))"

definition hasNumber :: "string \<Rightarrow> logDescription \<Rightarrow> bool" where
  "hasNumber key e \<longleftrightarrow> (\<exists>n. map_of (ld_args e) key = Some (ArgNumber n))"

text \<open>Closing a trove, from the prepared transaction to the details of the mined receipt: what was repaid is what
  the sender burned, and what was withdrawn is what the active pool sent to it; a repayment of zero is left out; and
  if the logs have no burn of the sender, the mined transaction is reported as an error.\<close>

theorem closeTrove_receipt:
  assumes "closeTrove cs estimate ov = Inr px" and "network (px_call px) (px_overrides px) = Inr (Some r)"
    and "rr_status r = Some 1"
    and "mapR (parseLog (ct_thusdToken cs)) (filter (\<lambda>l. lg_address l = ct_address (ct_thusdToken cs)) (rr_logs r)) = Inr ts"
    and "mapR (parseLog (ct_activePool cs)) (filter (\<lambda>l. lg_address l = ct_address (ct_activePool cs)) (rr_logs r)) = Inr ps"
    and "list_all (hasNumber ''value'') (burns r ts)" and "list_all (hasNumber ''_amount'') (payouts r ps)"
  shows "sendAndWait True network px =
    (case burns r ts of
       [] \<Rightarrow> Inl (Thrown TypeError)
     | b # _ \<Rightarrow>
         let repaid = projr (numberArg ''value'' b)
         in Inr (SuccessfulReceipt r
              \<lparr>cd_withdrawCollateral = (case payouts r ps of [] \<Rightarrow> None | p # _ \<Rightarrow> Some (projr (numberArg ''_amount'' p))),
               cd_repayTHUSD = (if bn repaid = 0 then None else Some repaid)\<rparr>))"
proof -
  have px: "px_parse px = troveClosure_details cs"
    using assms(1) by (auto simp: closeTrove_def populate_result)
  have num: "hasNumber key e \<Longrightarrow> \<exists>y. numberArg key e = Inr y" for key e
    by (auto simp: hasNumber_def numberArg_def)
  have b: "firstOf (numberArg ''value'') (burns r ts) =
      Inr (case burns r ts of [] \<Rightarrow> None | e # _ \<Rightarrow> Some (projr (numberArg ''value'' e)))"
    by (rule firstOf_total) (use assms(6) num in \<open>auto simp: list_all_iff\<close>)
  have p: "firstOf (numberArg ''_amount'') (payouts r ps) =
      Inr (case payouts r ps of [] \<Rightarrow> None | e # _ \<Rightarrow> Some (projr (numberArg ''_amount'' e)))"
    by (rule firstOf_total) (use assms(7) num in \<open>auto simp: list_all_iff\<close>)
  have "troveClosure_details cs r =
    (case burns r ts of
       [] \<Rightarrow> Inl TypeError
     | b # _ \<Rightarrow>
         let repaid = projr (numberArg ''value'' b)
         in Inr \<lparr>cd_withdrawCollateral = (case payouts r ps of [] \<Rightarrow> None | p # _ \<Rightarrow> Some (projr (numberArg ''_amount'' p))),
               cd_repayTHUSD = (if bn repaid = 0 then None else Some repaid)\<rparr>)"
    using b p unfolding troveClosure_details_def extractEvents_def assms(4,5) burns_def payouts_def
    by (simp add: filter_filter Let_def Decimal_nonZero_def Decimal_isZero_def split: list.splits)
  then show ?thesis
    using assms(2,3) by (auto simp: sendAndWait_def requireSigner_def waitForReceipt_def getReceipt_def
        waitForRawReceipt_def receiptFrom_def px Let_def split: list.splits)
qed

text \<open>A receipt with the burn of 5 thUSD and a payout of 2.\<close>

definition closedReceipt :: rawReceipt where
  "closedReceipt = \<lparr>rr_status = Some 1, rr_from = ''0xA'', rr_hash = ''0xh'', rr_logs =
     [\<lparr>lg_address = ''0x2'', lg_topics = [], lg_data = ''''\<rparr>, \<lparr>lg_address = ''0x1'', lg_topics = [], lg_data = ''''\<rparr>]\<rparr>"

theorem closeTrove_receipt_witness:
  "\<exists>px. closeTrove exampleContracts (\<lambda>_ _. Inr 21000) noOverrides = Inr px \<and>
     sendAndWait True (\<lambda>_ _. Inr (Some closedReceipt)) px =
       Inr (SuccessfulReceipt closedReceipt \<lparr>cd_withdrawCollateral = Some (Dec 2), cd_repayTHUSD = Some (Dec 5)\<rparr>)"
proof -
  obtain px where px: "closeTrove exampleContracts (\<lambda>_ _. Inr 21000) noOverrides = Inr px"
    by (simp add: closeTrove_def populate_def estimateAndPopulate_def noOverrides_def)
  note events = exampleContracts_def closedReceipt_def exampleContract_def burnEvent_def payoutEvent_def Let_def
  have "burns closedReceipt [burnEvent] = [burnEvent]" "payouts closedReceipt [payoutEvent] = [payoutEvent]"
    by (simp_all add: burns_def payouts_def stringArg_def events)
  with closeTrove_receipt [OF px, of "\<lambda>_ _. Inr (Some closedReceipt)" closedReceipt "[burnEvent]" "[payoutEvent]"] px
  show ?thesis
    by (simp add: events hasNumber_def numberArg_def decimalify_def)
qed

end
