(* ===== verification/Views.thy ===== *)
theory Views
  imports Trove Deposits
begin

text \<open>
  The view providers of the front end, \<open>Vault/context/VaultViewProvider.tsx\<close> and
  \<open>Stability/context/StabilityViewProvider.tsx\<close> under \<open>packages/dev-frontend/src/components\<close>:
  one view per deployed store, addressed by version and collateral, that moves through a
  transition table when an event is dispatched.

  React enters as follows.  \<open>views\<close> is the state as the queued updates leave it and \<open>viewsRef\<close>
  the reference that an effect sets after a render (\<open>viewRender\<close>); a dispatch reads the reference,
  and its updater reads the state.  The first render runs the effects in the order of the source.
  The calls of \<open>console.log\<close> are left out.
\<close>

section \<open>Keyed views\<close>

record 'v viewStatus =
  vs_version :: string
  vs_collateral :: string
  initialView :: 'v

record 'v viewProvider =
  views :: "'v viewStatus list"
  viewsRef :: "'v viewStatus list"

definition at_key :: "string \<Rightarrow> string \<Rightarrow> 'v viewStatus \<Rightarrow> bool" where
  "at_key version coll view \<longleftrightarrow> vs_version view = version \<and> vs_collateral view = coll"

text \<open>\<open>findIndex\<close>, with \<open>None\<close> for -1.\<close>

fun findIndex :: "('a \<Rightarrow> bool) \<Rightarrow> 'a list \<Rightarrow> nat option" where
  "findIndex P [] = None"
| "findIndex P (x # xs) = (if P x then Some 0 else map_option Suc (findIndex P xs))"

text \<open>
  The updater passed to \<open>setViews\<close>.  It reads \<open>prev[index].initialView\<close> before it tests
  \<open>index !== -1\<close>, so its second branch is never reached.
\<close>

definition updateViews ::
    "('v \<Rightarrow> 'e \<Rightarrow> 'v) \<Rightarrow> 'e \<Rightarrow> string \<Rightarrow> string \<Rightarrow> 'v viewStatus list \<Rightarrow> 'v viewStatus list res" where
  "updateViews transition event version coll prev =
     (case findIndex (at_key version coll) prev of
        None \<Rightarrow> Inl TypeError
      | Some index \<Rightarrow>
          (let nextView = transition (initialView (prev ! index)) event;
               updatedView = (prev ! index)\<lparr>initialView := nextView\<rparr>
           in Inr (take index prev @ [updatedView] @ drop (index + 1) prev)))"

definition dispatchEvent ::
    "('v \<Rightarrow> 'e \<Rightarrow> 'v) \<Rightarrow> 'e \<Rightarrow> string \<Rightarrow> string \<Rightarrow> 'v viewProvider \<Rightarrow> 'v viewProvider res" where
  "dispatchEvent transition event version coll p =
     (if viewsRef p = [] then Inr p
      else (case find (at_key version coll) (viewsRef p) of
              None \<Rightarrow> Inl TypeError
            | Some current \<Rightarrow>
                bindR (updateViews transition event version coll (views p))
                  (\<lambda>vs. Inr (p\<lparr>views := vs\<rparr>))))"

definition viewRender :: "'v viewProvider \<Rightarrow> 'v viewProvider" where
  "viewRender p = p\<lparr>viewsRef := views p\<rparr>"

text \<open>What happens to a provider: events from its children, and renders in between.\<close>

datatype 'e viewStep = Dispatch 'e string string | Render

fun doStep :: "('v \<Rightarrow> 'e \<Rightarrow> 'v) \<Rightarrow> 'e viewStep \<Rightarrow> 'v viewProvider \<Rightarrow> 'v viewProvider res" where
  "doStep transition (Dispatch e v c) p = dispatchEvent transition e v c p"
| "doStep transition Render p = Inr (viewRender p)"

fun viewSteps :: "('v \<Rightarrow> 'e \<Rightarrow> 'v) \<Rightarrow> 'e viewStep list \<Rightarrow> 'v viewProvider \<Rightarrow> 'v viewProvider res" where
  "viewSteps transition [] p = Inr p"
| "viewSteps transition (s # ss) p = bindR (doStep transition s p) (viewSteps transition ss)"

section \<open>Vaults\<close>

datatype vaultView = VNone | VLiquidated | VRedeemed | VOpening | VAdjusting | VClosing | VActive

datatype vaultEvent =
    OPEN_VAULT_PRESSED
  | ADJUST_VAULT_PRESSED
  | CLOSE_VAULT_PRESSED
  | CANCEL_ADJUST_VAULT_PRESSED
  | VAULT_CLOSED
  | VAULT_LIQUIDATED
  | VAULT_REDEEMED
  | VAULT_ADJUSTED
  | VAULT_SURPLUS_COLLATERAL_CLAIMED
  | VAULT_OPENED

fun VaultView_transitions :: "vaultView \<Rightarrow> (vaultEvent \<times> vaultView) list" where
  "VaultView_transitions VNone =
     [(OPEN_VAULT_PRESSED, VOpening), (VAULT_OPENED, VActive)]"
| "VaultView_transitions VLiquidated =
     [(OPEN_VAULT_PRESSED, VOpening), (VAULT_SURPLUS_COLLATERAL_CLAIMED, VNone), (VAULT_OPENED, VActive)]"
| "VaultView_transitions VRedeemed =
     [(OPEN_VAULT_PRESSED, VOpening), (VAULT_SURPLUS_COLLATERAL_CLAIMED, VNone), (VAULT_OPENED, VActive)]"
| "VaultView_transitions VOpening =
     [(CANCEL_ADJUST_VAULT_PRESSED, VNone), (VAULT_OPENED, VActive)]"
| "VaultView_transitions VAdjusting =
     [(CANCEL_ADJUST_VAULT_PRESSED, VActive), (VAULT_ADJUSTED, VActive), (VAULT_CLOSED, VNone),
      (VAULT_LIQUIDATED, VLiquidated), (VAULT_REDEEMED, VRedeemed)]"
| "VaultView_transitions VClosing =
     [(CANCEL_ADJUST_VAULT_PRESSED, VActive), (VAULT_CLOSED, VNone), (VAULT_ADJUSTED, VActive),
      (VAULT_LIQUIDATED, VLiquidated), (VAULT_REDEEMED, VRedeemed)]"
| "VaultView_transitions VActive =
     [(ADJUST_VAULT_PRESSED, VAdjusting), (CLOSE_VAULT_PRESSED, VClosing), (VAULT_CLOSED, VNone),
      (VAULT_LIQUIDATED, VLiquidated), (VAULT_REDEEMED, VRedeemed)]"

fun vaultStatusEvents :: "userTroveStatus \<Rightarrow> vaultEvent option" where
  "vaultStatusEvents Open = Some VAULT_OPENED"
| "vaultStatusEvents ClosedByOwner = Some VAULT_CLOSED"
| "vaultStatusEvents ClosedByLiquidation = Some VAULT_LIQUIDATED"
| "vaultStatusEvents ClosedByRedemption = Some VAULT_REDEEMED"
| "vaultStatusEvents NonExistent = None"

definition VaultView_transition :: "vaultView \<Rightarrow> vaultEvent \<Rightarrow> vaultView" where
  "VaultView_transition view event = coalesce (map_of (VaultView_transitions view) event) view"

definition VaultView_getInitialView :: "userTroveStatus \<Rightarrow> vaultView" where
  "VaultView_getInitialView vaultStatus =
     (if vaultStatus = ClosedByLiquidation then VLiquidated
      else if vaultStatus = ClosedByRedemption then VRedeemed
      else if vaultStatus = Open then VActive
      else VNone)"

definition VaultView_dispatchEvent ::
    "vaultEvent \<Rightarrow> string \<Rightarrow> string \<Rightarrow> vaultView viewProvider \<Rightarrow> vaultView viewProvider res" where
  "VaultView_dispatchEvent = dispatchEvent VaultView_transition"

text \<open>A store: its version, its collateral and what the provider selects from its state.\<close>

type_synonym 's selectedStore = "string \<times> string \<times> 's"

definition VaultView_initialViews :: "userTroveStatus selectedStore list \<Rightarrow> vaultView viewStatus list" where
  "VaultView_initialViews stores =
     map (\<lambda>(v, c, st). \<lparr>vs_version = v, vs_collateral = c, initialView = VaultView_getInitialView st\<rparr>)
       stores"

fun VaultView_statusEffect ::
    "userTroveStatus selectedStore list \<Rightarrow> vaultView viewProvider \<Rightarrow> vaultView viewProvider res" where
  "VaultView_statusEffect [] p = Inr p"
| "VaultView_statusEffect ((v, c, st) # stores) p =
     (case vaultStatusEvents st of
        Some event \<Rightarrow> bindR (VaultView_dispatchEvent event v c p) (VaultView_statusEffect stores)
      | None \<Rightarrow> VaultView_statusEffect stores p)"

definition VaultView_mount :: "userTroveStatus selectedStore list \<Rightarrow> vaultView viewProvider res" where
  "VaultView_mount stores =
     bindR (VaultView_statusEffect stores \<lparr>views = VaultView_initialViews stores, viewsRef = []\<rparr>)
       (\<lambda>p. Inr (viewRender p))"

section \<open>Stability deposits\<close>

datatype stabilityView = SNone | SDepositing | SActive | SAdjusting

datatype stabilityEvent =
    DEPOSIT_PRESSED
  | ADJUST_DEPOSIT_PRESSED
  | CANCEL_PRESSED
  | DEPOSIT_CONFIRMED
  | REWARDS_CLAIMED
  | DEPOSIT_EMPTIED

fun StabilityView_transitions :: "stabilityView \<Rightarrow> (stabilityEvent \<times> stabilityView) list" where
  "StabilityView_transitions SNone = [(DEPOSIT_PRESSED, SDepositing)]"
| "StabilityView_transitions SDepositing = [(CANCEL_PRESSED, SNone), (DEPOSIT_CONFIRMED, SActive)]"
| "StabilityView_transitions SActive =
     [(REWARDS_CLAIMED, SActive), (ADJUST_DEPOSIT_PRESSED, SAdjusting), (DEPOSIT_EMPTIED, SNone)]"
| "StabilityView_transitions SAdjusting =
     [(CANCEL_PRESSED, SActive), (DEPOSIT_CONFIRMED, SActive), (DEPOSIT_EMPTIED, SNone)]"

definition StabilityView_transition :: "stabilityView \<Rightarrow> stabilityEvent \<Rightarrow> stabilityView" where
  "StabilityView_transition view event = coalesce (map_of (StabilityView_transitions view) event) view"

definition StabilityView_getInitialView :: "stabilityDeposit \<Rightarrow> stabilityView" where
  "StabilityView_getInitialView deposit = (if StabilityDeposit_isEmpty deposit then SNone else SActive)"

definition StabilityView_dispatchEvent ::
    "stabilityEvent \<Rightarrow> string \<Rightarrow> string \<Rightarrow> stabilityView viewProvider \<Rightarrow> stabilityView viewProvider res" where
  "StabilityView_dispatchEvent = dispatchEvent StabilityView_transition"

definition StabilityView_initialViews :: "stabilityDeposit selectedStore list \<Rightarrow> stabilityView viewStatus list" where
  "StabilityView_initialViews stores =
     map (\<lambda>(v, c, d). \<lparr>vs_version = v, vs_collateral = c, initialView = StabilityView_getInitialView d\<rparr>) stores"

fun StabilityView_statusEffect ::
    "stabilityDeposit selectedStore list \<Rightarrow> stabilityView viewProvider \<Rightarrow> stabilityView viewProvider res" where
  "StabilityView_statusEffect [] p = Inr p"
| "StabilityView_statusEffect ((v, c, d) # stores) p =
     (if StabilityDeposit_isEmpty d
      then bindR (StabilityView_dispatchEvent DEPOSIT_EMPTIED v c p) (StabilityView_statusEffect stores)
      else StabilityView_statusEffect stores p)"

definition StabilityView_mount :: "stabilityDeposit selectedStore list \<Rightarrow> stabilityView viewProvider res" where
  "StabilityView_mount stores =
     bindR (StabilityView_statusEffect stores \<lparr>views = StabilityView_initialViews stores, viewsRef = []\<rparr>)
       (\<lambda>p. Inr (viewRender p))"

end
