(* ===== verification/Views_Correct.thy ===== *)
theory Views_Correct
  imports Views
begin

text \<open>
  What a view provider promises: each view follows the events addressed to it and no others, in
  any interleaving with renders, and it abstracts to what the user's vault or deposit is known
  to be (\<open>locale view_abstraction\<close>, interpreted on both transition tables).
\<close>

section \<open>Views by key\<close>

definition key_of :: "'v viewStatus \<Rightarrow> string \<times> string" where
  "key_of s = (vs_version s, vs_collateral s)"

definition provider_ok :: "'v viewProvider \<Rightarrow> bool" where
  "provider_ok p \<longleftrightarrow> views p \<noteq> [] \<and> distinct (map key_of (views p)) \<and>
     map key_of (viewsRef p) = map key_of (views p)"

fun addressed :: "string \<times> string \<Rightarrow> 'e viewStep \<Rightarrow> 'e option" where
  "addressed k (Dispatch e v c) = (if (v, c) = k then Some e else None)"
| "addressed k Render = None"

definition eventsFor :: "string \<times> string \<Rightarrow> 'e viewStep list \<Rightarrow> 'e list" where
  "eventsFor k steps = List.map_filter (addressed k) steps"

fun step_known :: "(string \<times> string) set \<Rightarrow> 'e viewStep \<Rightarrow> bool" where
  "step_known K (Dispatch e v c) \<longleftrightarrow> (v, c) \<in> K"
| "step_known K Render \<longleftrightarrow> True"

lemma eventsFor_simps [simp]:
  "eventsFor k [] = []"
  "eventsFor k (Render # ss) = eventsFor k ss"
  "eventsFor k (Dispatch e v c # ss) = (if (v, c) = k then e # eventsFor k ss else eventsFor k ss)"
  by (simp_all add: eventsFor_def List.map_filter_def)

lemma at_key_iff: "at_key v c s \<longleftrightarrow> key_of s = (v, c)"
  by (simp add: at_key_def key_of_def)

lemma findIndex_SomeD: "findIndex P xs = Some i \<Longrightarrow> i < length xs \<and> P (xs ! i)"
  by (induction xs arbitrary: i) (auto split: if_splits)

lemma findIndex_None: "findIndex P xs = None \<longleftrightarrow> (\<forall>x \<in> set xs. \<not> P x)"
  by (induction xs) auto

text \<open>The effect of one event on the list of views: a \<open>map\<close> that touches the addressed view only.\<close>

definition moveView :: "('v \<Rightarrow> 'e \<Rightarrow> 'v) \<Rightarrow> 'e \<Rightarrow> string \<times> string \<Rightarrow> 'v viewStatus \<Rightarrow> 'v viewStatus" where
  "moveView tr e k s = (if key_of s = k then s\<lparr>initialView := tr (initialView s) e\<rparr> else s)"

lemma key_of_moveView [simp]: "key_of (moveView tr e k s) = key_of s"
  by (simp add: moveView_def key_of_def)

lemma key_of_initialView [simp]: "key_of (s\<lparr>initialView := v\<rparr>) = key_of s"
  by (simp add: key_of_def)

lemma updateViews_move:
  assumes "distinct (map key_of vs)" and "(v, c) \<in> key_of ` set vs"
  shows "updateViews tr e v c vs = Inr (map (moveView tr e (v, c)) vs)"
proof -
  obtain i where i: "findIndex (at_key v c) vs = Some i"
    using assms(2) findIndex_None [of "at_key v c" vs] by (cases "findIndex (at_key v c) vs") (auto simp: at_key_iff)
  then have il: "i < length vs" and ik: "key_of (vs ! i) = (v, c)"
    using findIndex_SomeD [OF i] by (auto simp: at_key_iff)
  have other: "key_of (vs ! j) \<noteq> (v, c)" if "j < length vs" "j \<noteq> i" for j
    using that il ik assms(1) nth_eq_iff_index_eq [of "map key_of vs" j i] by auto
  have "map (moveView tr e (v, c)) vs = vs[i := (vs ! i)\<lparr>initialView := tr (initialView (vs ! i)) e\<rparr>]"
    using il ik other by (auto intro!: nth_equalityI simp: nth_list_update moveView_def)
  with i il show ?thesis by (simp add: updateViews_def upd_conv_take_nth_drop)
qed

lemma find_at_key: "find (at_key v c) vs = None \<longleftrightarrow> (v, c) \<notin> key_of ` set vs"
  by (auto simp: find_None_iff at_key_iff image_iff)

lemma dispatchEvent_move:
  assumes "provider_ok p" and "(v, c) \<in> key_of ` set (views p)"
  shows "dispatchEvent tr e v c p = Inr (p\<lparr>views := map (moveView tr e (v, c)) (views p)\<rparr>)"
proof -
  have keys: "key_of ` set (viewsRef p) = key_of ` set (views p)"
    using assms(1) unfolding provider_ok_def by (metis list.set_map)
  then have "viewsRef p \<noteq> []" using assms(2) by auto
  moreover have "find (at_key v c) (viewsRef p) \<noteq> None"
    using keys assms(2) by (simp add: find_at_key)
  ultimately show ?thesis
    using assms updateViews_move [of "views p" v c tr e]
    by (auto simp: dispatchEvent_def provider_ok_def split: option.splits)
qed

lemma dispatchEvent_unknown:
  assumes "provider_ok p" and "(v, c) \<notin> key_of ` set (views p)"
  shows "dispatchEvent tr e v c p = Inl TypeError"
proof -
  have keys: "key_of ` set (viewsRef p) = key_of ` set (views p)"
    using assms(1) unfolding provider_ok_def by (metis list.set_map)
  then have "find (at_key v c) (viewsRef p) = None"
    using assms(2) by (simp add: find_at_key)
  moreover have "viewsRef p \<noteq> []" using assms(1) by (auto simp: provider_ok_def)
  ultimately show ?thesis by (simp add: dispatchEvent_def)
qed

lemma viewSteps_run:
  assumes "provider_ok p" and "list_all (step_known (key_of ` set (views p))) steps"
  shows "\<exists>p'. viewSteps tr steps p = Inr p' \<and> provider_ok p' \<and>
    views p' = map (\<lambda>s. s\<lparr>initialView := foldl tr (initialView s) (eventsFor (key_of s) steps)\<rparr>) (views p)"
  using assms
proof (induction steps arbitrary: p)
  case Nil
  then show ?case by simp
next
  case (Cons st steps)
  show ?case
  proof (cases st)
    case (Dispatch e v c)
    let ?p = "p\<lparr>views := map (moveView tr e (v, c)) (views p)\<rparr>"
    have known: "(v, c) \<in> key_of ` set (views p)" using Cons.prems(2) Dispatch by simp
    have ok: "provider_ok ?p" using Cons.prems(1) by (simp add: provider_ok_def comp_def)
    have "key_of ` set (views ?p) = key_of ` set (views p)" by (simp add: image_image)
    then obtain p' where p': "viewSteps tr steps ?p = Inr p'" "provider_ok p'"
      "views p' = map (\<lambda>s. s\<lparr>initialView := foldl tr (initialView s) (eventsFor (key_of s) steps)\<rparr>) (views ?p)"
      using Cons.IH [OF ok] Cons.prems(2) by auto
    have "views p' = map (\<lambda>s. s\<lparr>initialView := foldl tr (initialView s) (eventsFor (key_of s) (st # steps))\<rparr>) (views p)"
      by (auto simp: p'(3) Dispatch moveView_def)
    with p' show ?thesis by (simp add: Dispatch dispatchEvent_move [OF Cons.prems(1) known])
  next
    case Render
    have "provider_ok (viewRender p)" using Cons.prems(1) by (simp add: provider_ok_def viewRender_def)
    from Cons.IH [OF this] Cons.prems(2) Render show ?thesis by (simp add: viewRender_def)
  qed
qed

section \<open>What the views stand for\<close>

locale view_abstraction =
  fixes transition :: "'v \<Rightarrow> 'e \<Rightarrow> 'v"
    and abs_view :: "'v \<Rightarrow> 'a"
    and spec :: "'a \<Rightarrow> 'e \<Rightarrow> 'a"
  assumes abs_transition: "abs_view (transition v e) = spec (abs_view v) e"
begin

lemma abs_foldl: "abs_view (foldl transition v es) = foldl spec (abs_view v) es"
  by (induction es arbitrary: v) (simp_all add: abs_transition)

lemma session_tracks:
  assumes "vs \<noteq> []" and "distinct (map key_of vs)" and "list_all (step_known (key_of ` set vs)) steps"
  shows "\<exists>p'. viewSteps transition steps (viewRender \<lparr>views = vs, viewsRef = r\<rparr>) = Inr p' \<and>
    map (\<lambda>s. (key_of s, abs_view (initialView s))) (views p') =
    map (\<lambda>s. (key_of s, foldl spec (abs_view (initialView s)) (eventsFor (key_of s) steps))) vs"
proof -
  let ?p = "viewRender \<lparr>views = vs, viewsRef = r\<rparr>"
  have "provider_ok ?p" using assms(1,2) by (simp add: provider_ok_def viewRender_def)
  moreover have "list_all (step_known (key_of ` set (views ?p))) steps"
    using assms(3) by (simp add: viewRender_def)
  ultimately obtain p' where p': "viewSteps transition steps ?p = Inr p'"
    "views p' = map (\<lambda>s. s\<lparr>initialView := foldl transition (initialView s) (eventsFor (key_of s) steps)\<rparr>) (views ?p)"
    using viewSteps_run by blast
  then have "map (\<lambda>s. (key_of s, abs_view (initialView s))) (views p') =
    map (\<lambda>s. (key_of s, foldl spec (abs_view (initialView s)) (eventsFor (key_of s) steps))) vs"
    by (simp add: viewRender_def abs_foldl key_of_def comp_def)
  with p'(1) show ?thesis by blast
qed

end

section \<open>Vaults\<close>

text \<open>Whether a view presents an open vault, and how the events bear on that.\<close>

definition showsOpenVault :: "vaultView \<Rightarrow> bool" where
  "showsOpenVault v \<longleftrightarrow> v \<in> {VActive, VAdjusting, VClosing}"

definition vaultOpen_spec :: "bool \<Rightarrow> vaultEvent \<Rightarrow> bool" where
  "vaultOpen_spec b e \<longleftrightarrow>
     e = VAULT_OPENED \<or> (b \<and> e \<notin> {VAULT_CLOSED, VAULT_LIQUIDATED, VAULT_REDEEMED})"

interpretation vault_views: view_abstraction VaultView_transition showsOpenVault vaultOpen_spec
proof
  fix v e
  show "showsOpenVault (VaultView_transition v e) = vaultOpen_spec (showsOpenVault v) e"
    by (cases v; cases e; simp add: showsOpenVault_def vaultOpen_spec_def VaultView_transition_def)
qed

text \<open>While the reference is empty, as it is at the first render, no event is dispatched.\<close>

lemma VaultView_statusEffect_unset:
  "viewsRef p = [] \<Longrightarrow> VaultView_statusEffect stores p = Inr p"
  by (induction stores p rule: VaultView_statusEffect.induct)
     (auto simp: VaultView_dispatchEvent_def dispatchEvent_def split: option.splits)

lemma VaultView_mount_eq:
  "VaultView_mount stores = Inr (viewRender \<lparr>views = VaultView_initialViews stores, viewsRef = []\<rparr>)"
  by (simp add: VaultView_mount_def VaultView_statusEffect_unset)

definition store_key :: "'s selectedStore \<Rightarrow> string \<times> string" where
  "store_key = (\<lambda>(v, c, s). (v, c))"

text \<open>C22: Mounted for stores with different keys, the vault views follow the events: whatever events
  are dispatched to known vaults, interleaved with renders, nothing throws, and each vault is
  presented as open exactly when it was open at first and no closing event, or an opening event
  after the last closing one, was addressed to it; other vaults' events do not matter.\<close>

theorem VaultView_session:
  assumes "stores \<noteq> []" and "distinct (map store_key stores)"
    and "list_all (step_known (set (map store_key stores))) steps"
  shows "\<exists>p. bindR (VaultView_mount stores) (viewSteps VaultView_transition steps) = Inr p \<and>
    map (\<lambda>s. (key_of s, showsOpenVault (initialView s))) (views p) =
    map (\<lambda>(v, c, st). ((v, c), foldl vaultOpen_spec (st = Open) (eventsFor (v, c) steps))) stores"
proof -
  let ?vs = "VaultView_initialViews stores"
  have keys: "map key_of ?vs = map store_key stores"
    by (auto simp: VaultView_initialViews_def key_of_def store_key_def)
  then have "key_of ` set ?vs = set (map store_key stores)" by (metis list.set_map)
  moreover have "?vs \<noteq> []" using assms(1) by (simp add: VaultView_initialViews_def)
  ultimately have "\<exists>p. viewSteps VaultView_transition steps (viewRender \<lparr>views = ?vs, viewsRef = []\<rparr>) = Inr p \<and>
    map (\<lambda>s. (key_of s, showsOpenVault (initialView s))) (views p) =
    map (\<lambda>s. (key_of s, foldl vaultOpen_spec (showsOpenVault (initialView s)) (eventsFor (key_of s) steps))) ?vs"
    using vault_views.session_tracks [of ?vs steps "[]"] assms(2,3) keys by simp
  moreover have "showsOpenVault (VaultView_getInitialView st) \<longleftrightarrow> st = Open" for st
    by (cases st) (simp_all add: showsOpenVault_def VaultView_getInitialView_def)
  ultimately show ?thesis
    by (simp add: VaultView_mount_eq VaultView_initialViews_def key_of_def comp_def case_prod_unfold)
qed

theorem VaultView_session_witness:
  "\<exists>p. bindR (VaultView_mount [(''v1'', ''tbtc'', Open), (''v1'', ''eth'', NonExistent)])
      (viewSteps VaultView_transition
        [Dispatch ADJUST_VAULT_PRESSED ''v1'' ''tbtc'', Dispatch OPEN_VAULT_PRESSED ''v1'' ''eth'', Render,
         Dispatch VAULT_CLOSED ''v1'' ''tbtc'', Dispatch VAULT_OPENED ''v1'' ''eth'']) = Inr p \<and>
    map (\<lambda>s. (key_of s, showsOpenVault (initialView s))) (views p) =
      [((''v1'', ''tbtc''), False), ((''v1'', ''eth''), True)]"
  using VaultView_session [of "[(''v1'', ''tbtc'', Open), (''v1'', ''eth'', NonExistent)]"
    "[Dispatch ADJUST_VAULT_PRESSED ''v1'' ''tbtc'', Dispatch OPEN_VAULT_PRESSED ''v1'' ''eth'', Render,
      Dispatch VAULT_CLOSED ''v1'' ''tbtc'', Dispatch VAULT_OPENED ''v1'' ''eth'']"]
  by (simp add: store_key_def vaultOpen_spec_def)

section \<open>Stability deposits\<close>

text \<open>No deposit, one being entered, or one that exists.\<close>

datatype depositStage = NoDeposit | EnteringDeposit | HasDeposit

fun stageOf :: "stabilityView \<Rightarrow> depositStage" where
  "stageOf SNone = NoDeposit"
| "stageOf SDepositing = EnteringDeposit"
| "stageOf SActive = HasDeposit"
| "stageOf SAdjusting = HasDeposit"

fun depositStage_spec :: "depositStage \<Rightarrow> stabilityEvent \<Rightarrow> depositStage" where
  "depositStage_spec NoDeposit e = (if e = DEPOSIT_PRESSED then EnteringDeposit else NoDeposit)"
| "depositStage_spec EnteringDeposit e =
     (if e = DEPOSIT_CONFIRMED then HasDeposit else if e = CANCEL_PRESSED then NoDeposit else EnteringDeposit)"
| "depositStage_spec HasDeposit e = (if e = DEPOSIT_EMPTIED then NoDeposit else HasDeposit)"

interpretation stability_views: view_abstraction StabilityView_transition stageOf depositStage_spec
proof
  fix v e
  show "stageOf (StabilityView_transition v e) = depositStage_spec (stageOf v) e"
    by (cases v; cases e; simp add: StabilityView_transition_def)
qed

lemma StabilityView_statusEffect_unset:
  "viewsRef p = [] \<Longrightarrow> StabilityView_statusEffect stores p = Inr p"
  by (induction stores p rule: StabilityView_statusEffect.induct)
     (auto simp: StabilityView_dispatchEvent_def dispatchEvent_def)

text \<open>Mounted for stores with different keys, the stability views follow the events in the same
  way: nothing throws, and the stage of each deposit (none, being entered, existing) is what the
  events addressed to it make of the stage it had at first.\<close>

theorem StabilityView_session:
  assumes "stores \<noteq> []" and "distinct (map store_key stores)"
    and "list_all (step_known (set (map store_key stores))) steps"
  shows "\<exists>p. bindR (StabilityView_mount stores) (viewSteps StabilityView_transition steps) = Inr p \<and>
    map (\<lambda>s. (key_of s, stageOf (initialView s))) (views p) =
    map (\<lambda>(v, c, d). ((v, c), foldl depositStage_spec
           (if StabilityDeposit_isEmpty d then NoDeposit else HasDeposit) (eventsFor (v, c) steps))) stores"
proof -
  let ?vs = "StabilityView_initialViews stores"
  have keys: "map key_of ?vs = map store_key stores"
    by (auto simp: StabilityView_initialViews_def key_of_def store_key_def)
  then have "key_of ` set ?vs = set (map store_key stores)" by (metis list.set_map)
  moreover have "?vs \<noteq> []" using assms(1) by (simp add: StabilityView_initialViews_def)
  ultimately have "\<exists>p. viewSteps StabilityView_transition steps (viewRender \<lparr>views = ?vs, viewsRef = []\<rparr>) = Inr p \<and>
    map (\<lambda>s. (key_of s, stageOf (initialView s))) (views p) =
    map (\<lambda>s. (key_of s, foldl depositStage_spec (stageOf (initialView s)) (eventsFor (key_of s) steps))) ?vs"
    using stability_views.session_tracks [of ?vs steps "[]"] assms(2,3) keys by simp
  moreover have "stageOf (StabilityView_getInitialView d) =
      (if StabilityDeposit_isEmpty d then NoDeposit else HasDeposit)" for d
    by (simp add: StabilityView_getInitialView_def)
  ultimately show ?thesis
    by (simp add: StabilityView_mount_def StabilityView_statusEffect_unset StabilityView_initialViews_def
        key_of_def comp_def case_prod_unfold)
qed

theorem StabilityView_session_witness:
  "\<exists>p. bindR (StabilityView_mount
        [(''v1'', ''tbtc'', \<lparr>initialTHUSD = Decimal_ONE, currentTHUSD = Decimal_ONE, collateralGain = Decimal_ZERO\<rparr>)])
      (viewSteps StabilityView_transition
        [Dispatch ADJUST_DEPOSIT_PRESSED ''v1'' ''tbtc'', Render, Dispatch DEPOSIT_EMPTIED ''v1'' ''tbtc'',
         Dispatch DEPOSIT_PRESSED ''v1'' ''tbtc'']) = Inr p \<and>
    map (\<lambda>s. (key_of s, stageOf (initialView s))) (views p) = [((''v1'', ''tbtc''), EnteringDeposit)]"
  using StabilityView_session [of
    "[(''v1'', ''tbtc'', \<lparr>initialTHUSD = Decimal_ONE, currentTHUSD = Decimal_ONE, collateralGain = Decimal_ZERO\<rparr>)]"
    "[Dispatch ADJUST_DEPOSIT_PRESSED ''v1'' ''tbtc'', Render, Dispatch DEPOSIT_EMPTIED ''v1'' ''tbtc'',
      Dispatch DEPOSIT_PRESSED ''v1'' ''tbtc'']"]
  by (simp add: store_key_def StabilityDeposit_isEmpty_def Decimal_isZero_def DIGITS_num)

end
