(* ===== verification/TransactionMonitor.thy ===== *)
theory TransactionMonitor
  imports Transactions
begin

text \<open>
  The state of the front end's current transaction,
  \<open>packages/dev-frontend/src/components/Transaction.tsx\<close>: sending, the button that sends, and
  \<open>TransactionMonitor\<close>, which waits for the receipt of a sent transaction and clears its outcome after
  five seconds.

  All components share one state (\<open>m_state\<close>).  A render of the monitor runs the clean-ups of the effects whose
  dependencies changed, then these effects; the calls of \<open>setTransactionState\<close> made by them are seen by the
  next render.  Objects that React compares by identity (a sent transaction, the provider) are numbers.
  What an effect leaves behind is kept as data: a \<open>watch\<close> is a running \<open>waitForConfirmation\<close> with its
  local variables and the point where it waits, a \<open>clearing\<close> a pending timer.  The calls of \<open>console\<close> are
  left out.
\<close>

section \<open>The transaction state\<close>

datatype transactionState =
    TxIdle (tx_version: string) (tx_collateral: string)
  | TxFailed (tx_id: string) (tx_error: string) (tx_version: string) (tx_collateral: string)
  | TxWaitingForApproval (tx_id: string) (tx_version: string) (tx_collateral: string)
  | TxCancelled (tx_id: string) (tx_version: string) (tx_collateral: string)
  | TxWaitingForConfirmation (tx_id: string) (tx_sent: nat) (tx_version: string) (tx_collateral: string)
  | TxConfirmed (tx_id: string) (tx_version: string) (tx_collateral: string)
  | TxConfirmedOneShot (tx_id: string) (tx_version: string) (tx_collateral: string)

definition checkTransactionCollateral :: "transactionState \<Rightarrow> string \<Rightarrow> string \<Rightarrow> bool" where
  "checkTransactionCollateral s version coll \<longleftrightarrow> tx_version s = version \<and> tx_collateral s = coll"

text \<open>\<open>myId\<close> is a string or a regular expression; both are a test of the id.\<close>

definition useMyTransactionState :: "(string \<Rightarrow> bool) \<Rightarrow> string \<Rightarrow> string \<Rightarrow> transactionState \<Rightarrow> transactionState" where
  "useMyTransactionState myId version coll s =
     (if checkTransactionCollateral s version coll \<and> \<not> is_TxIdle s \<and> myId (tx_id s) then s
      else TxIdle (tx_version s) (tx_collateral s))"

section \<open>The button\<close>

datatype failureDisplay = AsTooltip | AsChildText

record trigger =
  tg_disabled :: bool
  tg_danger :: bool
  tg_text :: "string option"
  tg_sends :: bool
  tg_tooltip :: "string option"

definition failureReasons :: "transactionState \<Rightarrow> string \<Rightarrow> string \<Rightarrow> (bool \<times> string) list \<Rightarrow> string list" where
  "failureReasons s version coll requires =
     map snd (filter (\<lambda>(requirement, _). \<not> requirement) requires) @
     (if checkTransactionCollateral s version coll \<and>
         (case s of TxWaitingForApproval _ _ _ \<Rightarrow> True | TxWaitingForConfirmation _ _ _ _ \<Rightarrow> True | _ \<Rightarrow> False)
      then [''You must wait for confirmation''] else [])"

text \<open>An empty tooltip is falsy.\<close>

definition truthyString :: "string option \<Rightarrow> bool" where
  "truthyString x \<longleftrightarrow> x \<noteq> None \<and> x \<noteq> Some ''''"

definition Transaction ::
    "transactionState \<Rightarrow> string \<Rightarrow> string \<Rightarrow> string option \<Rightarrow> failureDisplay option \<Rightarrow> (bool \<times> string) list \<Rightarrow> trigger" where
  "Transaction s version coll tooltip showFailure requires =
     (let reasons = failureReasons s version coll requires;
          display = (if reasons \<noteq> []
                     then Some (coalesce showFailure (if truthyString tooltip then AsTooltip else AsChildText))
                     else None);
          tip = (if display = Some AsTooltip then Some (hd reasons) else tooltip)
      in \<lparr>tg_disabled = display \<noteq> None,
          tg_danger = (display = Some AsChildText),
          tg_text = (if display = Some AsChildText then Some (hd reasons) else None),
          tg_sends = (display = None),
          tg_tooltip = (if truthyString tip then tip else None)\<rparr>)"

section \<open>The monitor\<close>

datatype watchStage = AwaitingReceipt | AwaitingReason | Returned

record watch =
  w_id :: string
  w_tx :: nat
  w_version :: string
  w_collateral :: string
  w_cancelled :: bool
  w_finished :: bool
  w_stage :: watchStage

record clearing =
  cl_version :: string
  cl_collateral :: string
  cl_cancelled :: bool
  cl_fired :: bool

text \<open>A call of \<open>sendTransaction\<close> that waits for the wallet.\<close>

record pendingSend =
  ps_id :: string
  ps_version :: string
  ps_collateral :: string
  ps_settled :: bool

text \<open>\<open>id\<close>, \<open>tx\<close>, \<open>version\<close> and \<open>collateral\<close> of a render, and the dependencies of the second effect.\<close>

type_synonym watchDeps = "nat \<times> string option \<times> nat option \<times> string option \<times> string option"
type_synonym clearDeps = "string \<times> string \<times> string \<times> string option \<times> string option \<times> string option"

record monitor =
  m_state :: transactionState
  m_deps1 :: "watchDeps option"
  m_deps2 :: "clearDeps option"
  m_cleanup1 :: "nat option"
  m_cleanup2 :: "nat option"
  m_watches :: "watch list"
  m_clearings :: "clearing list"
  m_sends :: "pendingSend list"

definition TransactionProvider :: monitor where
  "TransactionProvider = \<lparr>m_state = TxIdle '''' '''', m_deps1 = None, m_deps2 = None, m_cleanup1 = None,
     m_cleanup2 = None, m_watches = [], m_clearings = [], m_sends = []\<rparr>"

definition setTransactionState :: "transactionState \<Rightarrow> monitor \<Rightarrow> monitor" where
  "setTransactionState s m = m\<lparr>m_state := s\<rparr>"

definition state_id :: "transactionState \<Rightarrow> string option" where
  "state_id s = (if is_TxIdle s then None else Some (tx_id s))"

definition state_tx :: "transactionState \<Rightarrow> nat option" where
  "state_tx s = (case s of TxWaitingForConfirmation _ tx _ _ \<Rightarrow> Some tx | _ \<Rightarrow> None)"

definition nonEmpty :: "string \<Rightarrow> string option" where
  "nonEmpty x = (if x = '''' then None else Some x)"

fun state_type :: "transactionState \<Rightarrow> string" where
  "state_type (TxIdle _ _) = ''idle''"
| "state_type (TxFailed _ _ _ _) = ''failed''"
| "state_type (TxWaitingForApproval _ _ _) = ''waitingForApproval''"
| "state_type (TxCancelled _ _ _) = ''cancelled''"
| "state_type (TxWaitingForConfirmation _ _ _ _) = ''waitingForConfirmation''"
| "state_type (TxConfirmed _ _ _) = ''confirmed''"
| "state_type (TxConfirmedOneShot _ _ _) = ''confirmedOneShot''"

definition watchDeps :: "nat \<Rightarrow> transactionState \<Rightarrow> watchDeps" where
  "watchDeps provider s =
     (provider, state_id s, state_tx s, nonEmpty (tx_version s), nonEmpty (tx_collateral s))"

definition clearDeps :: "transactionState \<Rightarrow> clearDeps" where
  "clearDeps s =
     (state_type s, tx_collateral s, tx_version s, state_id s, nonEmpty (tx_version s), nonEmpty (tx_collateral s))"

subsection \<open>The effect that waits for the receipt\<close>

definition watchEffect :: "transactionState \<Rightarrow> monitor \<Rightarrow> monitor" where
  "watchEffect s m =
     (case (state_id s, state_tx s, nonEmpty (tx_version s), nonEmpty (tx_collateral s)) of
        (Some i, Some tx, Some v, Some c) \<Rightarrow>
          if i = '''' then m\<lparr>m_cleanup1 := None\<rparr>
          else m\<lparr>m_cleanup1 := Some (length (m_watches m)),
                 m_watches := m_watches m @
                   [\<lparr>w_id = i, w_tx = tx, w_version = v, w_collateral = c, w_cancelled = False,
                     w_finished = False, w_stage = AwaitingReceipt\<rparr>]\<rparr>
      | _ \<Rightarrow> m\<lparr>m_cleanup1 := None\<rparr>)"

definition watchCleanup :: "monitor \<Rightarrow> monitor" where
  "watchCleanup m =
     (case m_cleanup1 m of
        None \<Rightarrow> m
      | Some i \<Rightarrow>
          let w = m_watches m ! i
          in if w_finished w then m
             else (setTransactionState (TxIdle (w_version w) (w_collateral w)) m)
                    \<lparr>m_watches := (m_watches m)[i := w\<lparr>w_cancelled := True\<rparr>]\<rparr>)"

text \<open>\<open>waitForConfirmation\<close> after \<open>await tx.waitForReceipt()\<close>, and after \<open>await tryToGetRevertReason(...)\<close>.\<close>

definition watchReceipt :: "nat \<Rightarrow> sentError + 'd receipt \<Rightarrow> monitor \<Rightarrow> monitor" where
  "watchReceipt i outcome m =
     (let w = m_watches m ! i;
          returned = m\<lparr>m_watches := (m_watches m)[i := w\<lparr>w_finished := True, w_stage := Returned\<rparr>]\<rparr>
      in if w_cancelled w then m\<lparr>m_watches := (m_watches m)[i := w\<lparr>w_stage := Returned\<rparr>]\<rparr>
         else case outcome of
           Inr (SuccessfulReceipt _ _) \<Rightarrow>
             setTransactionState (TxConfirmedOneShot (w_id w) (w_version w) (w_collateral w)) returned
         | Inr (FailedReceipt _) \<Rightarrow>
             m\<lparr>m_watches := (m_watches m)[i := w\<lparr>w_finished := True, w_stage := AwaitingReason\<rparr>]\<rparr>
         | Inl (TransactionCancelledError _ _) \<Rightarrow>
             setTransactionState (TxCancelled (w_id w) (w_version w) (w_collateral w)) returned
         | _ \<Rightarrow> setTransactionState (TxFailed (w_id w) ''Failed'' (w_version w) (w_collateral w)) returned)"

definition watchReason :: "nat \<Rightarrow> string option \<Rightarrow> monitor \<Rightarrow> monitor" where
  "watchReason i reason m =
     (let w = m_watches m ! i;
          returned = m\<lparr>m_watches := (m_watches m)[i := w\<lparr>w_stage := Returned\<rparr>]\<rparr>
      in if w_cancelled w then returned
         else setTransactionState
           (TxFailed (w_id w) (if truthyString reason then ''Reverted: '' @ the reason else ''Failed'')
             (w_version w) (w_collateral w)) returned)"

text \<open>The functions of ethers on byte strings and its decoder of a single string are parameters.\<close>

record bytesLibrary =
  hexDataLength :: "string \<Rightarrow> nat option"
  hexDataSlice :: "string \<Rightarrow> nat \<Rightarrow> nat option \<Rightarrow> string res"
  decodeString :: "string \<Rightarrow> string res"

definition tryToGetRevertReason :: "bytesLibrary \<Rightarrow> string res \<Rightarrow> string option" where
  "tryToGetRevertReason lib call =
     (case bindR call (\<lambda>result.
             if (case hexDataLength lib result of Some n \<Rightarrow> n mod 32 = 4 | None \<Rightarrow> False) then
               bindR (hexDataSlice lib result 0 (Some 4)) (\<lambda>selector.
                 if selector = ''0x08c379a0''
                 then bindR (hexDataSlice lib result 4 None) (\<lambda>d. bindR (decodeString lib d) (\<lambda>r. Inr (Some r)))
                 else Inr None)
             else Inr None) of
        Inr reason \<Rightarrow> reason
      | Inl _ \<Rightarrow> None)"

subsection \<open>The effect that clears an outcome\<close>

definition clearEffect :: "transactionState \<Rightarrow> monitor \<Rightarrow> monitor" where
  "clearEffect s m =
     (let v = tx_version s; c = tx_collateral s
      in if state_type s = ''confirmedOneShot'' \<and> tx_id s \<noteq> '''' \<and> v \<noteq> '''' \<and> c \<noteq> ''''
         then (setTransactionState (TxConfirmed (tx_id s) v c) m)\<lparr>m_cleanup2 := None\<rparr>
         else if state_type s \<in> {''confirmed'', ''failed'', ''cancelled''} \<and>
             Some v = nonEmpty v \<and> Some c = nonEmpty c
         then m\<lparr>m_cleanup2 := Some (length (m_clearings m)),
                m_clearings := m_clearings m @
                  [\<lparr>cl_version = v, cl_collateral = c, cl_cancelled = False, cl_fired = False\<rparr>]\<rparr>
         else m\<lparr>m_cleanup2 := None\<rparr>)"

definition clearCleanup :: "monitor \<Rightarrow> monitor" where
  "clearCleanup m =
     (case m_cleanup2 m of
        None \<Rightarrow> m
      | Some i \<Rightarrow> m\<lparr>m_clearings := (m_clearings m)[i := (m_clearings m ! i)\<lparr>cl_cancelled := True\<rparr>]\<rparr>)"

definition clearFires :: "nat \<Rightarrow> monitor \<Rightarrow> monitor" where
  "clearFires i m =
     (let t = m_clearings m ! i;
          fired = m\<lparr>m_clearings := (m_clearings m)[i := t\<lparr>cl_fired := True\<rparr>]\<rparr>
      in if cl_cancelled t then fired
         else setTransactionState (TxIdle (cl_version t) (cl_collateral t)) fired)"

subsection \<open>Rendering and sending\<close>

definition renderMonitor :: "nat \<Rightarrow> monitor \<Rightarrow> monitor" where
  "renderMonitor provider m =
     (let s = m_state m;
          d1 = watchDeps provider s; d2 = clearDeps s;
          changed1 = (m_deps1 m \<noteq> Some d1); changed2 = (m_deps2 m \<noteq> Some d2);
          m1 = (if changed1 then watchCleanup m else m);
          m2 = (if changed2 then clearCleanup m1 else m1);
          m3 = (if changed1 then (watchEffect s m2)\<lparr>m_deps1 := Some d1\<rparr> else m2)
      in if changed2 then (clearEffect s m3)\<lparr>m_deps2 := Some d2\<rparr> else m3)"

definition sendTransaction :: "string \<Rightarrow> string \<Rightarrow> string \<Rightarrow> monitor \<Rightarrow> monitor" where
  "sendTransaction i version coll m =
     (setTransactionState (TxWaitingForApproval i version coll) m)
       \<lparr>m_sends := m_sends m @ [\<lparr>ps_id = i, ps_version = version, ps_collateral = coll, ps_settled = False\<rparr>]\<rparr>"

text \<open>The outcome of \<open>send\<close>: a sent transaction, or an error with its message if it has one.\<close>

definition sendSettles :: "nat \<Rightarrow> string option + nat \<Rightarrow> monitor \<Rightarrow> monitor" where
  "sendSettles i outcome m =
     (let p = m_sends m ! i;
          settled = m\<lparr>m_sends := (m_sends m)[i := p\<lparr>ps_settled := True\<rparr>]\<rparr>
      in setTransactionState
           (case outcome of
              Inr tx \<Rightarrow> TxWaitingForConfirmation (ps_id p) tx (ps_version p) (ps_collateral p)
            | Inl message \<Rightarrow>
                if (case message of Some msg \<Rightarrow> str_includes msg ''User denied transaction signature'' | None \<Rightarrow> False)
                then TxCancelled (ps_id p) (ps_version p) (ps_collateral p)
                else TxFailed (ps_id p) ''Failed to send transaction (try again)'' (ps_version p) (ps_collateral p))
           settled)"

definition shownStatus :: "transactionState \<Rightarrow> (string \<times> string option) option" where
  "shownStatus s =
     (if state_type s \<in> {''idle'', ''waitingForApproval''} then None
      else Some (state_type s, (case s of TxFailed _ e _ _ \<Rightarrow> Some e | _ \<Rightarrow> None)))"

text \<open>What can happen next: the user sends, the wallet answers, the monitor renders, the network answers a
  watch, a timer fires.\<close>

inductive monitor_step :: "monitor \<Rightarrow> monitor \<Rightarrow> bool" where
  Send: "monitor_step m (sendTransaction i version coll m)"
| SendSettles: "i < length (m_sends m) \<Longrightarrow> \<not> ps_settled (m_sends m ! i) \<Longrightarrow> monitor_step m (sendSettles i outcome m)"
| RenderMonitor: "monitor_step m (renderMonitor provider m)"
| Receipt: "i < length (m_watches m) \<Longrightarrow> w_stage (m_watches m ! i) = AwaitingReceipt \<Longrightarrow>
    monitor_step m (watchReceipt i (outcome :: sentError + unit receipt) m)"
| Reason: "i < length (m_watches m) \<Longrightarrow> w_stage (m_watches m ! i) = AwaitingReason \<Longrightarrow>
    monitor_step m (watchReason i reason m)"
| Fires: "i < length (m_clearings m) \<Longrightarrow> \<not> cl_fired (m_clearings m ! i) \<Longrightarrow> monitor_step m (clearFires i m)"

inductive monitor_reachable :: "monitor \<Rightarrow> bool" where
  Start: "monitor_reachable TransactionProvider"
| Step: "monitor_reachable m \<Longrightarrow> monitor_step m m' \<Longrightarrow> monitor_reachable m'"

end
