(* ===== verification/Managers.thy ===== *)
theory Managers
  imports Trove_Correct Deposits Views TransactionMonitor
begin

text \<open>
  The state of the two edit forms of the front end: the reducers of \<open>Vault/VaultManager.tsx\<close> and
  \<open>Stability/StabilityDepositManager.tsx\<close> under \<open>packages/dev-frontend/src/components\<close>, which
  \<open>useThresholdReducer\<close> of \<open>packages/lib-react\<close> runs on the user's actions and on every
  notification of the store, and the effects by which a form follows its transaction.

  Of a notification the reducers read one property of \<open>newState\<close> and one of \<open>stateChange\<close>;
  these are the arguments of the action \<open>updateStore\<close>, with \<open>None\<close> for a property that is
  absent.
\<close>

section \<open>Running a reducer\<close>

text \<open>
  \<open>dispatch\<close> of \<open>useThresholdReducer\<close>: a reducer that throws leaves the state alone.  Whether the
  new state is shallowly equal to the old one decides on rendering only.
\<close>

definition reducer_dispatch :: "('s \<Rightarrow> 'a \<Rightarrow> 's res) \<Rightarrow> 'a \<Rightarrow> 's \<Rightarrow> unit res \<times> 's" where
  "reducer_dispatch reduce action state =
     (case reduce state action of
        Inl e \<Rightarrow> (Inl e, state)
      | Inr newState \<Rightarrow> (Inr (), newState))"

fun reducer_run :: "('s \<Rightarrow> 'a \<Rightarrow> 's res) \<Rightarrow> 'a list \<Rightarrow> 's \<Rightarrow> 's" where
  "reducer_run reduce [] state = state"
| "reducer_run reduce (a # actions) state = reducer_run reduce actions (snd (reducer_dispatch reduce a state))"

section \<open>The vault form\<close>

record vaultManager =
  vm_original :: userTrove
  vm_edited :: trove
  vm_changePending :: bool
  vm_debtDirty :: bool
  vm_addedMinimumDebt :: bool

datatype vaultManagerAction =
    VM_updateStore userTrove "troveWithPendingRedistribution option"
  | VM_startChange
  | VM_finishChange
  | VM_revert
  | VM_addMinimumDebt
  | VM_removeMinimumDebt
  | VM_setCollateral decimalish
  | VM_setDebt decimalish

definition VaultManager_init :: "userTrove \<Rightarrow> vaultManager" where
  "VaultManager_init t =
     \<lparr>vm_original = t, vm_edited = \<lparr>collateral = collateral t, debt = debt t\<rparr>, vm_changePending = False,
      vm_debtDirty = False, vm_addedMinimumDebt = False\<rparr>"

text \<open>The four reducers that \<open>reduceWith\<close> derives from \<open>reduce\<close>; none of their cases calls \<open>reduce\<close>.\<close>

definition VaultManager_addMinimumDebt :: "vaultManager \<Rightarrow> vaultManager" where
  "VaultManager_addMinimumDebt s =
     s\<lparr>vm_edited := Trove_setDebt (vm_edited s) THUSD_MINIMUM_DEBT, vm_addedMinimumDebt := True\<rparr>"

definition VaultManager_removeMinimumDebt :: "vaultManager \<Rightarrow> vaultManager" where
  "VaultManager_removeMinimumDebt s =
     s\<lparr>vm_edited := Trove_setDebt (vm_edited s) Decimal_ZERO, vm_addedMinimumDebt := False\<rparr>"

definition VaultManager_finishChange :: "vaultManager \<Rightarrow> vaultManager" where
  "VaultManager_finishChange s = s\<lparr>vm_changePending := False\<rparr>"

definition VaultManager_revert :: "vaultManager \<Rightarrow> vaultManager" where
  "VaultManager_revert s =
     s\<lparr>vm_edited := \<lparr>collateral = collateral (vm_original s), debt = debt (vm_original s)\<rparr>,
       vm_debtDirty := False, vm_addedMinimumDebt := False\<rparr>"

definition is_creation :: "troveChange option \<Rightarrow> bool" where
  "is_creation change = (case change of Some (Creation _) \<Rightarrow> True | _ \<Rightarrow> False)"

definition is_closure :: "troveChange option \<Rightarrow> bool" where
  "is_closure change = (case change of Some (Closure _) \<Rightarrow> True | _ \<Rightarrow> False)"

fun VaultManager_reduce :: "vaultManager \<Rightarrow> vaultManagerAction \<Rightarrow> vaultManager res" where
  "VaultManager_reduce s VM_startChange = Inr (s\<lparr>vm_changePending := True\<rparr>)"
| "VaultManager_reduce s VM_finishChange = Inr (VaultManager_finishChange s)"
| "VaultManager_reduce s (VM_setCollateral newValue) =
     bindR (Decimal_from newValue)
       (\<lambda>newCollateral.
          let newState = s\<lparr>vm_edited := Trove_setCollateral (vm_edited s) newCollateral\<rparr>
          in if \<not> vm_debtDirty s \<and> Trove_isEmpty (vm_edited s) \<and> Decimal_nonZero newCollateral \<noteq> None
             then Inr (VaultManager_addMinimumDebt newState)
             else if \<not> vm_debtDirty s \<and> vm_addedMinimumDebt s \<and> Decimal_isZero newCollateral
             then Inr (VaultManager_removeMinimumDebt newState)
             else Inr newState)"
| "VaultManager_reduce s (VM_setDebt newValue) =
     bindR (Decimal_from newValue)
       (\<lambda>d. Inr (s\<lparr>vm_edited := Trove_setDebt (vm_edited s) d, vm_debtDirty := True\<rparr>))"
| "VaultManager_reduce s VM_addMinimumDebt = Inr (VaultManager_addMinimumDebt s)"
| "VaultManager_reduce s VM_removeMinimumDebt = Inr (VaultManager_removeMinimumDebt s)"
| "VaultManager_reduce s VM_revert = Inr (VaultManager_revert s)"
| "VaultManager_reduce s (VM_updateStore t changeCommitted) =
     (let newState = s\<lparr>vm_original := t\<rparr>
      in if vm_changePending s \<and> changeCommitted \<noteq> None
         then Inr (VaultManager_finishChange (VaultManager_revert newState))
         else bindR (Trove_whatChanged (vm_original s) (vm_edited s) Decimal_ZERO)
           (\<lambda>change.
              if (is_creation change \<and> \<not> Trove_isEmpty t) \<or> (is_closure change \<and> Trove_isEmpty t)
              then Inr (VaultManager_revert newState)
              else bindR (Trove_apply t change Decimal_ZERO)
                (\<lambda>edited. Inr (newState\<lparr>vm_edited := edited\<rparr>))))"

fun change_borrowTHUSD :: "troveChange \<Rightarrow> decimal option" where
  "change_borrowTHUSD (InvalidCreation _ _) = None"
| "change_borrowTHUSD (Creation params) = Some (borrowTHUSD params)"
| "change_borrowTHUSD (Closure _) = None"
| "change_borrowTHUSD (Adjustment params _) = adjBorrowTHUSD params"

definition feeFrom :: "'a trove_scheme \<Rightarrow> 'b trove_scheme \<Rightarrow> decimal \<Rightarrow> decimal res" where
  "feeFrom original edited rate =
     bindR (Trove_whatChanged original edited rate)
       (\<lambda>change. Inr (case change of
           None \<Rightarrow> Decimal_ZERO
         | Some c \<Rightarrow> (case change_borrowTHUSD c of
                       Some b \<Rightarrow> Decimal_mul b rate
                     | None \<Rightarrow> Decimal_ZERO)))"

section \<open>The stability deposit form\<close>

record stabilityManager =
  sm_originalDeposit :: stabilityDeposit
  sm_editedUSD :: decimal
  sm_changePending :: bool

datatype stabilityManagerAction =
    SM_updateStore "stabilityDeposit option"
  | SM_startChange
  | SM_finishChange
  | SM_revert
  | SM_setDeposit decimalish

definition StabilityManager_init :: "stabilityDeposit \<Rightarrow> stabilityManager" where
  "StabilityManager_init d =
     \<lparr>sm_originalDeposit = d, sm_editedUSD = currentTHUSD d, sm_changePending = False\<rparr>"

definition StabilityManager_finishChange :: "stabilityManager \<Rightarrow> stabilityManager" where
  "StabilityManager_finishChange s = s\<lparr>sm_changePending := False\<rparr>"

definition StabilityManager_revert :: "stabilityManager \<Rightarrow> stabilityManager" where
  "StabilityManager_revert s = s\<lparr>sm_editedUSD := currentTHUSD (sm_originalDeposit s)\<rparr>"

definition depositChangeCommitted :: "stabilityDeposit \<Rightarrow> stabilityDeposit \<Rightarrow> bool" where
  "depositChangeCommitted originalDeposit updatedDeposit \<longleftrightarrow>
     Decimal_lt (initialTHUSD updatedDeposit) (initialTHUSD originalDeposit) \<or>
     Decimal_lt (currentTHUSD updatedDeposit) (currentTHUSD originalDeposit) \<or>
     Decimal_lt (collateralGain updatedDeposit) (collateralGain originalDeposit)"

fun StabilityManager_reduce :: "stabilityManager \<Rightarrow> stabilityManagerAction \<Rightarrow> stabilityManager res" where
  "StabilityManager_reduce s SM_startChange = Inr (s\<lparr>sm_changePending := True\<rparr>)"
| "StabilityManager_reduce s SM_finishChange = Inr (StabilityManager_finishChange s)"
| "StabilityManager_reduce s (SM_setDeposit newValue) =
     bindR (Decimal_from newValue) (\<lambda>d. Inr (s\<lparr>sm_editedUSD := d\<rparr>))"
| "StabilityManager_reduce s SM_revert = Inr (StabilityManager_revert s)"
| "StabilityManager_reduce s (SM_updateStore stabilityDeposit') =
     (case stabilityDeposit' of
        None \<Rightarrow> Inr s
      | Some updatedDeposit \<Rightarrow>
          (let newState = s\<lparr>sm_originalDeposit := updatedDeposit\<rparr>
           in if sm_changePending s \<and> depositChangeCommitted (sm_originalDeposit s) updatedDeposit
              then Inr (StabilityManager_finishChange (StabilityManager_revert newState))
              else bindR (StabilityDeposit_whatChanged (sm_originalDeposit s) (sm_editedUSD s))
                (\<lambda>change. bindR (StabilityDeposit_apply updatedDeposit change)
                   (\<lambda>edited. Inr (newState\<lparr>sm_editedUSD := edited\<rparr>)))))"

section \<open>Following the transaction\<close>

text \<open>What an effect does: an action for the form, or an event for its view.\<close>

datatype ('a, 'e) effectOp = DispatchAction 'a | DispatchViewEvent 'e

definition transactionIdPrefix :: string where
  "transactionIdPrefix = ''vault-''"

definition transactionIdMatcher :: "string \<Rightarrow> bool" where
  "transactionIdMatcher = is_prefix transactionIdPrefix"

definition VaultManager_transactionEffect ::
    "string \<Rightarrow> string \<Rightarrow> transactionState \<Rightarrow> (vaultManagerAction, vaultEvent) effectOp option" where
  "VaultManager_transactionEffect version coll s =
     (let tx = useMyTransactionState transactionIdMatcher version coll s
      in if \<not> checkTransactionCollateral tx version coll then None
         else (case tx of
                 TxWaitingForApproval _ _ _ \<Rightarrow> Some (DispatchAction VM_startChange)
               | TxWaitingForConfirmation _ _ _ _ \<Rightarrow> Some (DispatchAction VM_startChange)
               | TxFailed _ _ _ _ \<Rightarrow> Some (DispatchAction VM_finishChange)
               | TxCancelled _ _ _ \<Rightarrow> Some (DispatchAction VM_finishChange)
               | TxConfirmedOneShot i _ _ \<Rightarrow>
                   Some (DispatchViewEvent (if i = transactionIdPrefix @ ''closure'' then VAULT_CLOSED else VAULT_ADJUSTED))
               | _ \<Rightarrow> None))"

definition stabilityTransactionId :: string where
  "stabilityTransactionId = ''stability-deposit''"

definition StabilityManager_transactionEffect ::
    "string \<Rightarrow> string \<Rightarrow> transactionState \<Rightarrow> (stabilityManagerAction, stabilityEvent) effectOp option" where
  "StabilityManager_transactionEffect version coll s =
     (let tx = useMyTransactionState (\<lambda>i. i = stabilityTransactionId) version coll s
      in if \<not> checkTransactionCollateral tx version coll then None
         else (case tx of
                 TxWaitingForApproval _ _ _ \<Rightarrow> Some (DispatchAction SM_startChange)
               | TxWaitingForConfirmation _ _ _ _ \<Rightarrow> Some (DispatchAction SM_startChange)
               | TxFailed _ _ _ _ \<Rightarrow> Some (DispatchAction SM_finishChange)
               | TxCancelled _ _ _ \<Rightarrow> Some (DispatchAction SM_finishChange)
               | TxConfirmedOneShot _ _ _ \<Rightarrow> Some (DispatchViewEvent DEPOSIT_CONFIRMED)
               | _ \<Rightarrow> None))"

end
