(* ===== verification/Managers_Correct.thy ===== *)
theory Managers_Correct
  imports Managers Views_Correct
begin

text \<open>
  The edit forms: an edit in progress is carried over to the new value when the store updates it,
  a committed change resets the form, the debt that the opening form proposes, and the
  interplay of transaction, form and view.
\<close>

section \<open>Rebasing\<close>

text \<open>An amount \<open>o\<close> that is being edited to \<open>e\<close>, when the store replaces it by \<open>t\<close>.\<close>

definition rebased :: "nat \<Rightarrow> nat \<Rightarrow> nat \<Rightarrow> nat" where
  "rebased o' e t = (if e = 0 \<and> o' \<noteq> 0 then 0 else t + (e - o') - (o' - e))"

lemma rebased_simps [simp]: "rebased t e t = e" "rebased o' o' t = t"
  by (auto simp: rebased_def)

lemma Trove_isEmpty_toTrove [simp]: "Trove_isEmpty (toTrove t) = Trove_isEmpty t"
  by (simp add: Trove_isEmpty_def)

lemma Trove_whatChanged_toTrove: "Trove_whatChanged (toTrove t) u r = Trove_whatChanged t u r"
  by (simp add: Trove_whatChanged_def Trove_netDebt_def Trove_debtChange_def Trove_collateralChange_def
      cong: if_cong)

lemma toTrove_ops [simp]:
  "Trove_add (toTrove t) u = Trove_add t u"
  "Trove_setCollateral (toTrove t) x = Trove_setCollateral t x"
  "Trove_setDebt (toTrove t) x = Trove_setDebt t x"
  by (simp_all add: Trove_add_def Trove_setCollateral_def Trove_setDebt_def)

lemma Trove_apply_toTrove: "Trove_apply (toTrove t) c r = Trove_apply t c r"
  unfolding Trove_apply_def toTrove_ops Trove_isEmpty_toTrove toTrove_id ..

lemma Trove_apply_rebases:
  assumes "\<not> Trove_isEmpty o'" and "\<not> Trove_isEmpty e" and "toTrove o' \<noteq> toTrove e"
  shows "bindR (Trove_whatChanged o' e Decimal_ZERO) (\<lambda>c. Trove_apply t c Decimal_ZERO) =
    Inr \<lparr>collateral = Dec (rebased (bn (collateral o')) (bn (collateral e)) (bn (collateral t))),
         debt = Dec (rebased (bn (debt o')) (bn (debt e)) (bn (debt t)))\<rparr>"
  using assms
  by (auto simp: Trove_whatChanged_adjustment Trove_apply_def Let_def Trove_subtract_eq
      Trove_subtract_part_eq trove_op_defs adjustment_between_def less_decimal_def decimal_eq_iff
      rebased_def Trove_isEmpty_iff)

text \<open>An edit of an existing vault is carried over when the store reports a new value of the vault:
  the collateral and the debt that the user added or took away are added to or taken away from
  the new amounts (never below zero), an amount that was set to zero stays zero, and an amount
  that was not edited follows the store.\<close>

theorem VaultManager_rebases:
  assumes "\<not> (vm_changePending s \<and> committed \<noteq> None)"
    and "\<not> Trove_isEmpty (vm_original s)" and "\<not> Trove_isEmpty (vm_edited s)"
  shows "VaultManager_reduce s (VM_updateStore t committed) =
    Inr (s\<lparr>vm_original := t,
           vm_edited := \<lparr>collateral = Dec (rebased (bn (collateral (vm_original s))) (bn (collateral (vm_edited s))) (bn (collateral t))),
                         debt = Dec (rebased (bn (debt (vm_original s))) (bn (debt (vm_edited s))) (bn (debt t)))\<rparr>\<rparr>)"
proof (cases "toTrove (vm_original s) = vm_edited s")
  case True
  then have "Trove_whatChanged (vm_original s) (vm_edited s) Decimal_ZERO = Inr None"
    by (simp add: Trove_whatChanged_None)
  moreover have "collateral (vm_edited s) = collateral (vm_original s)" "debt (vm_edited s) = debt (vm_original s)"
    using toTrove_sel [of "vm_original s"] True by simp_all
  ultimately show ?thesis
    using assms(1) by (auto simp: Let_def is_creation_def is_closure_def Trove_apply_def toTrove_def)
next
  case False
  then obtain p z where c: "Trove_whatChanged (vm_original s) (vm_edited s) Decimal_ZERO = Inr (Some (Adjustment p z))"
    using assms(2,3) Trove_whatChanged_adjustment [of "vm_original s" "vm_edited s" Decimal_ZERO] by auto
  then show ?thesis
    using assms(1) Trove_apply_rebases [OF assms(2,3), of t] False
    by (auto simp: Let_def is_creation_def is_closure_def)
qed

theorem VaultManager_rebases_witness:
  "VaultManager_reduce
     \<lparr>vm_original = \<lparr>collateral = Dec 100, debt = Dec 2000, ownerAddress = ''a'', status = Open\<rparr>,
      vm_edited = \<lparr>collateral = Dec 130, debt = Dec 1900\<rparr>, vm_changePending = True,
      vm_debtDirty = True, vm_addedMinimumDebt = False\<rparr>
     (VM_updateStore \<lparr>collateral = Dec 90, debt = Dec 2050, ownerAddress = ''a'', status = Open\<rparr> None) =
   Inr \<lparr>vm_original = \<lparr>collateral = Dec 90, debt = Dec 2050, ownerAddress = ''a'', status = Open\<rparr>,
        vm_edited = \<lparr>collateral = Dec 120, debt = Dec 1950\<rparr>, vm_changePending = True,
        vm_debtDirty = True, vm_addedMinimumDebt = False\<rparr>"
  using VaultManager_rebases [of
    "\<lparr>vm_original = \<lparr>collateral = Dec 100, debt = Dec 2000, ownerAddress = ''a'', status = Open\<rparr>,
      vm_edited = \<lparr>collateral = Dec 130, debt = Dec 1900\<rparr>, vm_changePending = True,
      vm_debtDirty = True, vm_addedMinimumDebt = False\<rparr>" None
    "\<lparr>collateral = Dec 90, debt = Dec 2050, ownerAddress = ''a'', status = Open\<rparr>"]
  by (simp add: Trove_isEmpty_def Decimal_isZero_def rebased_def del: VaultManager_reduce.simps)

section \<open>When a store update makes the vault form fail\<close>

lemma Trove_apply_error_iff:
  "Trove_apply t change r = Inl e \<longleftrightarrow>
     (case change of
        Some (InvalidCreation _ _) \<Rightarrow> \<not> Trove_isEmpty t \<and> e = Error (''Can'' @ [CHR 0x27] @ ''t create onto existing Trove'')
      | Some (Creation _) \<Rightarrow> \<not> Trove_isEmpty t \<and> e = Error (''Can'' @ [CHR 0x27] @ ''t create onto existing Trove'')
      | Some (Closure _) \<Rightarrow> Trove_isEmpty t \<and> e = Error (''Can'' @ [CHR 0x27] @ ''t close empty Trove'')
      | _ \<Rightarrow> False)"
  by (auto simp: Trove_apply_def Let_def Trove_subtract_eq Trove_subtract_part_eq trove_op_defs
      split: option.splits troveChange.splits setToZero.splits)

lemma guarded_apply_error:
  "\<not> (is_creation c \<and> \<not> Trove_isEmpty t) \<and> \<not> (is_closure c \<and> Trove_isEmpty t) \<and> Trove_apply t c r = Inl e \<longleftrightarrow>
   (\<exists>v x. c = Some (InvalidCreation v x)) \<and> \<not> Trove_isEmpty t \<and>
   e = Error (''Can'' @ [CHR 0x27] @ ''t create onto existing Trove'')"
proof (cases c)
  case (Some ch)
  then show ?thesis by (cases ch) (auto simp: Trove_apply_error_iff is_creation_def is_closure_def)
qed (simp add: Trove_apply_error_iff)

text \<open>A store update makes the vault form throw in two situations only, and then with the error
  named: the user is closing a vault whose debt is below the liquidation reserve; or is entering
  an opening with a debt below the reserve while the vault has come into existence elsewhere.
  A committed change is never affected.\<close>

theorem VaultManager_updateStore_throws:
  "VaultManager_reduce s (VM_updateStore t committed) = Inl e \<longleftrightarrow>
     \<not> (vm_changePending s \<and> committed \<noteq> None) \<and>
     (\<not> Trove_isEmpty (vm_original s) \<and> Trove_isEmpty (vm_edited s) \<and>
        bn (debt (vm_original s)) < bn THUSD_LIQUIDATION_RESERVE \<and>
        e = Error ''netDebt should not be used when debt < 200''
      \<or> Trove_isEmpty (vm_original s) \<and> \<not> Trove_isEmpty (vm_edited s) \<and>
        bn (debt (vm_edited s)) < bn THUSD_LIQUIDATION_RESERVE \<and> \<not> Trove_isEmpty t \<and>
        e = Error (''Can'' @ [CHR 0x27] @ ''t create onto existing Trove''))"
  (is "?L \<longleftrightarrow> ?R")
proof (cases "vm_changePending s \<and> committed \<noteq> None")
  case True
  then show ?thesis by auto
next
  case False
  let ?w = "Trove_whatChanged (vm_original s) (vm_edited s) Decimal_ZERO"
  have inv: "?w = Inr (Some (InvalidCreation v c)) \<Longrightarrow>
      Trove_isEmpty (vm_original s) \<and> \<not> Trove_isEmpty (vm_edited s) \<and>
      bn (debt (vm_edited s)) < bn THUSD_LIQUIDATION_RESERVE" for v c
    by (auto simp: Trove_whatChanged_def Trove_netDebt_eq Trove_change_eq Decimal_eq_def Decimal_lt_def
        Trove_isEmpty_iff simp del: bn_constants split: if_splits)
  have inv': "Trove_isEmpty (vm_original s) \<Longrightarrow> \<not> Trove_isEmpty (vm_edited s) \<Longrightarrow>
      bn (debt (vm_edited s)) < bn THUSD_LIQUIDATION_RESERVE \<Longrightarrow>
      ?w = Inr (Some (InvalidCreation (vm_edited s) MissingLiquidationReserve))"
    using Trove_whatChanged_create [of "vm_original s" "vm_edited s" Decimal_ZERO]
    by (auto simp: trove_eq_iff Trove_isEmpty_iff simp del: bn_constants)
  have "?L \<longleftrightarrow> ?w = Inl e \<or> (\<exists>c. ?w = Inr c \<and> \<not> (is_creation c \<and> \<not> Trove_isEmpty t) \<and>
      \<not> (is_closure c \<and> Trove_isEmpty t) \<and> Trove_apply t c Decimal_ZERO = Inl e)"
    using False by (auto simp: Let_def bindR_Inl_iff)
  also have "\<dots> \<longleftrightarrow> ?w = Inl e \<or> (\<exists>v c. ?w = Inr (Some (InvalidCreation v c)) \<and> \<not> Trove_isEmpty t \<and>
      e = Error (''Can'' @ [CHR 0x27] @ ''t create onto existing Trove''))"
    unfolding guarded_apply_error by blast
  also have "\<dots> \<longleftrightarrow> ?R"
    using False inv inv' Trove_whatChanged_throws_iff [of "vm_original s" "vm_edited s" Decimal_ZERO e] by blast
  finally show ?thesis .
qed

section \<open>The opening form\<close>

lemma reducer_run_invariant:
  assumes "\<And>s a s'. P s \<Longrightarrow> Q a \<Longrightarrow> reduce s a = Inr s' \<Longrightarrow> P s'" and "P s" and "list_all Q actions"
  shows "P (reducer_run reduce actions s)"
  using assms(2,3)
proof (induction actions arbitrary: s)
  case (Cons a actions)
  have "P (snd (reducer_dispatch reduce a s))"
    using Cons.prems assms(1) [of s a] by (auto simp: reducer_dispatch_def split: sum.splits)
  with Cons show ?case by simp
qed simp

fun opening_action :: "vaultManagerAction \<Rightarrow> bool" where
  "opening_action (VM_updateStore t _) = Trove_isEmpty t"
| "opening_action (VM_setDebt _) = False"
| "opening_action VM_addMinimumDebt = False"
| "opening_action VM_removeMinimumDebt = False"
| "opening_action _ = True"

definition opening_form :: "vaultManager \<Rightarrow> bool" where
  "opening_form s \<longleftrightarrow>
     Trove_isEmpty (vm_original s) \<and> \<not> vm_debtDirty s \<and>
     (Trove_isEmpty (vm_edited s) \<and> \<not> vm_addedMinimumDebt s \<or>
      \<not> Decimal_isZero (collateral (vm_edited s)) \<and> debt (vm_edited s) = THUSD_MINIMUM_DEBT \<and>
      vm_addedMinimumDebt s)"

lemma empty_troves_equal: "Trove_isEmpty t \<Longrightarrow> Trove_isEmpty u \<Longrightarrow> toTrove t = toTrove u"
  by (simp add: trove_eq_iff Trove_isEmpty_iff decimal_eq_iff)

lemma opening_form_updateStore:
  assumes "opening_form s" and "Trove_isEmpty t"
  shows "\<exists>s'. VaultManager_reduce s (VM_updateStore t committed) = Inr s' \<and> opening_form s'"
proof (cases "vm_changePending s \<and> committed \<noteq> None")
  case True
  with assms show ?thesis
    by (auto simp: opening_form_def VaultManager_finishChange_def VaultManager_revert_def Trove_isEmpty_def)
next
  case False
  have change: "changeable (toTrove (vm_original s)) (vm_edited s)"
    using assms(1) by (auto simp: changeable_def opening_form_def)
  have same: "toTrove t = toTrove (vm_original s)"
    using assms empty_troves_equal by (auto simp: opening_form_def)
  have apply_same: "Trove_apply t c Decimal_ZERO = Trove_apply (toTrove (vm_original s)) c Decimal_ZERO" for c
    unfolding same [symmetric] by (simp add: Trove_apply_toTrove)
  have replay: "bindR (Trove_whatChanged (vm_original s) (vm_edited s) Decimal_ZERO)
      (\<lambda>c. Trove_apply t c Decimal_ZERO) = Inr (vm_edited s)"
    using trove_codec.apply_whatChanged [OF change] by (simp add: Trove_whatChanged_toTrove apply_same)
  then obtain c where c: "Trove_whatChanged (vm_original s) (vm_edited s) Decimal_ZERO = Inr c"
    "Trove_apply t c Decimal_ZERO = Inr (vm_edited s)"
    by (auto simp: bindR_Inr_iff)
  have "\<not> is_closure c"
    using c(2) assms(2) by (auto simp: is_closure_def Trove_apply_def split: option.splits troveChange.splits)
  then have "VaultManager_reduce s (VM_updateStore t committed) = Inr (s\<lparr>vm_original := t\<rparr>)"
    using False c assms(2) by (auto simp: Let_def)
  with assms show ?thesis by (simp add: opening_form_def)
qed

lemma opening_form_step:
  assumes "opening_form s" and "opening_action a" and "VaultManager_reduce s a = Inr s'"
  shows "opening_form s'"
proof (cases a)
  case (VM_updateStore t committed)
  with assms opening_form_updateStore [of s t committed] show ?thesis by auto
next
  case (VM_setCollateral v)
  with assms(3) obtain d where "Decimal_from v = Inr d" by (auto simp: bindR_Inr_iff)
  with VM_setCollateral assms show ?thesis
    by (auto simp: opening_form_def Let_def Trove_isEmpty_def Trove_setCollateral_def Trove_setDebt_def
        VaultManager_addMinimumDebt_def VaultManager_removeMinimumDebt_def Decimal_nonZero_def
        Decimal_isZero_def decimal_eq_iff split: if_splits)
qed (use assms in \<open>auto simp: opening_form_def VaultManager_finishChange_def VaultManager_revert_def Trove_isEmpty_def\<close>)

text \<open>As long as the user of the opening form does not edit the debt, and the vault does not come
  into existence, the form holds either an empty vault or one with collateral and exactly the
  minimum debt, however the collateral is edited and whatever else happens to the store.\<close>

theorem VaultManager_opening_form:
  assumes "Trove_isEmpty t" and "list_all opening_action actions"
    and "s = reducer_run VaultManager_reduce actions (VaultManager_init t)"
  shows "Trove_isEmpty (vm_edited s) \<or>
    \<not> Decimal_isZero (collateral (vm_edited s)) \<and> debt (vm_edited s) = THUSD_MINIMUM_DEBT"
proof -
  have "opening_form (VaultManager_init t)"
    using assms(1) by (simp add: opening_form_def VaultManager_init_def Trove_isEmpty_def)
  then have "opening_form s"
    unfolding assms(3) using assms(2) opening_form_step by (rule_tac reducer_run_invariant) auto
  then show ?thesis by (auto simp: opening_form_def)
qed

definition no_vault :: userTrove where
  "no_vault = \<lparr>collateral = Decimal_ZERO, debt = Decimal_ZERO, ownerAddress = ''a'', status = NonExistent\<rparr>"

theorem VaultManager_opening_form_witness:
  "vm_edited (reducer_run VaultManager_reduce
       [VM_setCollateral (DDecimal (Dec 5)), VM_startChange, VM_updateStore no_vault None, VM_setCollateral (DDecimal (Dec 7))]
       (VaultManager_init no_vault)) =
     \<lparr>collateral = Dec 7, debt = THUSD_MINIMUM_DEBT\<rparr>" (is "vm_edited ?s = _")
proof -
  have empty: "Trove_isEmpty no_vault" by (simp add: no_vault_def Trove_isEmpty_def Decimal_isZero_def)
  have c: "collateral (vm_edited ?s) = Dec 7"
    by (simp add: VaultManager_init_def no_vault_def reducer_dispatch_def Let_def Trove_isEmpty_def
        Decimal_isZero_def Decimal_nonZero_def VaultManager_addMinimumDebt_def Trove_setCollateral_def
        Trove_setDebt_def is_creation_def is_closure_def Trove_whatChanged_def Trove_netDebt_def
        Trove_apply_def Decimal_eq_def Decimal_lt_def Decimal_sub_def new_Decimal_def)
  with VaultManager_opening_form [OF empty, of "[VM_setCollateral (DDecimal (Dec 5)), VM_startChange,
      VM_updateStore no_vault None, VM_setCollateral (DDecimal (Dec 7))]", OF _ refl] empty
  have "debt (vm_edited ?s) = THUSD_MINIMUM_DEBT" by (auto simp: Trove_isEmpty_def Decimal_isZero_def)
  with c show ?thesis by simp
qed

section \<open>The fee that is shown\<close>

lemma applyFee_split: "bn (applyFee r x) = bn x + bn (Decimal_mul x r)"
  by (simp add: applyFee_def Decimal_mul_def Decimal_add_def distrib_left)

text \<open>The fee shown in the form is exactly what is added to the debt on top of the amount borrowed
  and, for a new vault, the liquidation reserve.\<close>

theorem feeFrom_exact:
  assumes "Trove_whatChanged t u r = Inr (Some c)" and "change_borrowTHUSD c = Some b"
    and "feeFrom t u r = Inr fee" and "Trove_apply t (Some c) r = Inr v"
  shows "bn (debt v) =
    (if Trove_isEmpty t then bn THUSD_LIQUIDATION_RESERVE else bn (debt t)) + bn b + bn fee"
proof -
  have fee: "fee = Decimal_mul b r" using assms(1-3) by (simp add: feeFrom_def)
  show ?thesis
  proof (cases "Trove_isEmpty t")
    case True
    then show ?thesis
      using assms(1,2,4) fee Trove_whatChanged_None [of t u r] Trove_whatChanged_create [of t u r]
      by (cases "toTrove t = toTrove u")
         (auto simp: Trove_apply_create applyFee_split simp del: bn_constants split: if_splits)
  next
    case False
    then obtain p z where c: "c = Adjustment p z"
      using assms(1,2) by (auto simp: Trove_whatChanged_def Trove_netDebt_eq bindR_Inr_iff split: if_splits)
    have "toTrove t \<noteq> toTrove u" using assms(1) Trove_whatChanged_None [of t u r] by auto
    moreover have "\<not> Trove_isEmpty u"
      using assms(1) False c by (auto simp: Trove_whatChanged_def Trove_netDebt_eq Decimal_eq_def Trove_isEmpty_iff
          split: if_splits)
    ultimately have p: "p = adjustment_between t u r"
      "z = None \<or> z = Some ZeroCollateral \<or> z = Some ZeroDebt \<and> bn (debt u) = 0"
      using assms(1) False c by (auto simp: Trove_whatChanged_adjustment split: if_splits)
    then have "debt t < debt u" "b = unapplyFee r (Dec (bn (debt u) - bn (debt t)))"
      using assms(2) c by (auto simp: adjustment_between_def split: if_splits)
    with assms(4) c p False fee show ?thesis
      by (auto simp: Trove_apply_def Let_def Trove_subtract_eq Trove_subtract_part_eq trove_op_defs
          adjustment_between_def less_decimal_def applyFee_split)
  qed
qed

theorem feeFrom_exact_witness:
  "\<exists>c v. Trove_whatChanged trove_100_2000 trove_50_2600 MINIMUM_BORROWING_RATE = Inr (Some c) \<and>
     Trove_apply trove_100_2000 (Some c) MINIMUM_BORROWING_RATE = Inr v \<and>
     bn (debt v) = 2600 * 10 ^ 18"
proof -
  let ?c = "Adjustment (adjustment_between trove_100_2000 trove_50_2600 MINIMUM_BORROWING_RATE) None"
  have ch: "Trove_whatChanged trove_100_2000 trove_50_2600 MINIMUM_BORROWING_RATE = Inr (Some ?c)"
    by (subst Trove_whatChanged_adjustment) (simp_all add: trove_100_2000_def trove_50_2600_def Trove_isEmpty_iff)
  obtain v where v: "Trove_apply trove_100_2000 (Some ?c) MINIMUM_BORROWING_RATE = Inr v"
    using adjustment_between_applies(1) by blast
  have b: "change_borrowTHUSD ?c = Some (unapplyFee MINIMUM_BORROWING_RATE (Dec (600 * 10 ^ 18)))"
    by (simp add: adjustment_between_def trove_100_2000_def trove_50_2600_def less_decimal_def)
  then have fee: "feeFrom trove_100_2000 trove_50_2600 MINIMUM_BORROWING_RATE =
      Inr (Decimal_mul (unapplyFee MINIMUM_BORROWING_RATE (Dec (600 * 10 ^ 18))) MINIMUM_BORROWING_RATE)"
    using ch by (simp add: feeFrom_def)
  have "bn (debt v) = 2600 * 10 ^ 18"
    using feeFrom_exact [OF ch b fee v]
    by (simp add: trove_100_2000_def Trove_isEmpty_iff unapplyFee_def Decimal_divCeil_def Decimal_add_def
        Decimal_isZero_def Decimal_mul_def DIGITS_num)
  with ch v show ?thesis by blast
qed

section \<open>The stability deposit form\<close>

text \<open>A store update never makes the stability form throw.  If a change was pending and the deposit
  has dropped in one of its three amounts, the form is reset to the new deposit; otherwise the
  edit is carried over to the new amount, as for vaults.\<close>

theorem StabilityManager_update:
  "StabilityManager_reduce s (SM_updateStore (Some d)) =
     Inr (if sm_changePending s \<and> depositChangeCommitted (sm_originalDeposit s) d
          then \<lparr>sm_originalDeposit = d, sm_editedUSD = currentTHUSD d, sm_changePending = False\<rparr>
          else s\<lparr>sm_originalDeposit := d,
                 sm_editedUSD := Dec (rebased (bn (currentTHUSD (sm_originalDeposit s)))
                                        (bn (sm_editedUSD s)) (bn (currentTHUSD d)))\<rparr>)"
  by (auto simp: Let_def StabilityManager_finishChange_def StabilityManager_revert_def
      StabilityDeposit_whatChanged_eq StabilityDeposit_apply_def Decimal_lte_def Decimal_sub_def
      Decimal_add_def new_Decimal_def rebased_def decimal_eq_iff nat_diff_distrib)

text \<open>A deposit that is confirmed while no gain is paid out is not recognised as committed: the form
  stays pending and applies the deposited amount a second time to the amount it shows.\<close>

theorem StabilityManager_deposit_not_recognised:
  assumes "sm_changePending s" and "0 < x"
    and "sm_editedUSD s = Dec (bn (currentTHUSD (sm_originalDeposit s)) + x)"
    and "currentTHUSD d = sm_editedUSD s"
    and "bn (initialTHUSD (sm_originalDeposit s)) \<le> bn (initialTHUSD d)"
    and "bn (collateralGain (sm_originalDeposit s)) \<le> bn (collateralGain d)"
  shows "\<exists>s'. StabilityManager_reduce s (SM_updateStore (Some d)) = Inr s' \<and> sm_changePending s' \<and>
    sm_editedUSD s' = Dec (bn (currentTHUSD d) + x)"
proof -
  have "\<not> depositChangeCommitted (sm_originalDeposit s) d"
    using assms by (simp add: depositChangeCommitted_def Decimal_lt_def)
  then show ?thesis
    using assms by (simp add: Let_def StabilityDeposit_whatChanged_eq StabilityDeposit_apply_def Decimal_add_def)
qed

theorem StabilityManager_deposit_not_recognised_witness:
  "\<exists>s'. StabilityManager_reduce
      \<lparr>sm_originalDeposit = \<lparr>initialTHUSD = Dec 100, currentTHUSD = Dec 100, collateralGain = Dec 0\<rparr>,
       sm_editedUSD = Dec 150, sm_changePending = True\<rparr>
      (SM_updateStore (Some \<lparr>initialTHUSD = Dec 150, currentTHUSD = Dec 150, collateralGain = Dec 0\<rparr>)) = Inr s' \<and>
    sm_changePending s' \<and> sm_editedUSD s' = Dec 200"
  using StabilityManager_deposit_not_recognised [of
    "\<lparr>sm_originalDeposit = \<lparr>initialTHUSD = Dec 100, currentTHUSD = Dec 100, collateralGain = Dec 0\<rparr>,
      sm_editedUSD = Dec 150, sm_changePending = True\<rparr>" 50
    "\<lparr>initialTHUSD = Dec 150, currentTHUSD = Dec 150, collateralGain = Dec 0\<rparr>"]
  by (simp del: StabilityManager_reduce.simps)

end
