(* ===== verification/TransactionMonitor_Correct.thy ===== *)
theory TransactionMonitor_Correct
  imports TransactionMonitor Managers_Correct
begin

text \<open>
  The monitor follows one transaction at a time: the invariants of its effects, what an answer of the
  network changes, the whole life of a transaction as the components see it, and two interleavings in
  which one transaction replaces the state of another.
\<close>

section \<open>Invariants of the effects\<close>

definition live :: "watch \<Rightarrow> bool" where
  "live w \<longleftrightarrow> \<not> w_cancelled w \<and> \<not> w_finished w"

definition armed :: "clearing \<Rightarrow> bool" where
  "armed t \<longleftrightarrow> \<not> cl_cancelled t \<and> \<not> cl_fired t"

definition watchOf :: "monitor \<Rightarrow> watch \<Rightarrow> bool" where
  "watchOf m w \<longleftrightarrow> (\<exists>p. m_deps1 m = Some (p, Some (w_id w), Some (w_tx w), Some (w_version w), Some (w_collateral w)))"

definition clearingOf :: "monitor \<Rightarrow> clearing \<Rightarrow> bool" where
  "clearingOf m t \<longleftrightarrow> (\<exists>s. m_deps2 m = Some (clearDeps s) \<and> state_type s \<in> {''confirmed'', ''failed'', ''cancelled''} \<and>
     tx_version s = cl_version t \<and> tx_collateral s = cl_collateral t)"

definition watch_inv :: "monitor \<Rightarrow> bool" where
  "watch_inv m \<longleftrightarrow>
     (\<forall>i < length (m_watches m). live (m_watches m ! i) \<longrightarrow> m_cleanup1 m = Some i) \<and>
     (\<forall>i < length (m_watches m). w_finished (m_watches m ! i) \<longrightarrow>
        \<not> w_cancelled (m_watches m ! i) \<and> w_stage (m_watches m ! i) \<noteq> AwaitingReceipt) \<and>
     (\<forall>i < length (m_watches m). w_stage (m_watches m ! i) = AwaitingReason \<longrightarrow> w_finished (m_watches m ! i)) \<and>
     (\<forall>i. m_cleanup1 m = Some i \<longrightarrow> i < length (m_watches m) \<and> watchOf m (m_watches m ! i) \<and>
        \<not> w_cancelled (m_watches m ! i))"

definition clear_inv :: "monitor \<Rightarrow> bool" where
  "clear_inv m \<longleftrightarrow>
     (\<forall>i < length (m_clearings m). armed (m_clearings m ! i) \<longrightarrow> m_cleanup2 m = Some i) \<and>
     (\<forall>i. m_cleanup2 m = Some i \<longrightarrow> i < length (m_clearings m) \<and> clearingOf m (m_clearings m ! i))"

text \<open>Only the fields of the respective effect matter.\<close>

lemma watch_inv_cong:
  "m_watches m = m_watches m' \<Longrightarrow> m_cleanup1 m = m_cleanup1 m' \<Longrightarrow> m_deps1 m = m_deps1 m' \<Longrightarrow> watch_inv m = watch_inv m'"
  by (simp add: watch_inv_def watchOf_def)

lemma clear_inv_cong:
  "m_clearings m = m_clearings m' \<Longrightarrow> m_cleanup2 m = m_cleanup2 m' \<Longrightarrow> m_deps2 m = m_deps2 m' \<Longrightarrow> clear_inv m = clear_inv m'"
  by (simp add: clear_inv_def clearingOf_def)

lemma setTransactionState_fields [simp]:
  "m_watches (setTransactionState s m) = m_watches m" "m_cleanup1 (setTransactionState s m) = m_cleanup1 m"
  "m_deps1 (setTransactionState s m) = m_deps1 m" "m_clearings (setTransactionState s m) = m_clearings m"
  "m_cleanup2 (setTransactionState s m) = m_cleanup2 m" "m_deps2 (setTransactionState s m) = m_deps2 m"
  "m_sends (setTransactionState s m) = m_sends m" "m_state (setTransactionState s m) = s"
  by (simp_all add: setTransactionState_def)

subsection \<open>The parts of a render\<close>

lemma watchCleanup_fields [simp]:
  "m_clearings (watchCleanup m) = m_clearings m" "m_cleanup2 (watchCleanup m) = m_cleanup2 m"
  "m_deps2 (watchCleanup m) = m_deps2 m" "m_cleanup1 (watchCleanup m) = m_cleanup1 m"
  "m_deps1 (watchCleanup m) = m_deps1 m" "length (m_watches (watchCleanup m)) = length (m_watches m)"
  by (simp_all add: watchCleanup_def Let_def split: option.splits)

lemma clearCleanup_fields [simp]:
  "m_watches (clearCleanup m) = m_watches m" "m_cleanup1 (clearCleanup m) = m_cleanup1 m"
  "m_deps1 (clearCleanup m) = m_deps1 m" "m_state (clearCleanup m) = m_state m"
  "m_cleanup2 (clearCleanup m) = m_cleanup2 m" "m_deps2 (clearCleanup m) = m_deps2 m"
  "length (m_clearings (clearCleanup m)) = length (m_clearings m)"
  by (simp_all add: clearCleanup_def split: option.splits)

lemma watchEffect_fields [simp]:
  "m_clearings (watchEffect s m) = m_clearings m" "m_cleanup2 (watchEffect s m) = m_cleanup2 m"
  "m_deps2 (watchEffect s m) = m_deps2 m" "m_state (watchEffect s m) = m_state m" "m_deps1 (watchEffect s m) = m_deps1 m"
  by (simp_all add: watchEffect_def split: option.splits prod.splits)

lemma clearEffect_fields [simp]:
  "m_watches (clearEffect s m) = m_watches m" "m_cleanup1 (clearEffect s m) = m_cleanup1 m"
  "m_deps1 (clearEffect s m) = m_deps1 m" "m_deps2 (clearEffect s m) = m_deps2 m"
  by (simp_all add: clearEffect_def Let_def)

text \<open>After its clean-up no watch is live, and the effect starts at most one.\<close>

lemma watch_invD:
  assumes "watch_inv m" and "i < length (m_watches m)"
  shows "live (m_watches m ! i) \<Longrightarrow> m_cleanup1 m = Some i"
    and "w_finished (m_watches m ! i) \<Longrightarrow> \<not> w_cancelled (m_watches m ! i)"
    and "w_finished (m_watches m ! i) \<Longrightarrow> w_stage (m_watches m ! i) \<noteq> AwaitingReceipt"
    and "w_stage (m_watches m ! i) = AwaitingReason \<Longrightarrow> w_finished (m_watches m ! i)"
  using assms unfolding watch_inv_def by blast+

lemma watch_inv_cleanupD:
  assumes "watch_inv m" and "m_cleanup1 m = Some i"
  shows "i < length (m_watches m)" and "watchOf m (m_watches m ! i)" and "\<not> w_cancelled (m_watches m ! i)"
  using assms unfolding watch_inv_def by blast+

lemma watchCleanup_nth:
  assumes "i < length (m_watches m)"
  shows "m_watches (watchCleanup m) ! i =
    (if m_cleanup1 m = Some i \<and> \<not> w_finished (m_watches m ! i) then (m_watches m ! i)\<lparr>w_cancelled := True\<rparr> else m_watches m ! i)"
  using assms by (cases "m_cleanup1 m = Some i") (auto simp: watchCleanup_def Let_def split: option.splits)

lemma watchCleanup_none_live:
  assumes "watch_inv m" and "i < length (m_watches m)"
  shows "\<not> live (m_watches (watchCleanup m) ! i)"
  using watch_invD(1) [OF assms] by (auto simp: watchCleanup_nth [OF assms(2)] live_def)

lemma watchCleanup_flags:
  assumes "watch_inv m" and "i < length (m_watches m)"
  shows "w_finished (m_watches (watchCleanup m) ! i) \<longrightarrow>
        \<not> w_cancelled (m_watches (watchCleanup m) ! i) \<and> w_stage (m_watches (watchCleanup m) ! i) \<noteq> AwaitingReceipt"
    and "w_stage (m_watches (watchCleanup m) ! i) = AwaitingReason \<longrightarrow> w_finished (m_watches (watchCleanup m) ! i)"
  using watch_invD(2-4) [OF assms] by (auto simp: watchCleanup_nth [OF assms(2)])

lemma watchEffect_watches:
  "(m_cleanup1 (watchEffect s m) = None \<and> m_watches (watchEffect s m) = m_watches m) \<or>
   (\<exists>w. m_cleanup1 (watchEffect s m) = Some (length (m_watches m)) \<and> m_watches (watchEffect s m) = m_watches m @ [w] \<and>
      \<not> w_cancelled w \<and> \<not> w_finished w \<and> w_stage w = AwaitingReceipt \<and>
      watchDeps p s = (p, Some (w_id w), Some (w_tx w), Some (w_version w), Some (w_collateral w)))"
  by (auto simp: watchEffect_def watchDeps_def split: option.splits prod.splits)

lemma watch_inv_restart:
  assumes inv: "watch_inv m" and m': "m_watches m' = m_watches (watchEffect s (watchCleanup m))"
    "m_cleanup1 m' = m_cleanup1 (watchEffect s (watchCleanup m))" "m_deps1 m' = Some (watchDeps p s)"
  shows "watch_inv m'"
proof -
  let ?W = "m_watches (watchCleanup m)"
  have old: "\<not> live (?W ! i)" "w_finished (?W ! i) \<Longrightarrow> \<not> w_cancelled (?W ! i) \<and> w_stage (?W ! i) \<noteq> AwaitingReceipt"
    "w_stage (?W ! i) = AwaitingReason \<Longrightarrow> w_finished (?W ! i)" if "i < length ?W" for i
    using that watchCleanup_none_live [OF inv] watchCleanup_flags [OF inv] by simp_all
  from watchEffect_watches [of s "watchCleanup m" p] show ?thesis
  proof (elim disjE conjE exE)
    assume "m_cleanup1 (watchEffect s (watchCleanup m)) = None" "m_watches (watchEffect s (watchCleanup m)) = ?W"
    with old m' show ?thesis by (simp add: watch_inv_def)
  next
    fix w
    assume "m_cleanup1 (watchEffect s (watchCleanup m)) = Some (length ?W)" "m_watches (watchEffect s (watchCleanup m)) = ?W @ [w]"
      "\<not> w_cancelled w" "\<not> w_finished w" "w_stage w = AwaitingReceipt"
      "watchDeps p s = (p, Some (w_id w), Some (w_tx w), Some (w_version w), Some (w_collateral w))"
    with old m' show ?thesis unfolding watch_inv_def watchOf_def by (simp add: nth_append less_Suc_eq)
  qed
qed

lemma clear_invD:
  assumes "clear_inv m"
  shows "i < length (m_clearings m) \<Longrightarrow> armed (m_clearings m ! i) \<Longrightarrow> m_cleanup2 m = Some i"
    and "m_cleanup2 m = Some i \<Longrightarrow> i < length (m_clearings m)"
    and "m_cleanup2 m = Some i \<Longrightarrow> clearingOf m (m_clearings m ! i)"
  using assms unfolding clear_inv_def by blast+

lemma clearCleanup_none_armed:
  assumes "clear_inv m" and "i < length (m_clearings m)"
  shows "\<not> armed (m_clearings (clearCleanup m) ! i)"
proof (cases "m_cleanup2 m = Some i")
  case True
  with assms(2) show ?thesis by (simp add: clearCleanup_def armed_def)
next
  case False
  then have "m_clearings (clearCleanup m) ! i = m_clearings m ! i"
    by (auto simp: clearCleanup_def split: option.splits)
  with False clear_invD(1) [OF assms] show ?thesis by auto
qed

lemma clearEffect_clearings:
  "(m_cleanup2 (clearEffect s m) = None \<and> m_clearings (clearEffect s m) = m_clearings m) \<or>
   (\<exists>t. m_cleanup2 (clearEffect s m) = Some (length (m_clearings m)) \<and> m_clearings (clearEffect s m) = m_clearings m @ [t] \<and>
      state_type s \<in> {''confirmed'', ''failed'', ''cancelled''} \<and> tx_version s = cl_version t \<and> tx_collateral s = cl_collateral t)"
  by (simp add: clearEffect_def Let_def)

lemma clear_inv_restart:
  assumes inv: "clear_inv m" and m': "m_clearings m' = m_clearings (clearEffect s (clearCleanup m))"
    "m_cleanup2 m' = m_cleanup2 (clearEffect s (clearCleanup m))" "m_deps2 m' = Some (clearDeps s)"
  shows "clear_inv m'"
proof -
  let ?C = "m_clearings (clearCleanup m)"
  have old: "\<not> armed (?C ! i)" if "i < length (?C)" for i
    using that clearCleanup_none_armed [OF inv] by simp
  from clearEffect_clearings [of s "clearCleanup m"] show ?thesis
  proof (elim disjE conjE exE)
    assume "m_cleanup2 (clearEffect s (clearCleanup m)) = None" "m_clearings (clearEffect s (clearCleanup m)) = ?C"
    with old m' show ?thesis by (simp add: clear_inv_def)
  next
    fix t
    assume "m_cleanup2 (clearEffect s (clearCleanup m)) = Some (length (?C))" "m_clearings (clearEffect s (clearCleanup m)) = ?C @ [t]"
      "state_type s \<in> {''confirmed'', ''failed'', ''cancelled''}" "tx_version s = cl_version t" "tx_collateral s = cl_collateral t"
    with old m' show ?thesis unfolding clear_inv_def clearingOf_def by (auto simp: nth_append less_Suc_eq)
  qed
qed

lemma clear_cong:
  "m_clearings m = m_clearings n \<Longrightarrow> m_cleanup2 m = m_cleanup2 n \<Longrightarrow> m_clearings (clearCleanup m) = m_clearings (clearCleanup n)"
  "m_clearings m = m_clearings n \<Longrightarrow> m_clearings (clearEffect s m) = m_clearings (clearEffect s n)"
  "m_clearings m = m_clearings n \<Longrightarrow> m_cleanup2 (clearEffect s m) = m_cleanup2 (clearEffect s n)"
  by (simp_all add: clearCleanup_def clearEffect_def Let_def split: option.splits)

lemma renderMonitor_watches:
  "m_watches (renderMonitor p m) = (if m_deps1 m = Some (watchDeps p (m_state m)) then m_watches m
     else m_watches (watchEffect (m_state m) (watchCleanup m)))"
  "m_cleanup1 (renderMonitor p m) = (if m_deps1 m = Some (watchDeps p (m_state m)) then m_cleanup1 m
     else m_cleanup1 (watchEffect (m_state m) (watchCleanup m)))"
  "m_deps1 (renderMonitor p m) = Some (watchDeps p (m_state m))"
  by (auto simp: renderMonitor_def Let_def watchEffect_def split: option.splits prod.splits)

lemma renderMonitor_clearings:
  "m_clearings (renderMonitor p m) = (if m_deps2 m = Some (clearDeps (m_state m)) then m_clearings m
     else m_clearings (clearEffect (m_state m) (clearCleanup m)))"
  "m_cleanup2 (renderMonitor p m) = (if m_deps2 m = Some (clearDeps (m_state m)) then m_cleanup2 m
     else m_cleanup2 (clearEffect (m_state m) (clearCleanup m)))"
  "m_deps2 (renderMonitor p m) = Some (clearDeps (m_state m))"
  by (auto simp: renderMonitor_def Let_def intro!: clear_cong)

lemma watch_inv_render: "watch_inv m \<Longrightarrow> watch_inv (renderMonitor p m)"
proof (cases "m_deps1 m = Some (watchDeps p (m_state m))")
  case True
  assume "watch_inv m"
  with True show ?thesis by (subst watch_inv_cong [of _ m]) (simp_all add: renderMonitor_watches)
next
  case False
  assume "watch_inv m"
  with False show ?thesis by (auto intro: watch_inv_restart simp: renderMonitor_watches)
qed

lemma clear_inv_render: "clear_inv m \<Longrightarrow> clear_inv (renderMonitor p m)"
proof (cases "m_deps2 m = Some (clearDeps (m_state m))")
  case True
  assume "clear_inv m"
  with True show ?thesis by (subst clear_inv_cong [of _ m]) (simp_all add: renderMonitor_clearings)
next
  case False
  assume "clear_inv m"
  with False show ?thesis by (auto intro: clear_inv_restart simp: renderMonitor_clearings)
qed

subsection \<open>Answers and timers\<close>

text \<open>A watch that is replaced by one that is neither live nor cancelled, or was cancelled before.\<close>

lemma watch_inv_update:
  assumes inv: "watch_inv m" and i: "i < length (m_watches m)" and w: "w = m_watches m ! i"
    and m': "m_watches m' = (m_watches m)[i := w']" "m_cleanup1 m' = m_cleanup1 m" "m_deps1 m' = m_deps1 m"
    and w': "w_id w' = w_id w" "w_tx w' = w_tx w" "w_version w' = w_version w" "w_collateral w' = w_collateral w"
      "w_cancelled w' = w_cancelled w" "\<not> live w'" "w_finished w' \<Longrightarrow> \<not> w_cancelled w \<and> w_stage w' \<noteq> AwaitingReceipt"
      "w_stage w' = AwaitingReason \<Longrightarrow> w_finished w'"
  shows "watch_inv m'"
proof -
  have "j < length (m_watches m') \<and> watchOf m' (m_watches m' ! j) \<and> \<not> w_cancelled (m_watches m' ! j)"
    if "m_cleanup1 m = Some j" for j
    using watch_inv_cleanupD [OF inv that] w m'(1,3) w'(1-5) unfolding watchOf_def by (cases "j = i") simp_all
  moreover have "live (m_watches m' ! j) \<Longrightarrow> m_cleanup1 m = Some j"
    "w_finished (m_watches m' ! j) \<Longrightarrow> \<not> w_cancelled (m_watches m' ! j) \<and> w_stage (m_watches m' ! j) \<noteq> AwaitingReceipt"
    "w_stage (m_watches m' ! j) = AwaitingReason \<Longrightarrow> w_finished (m_watches m' ! j)"
    if "j < length (m_watches m')" for j
    using watch_invD [OF inv, of j] that i w m'(1) w' by (cases "j = i"; auto)+
  ultimately show ?thesis unfolding watch_inv_def m'(2) by blast
qed

lemma clear_inv_fires:
  assumes inv: "clear_inv m" and i: "i < length (m_clearings m)"
    and m': "m_clearings m' = (m_clearings m)[i := (m_clearings m ! i)\<lparr>cl_fired := True\<rparr>]" "m_cleanup2 m' = m_cleanup2 m"
      "m_deps2 m' = m_deps2 m"
  shows "clear_inv m'"
proof -
  have "j < length (m_clearings m') \<and> clearingOf m' (m_clearings m' ! j)" if "m_cleanup2 m = Some j" for j
    using clear_invD(2,3) [OF inv that] m'(1,3) unfolding clearingOf_def by (cases "j = i") simp_all
  moreover have "armed (m_clearings m' ! j) \<Longrightarrow> m_cleanup2 m = Some j" if "j < length (m_clearings m')" for j
    using clear_invD(1) [OF inv, of j] that i m'(1) by (cases "j = i") (auto simp: armed_def)
  ultimately show ?thesis unfolding clear_inv_def m'(2) by blast
qed

definition afterReceipt :: "sentError + 'd receipt \<Rightarrow> watch \<Rightarrow> watch" where
  "afterReceipt outcome w =
     (if w_cancelled w then w\<lparr>w_stage := Returned\<rparr>
      else w\<lparr>w_finished := True, w_stage := (case outcome of Inr (FailedReceipt _) \<Rightarrow> AwaitingReason | _ \<Rightarrow> Returned)\<rparr>)"

lemma watchReceipt_fields:
  "m_clearings (watchReceipt i outcome m) = m_clearings m" "m_cleanup2 (watchReceipt i outcome m) = m_cleanup2 m"
  "m_deps2 (watchReceipt i outcome m) = m_deps2 m" "m_cleanup1 (watchReceipt i outcome m) = m_cleanup1 m"
  "m_deps1 (watchReceipt i outcome m) = m_deps1 m"
  "m_watches (watchReceipt i outcome m) = (m_watches m)[i := afterReceipt outcome (m_watches m ! i)]"
  by (simp_all add: watchReceipt_def afterReceipt_def Let_def split: sum.splits receipt.splits sentError.splits)

lemma watch_inv_receipt:
  assumes "watch_inv m" and "i < length (m_watches m)" and "w_stage (m_watches m ! i) = AwaitingReceipt"
  shows "watch_inv (watchReceipt i outcome m)"
proof (rule watch_inv_update [OF assms(1,2) refl watchReceipt_fields(6,4,5)])
  have "w_cancelled (m_watches m ! i) \<Longrightarrow> \<not> w_finished (m_watches m ! i)"
    using watch_invD(2) [OF assms(1,2)] by blast
  then show "w_finished (afterReceipt outcome (m_watches m ! i)) \<Longrightarrow>
      \<not> w_cancelled (m_watches m ! i) \<and> w_stage (afterReceipt outcome (m_watches m ! i)) \<noteq> AwaitingReceipt"
    by (auto simp: afterReceipt_def split: if_splits sum.splits receipt.splits)
qed (auto simp: afterReceipt_def live_def split: if_splits)

lemma step_invariants:
  assumes "monitor_step m m'" and "watch_inv m" and "clear_inv m"
  shows "watch_inv m' \<and> clear_inv m'"
  using assms
proof (induction rule: monitor_step.induct)
  case (Send m i version coll)
  then show ?case
    using watch_inv_cong [of "sendTransaction i version coll m" m] clear_inv_cong [of "sendTransaction i version coll m" m]
    by (simp add: sendTransaction_def)
next
  case (SendSettles i m outcome)
  then show ?case
    using watch_inv_cong [of "sendSettles i outcome m" m] clear_inv_cong [of "sendSettles i outcome m" m]
    by (simp add: sendSettles_def Let_def)
next
  case (RenderMonitor m provider)
  then show ?case by (simp add: watch_inv_render clear_inv_render)
next
  case (Receipt i m outcome)
  then show ?case
    using clear_inv_cong [of "watchReceipt i outcome m" m] by (simp add: watch_inv_receipt watchReceipt_fields)
next
  case (Reason i m reason)
  let ?m' = "watchReason i reason m" and ?w = "m_watches m ! i"
  let ?w' = "?w\<lparr>w_stage := Returned\<rparr>"
  have fields: "m_clearings ?m' = m_clearings m" "m_cleanup2 ?m' = m_cleanup2 m" "m_deps2 ?m' = m_deps2 m"
    "m_cleanup1 ?m' = m_cleanup1 m" "m_deps1 ?m' = m_deps1 m" "m_watches ?m' = (m_watches m)[i := ?w']"
    by (simp_all add: watchReason_def Let_def)
  have fin: "w_finished ?w" "\<not> w_cancelled ?w" using watch_invD [of m i] Reason by blast+
  show ?case
    using clear_inv_cong [of ?m' m] watch_inv_update [of m i ?w ?m' ?w'] Reason fields fin by (simp add: live_def)
next
  case (Fires i m)
  let ?m' = "clearFires i m"
  have fields: "m_watches ?m' = m_watches m" "m_cleanup1 ?m' = m_cleanup1 m" "m_deps1 ?m' = m_deps1 m"
    "m_cleanup2 ?m' = m_cleanup2 m" "m_deps2 ?m' = m_deps2 m"
    "m_clearings ?m' = (m_clearings m)[i := (m_clearings m ! i)\<lparr>cl_fired := True\<rparr>]"
    by (simp_all add: clearFires_def Let_def)
  then show ?case
    using watch_inv_cong [of ?m' m] clear_inv_fires [of m i ?m'] Fires by simp
qed

lemma monitor_invariants: "monitor_reachable m \<Longrightarrow> watch_inv m \<and> clear_inv m"
proof (induction rule: monitor_reachable.induct)
  case Start
  show ?case by (simp add: watch_inv_def clear_inv_def TransactionProvider_def)
next
  case (Step m m')
  then show ?case using step_invariants by blast
qed

section \<open>What an answer changes\<close>

text \<open>The state that the receipt of a watched transaction leads to; a reverted one first asks for the reason.\<close>

definition receiptState :: "sentError + 'd receipt \<Rightarrow> watch \<Rightarrow> transactionState option" where
  "receiptState outcome w =
     (case outcome of
        Inr (SuccessfulReceipt _ _) \<Rightarrow> Some (TxConfirmedOneShot (w_id w) (w_version w) (w_collateral w))
      | Inr (FailedReceipt _) \<Rightarrow> None
      | Inl (TransactionCancelledError _ _) \<Rightarrow> Some (TxCancelled (w_id w) (w_version w) (w_collateral w))
      | _ \<Rightarrow> Some (TxFailed (w_id w) ''Failed'' (w_version w) (w_collateral w)))"


text \<open>The reason of a reverted transaction is not guarded in this way: whatever transaction the state shows by
  then, it is replaced by the failure of the reverted one.\<close>

theorem revert_reason_overwrites:
  assumes "monitor_reachable m" and "i < length (m_watches m)" and "w_stage (m_watches m ! i) = AwaitingReason"
  shows "m_state (watchReason i reason m) =
    TxFailed (w_id (m_watches m ! i)) (if truthyString reason then ''Reverted: '' @ the reason else ''Failed'')
      (w_version (m_watches m ! i)) (w_collateral (m_watches m ! i))"
proof -
  note inv = monitor_invariants [OF assms(1), THEN conjunct1]
  have "\<not> w_cancelled (m_watches m ! i)" using watch_invD(2,4) [OF inv assms(2)] assms(3) by blast
  then show ?thesis by (simp add: watchReason_def Let_def)
qed

text \<open>A transaction that is sent while another one is watched (of another collateral, since the button of the same
  one is disabled) disappears from the state: the clean-up of the watch resets it to idle.\<close>

theorem second_send_hidden:
  assumes "monitor_reachable m" and "m_cleanup1 m = Some j" and "live (m_watches m ! j)"
  shows "m_state (renderMonitor provider (sendTransaction i version coll m)) =
    TxIdle (w_version (m_watches m ! j)) (w_collateral (m_watches m ! j))"
proof -
  note inv = monitor_invariants [OF assms(1), THEN conjunct1]
  from watch_inv_cleanupD(2) [OF inv assms(2)]
  have "m_deps1 m \<noteq> Some (watchDeps provider (TxWaitingForApproval i version coll))"
    by (auto simp: watchOf_def watchDeps_def state_tx_def)
  with assms(2,3) show ?thesis
    by (simp add: renderMonitor_def sendTransaction_def watchCleanup_def clearEffect_def Let_def live_def)
qed

section \<open>The life of a transaction\<close>

text \<open>The monitor at rest: an idle state that its effects have seen.\<close>

definition restsAt :: "nat \<Rightarrow> monitor \<Rightarrow> bool" where
  "restsAt p m \<longleftrightarrow> is_TxIdle (m_state m) \<and> m_deps1 m = Some (watchDeps p (m_state m)) \<and>
     m_deps2 m = Some (clearDeps (m_state m)) \<and> m_cleanup1 m = None \<and> m_cleanup2 m = None"

text \<open>The user sends, the wallet answers with a transaction, the network with an outcome (and the reason of a
  revert), and the timer fires; the monitor renders after each of them, and twice after the outcome.\<close>

definition confirmTransaction ::
    "nat \<Rightarrow> string \<Rightarrow> string \<Rightarrow> string \<Rightarrow> nat \<Rightarrow> sentError + 'd receipt \<Rightarrow> string option \<Rightarrow> monitor \<Rightarrow> monitor list" where
  "confirmTransaction p i v c tx outcome reason m =
     (let m1 = renderMonitor p (sendTransaction i v c m);
          m2 = renderMonitor p (sendSettles (length (m_sends m)) (Inr tx) m1);
          m3 = watchReceipt (length (m_watches m)) outcome m2;
          m4 = (case outcome of Inr (FailedReceipt _) \<Rightarrow> watchReason (length (m_watches m)) reason m3 | _ \<Rightarrow> m3);
          m5 = renderMonitor p (renderMonitor p m4);
          m6 = renderMonitor p (clearFires (length (m_clearings m)) m5)
      in [m1, m2, m4, m5, m6])"

definition outcomeState :: "string \<Rightarrow> string \<Rightarrow> string \<Rightarrow> sentError + 'd receipt \<Rightarrow> string option \<Rightarrow> transactionState" where
  "outcomeState i v c outcome reason =
     (case outcome of
        Inr (SuccessfulReceipt _ _) \<Rightarrow> TxConfirmedOneShot i v c
      | Inr (FailedReceipt _) \<Rightarrow> TxFailed i (if truthyString reason then ''Reverted: '' @ the reason else ''Failed'') v c
      | Inl (TransactionCancelledError _ _) \<Rightarrow> TxCancelled i v c
      | _ \<Rightarrow> TxFailed i ''Failed'' v c)"

definition succeeded :: "sentError + 'd receipt \<Rightarrow> bool" where
  "succeeded outcome \<longleftrightarrow> (case outcome of Inr (SuccessfulReceipt _ _) \<Rightarrow> True | _ \<Rightarrow> False)"

lemma outcomeState_cases:
  "succeeded outcome \<Longrightarrow> outcomeState i v c outcome reason = TxConfirmedOneShot i v c"
  "\<not> succeeded outcome \<Longrightarrow> (\<exists>e. outcomeState i v c outcome reason = TxFailed i e v c) \<or>
     outcomeState i v c outcome reason = TxCancelled i v c"
  by (auto simp: succeeded_def outcomeState_def split: sum.splits receipt.splits sentError.splits)

lemma renderMonitor_state:
  "m_state (renderMonitor p m) =
     (let s = m_state m
      in if m_deps2 m \<noteq> Some (clearDeps s) \<and> state_type s = ''confirmedOneShot'' \<and> tx_id s \<noteq> '''' \<and>
           tx_version s \<noteq> '''' \<and> tx_collateral s \<noteq> ''''
         then TxConfirmed (tx_id s) (tx_version s) (tx_collateral s)
         else if m_deps1 m \<noteq> Some (watchDeps p s) then m_state (watchCleanup m) else s)"
  by (simp add: renderMonitor_def clearEffect_def Let_def)

lemmas render_eqs = renderMonitor_state renderMonitor_watches renderMonitor_clearings
lemmas deps_defs = watchDeps_def clearDeps_def state_id_def state_tx_def nonEmpty_def Let_def

text \<open>The render after an outcome: a confirmation is shown once and then stays, and the timer starts.\<close>

lemma outcome_rendered:
  assumes "m_state m = s" "s \<in> {TxFailed i e v c, TxCancelled i v c, TxConfirmed i v c}"
    "m_deps1 m = Some (watchDeps p (TxWaitingForConfirmation i tx v c)) \<and> m_cleanup1 m = Some k \<and> w_finished (m_watches m ! k) \<or>
     m_deps1 m = Some (watchDeps p s) \<and> m_cleanup1 m = None"
    "m_deps2 m \<noteq> Some (clearDeps s)" "m_cleanup2 m = None" "i \<noteq> ''''" "v \<noteq> ''''" "c \<noteq> ''''"
  defines "m' \<equiv> renderMonitor p m"
  shows "m_state m' = s" "m_cleanup1 m' = None" "m_deps1 m' = Some (watchDeps p s)" "m_cleanup2 m' = Some (length (m_clearings m))"
    "m_clearings m' = m_clearings m @ [\<lparr>cl_version = v, cl_collateral = c, cl_cancelled = False, cl_fired = False\<rparr>]"
    "m_deps2 m' = Some (clearDeps s)"
  using assms
  by (auto simp: render_eqs deps_defs watchCleanup_def watchEffect_def clearCleanup_def clearEffect_def)

lemma oneShot_rendered:
  assumes "m_state m = TxConfirmedOneShot i v c" "m_deps1 m = Some (watchDeps p (TxWaitingForConfirmation i tx v c))"
    "m_deps2 m = Some (clearDeps (TxWaitingForConfirmation i tx v c))" "m_cleanup1 m = Some k" "w_finished (m_watches m ! k)"
    "m_cleanup2 m = None" "i \<noteq> ''''" "v \<noteq> ''''" "c \<noteq> ''''"
  defines "m' \<equiv> renderMonitor p m"
  shows "m_state m' = TxConfirmed i v c" "m_cleanup1 m' = None" "m_deps1 m' = Some (watchDeps p (TxConfirmed i v c))"
    "m_cleanup2 m' = None" "m_clearings m' = m_clearings m" "m_deps2 m' \<noteq> Some (clearDeps (TxConfirmed i v c))"
  using assms
  by (simp_all add: render_eqs deps_defs watchCleanup_def watchEffect_def clearCleanup_def clearEffect_def)

lemma render_unchanged:
  assumes "m_deps1 m = Some (watchDeps p (m_state m))" "m_deps2 m = Some (clearDeps (m_state m))"
  shows "renderMonitor p m = m"
  using assms by (simp add: renderMonitor_def)

text \<open>The clearing timer fires and the monitor is at rest again.\<close>

lemma cleared_rests:
  assumes "m_cleanup1 m = None" "m_deps1 m = Some (watchDeps p (TxConfirmed i v c))"
    "m_cleanup2 m = Some k" "k < length (m_clearings m)"
    "m_clearings m ! k = \<lparr>cl_version = v, cl_collateral = c, cl_cancelled = False, cl_fired = False\<rparr>"
    "m_deps2 m = Some (clearDeps s)" "\<not> is_TxIdle s"
  shows "restsAt p (renderMonitor p (clearFires k m)) \<and> m_state (renderMonitor p (clearFires k m)) = TxIdle v c"
  using assms by (cases s) (simp_all add: restsAt_def clearFires_def render_eqs deps_defs watchCleanup_def watchEffect_def clearCleanup_def clearEffect_def)

lemma sent_rendered:
  fixes tx :: nat
  assumes "restsAt p m" and "i \<noteq> ''''" "v \<noteq> ''''" "c \<noteq> ''''"
  defines "m1 \<equiv> renderMonitor p (sendTransaction i v c m)"
  defines "m2 \<equiv> renderMonitor p (sendSettles (length (m_sends m)) (Inr tx) m1)"
  shows "m_state m1 = TxWaitingForApproval i v c" and "m_state m2 = TxWaitingForConfirmation i tx v c"
    and "m_deps1 m2 = Some (watchDeps p (TxWaitingForConfirmation i tx v c))"
    and "m_deps2 m2 = Some (clearDeps (TxWaitingForConfirmation i tx v c))"
    and "m_cleanup1 m2 = Some (length (m_watches m))" and "m_cleanup2 m2 = None" and "m_clearings m2 = m_clearings m"
    and "m_watches m2 = m_watches m @ [\<lparr>w_id = i, w_tx = tx, w_version = v, w_collateral = c, w_cancelled = False,
      w_finished = False, w_stage = AwaitingReceipt\<rparr>]"
proof -
  let ?n = "sendTransaction i v c m" and ?n1 = "sendSettles (length (m_sends m)) (Inr tx) m1"
  note effects = watchCleanup_def watchEffect_def clearCleanup_def clearEffect_def
  have n: "m_state ?n = TxWaitingForApproval i v c" "m_cleanup1 ?n = None" "m_cleanup2 ?n = None"
    "m_watches ?n = m_watches m" "m_clearings ?n = m_clearings m"
    "m_deps1 ?n = Some (watchDeps p (m_state m))" "m_deps2 ?n = Some (clearDeps (m_state m))" "is_TxIdle (m_state m)"
    using assms(1) by (simp_all add: sendTransaction_def restsAt_def)
  have d: "watchDeps p (m_state m) \<noteq> watchDeps p (TxWaitingForApproval i v c)"
    "clearDeps (m_state m) \<noteq> clearDeps (TxWaitingForApproval i v c)"
    using n(8) by (cases "m_state m"; simp add: deps_defs)+
  have s: "m_sends m1 ! length (m_sends m) = \<lparr>ps_id = i, ps_version = v, ps_collateral = c, ps_settled = False\<rparr>"
    by (simp add: m1_def renderMonitor_def sendTransaction_def effects Let_def split: option.splits)
  have m1: "m_state m1 = TxWaitingForApproval i v c" "m_cleanup1 m1 = None" "m_cleanup2 m1 = None" "m_watches m1 = m_watches m"
    "m_clearings m1 = m_clearings m" "m_deps1 m1 = Some (watchDeps p (TxWaitingForApproval i v c))"
    "m_deps2 m1 = Some (clearDeps (TxWaitingForApproval i v c))"
    using n d assms(2-4) unfolding m1_def by (simp_all add: render_eqs effects deps_defs)
  have n1: "m_state ?n1 = TxWaitingForConfirmation i tx v c" "m_cleanup1 ?n1 = None" "m_cleanup2 ?n1 = None"
    "m_watches ?n1 = m_watches m" "m_clearings ?n1 = m_clearings m" "m_deps1 ?n1 = Some (watchDeps p (TxWaitingForApproval i v c))"
    "m_deps2 ?n1 = Some (clearDeps (TxWaitingForApproval i v c))"
    using m1 s by (simp_all add: sendSettles_def Let_def)
  show "m_state m1 = TxWaitingForApproval i v c" by (rule m1)
  show "m_state m2 = TxWaitingForConfirmation i tx v c" "m_deps1 m2 = Some (watchDeps p (TxWaitingForConfirmation i tx v c))"
    "m_deps2 m2 = Some (clearDeps (TxWaitingForConfirmation i tx v c))" "m_cleanup1 m2 = Some (length (m_watches m))"
    "m_cleanup2 m2 = None" "m_clearings m2 = m_clearings m"
    "m_watches m2 = m_watches m @ [\<lparr>w_id = i, w_tx = tx, w_version = v, w_collateral = c, w_cancelled = False,
      w_finished = False, w_stage = AwaitingReceipt\<rparr>]"
    using n1 assms(2-4) unfolding m2_def by (simp_all add: render_eqs effects deps_defs)
qed

text \<open>The outcome of the receipt, with the reason of a revert.\<close>

lemma outcome_reached:
  fixes outcome :: "sentError + 'd receipt" and reason :: "string option"
  assumes "k < length (m_watches m)"
    and "m_watches m ! k = \<lparr>w_id = i, w_tx = tx, w_version = v, w_collateral = c, w_cancelled = False, w_finished = False,
      w_stage = AwaitingReceipt\<rparr>"
  defines "m4 \<equiv> (case outcome of Inr (FailedReceipt _) \<Rightarrow> watchReason k reason (watchReceipt k outcome m) | _ \<Rightarrow> watchReceipt k outcome m)"
  shows "m_state m4 = outcomeState i v c outcome reason" "w_finished (m_watches m4 ! k)"
    "m_deps1 m4 = m_deps1 m" "m_deps2 m4 = m_deps2 m" "m_cleanup1 m4 = m_cleanup1 m" "m_cleanup2 m4 = m_cleanup2 m"
    "m_clearings m4 = m_clearings m"
  using assms
  by (simp_all add: watchReceipt_def watchReason_def outcomeState_def Let_def split: sum.splits receipt.splits sentError.splits)

lemma confirmTransaction_states:
  assumes "restsAt p m" and "i \<noteq> ''''" "v \<noteq> ''''" "c \<noteq> ''''"
  shows "map m_state (confirmTransaction p i v c tx outcome reason m) =
      [TxWaitingForApproval i v c, TxWaitingForConfirmation i tx v c, outcomeState i v c outcome reason,
       (if succeeded outcome then TxConfirmed i v c else outcomeState i v c outcome reason), TxIdle v c] \<and>
    restsAt p (last (confirmTransaction p i v c tx outcome reason m))"
proof -
  let ?k = "length (m_watches m)" and ?j = "length (m_clearings m)" and ?s = "outcomeState i v c outcome reason"
  define m1 where "m1 = renderMonitor p (sendTransaction i v c m)"
  define m2 where "m2 = renderMonitor p (sendSettles (length (m_sends m)) (Inr tx) m1)"
  define m4 where "m4 = (case outcome of Inr (FailedReceipt _) \<Rightarrow> watchReason ?k reason (watchReceipt ?k outcome m2)
    | _ \<Rightarrow> watchReceipt ?k outcome m2)"
  define m5 where "m5 = renderMonitor p (renderMonitor p m4)"
  note m2 = sent_rendered(1) [OF assms, folded m1_def] sent_rendered(2-8) [OF assms, where tx = tx, folded m1_def, folded m2_def]
  note m4 = outcome_reached [of ?k m2 i tx v c outcome reason, folded m4_def]
  have m5: "m_state m5 = (if succeeded outcome then TxConfirmed i v c else ?s) \<and> m_cleanup1 m5 = None \<and>
    m_deps1 m5 = Some (watchDeps p (TxConfirmed i v c)) \<and> m_cleanup2 m5 = Some ?j \<and>
    m_clearings m5 = m_clearings m @ [\<lparr>cl_version = v, cl_collateral = c, cl_cancelled = False, cl_fired = False\<rparr>] \<and>
    m_deps2 m5 = Some (clearDeps (m_state m5))"
  proof (cases "succeeded outcome")
    case True
    then have "?s = TxConfirmedOneShot i v c" by (rule outcomeState_cases)
    with m4 m2 assms(2-4) have one: "m_state (renderMonitor p m4) = TxConfirmed i v c" "m_cleanup1 (renderMonitor p m4) = None"
      "m_deps1 (renderMonitor p m4) = Some (watchDeps p (TxConfirmed i v c))" "m_cleanup2 (renderMonitor p m4) = None"
      "m_clearings (renderMonitor p m4) = m_clearings m" "m_deps2 (renderMonitor p m4) \<noteq> Some (clearDeps (TxConfirmed i v c))"
      using oneShot_rendered [of m4 i v c p tx ?k] by simp_all
    show ?thesis
      using outcome_rendered [of "renderMonitor p m4" "TxConfirmed i v c" i e v c p tx ?k] one assms(2-4) True
      unfolding m5_def by simp
  next
    case False
    then obtain e where e: "?s \<in> {TxFailed i e v c, TxCancelled i v c, TxConfirmed i v c}"
      and s: "watchDeps p ?s = watchDeps p (TxConfirmed i v c)" "clearDeps ?s \<noteq> clearDeps (TxWaitingForConfirmation i tx v c)"
      using outcomeState_cases(2) [OF False, of i v c reason] by (fastforce simp: deps_defs)
    have "renderMonitor p (renderMonitor p m4) = renderMonitor p m4"
      using outcome_rendered [of m4 ?s i e v c p tx ?k] e s m4 m2 assms(2-4) by (intro render_unchanged) simp_all
    then show ?thesis
      using outcome_rendered [of m4 ?s i e v c p tx ?k] e s m4 m2 assms(2-4) False unfolding m5_def by simp
  qed
  have "restsAt p (renderMonitor p (clearFires ?j m5)) \<and> m_state (renderMonitor p (clearFires ?j m5)) = TxIdle v c"
    using m5 outcomeState_cases(2) [of outcome i v c reason] by (intro cleared_rests [where i = i and s = "m_state m5"]) auto
  then show ?thesis
    using m2 m4 m5 unfolding confirmTransaction_def Let_def m1_def [symmetric] m2_def [symmetric] m4_def [symmetric] m5_def [symmetric]
    by simp
qed


text \<open>A fresh monitor after its first render.\<close>

definition freshMonitor :: monitor where
  "freshMonitor = renderMonitor 0 TransactionProvider"

lemma freshMonitor_rests: "restsAt 0 freshMonitor"
  by (simp add: freshMonitor_def restsAt_def TransactionProvider_def renderMonitor_def watchCleanup_def watchEffect_def
      clearCleanup_def clearEffect_def deps_defs)


section \<open>The form and its transaction\<close>

definition formActions :: "string \<Rightarrow> string \<Rightarrow> transactionState list \<Rightarrow> vaultManagerAction list" where
  "formActions v c ss = concat (map (\<lambda>s. case VaultManager_transactionEffect v c s of Some (DispatchAction a) \<Rightarrow> [a] | _ \<Rightarrow> []) ss)"

definition viewEvents :: "string \<Rightarrow> string \<Rightarrow> transactionState list \<Rightarrow> vaultEvent list" where
  "viewEvents v c ss = concat (map (\<lambda>s. case VaultManager_transactionEffect v c s of Some (DispatchViewEvent e) \<Rightarrow> [e] | _ \<Rightarrow> []) ss)"

lemmas effect_defs = VaultManager_transactionEffect_def useMyTransactionState_def checkTransactionCollateral_def transactionIdMatcher_def

text \<open>A vault form follows the transaction that it sent: it is locked from the approval on; if the transaction fails or is
  cancelled it is unlocked with all its edits, and if it succeeds it stays locked, for the store's next
  update to commit the change, while its view is told once that the vault was closed or adjusted.\<close>

theorem form_follows_transaction:
  assumes "restsAt p m" and "is_prefix ''vault-'' i" and "v \<noteq> ''''" "c \<noteq> ''''"
    and "states = map m_state (confirmTransaction p i v c tx outcome reason m)"
  shows "reducer_run VaultManager_reduce (formActions v c states) form = form\<lparr>vm_changePending := succeeded outcome\<rparr> \<and>
    viewEvents v c states =
      (if succeeded outcome then [if i = ''vault-closure'' then VAULT_CLOSED else VAULT_ADJUSTED] else [])"
proof -
  have i: "i \<noteq> ''''" using assms(2) by auto
  have states: "states = [TxWaitingForApproval i v c, TxWaitingForConfirmation i tx v c, outcomeState i v c outcome reason,
       (if succeeded outcome then TxConfirmed i v c else outcomeState i v c outcome reason), TxIdle v c]"
    using confirmTransaction_states [OF assms(1) i assms(3,4)] assms(5) by blast
  note effects = formActions_def viewEvents_def effect_defs Let_def transactionIdPrefix_def reducer_dispatch_def
    VaultManager_finishChange_def
  show ?thesis
  proof (cases "succeeded outcome")
    case True
    with assms(2) show ?thesis by (simp add: states outcomeState_cases(1) effects)
  next
    case False
    from outcomeState_cases(2) [OF this, of i v c reason] assms(2) False show ?thesis
      by (auto simp: states effects)
  qed
qed

definition noVault :: userTrove where
  "noVault = \<lparr>collateral = Dec 0, debt = Dec 0, ownerAddress = ''0xa'', status = NonExistent\<rparr>"

theorem form_follows_transaction_witness:
  "reducer_run VaultManager_reduce (formActions ''v1'' ''eth'' (map m_state
     (confirmTransaction 0 ''vault-creation'' ''v1'' ''eth'' 7 (Inl (Thrown TypeError) :: sentError + unit receipt) None freshMonitor)))
     (VaultManager_init noVault) = VaultManager_init noVault"
  using form_follows_transaction [OF freshMonitor_rests _ _ _ refl, of "''vault-creation''" "''v1''" "''eth''" 7
      "Inl (Thrown TypeError) :: sentError + unit receipt" None "VaultManager_init noVault"]
  by (simp add: succeeded_def VaultManager_init_def)

section \<open>Witnesses\<close>

text \<open>The monitor while it waits for the receipt of transaction 7.\<close>

definition waitingMonitor :: monitor where
  "waitingMonitor = renderMonitor 0 (sendSettles 0 (Inr 7) (renderMonitor 0 (sendTransaction ''vault-creation'' ''v1'' ''eth'' freshMonitor)))"

lemma waitingMonitor_reachable: "monitor_reachable waitingMonitor"
proof -
  have "monitor_reachable (renderMonitor 0 (sendTransaction ''vault-creation'' ''v1'' ''eth'' freshMonitor))"
    unfolding freshMonitor_def by (rule Step [OF Step [OF Step [OF Start RenderMonitor] Send] RenderMonitor])
  moreover have "0 < length (m_sends (renderMonitor 0 (sendTransaction ''vault-creation'' ''v1'' ''eth'' freshMonitor)))"
    "\<not> ps_settled (m_sends (renderMonitor 0 (sendTransaction ''vault-creation'' ''v1'' ''eth'' freshMonitor)) ! 0)"
    by code_simp+
  ultimately show ?thesis
    unfolding waitingMonitor_def by (intro Step [OF Step [OF _ SendSettles] RenderMonitor])
qed

lemma waitingMonitor_eval:
  "m_watches waitingMonitor = [\<lparr>w_id = ''vault-creation'', w_tx = 7, w_version = ''v1'', w_collateral = ''eth'', w_cancelled = False,
     w_finished = False, w_stage = AwaitingReceipt\<rparr>]" "m_cleanup1 waitingMonitor = Some 0"
  by code_simp+


theorem second_send_hidden_witness:
  "m_state (renderMonitor 0 (sendTransaction ''redemption'' ''v1'' ''tbtc'' waitingMonitor)) = TxIdle ''v1'' ''eth''"
  using second_send_hidden [OF waitingMonitor_reachable waitingMonitor_eval(2)]
  by (simp add: waitingMonitor_eval live_def)

end
