(* ===== verification/Validation.thy ===== *)
theory Validation
  imports Trove Difference LiquityStore
begin

text \<open>
  What the front end lets the user do: \<open>validateVaultChange\<close> of
  \<open>Vault/validation/validateVaultChange.tsx\<close> and \<open>validateStabilityDepositChange\<close> of
  \<open>Stability/validation/validateStabilityDepositChange.tsx\<close> under
  \<open>packages/dev-frontend/src/components\<close>.

  A description is represented by the text it renders.  The text of an \<open>ErrorDescription\<close> is
  computed when the change is validated, that of a \<open>VaultChangeDescription\<close> when the element is
  rendered; the latter is the function of the same name.
\<close>

definition COIN :: string where
  "COIN = ''LED''"

definition apostrophe :: string where
  "apostrophe = [CHR 0x27]"

text \<open>The default precision of \<open>prettify\<close> is 2.\<close>

definition prettify2 :: "decimal \<Rightarrow> string res" where
  "prettify2 d = Decimal_prettify d 2"

definition mcrPercent :: "string res" where
  "mcrPercent = Percent_toString (new_Percent (RDecimal MINIMUM_COLLATERAL_RATIO)) 0"

definition ccrPercent :: "string res" where
  "ccrPercent = Percent_toString (new_Percent (RDecimal CRITICAL_COLLATERAL_RATIO)) 0"

section \<open>Vaults\<close>

text \<open>The properties of the parameters of a valid change: deposit, withdrawal, loan, repayment.\<close>

fun changeParams :: "troveChange \<Rightarrow> troveAdjustmentParams" where
  "changeParams (Creation p) =
     \<lparr>adjDepositCollateral = Some (depositCollateral p), adjWithdrawCollateral = None,
      adjBorrowTHUSD = Some (borrowTHUSD p), adjRepayTHUSD = None\<rparr>"
| "changeParams (Closure p) =
     \<lparr>adjDepositCollateral = None, adjWithdrawCollateral = Some (withdrawCollateral p),
      adjBorrowTHUSD = None, adjRepayTHUSD = repayTHUSD p\<rparr>"
| "changeParams (Adjustment p _) = p"
| "changeParams (InvalidCreation _ _) =
     \<lparr>adjDepositCollateral = None, adjWithdrawCollateral = None, adjBorrowTHUSD = None, adjRepayTHUSD = None\<rparr>"

definition describe1 :: "string \<Rightarrow> string res \<Rightarrow> string \<Rightarrow> string res" where
  "describe1 verb amount unit =
     bindR amount (\<lambda>a. Inr (''You will '' @ verb @ '' '' @ a @ '' '' @ unit @ ''.''))"

definition describe2 ::
    "string \<Rightarrow> string res \<Rightarrow> string \<Rightarrow> string \<Rightarrow> string res \<Rightarrow> string \<Rightarrow> string res" where
  "describe2 verb amount unit verb' amount' unit' =
     bindR amount (\<lambda>a. bindR amount' (\<lambda>b.
       Inr (''You will '' @ verb @ '' '' @ a @ '' '' @ unit @ '' and '' @ verb' @ b @ '' '' @ unit' @ ''.'')))"

definition VaultChangeDescription :: "troveAdjustmentParams \<Rightarrow> string \<Rightarrow> string res" where
  "VaultChangeDescription params symbol' =
     (case (adjDepositCollateral params, adjWithdrawCollateral params, adjBorrowTHUSD params, adjRepayTHUSD params) of
        (Some d, _, Some b, _) \<Rightarrow>
          describe2 ''deposit'' (Decimal_prettify d 6) symbol' ''receive '' (prettify2 b) COIN
      | (_, Some w, _, Some r) \<Rightarrow>
          describe2 ''pay'' (prettify2 r) COIN ''receive '' (Decimal_prettify w 6) symbol'
      | (Some d, _, _, Some r) \<Rightarrow>
          describe2 ''deposit'' (Decimal_prettify d 6) symbol' ''pay '' (prettify2 r) COIN
      | (_, Some w, Some b, _) \<Rightarrow>
          describe2 ''receive'' (Decimal_prettify w 6) symbol' '''' (prettify2 b) COIN
      | (Some d, _, _, _) \<Rightarrow> describe1 ''deposit'' (Decimal_prettify d 6) symbol'
      | (_, Some w, _, _) \<Rightarrow> describe1 ''receive'' (Decimal_prettify w 6) symbol'
      | (_, _, Some b, _) \<Rightarrow> describe1 ''receive'' (prettify2 b) COIN
      | (_, _, _, Some r) \<Rightarrow> describe1 ''pay'' (prettify2 r) COIN
      | _ \<Rightarrow> Inl TypeError)"

record selectedState =
  sel_price :: decimal
  sel_total :: trove
  sel_erc20TokenBalance :: decimal
  sel_thusdBalance :: decimal
  sel_numberOfTroves :: nat
  sel_symbol :: string

definition selectForVaultChangeValidation :: "baseState \<Rightarrow> selectedState" where
  "selectForVaultChangeValidation b =
     \<lparr>sel_price = val (price b), sel_total = val (total_trove b),
      sel_erc20TokenBalance = val (erc20TokenBalance b), sel_thusdBalance = val (thusdBalance b),
      sel_numberOfTroves = numberOfTroves b, sel_symbol = symbol b\<rparr>"

record validationContext = selectedState +
  ctx_originalVault :: trove
  ctx_resultingVault :: trove
  ctx_recoveryMode :: bool
  ctx_wouldTriggerRecoveryMode :: bool

definition balance_error :: "string \<Rightarrow> decimal \<Rightarrow> decimal \<Rightarrow> string \<Rightarrow> string option res" where
  "balance_error what amount balance suffix =
     bindR (Decimal_sub amount balance) (\<lambda>d. bindR (prettify2 d) (\<lambda>s.
       Inr (Some (''The amount you'' @ apostrophe @ ''re trying to '' @ what @
              '' exceeds your balance by '' @ s @ '' '' @ suffix @ ''.''))))"

definition validateVaultCreation :: "troveCreationParams \<Rightarrow> validationContext \<Rightarrow> string option res" where
  "validateVaultCreation params ctx =
     (if Decimal_lt (borrowTHUSD params) THUSD_MINIMUM_NET_DEBT then
        bindR (Decimal_toString THUSD_MINIMUM_NET_DEBT None)
          (\<lambda>s. Inr (Some (''You must borrow at least '' @ s @ '' '' @ COIN @ ''.'')))
      else if ctx_recoveryMode ctx \<and> \<not> Trove_isOpenableInRecoveryMode (ctx_resultingVault ctx) (sel_price ctx) then
        bindR ccrPercent (\<lambda>s. Inr (Some (''You'' @ apostrophe @ ''re not allowed to open a Vault with less than '' @ s @
          '' Collateral Ratio during recovery mode. Please increase your Vault'' @ apostrophe @ ''s Collateral Ratio.'')))
      else if \<not> ctx_recoveryMode ctx \<and> Trove_collateralRatioIsBelowMinimum (ctx_resultingVault ctx) (sel_price ctx) then
        bindR mcrPercent (\<lambda>s. Inr (Some (''Collateral ratio must be at least '' @ s @ ''.'')))
      else if \<not> ctx_recoveryMode ctx \<and> ctx_wouldTriggerRecoveryMode ctx then
        bindR ccrPercent (\<lambda>s. Inr (Some (''You'' @ apostrophe @
          ''re not allowed to open a Vault that would cause the Total Collateral Ratio to fall below '' @ s @
          ''. Please increase your Vault'' @ apostrophe @ ''s Collateral Ratio.'')))
      else if Decimal_gt (depositCollateral params) (sel_erc20TokenBalance ctx) then
        balance_error ''deposit'' (depositCollateral params) (sel_erc20TokenBalance ctx) (sel_symbol ctx)
      else Inr None)"

text \<open>The last test of \<open>validateVaultAdjustment\<close>; its message has no unit.\<close>

definition validateAdjustmentDeposit :: "troveAdjustmentParams \<Rightarrow> validationContext \<Rightarrow> string option res" where
  "validateAdjustmentDeposit params ctx =
     (case adjDepositCollateral params of
        Some d \<Rightarrow>
          if Decimal_gt d (sel_erc20TokenBalance ctx)
          then balance_error ''deposit'' d (sel_erc20TokenBalance ctx) ''''
          else Inr None
      | None \<Rightarrow> Inr None)"

definition validateVaultAdjustment :: "troveAdjustmentParams \<Rightarrow> validationContext \<Rightarrow> string option res" where
  "validateVaultAdjustment params ctx =
     (if ctx_recoveryMode ctx \<and> adjWithdrawCollateral params \<noteq> None then
        Inr (Some (''You'' @ apostrophe @ ''re not allowed to withdraw collateral during recovery mode.''))
      else if ctx_recoveryMode ctx \<and> adjBorrowTHUSD params \<noteq> None \<and>
              Trove_collateralRatioIsBelowCritical (ctx_resultingVault ctx) (sel_price ctx) then
        bindR ccrPercent (\<lambda>s. Inr (Some (''Your collateral ratio must be at least '' @ s @
          '' to borrow during recovery mode. Please improve your collateral ratio.'')))
      else if ctx_recoveryMode ctx \<and> adjBorrowTHUSD params \<noteq> None \<and>
              Decimal_lt (Trove_collateralRatio (ctx_resultingVault ctx) (sel_price ctx))
                         (Trove_collateralRatio (ctx_originalVault ctx) (sel_price ctx)) then
        Inr (Some (''You'' @ apostrophe @ ''re not allowed to decrease your collateral ratio during recovery mode.''))
      else if \<not> ctx_recoveryMode ctx \<and> Trove_collateralRatioIsBelowMinimum (ctx_resultingVault ctx) (sel_price ctx) then
        bindR mcrPercent (\<lambda>s. Inr (Some (''Collateral ratio must be at least '' @ s @ ''.'')))
      else if \<not> ctx_recoveryMode ctx \<and> ctx_wouldTriggerRecoveryMode ctx then
        bindR ccrPercent (\<lambda>s. Inr (Some (''The adjustment you'' @ apostrophe @
          ''re trying to make would cause the Total Collateral Ratio to fall below '' @ s @
          ''. Please increase your Vault'' @ apostrophe @ ''s Collateral Ratio.'')))
      else (case adjRepayTHUSD params of
              Some repay \<Rightarrow>
                if Decimal_lt (debt (ctx_resultingVault ctx)) THUSD_MINIMUM_DEBT then
                  bindR (Decimal_toString THUSD_MINIMUM_DEBT None)
                    (\<lambda>s. Inr (Some (''Total debt must be at least '' @ s @ '' '' @ COIN @ ''.'')))
                else if Decimal_gt repay (sel_thusdBalance ctx) then
                  balance_error ''repay'' repay (sel_thusdBalance ctx) COIN
                else validateAdjustmentDeposit params ctx
            | None \<Rightarrow> validateAdjustmentDeposit params ctx))"

text \<open>The last test of \<open>validateVaultClosure\<close>.\<close>

definition closure_recovery_error :: "validationContext \<Rightarrow> string option res" where
  "closure_recovery_error ctx =
     (if ctx_wouldTriggerRecoveryMode ctx then
        bindR ccrPercent (\<lambda>s. Inr (Some (''You'' @ apostrophe @
          ''re not allowed to close a Vault if it would cause the Total Collateralization Ratio to fall below '' @ s @
          ''. Please wait until the Total Collateral Ratio increases.'')))
      else Inr None)"

definition validateVaultClosure :: "troveClosureParams \<Rightarrow> validationContext \<Rightarrow> string option res" where
  "validateVaultClosure params ctx =
     (if sel_numberOfTroves ctx = 1 then
        Inr (Some (''You'' @ apostrophe @
          ''re not allowed to close your Vault when there are no other Vaults in the system.''))
      else if ctx_recoveryMode ctx then
        Inr (Some (''You'' @ apostrophe @ ''re not allowed to close your Vault during recovery mode.''))
      else (case repayTHUSD params of
              Some repay \<Rightarrow>
                if Decimal_gt repay (sel_thusdBalance ctx) then
                  bindR (Decimal_sub repay (sel_thusdBalance ctx)) (\<lambda>d. bindR (prettify2 d) (\<lambda>s.
                    Inr (Some (''You need '' @ s @ '' '' @ COIN @ '' more to close your Vault.''))))
                else closure_recovery_error ctx
            | None \<Rightarrow> closure_recovery_error ctx))"

datatype description = ErrorDescription string | ChangeDescription troveAdjustmentParams string

definition validateVaultChange ::
    "'a trove_scheme \<Rightarrow> trove \<Rightarrow> decimal \<Rightarrow> selectedState \<Rightarrow> (troveChange option \<times> description option) res" where
  "validateVaultChange originalVault adjustedVault rate st =
     bindR (Trove_whatChanged originalVault adjustedVault rate)
       (\<lambda>change'. case change' of
          None \<Rightarrow> Inr (None, None)
        | Some change \<Rightarrow>
            bindR (Trove_apply originalVault (Some change) rate)
              (\<lambda>resultingVault.
            bindR (Trove_subtract (sel_total st) originalVault)
              (\<lambda>others.
                 let ctx = \<lparr>sel_price = sel_price st, sel_total = sel_total st,
                            sel_erc20TokenBalance = sel_erc20TokenBalance st,
                            sel_thusdBalance = sel_thusdBalance st,
                            sel_numberOfTroves = sel_numberOfTroves st, sel_symbol = sel_symbol st,
                            ctx_originalVault = toTrove originalVault, ctx_resultingVault = resultingVault,
                            ctx_recoveryMode = Trove_collateralRatioIsBelowCritical (sel_total st) (sel_price st),
                            ctx_wouldTriggerRecoveryMode =
                              Trove_collateralRatioIsBelowCritical (Trove_add others resultingVault) (sel_price st)\<rparr>
                 in case change of
                      InvalidCreation _ _ \<Rightarrow>
                        bindR (Decimal_toString THUSD_MINIMUM_DEBT None)
                          (\<lambda>s. Inr (None, Some (ErrorDescription
                             (''Total debt must be at least '' @ s @ '' '' @ COIN @ ''.''))))
                    | _ \<Rightarrow>
                        bindR (case change of
                                 Creation params \<Rightarrow> validateVaultCreation params ctx
                               | Closure params \<Rightarrow> validateVaultClosure params ctx
                               | Adjustment params _ \<Rightarrow> validateVaultAdjustment params ctx
                               | InvalidCreation _ _ \<Rightarrow> Inr None)
                          (\<lambda>errorDescription. case errorDescription of
                             Some e \<Rightarrow> Inr (None, Some (ErrorDescription e))
                           | None \<Rightarrow> Inr (Some change,
                                          Some (ChangeDescription (changeParams change) (sel_symbol st)))))))"

section \<open>Stability deposits\<close>

text \<open>
  \<open>thusdBalance == 0\<close> compares an object with a number; the conversion by \<open>toString()\<close> makes it
  true exactly for a balance of zero.  An accepted change comes with a \<open>StabilityActionDescription\<close>,
  of which only the presence is modelled.
\<close>

definition validateStabilityDepositChange ::
    "stabilityDeposit \<Rightarrow> decimal \<Rightarrow> decimal \<Rightarrow> bool \<Rightarrow> (stabilityDepositChange option \<times> string option) res" where
  "validateStabilityDepositChange originalDeposit editedTHUSD balance haveUndercollateralized =
     bindR (StabilityDeposit_whatChanged originalDeposit editedTHUSD)
       (\<lambda>change. case change of
          None \<Rightarrow> Inr (None, None)
        | Some (DepositTHUSD x) \<Rightarrow>
            if Decimal_isZero balance then
              Inr (None, Some (''You must first have a '' @ COIN @ '' balance to deposit into the stability pool.''))
            else Inr (change, Some '''')
        | Some (WithdrawTHUSD x a) \<Rightarrow>
            if haveUndercollateralized then
              Inr (None, Some (''You'' @ apostrophe @ ''re not allowed to withdraw '' @ COIN @
                '' from your Stability Deposit when there are undercollateralized Vaults. '' @
                ''Please liquidate those Vaults or try again later.''))
            else Inr (change, Some ''''))"

end
