(* ===== verification/Validation_Correct.thy ===== *)
theory Validation_Correct
  imports Validation Managers_Correct
begin

text \<open>
  What the front end accepts is safe for the user and for the system: the lemmas on the three
  validators give the exact conditions under which each returns no error, and the theorems
  state what an accepted change does to the vault and to the total of all vaults.
\<close>

section \<open>When a validator has no objection\<close>

lemma balance_error_not_None [simp]: "balance_error w a b s \<noteq> Inr None"
  by (auto simp: balance_error_def bindR_Inr_iff)

lemma validateVaultCreation_None:
  "validateVaultCreation p ctx = Inr None \<longleftrightarrow>
     bn THUSD_MINIMUM_NET_DEBT \<le> bn (borrowTHUSD p) \<and>
     bn (depositCollateral p) \<le> bn (sel_erc20TokenBalance ctx) \<and>
     (if ctx_recoveryMode ctx
      then \<not> Trove_collateralRatioIsBelowCritical (ctx_resultingVault ctx) (sel_price ctx)
      else \<not> Trove_collateralRatioIsBelowMinimum (ctx_resultingVault ctx) (sel_price ctx) \<and>
           \<not> ctx_wouldTriggerRecoveryMode ctx)"
  by (auto simp: validateVaultCreation_def bindR_Inr_iff openable_iff Decimal_lt_def Decimal_gt_def
      simp del: bn_constants)

lemma validateAdjustmentDeposit_None:
  "validateAdjustmentDeposit p ctx = Inr None \<longleftrightarrow>
     (\<forall>d. adjDepositCollateral p = Some d \<longrightarrow> bn d \<le> bn (sel_erc20TokenBalance ctx))"
  by (auto simp: validateAdjustmentDeposit_def Decimal_gt_def split: option.splits)

lemma validateVaultAdjustment_None:
  "validateVaultAdjustment p ctx = Inr None \<longleftrightarrow>
     (if ctx_recoveryMode ctx
      then adjWithdrawCollateral p = None \<and>
           (adjBorrowTHUSD p \<noteq> None \<longrightarrow>
              \<not> Trove_collateralRatioIsBelowCritical (ctx_resultingVault ctx) (sel_price ctx) \<and>
              \<not> Decimal_lt (Trove_collateralRatio (ctx_resultingVault ctx) (sel_price ctx))
                  (Trove_collateralRatio (ctx_originalVault ctx) (sel_price ctx)))
      else \<not> Trove_collateralRatioIsBelowMinimum (ctx_resultingVault ctx) (sel_price ctx) \<and>
           \<not> ctx_wouldTriggerRecoveryMode ctx) \<and>
     (\<forall>r. adjRepayTHUSD p = Some r \<longrightarrow>
        bn THUSD_MINIMUM_DEBT \<le> bn (debt (ctx_resultingVault ctx)) \<and> bn r \<le> bn (sel_thusdBalance ctx)) \<and>
     (\<forall>d. adjDepositCollateral p = Some d \<longrightarrow> bn d \<le> bn (sel_erc20TokenBalance ctx))"
  by (auto simp: validateVaultAdjustment_def bindR_Inr_iff validateAdjustmentDeposit_None
      Decimal_gt_def [of _ "sel_thusdBalance ctx"] Decimal_lt_def [of _ THUSD_MINIMUM_DEBT]
      simp del: bn_constants split: option.splits if_splits)

lemma validateVaultClosure_None:
  "validateVaultClosure p ctx = Inr None \<longleftrightarrow>
     sel_numberOfTroves ctx \<noteq> 1 \<and> \<not> ctx_recoveryMode ctx \<and> \<not> ctx_wouldTriggerRecoveryMode ctx \<and>
     (\<forall>r. repayTHUSD p = Some r \<longrightarrow> bn r \<le> bn (sel_thusdBalance ctx))"
  by (auto simp: validateVaultClosure_def closure_recovery_error_def bindR_Inr_iff Decimal_gt_def
      split: option.splits)

section \<open>Accepted changes\<close>

text \<open>The context in which a change is validated.\<close>

definition validationContextOf :: "'a trove_scheme \<Rightarrow> trove \<Rightarrow> selectedState \<Rightarrow> validationContext" where
  "validationContextOf t v st =
     \<lparr>sel_price = sel_price st, sel_total = sel_total st,
      sel_erc20TokenBalance = sel_erc20TokenBalance st, sel_thusdBalance = sel_thusdBalance st,
      sel_numberOfTroves = sel_numberOfTroves st, sel_symbol = sel_symbol st,
      ctx_originalVault = toTrove t, ctx_resultingVault = v,
      ctx_recoveryMode = Trove_collateralRatioIsBelowCritical (sel_total st) (sel_price st),
      ctx_wouldTriggerRecoveryMode = Trove_collateralRatioIsBelowCritical
        (\<lparr>collateral = Dec (bn (collateral (sel_total st)) - bn (collateral t) + bn (collateral v)),
          debt = Dec (bn (debt (sel_total st)) - bn (debt t) + bn (debt v))\<rparr> :: trove) (sel_price st)\<rparr>"

lemma validationContextOf_sel [simp]:
  "sel_price (validationContextOf t v st) = sel_price st"
  "sel_erc20TokenBalance (validationContextOf t v st) = sel_erc20TokenBalance st"
  "sel_thusdBalance (validationContextOf t v st) = sel_thusdBalance st"
  "sel_numberOfTroves (validationContextOf t v st) = sel_numberOfTroves st"
  "ctx_originalVault (validationContextOf t v st) = toTrove t"
  "ctx_resultingVault (validationContextOf t v st) = v"
  by (simp_all add: validationContextOf_def)

lemma validationContextOf_modes:
  "ctx_recoveryMode (validationContextOf t v st) \<longleftrightarrow>
     100 * (bn (collateral (sel_total st)) * bn (sel_price st)) < 150 * (bn (debt (sel_total st)) * DIGITS)"
  "ctx_wouldTriggerRecoveryMode (validationContextOf t v st) \<longleftrightarrow>
     100 * ((bn (collateral (sel_total st)) - bn (collateral t) + bn (collateral v)) * bn (sel_price st)) <
     150 * ((bn (debt (sel_total st)) - bn (debt t) + bn (debt v)) * DIGITS)"
  by (simp_all add: validationContextOf_def belowCritical_iff)

lemma validateVaultChange_accepted:
  assumes "validateVaultChange t u r st = Inr (Some c, d)"
  obtains v where "Trove_whatChanged t u r = Inr (Some c)" and "Trove_apply t (Some c) r = Inr v"
    and "(\<exists>p. c = Creation p \<and> validateVaultCreation p (validationContextOf t v st) = Inr None) \<or>
         (\<exists>p. c = Closure p \<and> validateVaultClosure p (validationContextOf t v st) = Inr None) \<or>
         (\<exists>p z. c = Adjustment p z \<and> validateVaultAdjustment p (validationContextOf t v st) = Inr None)"
proof -
  from assms obtain c' v where c': "Trove_whatChanged t u r = Inr (Some c')" and v: "Trove_apply t (Some c') r = Inr v"
    by (auto simp: validateVaultChange_def bindR_Inr_iff split: option.splits)
  have ctx: "Trove_add \<lparr>collateral = Dec (bn (collateral (sel_total st)) - bn (collateral t)),
        debt = Dec (bn (debt (sel_total st)) - bn (debt t))\<rparr> v =
      (\<lparr>collateral = Dec (bn (collateral (sel_total st)) - bn (collateral t) + bn (collateral v)),
        debt = Dec (bn (debt (sel_total st)) - bn (debt t) + bn (debt v))\<rparr> :: trove)"
    by (simp add: Trove_add_def Decimal_add_def)
  let ?ctx = "validationContextOf t v st"
  have "c' = c \<and> ((\<exists>p. c = Creation p \<and> validateVaultCreation p ?ctx = Inr None) \<or>
         (\<exists>p. c = Closure p \<and> validateVaultClosure p ?ctx = Inr None) \<or>
         (\<exists>p z. c = Adjustment p z \<and> validateVaultAdjustment p ?ctx = Inr None))"
    using assms c' v
    by (cases c') (auto simp: validateVaultChange_def Let_def Trove_subtract_eq ctx bindR_Inr_iff
        validationContextOf_def split: option.splits)
  with c' v that show thesis by blast
qed

section \<open>What accepted changes do\<close>

lemma whatChanged_AdjustmentD:
  assumes "Trove_whatChanged t u r = Inr (Some (Adjustment p z))"
  shows "p = adjustment_between t u r"
proof -
  have "toTrove t \<noteq> toTrove u" using assms Trove_whatChanged_None [of t u r] by auto
  moreover have "\<not> Trove_isEmpty t" "\<not> Trove_isEmpty u"
    using assms by (auto simp: Trove_whatChanged_def Trove_netDebt_eq Decimal_eq_def Trove_isEmpty_iff
        simp del: bn_constants split: if_splits)
  ultimately show ?thesis using assms by (simp add: Trove_whatChanged_adjustment)
qed

lemma adjustment_directions:
  assumes "Trove_whatChanged t u r = Inr (Some (Adjustment p z))"
    and "Trove_apply t (Some (Adjustment p z)) r = Inr v"
  shows "adjWithdrawCollateral p = None \<Longrightarrow> bn (collateral t) \<le> bn (collateral v)"
    and "adjRepayTHUSD p = None \<Longrightarrow> bn (debt t) \<le> bn (debt v)"
    and "adjBorrowTHUSD p = None \<Longrightarrow> bn (debt v) \<le> bn (debt t)"
  using whatChanged_reaches [OF assms(1)] whatChanged_AdjustmentD [OF assms(1)] assms(2)
  by (auto simp: reaches_def adjustment_between_def less_decimal_def not_less split: if_splits)

lemma creation_result:
  assumes "Trove_whatChanged t u r = Inr (Some (Creation p))" and "Trove_apply t (Some (Creation p)) r = Inr v"
  shows "Trove_isEmpty t" and "bn (debt v) = bn THUSD_LIQUIDATION_RESERVE + bn (applyFee r (borrowTHUSD p))"
    and "collateral v = depositCollateral p"
proof -
  show "Trove_isEmpty t" using assms(2) by (auto simp: Trove_apply_def split: if_splits)
  then show "bn (debt v) = bn THUSD_LIQUIDATION_RESERVE + bn (applyFee r (borrowTHUSD p))"
    "collateral v = depositCollateral p"
    using assms(2) by (auto simp: Trove_apply_create)
qed

lemma closure_result: "Trove_apply t (Some (Closure p)) r = Inr v \<Longrightarrow> v = emptyTrove"
  by (auto simp: Trove_apply_def split: if_splits)

text \<open>C11: A change of the vault that the front end accepts is affordable and sound: deposit and repayment
  are covered by the user's balances; the vault ends up closed, with at least the minimum debt, or
  with no less debt than before; and while the system is not in recovery mode, the vault ends up with
  a collateral ratio of at least 110\% and the system with one of at least 150\%.\<close>

theorem validateVaultChange_sound:
  assumes "validateVaultChange t u r st = Inr (Some c, d)"
  shows "\<exists>v. Trove_apply t (Some c) r = Inr v \<and>
    (\<forall>x. adjDepositCollateral (changeParams c) = Some x \<longrightarrow> bn x \<le> bn (sel_erc20TokenBalance st)) \<and>
    (\<forall>x. adjRepayTHUSD (changeParams c) = Some x \<longrightarrow> bn x \<le> bn (sel_thusdBalance st)) \<and>
    (Trove_isEmpty v \<or> bn THUSD_MINIMUM_DEBT \<le> bn (debt v) \<or> bn (debt t) \<le> bn (debt v)) \<and>
    (150 * (bn (debt (sel_total st)) * DIGITS) \<le> 100 * (bn (collateral (sel_total st)) * bn (sel_price st)) \<longrightarrow>
       110 * (bn (debt v) * DIGITS) \<le> 100 * (bn (collateral v) * bn (sel_price st)) \<and>
       150 * ((bn (debt (sel_total st)) - bn (debt t) + bn (debt v)) * DIGITS) \<le>
       100 * ((bn (collateral (sel_total st)) - bn (collateral t) + bn (collateral v)) * bn (sel_price st)))"
proof -
  obtain v where c: "Trove_whatChanged t u r = Inr (Some c)" and v: "Trove_apply t (Some c) r = Inr v"
    and ok: "(\<exists>p. c = Creation p \<and> validateVaultCreation p (validationContextOf t v st) = Inr None) \<or>
         (\<exists>p. c = Closure p \<and> validateVaultClosure p (validationContextOf t v st) = Inr None) \<or>
         (\<exists>p z. c = Adjustment p z \<and> validateVaultAdjustment p (validationContextOf t v st) = Inr None)"
    using validateVaultChange_accepted [OF assms] by blast
  from ok show ?thesis
  proof (elim disjE exE conjE)
    fix p assume p: "c = Creation p" "validateVaultCreation p (validationContextOf t v st) = Inr None"
    have "bn THUSD_MINIMUM_DEBT \<le> bn (debt v)"
      using creation_result(2) [of t u r p v] c v p applyFee_split [of r "borrowTHUSD p"]
      by (simp add: validateVaultCreation_None)
    with p v show ?thesis
      by (auto simp: validateVaultCreation_None validationContextOf_modes belowMinimum_iff not_less
          simp del: bn_constants split: if_splits)
  next
    fix p assume p: "c = Closure p" "validateVaultClosure p (validationContextOf t v st) = Inr None"
    moreover from p v have "v = emptyTrove" using closure_result by blast
    ultimately show ?thesis
      using v by (auto simp: validateVaultClosure_None validationContextOf_modes emptyTrove_def not_less
          Trove_isEmpty_iff simp del: bn_constants)
  next
    fix p z assume p: "c = Adjustment p z" "validateVaultAdjustment p (validationContextOf t v st) = Inr None"
    with c v have "adjRepayTHUSD p = None \<Longrightarrow> bn (debt t) \<le> bn (debt v)" using adjustment_directions(2) by blast
    with p v show ?thesis
      by (cases "adjRepayTHUSD p")
         (auto simp: validateVaultAdjustment_None validationContextOf_modes belowMinimum_iff not_less
          simp del: bn_constants split: if_splits)
  qed
qed

text \<open>A vault whose owner deposits two units of collateral, in a system with a given total.\<close>

definition example_vault :: "nat \<Rightarrow> trove" where
  "example_vault c = \<lparr>collateral = Dec (c * 10 ^ 18), debt = Dec (2000 * 10 ^ 18)\<rparr>"

definition example_selected :: "nat \<Rightarrow> selectedState" where
  "example_selected totalDebt =
     \<lparr>sel_price = Dec (2000 * 10 ^ 18),
      sel_total = \<lparr>collateral = Dec (100 * 10 ^ 18), debt = Dec (totalDebt * 10 ^ 18)\<rparr>,
      sel_erc20TokenBalance = Dec (5 * 10 ^ 18), sel_thusdBalance = Dec 0, sel_numberOfTroves = 3,
      sel_symbol = ''TBTC''\<rparr>"

definition example_deposit :: troveChange where
  "example_deposit =
     Adjustment \<lparr>adjDepositCollateral = Some (Dec (2 * 10 ^ 18)), adjWithdrawCollateral = None,
                 adjBorrowTHUSD = None, adjRepayTHUSD = None\<rparr> None"

lemmas example_defs =
  example_vault_def example_selected_def example_deposit_def validateVaultChange_def Let_def
  Trove_whatChanged_def Trove_apply_def Trove_subtract_eq Trove_collateralChange_def Trove_isEmpty_def
  Trove_add_def mkAdjustment_def zero_then_def cmp_defs Decimal_sub_def new_Decimal_def Decimal_zero_def
  validateVaultAdjustment_def validateAdjustmentDeposit_def belowCritical_iff belowMinimum_iff DIGITS_num

lemma example_accepted:
  "validateVaultChange (example_vault 10) (example_vault 12) MINIMUM_BORROWING_RATE (example_selected 10000) =
     Inr (Some example_deposit, Some (ChangeDescription (changeParams example_deposit) ''TBTC''))"
  "validateVaultChange (example_vault 10) (example_vault 12) MINIMUM_BORROWING_RATE (example_selected 150000) =
     Inr (Some example_deposit, Some (ChangeDescription (changeParams example_deposit) ''TBTC''))"
  by (simp_all add: example_defs)

theorem validateVaultChange_sound_witness:
  "\<exists>v. Trove_apply (example_vault 10) (Some example_deposit) MINIMUM_BORROWING_RATE = Inr v \<and>
     110 * (bn (debt v) * DIGITS) \<le> 100 * (bn (collateral v) * (2000 * 10 ^ 18))"
  using validateVaultChange_sound [OF example_accepted(1)] by (auto simp: example_selected_def DIGITS_num)

lemma ratio_chain:
  fixes C D c d p k :: nat
  assumes "100 * (C * p) < 150 * (D * k)" and "150 * (d * k) \<le> 100 * (c * p)"
  shows "C * d \<le> c * D"
proof -
  have "0 < D * k" using assms(1) by (cases "D * k = 0") auto
  then have D: "0 < D" and k: "0 < k" by auto
  have "(100 * p) * (C * d) = (100 * (C * p)) * d" by (simp add: ac_simps)
  also have "\<dots> \<le> (150 * (D * k)) * d" using assms(1) by (intro mult_right_mono) simp_all
  also have "\<dots> = (150 * (d * k)) * D" by (simp add: ac_simps)
  also have "\<dots> \<le> (100 * (c * p)) * D" using assms(2) by (intro mult_right_mono) simp_all
  also have "\<dots> = (100 * p) * (c * D)" by (simp add: ac_simps)
  finally have "p = 0 \<or> C * d \<le> c * D" by auto
  moreover have "p = 0 \<Longrightarrow> d = 0" using assms(2) k by simp
  ultimately show ?thesis by auto
qed

text \<open>C12: In recovery mode the front end accepts no closing of a vault and no withdrawal of collateral.
  A change that opens a vault or borrows nothing never lowers the system's collateral ratio
  (compared exactly, by cross multiplication), and one that borrows leaves the vault with a
  ratio of at least 150\%.\<close>

theorem validateVaultChange_recovery:
  assumes "validateVaultChange t u r st = Inr (Some c, d)"
    and "100 * (bn (collateral (sel_total st)) * bn (sel_price st)) < 150 * (bn (debt (sel_total st)) * DIGITS)"
    and "bn (collateral t) \<le> bn (collateral (sel_total st))" and "bn (debt t) \<le> bn (debt (sel_total st))"
  shows "\<not> is_closure (Some c) \<and> adjWithdrawCollateral (changeParams c) = None \<and>
    (\<exists>v. Trove_apply t (Some c) r = Inr v \<and>
      (adjBorrowTHUSD (changeParams c) = None \<or> Trove_isEmpty t \<longrightarrow>
         bn (collateral (sel_total st)) * (bn (debt (sel_total st)) - bn (debt t) + bn (debt v)) \<le>
         (bn (collateral (sel_total st)) - bn (collateral t) + bn (collateral v)) * bn (debt (sel_total st))) \<and>
      (adjBorrowTHUSD (changeParams c) \<noteq> None \<longrightarrow>
         150 * (bn (debt v) * DIGITS) \<le> 100 * (bn (collateral v) * bn (sel_price st))))"
proof -
  obtain v where c: "Trove_whatChanged t u r = Inr (Some c)" and v: "Trove_apply t (Some c) r = Inr v"
    and ok: "(\<exists>p. c = Creation p \<and> validateVaultCreation p (validationContextOf t v st) = Inr None) \<or>
         (\<exists>p. c = Closure p \<and> validateVaultClosure p (validationContextOf t v st) = Inr None) \<or>
         (\<exists>p z. c = Adjustment p z \<and> validateVaultAdjustment p (validationContextOf t v st) = Inr None)"
    using validateVaultChange_accepted [OF assms(1)] by blast
  have recovery: "ctx_recoveryMode (validationContextOf t v st)"
    using assms(2) by (simp add: validationContextOf_modes)
  from ok show ?thesis
  proof (elim disjE exE conjE)
    fix p assume p: "c = Creation p" "validateVaultCreation p (validationContextOf t v st) = Inr None"
    have empty: "bn (collateral t) = 0" "bn (debt t) = 0"
      using creation_result(1) [of t u r p v] c v p(1) by (auto simp: Trove_isEmpty_iff)
    have ge: "150 * (bn (debt v) * DIGITS) \<le> 100 * (bn (collateral v) * bn (sel_price st))"
      using p(2) recovery by (simp add: validateVaultCreation_None belowCritical_iff not_less del: bn_constants)
    have "bn (collateral (sel_total st)) * bn (debt v) \<le> bn (collateral v) * bn (debt (sel_total st))"
      by (rule ratio_chain [OF assms(2) ge])
    with empty p v ge show ?thesis by (simp add: is_closure_def algebra_simps)
  next
    fix p assume "c = Closure p" "validateVaultClosure p (validationContextOf t v st) = Inr None"
    with recovery show ?thesis by (simp add: validateVaultClosure_None)
  next
    fix p z assume p: "c = Adjustment p z" "validateVaultAdjustment p (validationContextOf t v st) = Inr None"
    have w: "adjWithdrawCollateral p = None"
      using p(2) recovery by (simp add: validateVaultAdjustment_None del: bn_constants)
    have dir: "bn (collateral t) \<le> bn (collateral v)" "adjBorrowTHUSD p = None \<Longrightarrow> bn (debt v) \<le> bn (debt t)"
      using adjustment_directions [of t u r p z v] c v p(1) w by blast+
    have borrow: "adjBorrowTHUSD p \<noteq> None \<Longrightarrow> 150 * (bn (debt v) * DIGITS) \<le> 100 * (bn (collateral v) * bn (sel_price st))"
      using p(2) recovery by (simp add: validateVaultAdjustment_None belowCritical_iff not_less del: bn_constants)
    have "\<not> Trove_isEmpty t"
      using c p(1) Trove_whatChanged_None [of t u r] by (auto simp: Trove_whatChanged_def bindR_Inr_iff split: if_splits)
    moreover have "adjBorrowTHUSD p = None \<Longrightarrow>
        bn (collateral (sel_total st)) * (bn (debt (sel_total st)) - bn (debt t) + bn (debt v)) \<le>
        (bn (collateral (sel_total st)) - bn (collateral t) + bn (collateral v)) * bn (debt (sel_total st))"
      using dir assms(3,4) by (intro mult_le_mono) auto
    ultimately show ?thesis using p v w borrow by (auto simp: is_closure_def)
  qed
qed

theorem validateVaultChange_recovery_witness:
  "\<exists>v. Trove_apply (example_vault 10) (Some example_deposit) MINIMUM_BORROWING_RATE = Inr v \<and>
     bn (collateral (sel_total (example_selected 150000))) * (148000 * 10 ^ 18 + bn (debt v)) \<le>
     (90 * 10 ^ 18 + bn (collateral v)) * bn (debt (sel_total (example_selected 150000)))"
  using validateVaultChange_recovery [OF example_accepted(2)]
  by (auto simp: example_selected_def example_vault_def example_deposit_def DIGITS_num)

section \<open>Stability deposits\<close>

text \<open>The validator of the stability form accepts every deposit as soon as the balance is not zero,
  also one that exceeds the balance.\<close>

lemma stability_overdraft_accepted:
  assumes "0 < bn balance" and "bn (currentTHUSD dep) < bn edited"
  shows "\<exists>s. validateStabilityDepositChange dep edited balance risky =
    Inr (Some (DepositTHUSD (Dec (bn edited - bn (currentTHUSD dep)))), s)"
  using assms by (simp add: validateStabilityDepositChange_def StabilityDeposit_whatChanged_eq Decimal_isZero_def)

text \<open>The validator of the stability form never throws; it accepts exactly the changes that are
  deposits with a non-zero balance or withdrawals while no vault is undercollateralised, and the
  accepted change reaches the edited amount; otherwise, unless nothing changes, there is a message.\<close>

theorem validateStabilityDepositChange_accepts:
  "\<exists>c s. validateStabilityDepositChange dep edited balance risky = Inr (c, s) \<and>
     (c \<noteq> None \<longleftrightarrow> bn (currentTHUSD dep) < bn edited \<and> bn balance \<noteq> 0 \<or>
                   bn edited < bn (currentTHUSD dep) \<and> \<not> risky) \<and>
     (c = None \<or> StabilityDeposit_apply dep c = Inr edited) \<and>
     (s = None \<longleftrightarrow> edited = currentTHUSD dep)"
  by (auto simp: validateStabilityDepositChange_def StabilityDeposit_whatChanged_eq cmp_defs decimal_eq_iff
      StabilityDeposit_apply_def Decimal_sub_def Decimal_add_def new_Decimal_def nat_diff_distrib)

end
