(* ===== verification/Subgraph.thy ===== *)
theory Subgraph
  imports Complex_Main "HOL-Library.Word" Prelude
begin

text \<open>
  The indexer of \<open>packages/subgraph/src\<close>: event handlers (\<open>mappings\<close>) that keep entities of the
  protocol's history (\<open>entities\<close>) in a store.

  \<open>graphStore\<close> has one map per entity type of the schema.  \<open>X.load(id)\<close> reads the map, \<open>save()\<close>
  writes it, and a value that was loaded is a copy.  Entities whose id is a printed sequence number
  are keyed by that number, the others by their id; loading the entity of a \<open>null\<close> id gives
  \<open>null\<close>.  \<open>i32\<close> counters are words of 32 bits and wrap around.  \<open>BigInt\<close> is \<open>int\<close>.

  \<open>BigDecimal\<close> belongs to the package \<open>graph-ts\<close>: its values are rational numbers, and the record
  \<open>graphEnv\<close>, a parameter of the handlers, says how the result of an operation is rounded to the
  precision of the type and what \<open>truncate\<close> does; it also gives the replies of the ERC-20 contract
  that \<open>getToken\<close> asks.  An access to \<open>null\<close>, which makes the indexer abort, is \<open>Inl TypeError\<close>.
\<close>

section \<open>The environment and the entities\<close>

type_synonym i32 = "32 word"

record graphEnv =
  roundDecimal :: "rat \<Rightarrow> rat"
  truncateDecimal :: "rat \<Rightarrow> nat \<Rightarrow> rat"
  erc20_name :: "string \<Rightarrow> string"
  erc20_tokenSymbol :: "string \<Rightarrow> string"

record graphEvent =
  ev_address :: string
  ev_hash :: string
  ev_from :: string
  ev_blockNumber :: i32
  ev_timestamp :: i32

record sgGlobal =
  g_systemStateCount :: i32
  g_transactionCount :: i32
  g_changeCount :: i32
  g_liquidationCount :: i32
  g_redemptionCount :: i32
  g_numberOfOpenTroves :: i32
  g_numberOfLiquidatedTroves :: i32
  g_numberOfRedeemedTroves :: i32
  g_numberOfTrovesClosedByOwner :: i32
  g_totalNumberOfTroves :: i32
  g_totalBorrowingFeesPaid :: rat
  g_totalRedemptionFeesPaid :: rat
  g_rawTotalRedistributedCollateral :: int
  g_rawTotalRedistributedDebt :: int
  g_currentSystemState :: "i32 option"
  g_currentLiquidation :: "i32 option"
  g_currentRedemption :: "i32 option"
  g_tmpDepositUpdate :: "int option"

record sgSystemState =
  ss_sequenceNumber :: i32
  ss_price :: "rat option"
  ss_totalCollateral :: rat
  ss_totalDebt :: rat
  ss_totalCollateralRatio :: "rat option"
  ss_tokensInStabilityPool :: rat
  ss_collSurplusPoolBalance :: rat

record sgUser =
  us_trove :: "string option"
  us_stabilityDeposit :: "string option"
  us_collSurplus :: rat

datatype sgTroveStatus = SgOpen | SgClosedByOwner | SgClosedByLiquidation | SgClosedByRedemption

text \<open>The raw amounts of a new trove are not set until its first update.\<close>

record sgTrove =
  tr_owner :: string
  tr_status :: sgTroveStatus
  tr_collateral :: rat
  tr_debt :: rat
  tr_rawCollateral :: "int option"
  tr_rawDebt :: "int option"
  tr_rawStake :: "int option"
  tr_rawSnapshotOfTotalRedistributedCollateral :: "int option"
  tr_rawSnapshotOfTotalRedistributedDebt :: "int option"
  tr_collateralRatioSortKey :: "int option"

record sgStabilityDeposit =
  sd_owner :: string
  sd_depositedAmount :: rat

record sgTransaction =
  tx_sequenceNumber :: i32
  tx_blockNumber :: i32
  tx_timestamp :: i32

text \<open>The interface \<open>Change\<close>; \<open>systemStateAfter\<close> is set when the change is finished.\<close>

record sgChange =
  ch_sequenceNumber :: i32
  ch_transaction :: string
  ch_systemStateBefore :: i32
  ch_systemStateAfter :: "i32 option"

record sgTroveChange = sgChange +
  tc_trove :: string
  tc_troveOperation :: string
  tc_collateralBefore :: rat
  tc_collateralChange :: rat
  tc_collateralAfter :: rat
  tc_debtBefore :: rat
  tc_debtChange :: rat
  tc_debtAfter :: rat
  tc_borrowingFee :: "rat option"
  tc_collateralRatioBefore :: "rat option"
  tc_collateralRatioAfter :: "rat option"
  tc_liquidation :: "i32 option"
  tc_redemption :: "i32 option"

record sgStabilityDepositChange = sgChange +
  sc_stabilityDeposit :: string
  sc_stabilityDepositOperation :: string
  sc_depositedAmountBefore :: rat
  sc_depositedAmountChange :: rat
  sc_depositedAmountAfter :: rat
  sc_collateralGain :: "rat option"

record sgPriceChange = sgChange +
  pc_priceChange :: rat

record sgCollSurplusChange = sgChange +
  cs_user :: string
  cs_collSurplusBefore :: rat
  cs_collSurplusChange :: rat
  cs_collSurplusAfter :: rat

record sgLiquidation =
  li_sequenceNumber :: i32
  li_transaction :: string
  li_liquidator :: string
  li_liquidatedDebt :: rat
  li_liquidatedCollateral :: rat
  li_collGasCompensation :: rat
  li_tokenGasCompensation :: rat

record sgRedemption =
  re_sequenceNumber :: i32
  re_transaction :: string
  re_redeemer :: string
  re_tokensAttemptedToRedeem :: rat
  re_tokensActuallyRedeemed :: rat
  re_collateralRedeemed :: rat
  re_partial :: bool
  re_fee :: rat

record sgToken =
  to_name :: string
  to_symbol :: string
  to_totalSupply :: int

record sgTokenBalance =
  tb_token :: string
  tb_owner :: string
  tb_balance :: int

record sgTokenAllowance =
  ta_token :: string
  ta_owner :: string
  ta_spender :: string
  ta_value :: int

record graphStore =
  globalOf :: "sgGlobal option"
  systemStates :: "i32 \<rightharpoonup> sgSystemState"
  users :: "string \<rightharpoonup> sgUser"
  sgTroves :: "string \<rightharpoonup> sgTrove"
  stabilityDeposits :: "string \<rightharpoonup> sgStabilityDeposit"
  transactions :: "string \<rightharpoonup> sgTransaction"
  troveChanges :: "i32 \<rightharpoonup> sgTroveChange"
  stabilityDepositChanges :: "i32 \<rightharpoonup> sgStabilityDepositChange"
  priceChanges :: "i32 \<rightharpoonup> sgPriceChange"
  collSurplusChanges :: "i32 \<rightharpoonup> sgCollSurplusChange"
  liquidations :: "i32 \<rightharpoonup> sgLiquidation"
  redemptions :: "i32 \<rightharpoonup> sgRedemption"
  tokens :: "string \<rightharpoonup> sgToken"
  tokenBalances :: "string \<rightharpoonup> sgTokenBalance"
  tokenAllowances :: "string \<rightharpoonup> sgTokenAllowance"

definition emptyGraph :: graphStore where
  "emptyGraph =
     \<lparr>globalOf = None, systemStates = Map.empty, users = Map.empty, sgTroves = Map.empty,
      stabilityDeposits = Map.empty, transactions = Map.empty, troveChanges = Map.empty,
      stabilityDepositChanges = Map.empty, priceChanges = Map.empty, collSurplusChanges = Map.empty,
      liquidations = Map.empty, redemptions = Map.empty, tokens = Map.empty,
      tokenBalances = Map.empty, tokenAllowances = Map.empty\<rparr>"

section \<open>Numbers\<close>

definition DECIMAL_PRECISION :: nat where
  "DECIMAL_PRECISION = 18"

definition SCALING_FACTOR :: int where
  "SCALING_FACTOR = 10 ^ 18"

definition sg_ZERO_ADDRESS :: string where
  "sg_ZERO_ADDRESS = ''0x'' @ replicate 40 (CHR ''0'')"

definition dplus :: "graphEnv \<Rightarrow> rat \<Rightarrow> rat \<Rightarrow> rat" where
  "dplus env a b = roundDecimal env (a + b)"

definition dminus :: "graphEnv \<Rightarrow> rat \<Rightarrow> rat \<Rightarrow> rat" where
  "dminus env a b = roundDecimal env (a - b)"

definition dtimes :: "graphEnv \<Rightarrow> rat \<Rightarrow> rat \<Rightarrow> rat" where
  "dtimes env a b = roundDecimal env (a * b)"

definition ddiv :: "graphEnv \<Rightarrow> rat \<Rightarrow> rat \<Rightarrow> rat" where
  "ddiv env a b = roundDecimal env (a / b)"

definition sg_decimalize :: "graphEnv \<Rightarrow> int \<Rightarrow> rat" where
  "sg_decimalize env bigInt = roundDecimal env (of_int bigInt / of_int SCALING_FACTOR)"

text \<open>\<open>BigInt\<close> division truncates towards zero.\<close>

definition bigint_div :: "int \<Rightarrow> int \<Rightarrow> int" where
  "bigint_div a b = sgn a * sgn b * (\<bar>a\<bar> div \<bar>b\<bar>)"

definition calculateCollateralRatio :: "graphEnv \<Rightarrow> rat \<Rightarrow> rat \<Rightarrow> rat \<Rightarrow> rat option" where
  "calculateCollateralRatio env coll debt price =
     (if debt = 0 then None
      else Some (truncateDecimal env (ddiv env (dtimes env coll price) debt) DECIMAL_PRECISION))"

section \<open>Operations\<close>

definition getTroveOperationFromBorrowerOperation :: "nat \<Rightarrow> string" where
  "getTroveOperationFromBorrowerOperation operation =
     (if operation = 0 then ''openTrove''
      else if operation = 1 then ''closeTrove''
      else if operation = 2 then ''adjustTrove''
      else ''unreached'')"

definition isBorrowerOperation :: "string \<Rightarrow> bool" where
  "isBorrowerOperation troveOperation \<longleftrightarrow>
     troveOperation = ''openTrove'' \<or> troveOperation = ''closeTrove'' \<or> troveOperation = ''adjustTrove''"

definition getTroveOperationFromTroveManagerOperation :: "nat \<Rightarrow> string" where
  "getTroveOperationFromTroveManagerOperation operation =
     (if operation = 0 then ''accrueRewards''
      else if operation = 1 then ''liquidateInNormalMode''
      else if operation = 2 then ''liquidateInRecoveryMode''
      else if operation = 3 then ''redeemCollateral''
      else ''unreached'')"

definition isLiquidation :: "string \<Rightarrow> bool" where
  "isLiquidation troveOperation \<longleftrightarrow>
     troveOperation = ''liquidateInNormalMode'' \<or> troveOperation = ''liquidateInRecoveryMode''"

definition isRecoveryModeLiquidation :: "string \<Rightarrow> bool" where
  "isRecoveryModeLiquidation troveOperation \<longleftrightarrow> troveOperation = ''liquidateInRecoveryMode''"

definition isRedemption :: "string \<Rightarrow> bool" where
  "isRedemption troveOperation \<longleftrightarrow> troveOperation = ''redeemCollateral''"

section \<open>Global\<close>

definition newGlobal :: sgGlobal where
  "newGlobal =
     \<lparr>g_systemStateCount = 0, g_transactionCount = 0, g_changeCount = 0, g_liquidationCount = 0,
      g_redemptionCount = 0, g_numberOfOpenTroves = 0, g_numberOfLiquidatedTroves = 0,
      g_numberOfRedeemedTroves = 0, g_numberOfTrovesClosedByOwner = 0, g_totalNumberOfTroves = 0,
      g_totalBorrowingFeesPaid = 0, g_totalRedemptionFeesPaid = 0, g_rawTotalRedistributedCollateral = 0,
      g_rawTotalRedistributedDebt = 0, g_currentSystemState = None, g_currentLiquidation = None,
      g_currentRedemption = None, g_tmpDepositUpdate = None\<rparr>"

definition getGlobal :: "graphStore \<Rightarrow> sgGlobal" where
  "getGlobal s = (case globalOf s of Some g \<Rightarrow> g | None \<Rightarrow> newGlobal)"

text \<open>\<open>let global = getGlobal(); ...; global.save()\<close>.\<close>

definition updateGlobal :: "(sgGlobal \<Rightarrow> sgGlobal) \<Rightarrow> graphStore \<Rightarrow> graphStore" where
  "updateGlobal f s = s\<lparr>globalOf := Some (f (getGlobal s))\<rparr>"

definition getSystemStateSequenceNumber :: "graphStore \<Rightarrow> i32 \<times> graphStore" where
  "getSystemStateSequenceNumber s =
     (g_systemStateCount (getGlobal s),
      updateGlobal (\<lambda>g. g\<lparr>g_systemStateCount := g_systemStateCount g + 1\<rparr>) s)"

definition getTransactionSequenceNumber :: "graphStore \<Rightarrow> i32 \<times> graphStore" where
  "getTransactionSequenceNumber s =
     (g_transactionCount (getGlobal s),
      updateGlobal (\<lambda>g. g\<lparr>g_transactionCount := g_transactionCount g + 1\<rparr>) s)"

definition getChangeSequenceNumber :: "graphStore \<Rightarrow> i32 \<times> graphStore" where
  "getChangeSequenceNumber s =
     (g_changeCount (getGlobal s), updateGlobal (\<lambda>g. g\<lparr>g_changeCount := g_changeCount g + 1\<rparr>) s)"

definition getLastChangeSequenceNumber :: "graphStore \<Rightarrow> i32" where
  "getLastChangeSequenceNumber s = g_changeCount (getGlobal s) - 1"

definition getLiquidationSequenceNumber :: "graphStore \<Rightarrow> i32 \<times> graphStore" where
  "getLiquidationSequenceNumber s =
     (g_liquidationCount (getGlobal s),
      updateGlobal (\<lambda>g. g\<lparr>g_liquidationCount := g_liquidationCount g + 1\<rparr>) s)"

definition getRedemptionSequenceNumber :: "graphStore \<Rightarrow> i32 \<times> graphStore" where
  "getRedemptionSequenceNumber s =
     (g_redemptionCount (getGlobal s),
      updateGlobal (\<lambda>g. g\<lparr>g_redemptionCount := g_redemptionCount g + 1\<rparr>) s)"

definition updateTotalRedistributed :: "int \<Rightarrow> int \<Rightarrow> graphStore \<Rightarrow> graphStore" where
  "updateTotalRedistributed L_Coll L_Debt =
     updateGlobal (\<lambda>g. g\<lparr>g_rawTotalRedistributedCollateral := L_Coll, g_rawTotalRedistributedDebt := L_Debt\<rparr>)"

definition increaseNumberOfOpenTroves :: "graphStore \<Rightarrow> graphStore" where
  "increaseNumberOfOpenTroves =
     updateGlobal (\<lambda>g. g\<lparr>g_numberOfOpenTroves := g_numberOfOpenTroves g + 1,
                         g_totalNumberOfTroves := g_totalNumberOfTroves g + 1\<rparr>)"

definition increaseNumberOfLiquidatedTroves :: "graphStore \<Rightarrow> graphStore" where
  "increaseNumberOfLiquidatedTroves =
     updateGlobal (\<lambda>g. g\<lparr>g_numberOfLiquidatedTroves := g_numberOfLiquidatedTroves g + 1,
                         g_numberOfOpenTroves := g_numberOfOpenTroves g - 1\<rparr>)"

definition decreaseNumberOfLiquidatedTroves :: "graphStore \<Rightarrow> graphStore" where
  "decreaseNumberOfLiquidatedTroves =
     updateGlobal (\<lambda>g. g\<lparr>g_numberOfLiquidatedTroves := g_numberOfLiquidatedTroves g - 1,
                         g_numberOfOpenTroves := g_numberOfOpenTroves g + 1\<rparr>)"

definition increaseNumberOfRedeemedTroves :: "graphStore \<Rightarrow> graphStore" where
  "increaseNumberOfRedeemedTroves =
     updateGlobal (\<lambda>g. g\<lparr>g_numberOfRedeemedTroves := g_numberOfRedeemedTroves g + 1,
                         g_numberOfOpenTroves := g_numberOfOpenTroves g - 1\<rparr>)"

definition decreaseNumberOfRedeemedTroves :: "graphStore \<Rightarrow> graphStore" where
  "decreaseNumberOfRedeemedTroves =
     updateGlobal (\<lambda>g. g\<lparr>g_numberOfRedeemedTroves := g_numberOfRedeemedTroves g - 1,
                         g_numberOfOpenTroves := g_numberOfOpenTroves g + 1\<rparr>)"

definition increaseNumberOfTrovesClosedByOwner :: "graphStore \<Rightarrow> graphStore" where
  "increaseNumberOfTrovesClosedByOwner =
     updateGlobal (\<lambda>g. g\<lparr>g_numberOfTrovesClosedByOwner := g_numberOfTrovesClosedByOwner g + 1,
                         g_numberOfOpenTroves := g_numberOfOpenTroves g - 1\<rparr>)"

definition decreaseNumberOfTrovesClosedByOwner :: "graphStore \<Rightarrow> graphStore" where
  "decreaseNumberOfTrovesClosedByOwner =
     updateGlobal (\<lambda>g. g\<lparr>g_numberOfTrovesClosedByOwner := g_numberOfTrovesClosedByOwner g - 1,
                         g_numberOfOpenTroves := g_numberOfOpenTroves g + 1\<rparr>)"

definition increaseTotalBorrowingFeesPaid :: "graphEnv \<Rightarrow> int \<Rightarrow> graphStore \<Rightarrow> graphStore" where
  "increaseTotalBorrowingFeesPaid env fee =
     updateGlobal (\<lambda>g. g\<lparr>g_totalBorrowingFeesPaid := dplus env (g_totalBorrowingFeesPaid g) (sg_decimalize env fee)\<rparr>)"

section \<open>System states, transactions and changes\<close>

definition getCurrentSystemState :: "graphStore \<Rightarrow> sgSystemState \<times> graphStore" where
  "getCurrentSystemState s =
     (case Option.bind (g_currentSystemState (getGlobal s)) (systemStates s) of
        Some ss \<Rightarrow> (ss, s)
      | None \<Rightarrow>
          (let (sequenceNumber, s) = getSystemStateSequenceNumber s;
               newSystemState =
                 \<lparr>ss_sequenceNumber = sequenceNumber, ss_price = None, ss_totalCollateral = 0,
                  ss_totalDebt = 0, ss_totalCollateralRatio = None, ss_tokensInStabilityPool = 0,
                  ss_collSurplusPoolBalance = 0\<rparr>;
               s = s\<lparr>systemStates := (systemStates s)(sequenceNumber \<mapsto> newSystemState)\<rparr>
           in (newSystemState, updateGlobal (\<lambda>g. g\<lparr>g_currentSystemState := Some sequenceNumber\<rparr>) s)))"

definition bumpSystemState :: "sgSystemState \<Rightarrow> graphStore \<Rightarrow> graphStore" where
  "bumpSystemState systemState s =
     (let (sequenceNumber, s) = getSystemStateSequenceNumber s;
          s = s\<lparr>systemStates := (systemStates s)(sequenceNumber \<mapsto> systemState\<lparr>ss_sequenceNumber := sequenceNumber\<rparr>)\<rparr>
      in updateGlobal (\<lambda>g. g\<lparr>g_currentSystemState := Some sequenceNumber\<rparr>) s)"

definition getCurrentPrice :: "graphStore \<Rightarrow> (rat \<times> graphStore) res" where
  "getCurrentPrice s =
     (let (currentSystemState, s) = getCurrentSystemState s
      in case ss_price currentSystemState of None \<Rightarrow> Inl TypeError | Some p \<Rightarrow> Inr (p, s))"

definition getTransaction :: "graphEvent \<Rightarrow> graphStore \<Rightarrow> string \<times> graphStore" where
  "getTransaction event s =
     (case transactions s (ev_hash event) of
        Some _ \<Rightarrow> (ev_hash event, s)
      | None \<Rightarrow>
          (let (n, s) = getTransactionSequenceNumber s
           in (ev_hash event,
               s\<lparr>transactions := (transactions s)(ev_hash event \<mapsto>
                   \<lparr>tx_sequenceNumber = n, tx_blockNumber = ev_blockNumber event,
                    tx_timestamp = ev_timestamp event\<rparr>)\<rparr>)))"

definition beginChange :: "graphStore \<Rightarrow> i32 \<times> graphStore" where
  "beginChange s = getChangeSequenceNumber s"

definition initChange :: "graphEvent \<Rightarrow> i32 \<Rightarrow> graphStore \<Rightarrow> sgChange \<times> graphStore" where
  "initChange event sequenceNumber s =
     (let (transactionId, s) = getTransaction event s;
          (systemStateBefore, s) = getCurrentSystemState s
      in (\<lparr>ch_sequenceNumber = sequenceNumber, ch_transaction = transactionId,
           ch_systemStateBefore = ss_sequenceNumber systemStateBefore, ch_systemStateAfter = None\<rparr>, s))"

text \<open>The id that \<open>finishChange\<close> enters as \<open>systemStateAfter\<close>.\<close>

definition finishChange :: "graphStore \<Rightarrow> i32 \<times> graphStore" where
  "finishChange s =
     (let (systemStateAfter, s) = getCurrentSystemState s in (ss_sequenceNumber systemStateAfter, s))"

text \<open>\<open>beginChange\<close>, the constructor of the change and \<open>initChange\<close>, as the four \<open>create...Change\<close> call them.\<close>

definition createChange :: "graphEvent \<Rightarrow> graphStore \<Rightarrow> sgChange \<times> graphStore" where
  "createChange event s = (let (sequenceNumber, s) = beginChange s in initChange event sequenceNumber s)"

definition updatePrice :: "graphEnv \<Rightarrow> graphEvent \<Rightarrow> int \<Rightarrow> graphStore \<Rightarrow> graphStore" where
  "updatePrice env event lastGoodPrice s =
     (let (systemState, s) = getCurrentSystemState s;
          newPrice = sg_decimalize env lastGoodPrice
      in case ss_price systemState of
           None \<Rightarrow>
             s\<lparr>systemStates := (systemStates s)(ss_sequenceNumber systemState \<mapsto> systemState\<lparr>ss_price := Some newPrice\<rparr>)\<rparr>
         | Some oldPrice \<Rightarrow>
             if newPrice \<noteq> oldPrice then
               (let (c, s) = createChange event s;
                    s = bumpSystemState (systemState\<lparr>ss_price := Some newPrice\<rparr>) s;
                    (after, s) = finishChange s
                in s\<lparr>priceChanges := (priceChanges s)(ch_sequenceNumber c \<mapsto>
                       sgChange.extend (c\<lparr>ch_systemStateAfter := Some after\<rparr>)
                         (sgPriceChange.fields (dminus env newPrice oldPrice)))\<rparr>)
             else s)"

definition tryToOffsetWithTokensFromStabilityPool ::
    "graphEnv \<Rightarrow> sgSystemState \<Rightarrow> rat \<Rightarrow> rat \<Rightarrow> sgSystemState" where
  "tryToOffsetWithTokensFromStabilityPool env ss collateralToLiquidate debtToLiquidate =
     (if debtToLiquidate \<le> ss_tokensInStabilityPool ss then
        ss\<lparr>ss_totalCollateral := dminus env (ss_totalCollateral ss) collateralToLiquidate,
           ss_totalDebt := dminus env (ss_totalDebt ss) debtToLiquidate,
           ss_tokensInStabilityPool := dminus env (ss_tokensInStabilityPool ss) debtToLiquidate\<rparr>
      else if ss_tokensInStabilityPool ss > 0 then
        ss\<lparr>ss_totalCollateral := dminus env (ss_totalCollateral ss)
             (truncateDecimal env
                (ddiv env (dtimes env collateralToLiquidate (ss_tokensInStabilityPool ss)) debtToLiquidate)
                DECIMAL_PRECISION),
           ss_totalDebt := dminus env (ss_totalDebt ss) (ss_tokensInStabilityPool ss),
           ss_tokensInStabilityPool := 0\<rparr>
      else ss)"

definition liquidateInSystemState :: "graphEnv \<Rightarrow> sgTroveChange \<Rightarrow> sgSystemState \<Rightarrow> sgSystemState res" where
  "liquidateInSystemState env c ss =
     (let collateralGasCompensation =
            truncateDecimal env (ddiv env (tc_collateralBefore c) 200) DECIMAL_PRECISION;
          ss = ss\<lparr>ss_totalCollateral := dminus env (ss_totalCollateral ss) collateralGasCompensation\<rparr>;
          offset = tryToOffsetWithTokensFromStabilityPool env ss
                     (dminus env (tc_collateralBefore c) collateralGasCompensation) (tc_debtBefore c)
      in if \<not> isRecoveryModeLiquidation (tc_troveOperation c) then Inr offset
         else (case tc_collateralRatioBefore c of
                 None \<Rightarrow> Inl TypeError
               | Some ratio \<Rightarrow> Inr (if ratio > 1 then offset else ss)))"

definition updateSystemStateByTroveChange :: "graphEnv \<Rightarrow> sgTroveChange \<Rightarrow> graphStore \<Rightarrow> graphStore res" where
  "updateSystemStateByTroveChange env c s =
     (let (ss, s) = getCurrentSystemState s;
          operation = tc_troveOperation c
      in bindR
           (if isBorrowerOperation operation \<or> isRedemption operation then
              Inr (ss\<lparr>ss_totalCollateral := dplus env (ss_totalCollateral ss) (tc_collateralChange c),
                      ss_totalDebt := dplus env (ss_totalDebt ss) (tc_debtChange c)\<rparr>)
            else if isLiquidation operation then liquidateInSystemState env c ss
            else Inr ss)
           (\<lambda>ss. case ss_price ss of
              None \<Rightarrow> Inl TypeError
            | Some price \<Rightarrow>
                Inr (bumpSystemState
                  (ss\<lparr>ss_totalCollateralRatio :=
                        calculateCollateralRatio env (ss_totalCollateral ss) (ss_totalDebt ss) price\<rparr>) s)))"

definition updateSystemStateByStabilityDepositChange ::
    "graphEnv \<Rightarrow> string \<Rightarrow> rat \<Rightarrow> graphStore \<Rightarrow> graphStore" where
  "updateSystemStateByStabilityDepositChange env operation depositedAmountChange s =
     (let (ss, s) = getCurrentSystemState s
      in bumpSystemState
           (if operation = ''depositTokens'' \<or> operation = ''withdrawTokens''
            then ss\<lparr>ss_tokensInStabilityPool := dplus env (ss_tokensInStabilityPool ss) depositedAmountChange\<rparr>
            else ss) s)"

definition updateSystemStateByCollSurplusChange :: "graphEnv \<Rightarrow> rat \<Rightarrow> graphStore \<Rightarrow> graphStore" where
  "updateSystemStateByCollSurplusChange env collSurplusChange s =
     (let (ss, s) = getCurrentSystemState s
      in bumpSystemState
           (ss\<lparr>ss_collSurplusPoolBalance := dplus env (ss_collSurplusPoolBalance ss) collSurplusChange\<rparr>) s)"

section \<open>Users, liquidations and redemptions\<close>

definition getUser :: "string \<Rightarrow> graphStore \<Rightarrow> sgUser \<times> graphStore" where
  "getUser id' s =
     (case users s id' of
        Some u \<Rightarrow> (u, s)
      | None \<Rightarrow>
          (let newUser = \<lparr>us_trove = None, us_stabilityDeposit = None, us_collSurplus = 0\<rparr>
           in (newUser, s\<lparr>users := (users s)(id' \<mapsto> newUser)\<rparr>)))"

definition updateUserClaimColl :: "graphEnv \<Rightarrow> graphEvent \<Rightarrow> string \<Rightarrow> int \<Rightarrow> graphStore \<Rightarrow> graphStore" where
  "updateUserClaimColl env event borrower collSurplus s =
     (let (user, s) = getUser borrower s;
          newCollSurplus = sg_decimalize env collSurplus
      in if newCollSurplus = us_collSurplus user then s
         else
           (let (c, s) = createChange event s;
                change = dminus env newCollSurplus (us_collSurplus user);
                s = updateSystemStateByCollSurplusChange env change s;
                (after, s) = finishChange s;
                s = s\<lparr>collSurplusChanges := (collSurplusChanges s)(ch_sequenceNumber c \<mapsto>
                       sgChange.extend (c\<lparr>ch_systemStateAfter := Some after\<rparr>)
                         (sgCollSurplusChange.fields borrower (us_collSurplus user) change newCollSurplus))\<rparr>
            in s\<lparr>users := (users s)(borrower \<mapsto> user\<lparr>us_collSurplus := newCollSurplus\<rparr>)\<rparr>))"

definition getCurrentLiquidation :: "graphEvent \<Rightarrow> graphStore \<Rightarrow> sgLiquidation \<times> graphStore" where
  "getCurrentLiquidation event s =
     (case Option.bind (g_currentLiquidation (getGlobal s)) (liquidations s) of
        Some l \<Rightarrow> (l, s)
      | None \<Rightarrow>
          (let (sequenceNumber, s) = getLiquidationSequenceNumber s;
               (transaction, s) = getTransaction event s;
               (_, s) = getUser (ev_from event) s;
               newLiquidation =
                 \<lparr>li_sequenceNumber = sequenceNumber, li_transaction = transaction,
                  li_liquidator = ev_from event, li_liquidatedDebt = 0, li_liquidatedCollateral = 0,
                  li_collGasCompensation = 0, li_tokenGasCompensation = 0\<rparr>;
               s = s\<lparr>liquidations := (liquidations s)(sequenceNumber \<mapsto> newLiquidation)\<rparr>
           in (newLiquidation, updateGlobal (\<lambda>g. g\<lparr>g_currentLiquidation := Some sequenceNumber\<rparr>) s)))"

definition finishCurrentLiquidation ::
    "graphEnv \<Rightarrow> graphEvent \<Rightarrow> int \<Rightarrow> int \<Rightarrow> int \<Rightarrow> int \<Rightarrow> graphStore \<Rightarrow> graphStore" where
  "finishCurrentLiquidation env event liquidatedColl liquidatedDebt collGasCompensation tokenGasCompensation s =
     (let (l, s) = getCurrentLiquidation event s;
          l = l\<lparr>li_liquidatedCollateral := sg_decimalize env liquidatedColl,
                li_liquidatedDebt := sg_decimalize env liquidatedDebt,
                li_collGasCompensation := sg_decimalize env collGasCompensation,
                li_tokenGasCompensation := sg_decimalize env tokenGasCompensation\<rparr>;
          s = s\<lparr>liquidations := (liquidations s)(li_sequenceNumber l \<mapsto> l)\<rparr>
      in updateGlobal (\<lambda>g. g\<lparr>g_currentLiquidation := None\<rparr>) s)"

definition getCurrentRedemption :: "graphEvent \<Rightarrow> graphStore \<Rightarrow> sgRedemption \<times> graphStore" where
  "getCurrentRedemption event s =
     (case Option.bind (g_currentRedemption (getGlobal s)) (redemptions s) of
        Some r \<Rightarrow> (r, s)
      | None \<Rightarrow>
          (let (sequenceNumber, s) = getRedemptionSequenceNumber s;
               (transaction, s) = getTransaction event s;
               (_, s) = getUser (ev_from event) s;
               newRedemption =
                 \<lparr>re_sequenceNumber = sequenceNumber, re_transaction = transaction,
                  re_redeemer = ev_from event, re_tokensAttemptedToRedeem = 0,
                  re_tokensActuallyRedeemed = 0, re_collateralRedeemed = 0, re_partial = False, re_fee = 0\<rparr>;
               s = s\<lparr>redemptions := (redemptions s)(sequenceNumber \<mapsto> newRedemption)\<rparr>
           in (newRedemption, updateGlobal (\<lambda>g. g\<lparr>g_currentRedemption := Some sequenceNumber\<rparr>) s)))"

definition finishCurrentRedemption ::
    "graphEnv \<Rightarrow> graphEvent \<Rightarrow> int \<Rightarrow> int \<Rightarrow> int \<Rightarrow> int \<Rightarrow> graphStore \<Rightarrow> graphStore" where
  "finishCurrentRedemption env event attempted actual collateralSent collateralFee s =
     (let fee = sg_decimalize env collateralFee;
          (r, s) = getCurrentRedemption event s;
          r = r\<lparr>re_tokensAttemptedToRedeem := sg_decimalize env attempted,
                re_tokensActuallyRedeemed := sg_decimalize env actual,
                re_collateralRedeemed := sg_decimalize env collateralSent,
                re_partial := actual < attempted, re_fee := fee\<rparr>;
          s = s\<lparr>redemptions := (redemptions s)(re_sequenceNumber r \<mapsto> r)\<rparr>
      in updateGlobal (\<lambda>g. g\<lparr>g_currentRedemption := None,
                             g_totalRedemptionFeesPaid := dplus env (g_totalRedemptionFeesPaid g) fee\<rparr>) s)"

end
