(* ===== verification/Subgraph_Handlers.thy ===== *)
theory Subgraph_Handlers
  imports Subgraph
begin

text \<open>
  The entities of troves, stability deposits and tokens, and the event handlers, of
  \<open>packages/subgraph/src\<close> (\<open>entities/Trove.ts\<close>, \<open>entities/StabilityDeposit.ts\<close>,
  \<open>entities/Token*.ts\<close> and \<open>mappings\<close>).
\<close>

section \<open>Troves\<close>

text \<open>A new trove is returned but not saved; its owner and the counters are.\<close>

definition sg_getTrove :: "string \<Rightarrow> graphStore \<Rightarrow> sgTrove \<times> graphStore" where
  "sg_getTrove user s =
     (case sgTroves s user of
        Some t \<Rightarrow> (t, s)
      | None \<Rightarrow>
          (let (owner, s) = getUser user s;
               newTrove =
                 \<lparr>tr_owner = user, tr_status = SgOpen, tr_collateral = 0, tr_debt = 0,
                  tr_rawCollateral = None, tr_rawDebt = None, tr_rawStake = None,
                  tr_rawSnapshotOfTotalRedistributedCollateral = None,
                  tr_rawSnapshotOfTotalRedistributedDebt = None, tr_collateralRatioSortKey = None\<rparr>;
               s = increaseNumberOfOpenTroves s
           in (newTrove, s\<lparr>users := (users s)(user \<mapsto> owner\<lparr>us_trove := Some user\<rparr>)\<rparr>)))"

definition setTroveStatus :: "sgTroveStatus \<Rightarrow> sgTrove \<Rightarrow> graphStore \<Rightarrow> sgTrove \<times> graphStore" where
  "setTroveStatus st trove s =
     (if st \<noteq> tr_status trove then
        (trove\<lparr>tr_status := st\<rparr>,
         case st of
           SgOpen \<Rightarrow>
             (case tr_status trove of
                SgClosedByOwner \<Rightarrow> decreaseNumberOfTrovesClosedByOwner s
              | SgClosedByLiquidation \<Rightarrow> decreaseNumberOfLiquidatedTroves s
              | SgClosedByRedemption \<Rightarrow> decreaseNumberOfRedeemedTroves s
              | SgOpen \<Rightarrow> s)
         | SgClosedByOwner \<Rightarrow> increaseNumberOfTrovesClosedByOwner s
         | SgClosedByLiquidation \<Rightarrow> increaseNumberOfLiquidatedTroves s
         | SgClosedByRedemption \<Rightarrow> increaseNumberOfRedeemedTroves s)
      else (trove, s))"

text \<open>The fields of the change that \<open>updateTrove\<close> sets before the system state is updated.\<close>

definition fillTroveChange ::
    "graphEnv \<Rightarrow> sgChange \<Rightarrow> string \<Rightarrow> string \<Rightarrow> rat \<Rightarrow> sgTrove \<Rightarrow> rat \<Rightarrow> rat \<Rightarrow>
     i32 option \<Rightarrow> i32 option \<Rightarrow> sgTroveChange" where
  "fillTroveChange env c borrower operation price trove newCollateral newDebt liquidation redemption =
     sgChange.extend c (sgTroveChange.fields borrower operation
       (tr_collateral trove) (dminus env newCollateral (tr_collateral trove)) newCollateral
       (tr_debt trove) (dminus env newDebt (tr_debt trove)) newDebt None
       (calculateCollateralRatio env (tr_collateral trove) (tr_debt trove) price)
       (calculateCollateralRatio env newCollateral newDebt price) liquidation redemption)"

definition setRawAmounts ::
    "int \<Rightarrow> int \<Rightarrow> int \<Rightarrow> sgGlobal \<Rightarrow> sgTrove \<Rightarrow> sgTrove" where
  "setRawAmounts coll debt stake global trove =
     (let trove = trove\<lparr>tr_rawCollateral := Some coll, tr_rawDebt := Some debt, tr_rawStake := Some stake\<rparr>
      in if stake \<noteq> 0 then
           trove\<lparr>tr_rawSnapshotOfTotalRedistributedCollateral := Some (g_rawTotalRedistributedCollateral global),
                 tr_rawSnapshotOfTotalRedistributedDebt := Some (g_rawTotalRedistributedDebt global),
                 tr_collateralRatioSortKey :=
                   Some (bigint_div (debt * SCALING_FACTOR) stake - g_rawTotalRedistributedDebt global)\<rparr>
         else
           trove\<lparr>tr_rawSnapshotOfTotalRedistributedCollateral := Some 0,
                 tr_rawSnapshotOfTotalRedistributedDebt := Some 0, tr_collateralRatioSortKey := None\<rparr>)"

definition statusAfter :: "string \<Rightarrow> int \<Rightarrow> sgTroveStatus" where
  "statusAfter operation coll =
     (if coll = 0 then
        (if isLiquidation operation then SgClosedByLiquidation
         else if isRedemption operation then SgClosedByRedemption
         else SgClosedByOwner)
      else SgOpen)"

definition updateTrove ::
    "graphEnv \<Rightarrow> graphEvent \<Rightarrow> string \<Rightarrow> string \<Rightarrow> int \<Rightarrow> int \<Rightarrow> int \<Rightarrow> graphStore \<Rightarrow> graphStore res" where
  "updateTrove env event operation borrower coll debt stake s =
     (let global = getGlobal s;
          (trove, s) = sg_getTrove borrower s;
          newCollateral = sg_decimalize env coll;
          newDebt = sg_decimalize env debt
      in if newCollateral = tr_collateral trove \<and> newDebt = tr_debt trove then Inr s
         else
           (let (c, s) = createChange event s
            in bindR (getCurrentPrice s) (\<lambda>(price, s).
                 let (liquidation, s) =
                       (if isLiquidation operation
                        then (let (l, s) = getCurrentLiquidation event s in (Some (li_sequenceNumber l), s))
                        else (None, s));
                     (redemption, s) =
                       (if isRedemption operation
                        then (let (r, s) = getCurrentRedemption event s in (Some (re_sequenceNumber r), s))
                        else (None, s));
                     change = fillTroveChange env c borrower operation price trove newCollateral newDebt
                                liquidation redemption;
                     trove = trove\<lparr>tr_collateral := newCollateral, tr_debt := newDebt\<rparr>
                 in bindR (updateSystemStateByTroveChange env change s) (\<lambda>s.
                      let (after, s) = finishChange s;
                          s = s\<lparr>troveChanges := (troveChanges s)(ch_sequenceNumber change \<mapsto>
                                  change\<lparr>ch_systemStateAfter := Some after\<rparr>)\<rparr>;
                          trove = setRawAmounts coll debt stake global trove;
                          (trove, s) = setTroveStatus (statusAfter operation coll) trove s
                      in Inr (s\<lparr>sgTroves := (sgTroves s)(borrower \<mapsto> trove)\<rparr>)))))"

definition setBorrowingFeeOfLastTroveChange :: "graphEnv \<Rightarrow> int \<Rightarrow> graphStore \<Rightarrow> graphStore res" where
  "setBorrowingFeeOfLastTroveChange env fee s =
     (let n = getLastChangeSequenceNumber s
      in case troveChanges s n of
           None \<Rightarrow> Inl TypeError
         | Some c \<Rightarrow>
             Inr (s\<lparr>troveChanges := (troveChanges s)(n \<mapsto> c\<lparr>tc_borrowingFee := Some (sg_decimalize env fee)\<rparr>)\<rparr>))"

definition redistributedRaw :: "int \<Rightarrow> int \<Rightarrow> int \<Rightarrow> int" where
  "redistributedRaw totalRedistributed snapshot stake =
     bigint_div ((totalRedistributed - snapshot) * stake) SCALING_FACTOR"

definition applyRedistributionToTroveBeforeLiquidation ::
    "graphEnv \<Rightarrow> graphEvent \<Rightarrow> string \<Rightarrow> graphStore \<Rightarrow> graphStore res" where
  "applyRedistributionToTroveBeforeLiquidation env event borrower s =
     (let global = getGlobal s;
          (trove, s) = sg_getTrove borrower s
      in case (tr_rawSnapshotOfTotalRedistributedCollateral trove, tr_rawSnapshotOfTotalRedistributedDebt trove,
               tr_rawStake trove, tr_rawCollateral trove, tr_rawDebt trove) of
           (Some snapshotCollateral, Some snapshotDebt, Some stake, Some rawCollateral, Some rawDebt) \<Rightarrow>
             updateTrove env event ''accrueRewards'' borrower
               (rawCollateral + redistributedRaw (g_rawTotalRedistributedCollateral global) snapshotCollateral stake)
               (rawDebt + redistributedRaw (g_rawTotalRedistributedDebt global) snapshotDebt stake) 0 s
         | _ \<Rightarrow> Inl TypeError)"

section \<open>Stability deposits\<close>

definition sg_getStabilityDeposit :: "string \<Rightarrow> graphStore \<Rightarrow> sgStabilityDeposit \<times> graphStore" where
  "sg_getStabilityDeposit user s =
     (case stabilityDeposits s user of
        Some d \<Rightarrow> (d, s)
      | None \<Rightarrow>
          (let (owner, s) = getUser user s
           in (\<lparr>sd_owner = user, sd_depositedAmount = 0\<rparr>,
               s\<lparr>users := (users s)(user \<mapsto> owner\<lparr>us_stabilityDeposit := Some user\<rparr>)\<rparr>)))"

definition updateStabilityDepositByOperation ::
    "graphEnv \<Rightarrow> graphEvent \<Rightarrow> string \<Rightarrow> sgStabilityDeposit \<Rightarrow> string \<Rightarrow> rat \<Rightarrow> rat option \<Rightarrow> graphStore \<Rightarrow>
     sgStabilityDeposit \<times> graphStore" where
  "updateStabilityDepositByOperation env event user dep operation newDepositedAmount gain s =
     (let (c, s) = createChange event s;
          change = dminus env newDepositedAmount (sd_depositedAmount dep);
          s = updateSystemStateByStabilityDepositChange env operation change s;
          (after, s) = finishChange s
      in (dep\<lparr>sd_depositedAmount := newDepositedAmount\<rparr>,
          s\<lparr>stabilityDepositChanges := (stabilityDepositChanges s)(ch_sequenceNumber c \<mapsto>
              sgChange.extend (c\<lparr>ch_systemStateAfter := Some after\<rparr>)
                (sgStabilityDepositChange.fields user operation (sd_depositedAmount dep) change
                   newDepositedAmount gain))\<rparr>))"

definition updateStabilityDeposit ::
    "graphEnv \<Rightarrow> graphEvent \<Rightarrow> string \<Rightarrow> int \<Rightarrow> graphStore \<Rightarrow> graphStore" where
  "updateStabilityDeposit env event user amount s =
     (let (dep, s) = sg_getStabilityDeposit user s;
          newDepositedAmount = sg_decimalize env amount;
          (_, s) = getUser user s
      in if newDepositedAmount = sd_depositedAmount dep then s
         else
           (let (dep, s) = updateStabilityDepositByOperation env event user dep
                  (if newDepositedAmount > sd_depositedAmount dep then ''depositTokens'' else ''withdrawTokens'')
                  newDepositedAmount None s
            in s\<lparr>stabilityDeposits := (stabilityDeposits s)(user \<mapsto> dep)\<rparr>))"

definition withdrawCollateralGainFromStabilityDeposit ::
    "graphEnv \<Rightarrow> graphEvent \<Rightarrow> string \<Rightarrow> int \<Rightarrow> int \<Rightarrow> graphStore \<Rightarrow> graphStore" where
  "withdrawCollateralGainFromStabilityDeposit env event user coll loss s =
     (if coll = 0 \<and> loss = 0 then s
      else
        (let (dep, s) = sg_getStabilityDeposit user s;
             newDepositedAmount = dminus env (sd_depositedAmount dep) (sg_decimalize env loss);
             (dep, s) = updateStabilityDepositByOperation env event user dep ''withdrawCollateralGain''
                          newDepositedAmount (Some (sg_decimalize env coll)) s
         in s\<lparr>stabilityDeposits := (stabilityDeposits s)(user \<mapsto> dep)\<rparr>))"

section \<open>Tokens\<close>

definition createToken :: "string \<Rightarrow> string \<Rightarrow> string \<Rightarrow> graphStore \<Rightarrow> sgToken \<times> graphStore" where
  "createToken address name tokenSymbol s =
     (let token = \<lparr>to_name = name, to_symbol = tokenSymbol, to_totalSupply = 0\<rparr>
      in (token, s\<lparr>tokens := (tokens s)(address \<mapsto> token)\<rparr>))"

definition getToken :: "graphEnv \<Rightarrow> string \<Rightarrow> graphStore \<Rightarrow> sgToken \<times> graphStore" where
  "getToken env address s =
     (case tokens s address of
        Some t \<Rightarrow> (t, s)
      | None \<Rightarrow> createToken address (erc20_name env address) (erc20_tokenSymbol env address) s)"

definition balanceId :: "string \<Rightarrow> string \<Rightarrow> string" where
  "balanceId token owner = token @ ''-'' @ owner"

definition getTokenBalance :: "string \<Rightarrow> string \<Rightarrow> graphStore \<Rightarrow> sgTokenBalance \<times> graphStore" where
  "getTokenBalance token owner s =
     (let (_, s) = getUser owner s
      in case tokenBalances s (balanceId token owner) of
           Some b \<Rightarrow> (b, s)
         | None \<Rightarrow>
             (let b = \<lparr>tb_token = token, tb_owner = owner, tb_balance = 0\<rparr>
              in (b, s\<lparr>tokenBalances := (tokenBalances s)(balanceId token owner \<mapsto> b)\<rparr>)))"

text \<open>Load a balance, add to it, save it.\<close>

definition addToBalance :: "string \<Rightarrow> string \<Rightarrow> int \<Rightarrow> graphStore \<Rightarrow> graphStore" where
  "addToBalance token owner v s =
     (let (b, s) = getTokenBalance token owner s
      in s\<lparr>tokenBalances := (tokenBalances s)(balanceId token owner \<mapsto> b\<lparr>tb_balance := tb_balance b + v\<rparr>)\<rparr>)"

definition updateBalance :: "graphEnv \<Rightarrow> graphEvent \<Rightarrow> string \<Rightarrow> string \<Rightarrow> int \<Rightarrow> graphStore \<Rightarrow> graphStore" where
  "updateBalance env event from' to' v s =
     (let tokenAddress = ev_address event;
          (token, s) = getToken env tokenAddress s;
          (token, s) =
            (if from' = sg_ZERO_ADDRESS then
               (let token = token\<lparr>to_totalSupply := to_totalSupply token + v\<rparr>
                in (token, s\<lparr>tokens := (tokens s)(tokenAddress \<mapsto> token)\<rparr>))
             else (token, addToBalance tokenAddress from' (- v) s))
      in if to' = sg_ZERO_ADDRESS then
           s\<lparr>tokens := (tokens s)(tokenAddress \<mapsto> token\<lparr>to_totalSupply := to_totalSupply token - v\<rparr>)\<rparr>
         else addToBalance tokenAddress to' v s)"

definition getTokenAllowance :: "string \<Rightarrow> string \<Rightarrow> string \<Rightarrow> graphStore \<Rightarrow> sgTokenAllowance \<times> graphStore" where
  "getTokenAllowance token owner spender s =
     (let id' = token @ ''-'' @ owner @ ''-'' @ spender;
          (_, s) = getUser owner s;
          (_, s) = getUser spender s
      in case tokenAllowances s id' of
           Some a \<Rightarrow> (a, s)
         | None \<Rightarrow>
             (let a = \<lparr>ta_token = token, ta_owner = owner, ta_spender = spender, ta_value = 0\<rparr>
              in (a, s\<lparr>tokenAllowances := (tokenAllowances s)(id' \<mapsto> a)\<rparr>)))"

definition updateAllowance :: "graphEvent \<Rightarrow> string \<Rightarrow> string \<Rightarrow> int \<Rightarrow> graphStore \<Rightarrow> graphStore" where
  "updateAllowance event owner spender v s =
     (let (a, s) = getTokenAllowance (ev_address event) owner spender s
      in s\<lparr>tokenAllowances := (tokenAllowances s)(ev_address event @ ''-'' @ owner @ ''-'' @ spender \<mapsto> a\<lparr>ta_value := v\<rparr>)\<rparr>)"

section \<open>Mappings\<close>

definition swapTmpDepositUpdate :: "int \<Rightarrow> graphStore \<Rightarrow> int option \<times> graphStore" where
  "swapTmpDepositUpdate valueToSetIfNull s =
     (let tmp = g_tmpDepositUpdate (getGlobal s)
      in (tmp, updateGlobal (\<lambda>g. g\<lparr>g_tmpDepositUpdate := (if tmp = None then Some valueToSetIfNull else None)\<rparr>) s))"

definition handleUserDepositChanged :: "graphEnv \<Rightarrow> graphEvent \<Rightarrow> string \<Rightarrow> int \<Rightarrow> graphStore \<Rightarrow> graphStore" where
  "handleUserDepositChanged env event depositor newDeposit s =
     (let (gainWithdrawn, s) = swapTmpDepositUpdate newDeposit s
      in if gainWithdrawn \<noteq> None then updateStabilityDeposit env event depositor newDeposit s else s)"

definition handleCollateralGainWithdrawn ::
    "graphEnv \<Rightarrow> graphEvent \<Rightarrow> string \<Rightarrow> int \<Rightarrow> int \<Rightarrow> graphStore \<Rightarrow> graphStore" where
  "handleCollateralGainWithdrawn env event depositor coll loss s =
     (let (depositUpdate, s) = swapTmpDepositUpdate 0 s;
          s = withdrawCollateralGainFromStabilityDeposit env event depositor coll loss s
      in case depositUpdate of
           Some d \<Rightarrow> updateStabilityDeposit env event depositor d s
         | None \<Rightarrow> s)"

text \<open>The events of the data sources, and the handler of each.\<close>

datatype graphAction =
    BO_TroveUpdated nat string int int int
  | THUSDBorrowingFeePaid int
  | CollBalanceUpdated string int
  | LastGoodPrice int
  | UserDepositChanged string int
  | CollateralGainWithdrawn string int int
  | TM_TroveUpdated nat string int int int
  | TroveLiquidated string
  | LiquidationEvent int int int int
  | RedemptionEvent int int int int
  | LTermsUpdated int int
  | Transfer string string int
  | Approval string string int

fun handleEvent :: "graphEnv \<Rightarrow> graphEvent \<Rightarrow> graphAction \<Rightarrow> graphStore \<Rightarrow> graphStore res" where
  "handleEvent env ev (BO_TroveUpdated operation borrower coll debt stake) s =
     updateTrove env ev (getTroveOperationFromBorrowerOperation operation) borrower coll debt stake s"
| "handleEvent env ev (THUSDBorrowingFeePaid fee) s =
     bindR (setBorrowingFeeOfLastTroveChange env fee s) (\<lambda>s. Inr (increaseTotalBorrowingFeesPaid env fee s))"
| "handleEvent env ev (CollBalanceUpdated account newBalance) s =
     Inr (updateUserClaimColl env ev account newBalance s)"
| "handleEvent env ev (LastGoodPrice newPrice) s = Inr (updatePrice env ev newPrice s)"
| "handleEvent env ev (UserDepositChanged depositor newDeposit) s =
     Inr (handleUserDepositChanged env ev depositor newDeposit s)"
| "handleEvent env ev (CollateralGainWithdrawn depositor coll loss) s =
     Inr (handleCollateralGainWithdrawn env ev depositor coll loss s)"
| "handleEvent env ev (TM_TroveUpdated operation borrower coll debt stake) s =
     updateTrove env ev (getTroveOperationFromTroveManagerOperation operation) borrower coll debt stake s"
| "handleEvent env ev (TroveLiquidated borrower) s =
     applyRedistributionToTroveBeforeLiquidation env ev borrower s"
| "handleEvent env ev (LiquidationEvent liquidatedColl liquidatedDebt collGas tokenGas) s =
     Inr (finishCurrentLiquidation env ev liquidatedColl liquidatedDebt collGas tokenGas s)"
| "handleEvent env ev (RedemptionEvent attempted actual sent fee) s =
     Inr (finishCurrentRedemption env ev attempted actual sent fee s)"
| "handleEvent env ev (LTermsUpdated L_Coll L_Debt) s = Inr (updateTotalRedistributed L_Coll L_Debt s)"
| "handleEvent env ev (Transfer from' to' v) s = Inr (updateBalance env ev from' to' v s)"
| "handleEvent env ev (Approval owner spender v) s = Inr (updateAllowance ev owner spender v s)"

end
