(* ===== verification/Subgraph_Correct.thy ===== *)
theory Subgraph_Correct
  imports Subgraph_Handlers
begin

text \<open>
  The history that the indexer keeps: invariants of every store reached by handling events, by
  rule induction, with one preservation lemma per operation.
\<close>

section \<open>Runs\<close>

text \<open>Stores reached by handling events that the predicate \<open>V\<close> allows.\<close>

inductive graph_run :: "graphEnv \<Rightarrow> (graphEvent \<Rightarrow> graphAction \<Rightarrow> graphStore \<Rightarrow> bool) \<Rightarrow> graphStore \<Rightarrow> bool"
  for env V where
  init: "graph_run env V emptyGraph"
| handle: "graph_run env V s \<Longrightarrow> V ev a s \<Longrightarrow> handleEvent env ev a s = Inr s' \<Longrightarrow> graph_run env V s'"

lemma graph_run_invariant:
  assumes "graph_run env V s" and "P emptyGraph"
    and "\<And>s ev a s'. P s \<Longrightarrow> V ev a s \<Longrightarrow> handleEvent env ev a s = Inr s' \<Longrightarrow> P s'"
  shows "P s"
  using assms(1) by induction (auto intro: assms)

lemma getGlobal_updateGlobal [simp]: "getGlobal (updateGlobal f s) = f (getGlobal s)"
  by (simp add: getGlobal_def updateGlobal_def)

lemma getGlobal_update [simp]:
  "getGlobal (s\<lparr>systemStates := x0\<rparr>) = getGlobal s" "getGlobal (s\<lparr>users := x1\<rparr>) = getGlobal s"
  "getGlobal (s\<lparr>sgTroves := x2\<rparr>) = getGlobal s" "getGlobal (s\<lparr>stabilityDeposits := x3\<rparr>) = getGlobal s"
  "getGlobal (s\<lparr>transactions := x4\<rparr>) = getGlobal s" "getGlobal (s\<lparr>troveChanges := x5\<rparr>) = getGlobal s"
  "getGlobal (s\<lparr>stabilityDepositChanges := x6\<rparr>) = getGlobal s" "getGlobal (s\<lparr>priceChanges := x7\<rparr>) = getGlobal s"
  "getGlobal (s\<lparr>collSurplusChanges := x8\<rparr>) = getGlobal s" "getGlobal (s\<lparr>liquidations := x9\<rparr>) = getGlobal s"
  "getGlobal (s\<lparr>redemptions := x10\<rparr>) = getGlobal s" "getGlobal (s\<lparr>tokens := x11\<rparr>) = getGlobal s"
  "getGlobal (s\<lparr>tokenBalances := x12\<rparr>) = getGlobal s" "getGlobal (s\<lparr>tokenAllowances := x13\<rparr>) = getGlobal s"
  by (simp_all add: getGlobal_def)

lemma updateGlobal_sel [simp]:
  "systemStates (updateGlobal h s) = systemStates s" "users (updateGlobal h s) = users s"
  "sgTroves (updateGlobal h s) = sgTroves s" "stabilityDeposits (updateGlobal h s) = stabilityDeposits s"
  "transactions (updateGlobal h s) = transactions s" "troveChanges (updateGlobal h s) = troveChanges s"
  "stabilityDepositChanges (updateGlobal h s) = stabilityDepositChanges s" "priceChanges (updateGlobal h s) = priceChanges s"
  "collSurplusChanges (updateGlobal h s) = collSurplusChanges s" "liquidations (updateGlobal h s) = liquidations s"
  "redemptions (updateGlobal h s) = redemptions s" "tokens (updateGlobal h s) = tokens s"
  "tokenBalances (updateGlobal h s) = tokenBalances s" "tokenAllowances (updateGlobal h s) = tokenAllowances s"
  by (simp_all add: updateGlobal_def)

section \<open>The chain of system states\<close>

text \<open>The part of the store that \<open>Change.ts\<close> and \<open>SystemState.ts\<close> keep.\<close>

definition core :: "graphStore \<Rightarrow> i32 \<times> i32 \<times> i32 option \<times> (i32 \<rightharpoonup> sgSystemState)" where
  "core s = (g_changeCount (getGlobal s), g_systemStateCount (getGlobal s),
             g_currentSystemState (getGlobal s), systemStates s)"

definition changesOf :: "graphStore \<Rightarrow> i32 \<Rightarrow> sgChange list" where
  "changesOf s k =
     map sgChange.truncate (case_option [] (\<lambda>c. [c]) (troveChanges s k)) @
     map sgChange.truncate (case_option [] (\<lambda>c. [c]) (stabilityDepositChanges s k)) @
     map sgChange.truncate (case_option [] (\<lambda>c. [c]) (priceChanges s k)) @
     map sgChange.truncate (case_option [] (\<lambda>c. [c]) (collSurplusChanges s k))"

text \<open>Change \<open>k\<close> leads from system state \<open>k\<close> to system state \<open>k + 1\<close>.\<close>

definition linked :: "i32 \<Rightarrow> sgChange \<Rightarrow> bool" where
  "linked k c \<longleftrightarrow> ch_sequenceNumber c = k \<and> ch_systemStateBefore c = k \<and> ch_systemStateAfter c = Some (k + 1)"

definition at_state :: "i32 \<Rightarrow> graphStore \<Rightarrow> bool" where
  "at_state n s \<longleftrightarrow> g_currentSystemState (getGlobal s) = Some n \<and> g_systemStateCount (getGlobal s) = n + 1 \<and>
     (\<exists>ss. systemStates s n = Some ss \<and> ss_sequenceNumber ss = n)"

definition fresh_state :: "graphStore \<Rightarrow> bool" where
  "fresh_state s \<longleftrightarrow> g_currentSystemState (getGlobal s) = None \<and> g_systemStateCount (getGlobal s) = 0"

definition chained :: "graphStore \<Rightarrow> bool" where
  "chained s \<longleftrightarrow>
     (at_state (g_changeCount (getGlobal s)) s \<or> fresh_state s \<and> g_changeCount (getGlobal s) = 0) \<and>
     (\<forall>k. list_all (linked k) (changesOf s k))"

lemma core_eqD: "core s' = core s \<Longrightarrow> at_state n s' = at_state n s \<and> fresh_state s' = fresh_state s \<and>
    g_changeCount (getGlobal s') = g_changeCount (getGlobal s)"
  by (simp add: core_def at_state_def fresh_state_def)

lemma chained_eqI: "core s' = core s \<Longrightarrow> changesOf s' = changesOf s \<Longrightarrow> chained s \<Longrightarrow> chained s'"
  by (auto simp: chained_def dest!: core_eqD)

text \<open>Updates that keep out of this part.\<close>

lemma core_updates [simp]:
  "core (s\<lparr>users := u\<rparr>) = core s" "core (s\<lparr>sgTroves := t\<rparr>) = core s"
  "core (s\<lparr>stabilityDeposits := d\<rparr>) = core s" "core (s\<lparr>transactions := x\<rparr>) = core s"
  "core (s\<lparr>troveChanges := a\<rparr>) = core s" "core (s\<lparr>stabilityDepositChanges := b\<rparr>) = core s"
  "core (s\<lparr>priceChanges := c\<rparr>) = core s" "core (s\<lparr>collSurplusChanges := e\<rparr>) = core s"
  "core (s\<lparr>liquidations := l\<rparr>) = core s" "core (s\<lparr>redemptions := r\<rparr>) = core s"
  "core (s\<lparr>tokens := f\<rparr>) = core s" "core (s\<lparr>tokenBalances := g\<rparr>) = core s"
  "core (s\<lparr>tokenAllowances := h\<rparr>) = core s"
  by (simp_all add: core_def)

lemma changesOf_updates [simp]:
  "changesOf (s\<lparr>users := u\<rparr>) = changesOf s" "changesOf (s\<lparr>sgTroves := t\<rparr>) = changesOf s"
  "changesOf (s\<lparr>stabilityDeposits := d\<rparr>) = changesOf s" "changesOf (s\<lparr>transactions := x\<rparr>) = changesOf s"
  "changesOf (s\<lparr>liquidations := l\<rparr>) = changesOf s" "changesOf (s\<lparr>redemptions := r\<rparr>) = changesOf s"
  "changesOf (s\<lparr>tokens := f\<rparr>) = changesOf s" "changesOf (s\<lparr>tokenBalances := g\<rparr>) = changesOf s"
  "changesOf (s\<lparr>tokenAllowances := h\<rparr>) = changesOf s" "changesOf (s\<lparr>systemStates := y\<rparr>) = changesOf s"
  "changesOf (updateGlobal z s) = changesOf s"
  by (simp_all add: changesOf_def updateGlobal_def fun_eq_iff)

lemma core_updateGlobal:
  "core (updateGlobal f s) =
     (g_changeCount (f (getGlobal s)), g_systemStateCount (f (getGlobal s)),
      g_currentSystemState (f (getGlobal s)), systemStates s)"
  by (simp add: core_def)

definition keeps :: "graphStore \<Rightarrow> graphStore \<Rightarrow> bool" where
  "keeps s s' \<longleftrightarrow> core s' = core s \<and> changesOf s' = changesOf s"

lemmas neutral_defs =
  getUser_def getTransaction_def getTransactionSequenceNumber_def getCurrentLiquidation_def
  getLiquidationSequenceNumber_def getCurrentRedemption_def getRedemptionSequenceNumber_def
  sg_getTrove_def setTroveStatus_def sg_getStabilityDeposit_def getToken_def createToken_def
  getTokenBalance_def addToBalance_def getTokenAllowance_def swapTmpDepositUpdate_def
  increaseNumberOfOpenTroves_def increaseNumberOfLiquidatedTroves_def decreaseNumberOfLiquidatedTroves_def
  increaseNumberOfRedeemedTroves_def decreaseNumberOfRedeemedTroves_def
  increaseNumberOfTrovesClosedByOwner_def decreaseNumberOfTrovesClosedByOwner_def
  increaseTotalBorrowingFeesPaid_def updateTotalRedistributed_def

lemma keeps_refl: "keeps s s"
  by (simp add: keeps_def)

lemma keeps_trans: "keeps s s' \<Longrightarrow> keeps s' s'' \<Longrightarrow> keeps s s''"
  by (simp add: keeps_def)

lemma keeps_updates:
  "keeps s (s\<lparr>users := u\<rparr>)" "keeps s (s\<lparr>sgTroves := t\<rparr>)" "keeps s (s\<lparr>stabilityDeposits := d\<rparr>)"
  "keeps s (s\<lparr>transactions := x\<rparr>)" "keeps s (s\<lparr>liquidations := l\<rparr>)" "keeps s (s\<lparr>redemptions := r\<rparr>)"
  "keeps s (s\<lparr>tokens := f\<rparr>)" "keeps s (s\<lparr>tokenBalances := g\<rparr>)" "keeps s (s\<lparr>tokenAllowances := h\<rparr>)"
  by (simp_all add: keeps_def)

lemma chained_keeps: "keeps s s' \<Longrightarrow> chained s \<Longrightarrow> chained s'"
  by (auto simp: keeps_def intro: chained_eqI)

lemma keeps_getUser: "getUser u s = (x, s') \<Longrightarrow> keeps s s'"
  by (auto simp: keeps_def getUser_def Let_def split: option.splits)

lemma keeps_getTransaction: "getTransaction ev s = (x, s') \<Longrightarrow> keeps s s'"
  by (auto simp: keeps_def neutral_defs Let_def core_def split: option.splits)

lemma keeps_getCurrentLiquidation: "getCurrentLiquidation ev s = (x, s') \<Longrightarrow> keeps s s'"
  by (auto simp: keeps_def neutral_defs Let_def core_def split: option.splits)

lemma keeps_getCurrentRedemption: "getCurrentRedemption ev s = (x, s') \<Longrightarrow> keeps s s'"
  by (auto simp: keeps_def neutral_defs Let_def core_def split: option.splits)

lemma keeps_sg_getTrove: "sg_getTrove b s = (x, s') \<Longrightarrow> keeps s s'"
  by (auto simp: keeps_def neutral_defs Let_def core_def split: option.splits)

lemma keeps_setTroveStatus: "setTroveStatus st t s = (x, s') \<Longrightarrow> keeps s s'"
  by (auto simp: keeps_def neutral_defs Let_def core_def split: if_splits sgTroveStatus.splits)

lemma keeps_sg_getStabilityDeposit: "sg_getStabilityDeposit b s = (x, s') \<Longrightarrow> keeps s s'"
  by (auto simp: keeps_def neutral_defs Let_def core_def split: option.splits)

lemma keeps_updateBalance: "keeps s (updateBalance env ev a b v s)"
  by (auto simp: keeps_def updateBalance_def neutral_defs Let_def core_def split: option.splits prod.splits)

lemma keeps_updateAllowance: "keeps s (updateAllowance ev a b v s)"
  by (auto simp: keeps_def updateAllowance_def neutral_defs Let_def core_def split: option.splits)

lemma keeps_swapTmpDepositUpdate: "swapTmpDepositUpdate v s = (x, s') \<Longrightarrow> keeps s s'"
  by (auto simp: keeps_def neutral_defs Let_def core_def)

subsection \<open>The steps of a change\<close>

definition links :: "graphStore \<Rightarrow> bool" where
  "links s \<longleftrightarrow> (\<forall>k. list_all (linked k) (changesOf s k))"

text \<open>Change \<open>n\<close> has begun, and its system state has not been created yet.\<close>

definition changing :: "i32 \<Rightarrow> graphStore \<Rightarrow> bool" where
  "changing n s \<longleftrightarrow> at_state n s \<and> g_changeCount (getGlobal s) = n + 1 \<and> links s"

lemma changing_keeps: "keeps s s' \<Longrightarrow> changing n s \<Longrightarrow> changing n s'"
  by (auto simp: changing_def keeps_def links_def dest!: core_eqD)

lemma getCurrentSystemState_at:
  "at_state n s \<Longrightarrow> \<exists>ss. getCurrentSystemState s = (ss, s) \<and> ss_sequenceNumber ss = n"
  by (auto simp: at_state_def getCurrentSystemState_def)

lemma getCurrentSystemState_chained:
  assumes "chained s" and "getCurrentSystemState s = (ss, s')"
  shows "chained s'" and "at_state (g_changeCount (getGlobal s)) s'"
    and "ss_sequenceNumber ss = g_changeCount (getGlobal s)" and "g_changeCount (getGlobal s') = g_changeCount (getGlobal s)"
  using assms
  by (auto simp: chained_def at_state_def fresh_state_def getCurrentSystemState_def
      getSystemStateSequenceNumber_def Let_def split: option.splits)

lemma finishChange_at: "at_state n s \<Longrightarrow> finishChange s = (n, s)"
  by (auto simp: finishChange_def dest!: getCurrentSystemState_at)

lemma getTransaction_chained:
  "chained s \<Longrightarrow> getTransaction ev s = (x, s') \<Longrightarrow> chained s' \<and> g_changeCount (getGlobal s') = g_changeCount (getGlobal s)"
  using keeps_getTransaction chained_keeps by (auto simp: keeps_def dest!: core_eqD)

lemma createChange_chained:
  assumes "chained s" and "createChange ev s = (c, s')"
  shows "changing (g_changeCount (getGlobal s)) s'" and "ch_sequenceNumber c = g_changeCount (getGlobal s)"
    and "ch_systemStateBefore c = g_changeCount (getGlobal s)"
proof -
  let ?n = "g_changeCount (getGlobal s)"
  let ?s1 = "updateGlobal (\<lambda>g. g\<lparr>g_changeCount := g_changeCount g + 1\<rparr>) s"
  obtain x s2 where s2: "getTransaction ev ?s1 = (x, s2)" by fastforce
  obtain ss s3 where s3: "getCurrentSystemState s2 = (ss, s3)" by fastforce
  have c: "s' = s3" "ch_sequenceNumber c = ?n" "ch_systemStateBefore c = ss_sequenceNumber ss"
    using assms(2) s2 s3 by (auto simp: createChange_def beginChange_def getChangeSequenceNumber_def initChange_def)
  have k: "core s2 = core ?s1" "changesOf s2 = changesOf s"
    using keeps_getTransaction [OF s2] by (auto simp: keeps_def)
  have pre: "(at_state ?n s2 \<or> fresh_state s2 \<and> ?n = 0) \<and> g_changeCount (getGlobal s2) = ?n + 1 \<and> links s2"
    using assms(1) core_eqD [OF k(1)] k(2)
    by (auto simp: chained_def links_def at_state_def fresh_state_def)
  then have "at_state ?n s3 \<and> ss_sequenceNumber ss = ?n \<and> g_changeCount (getGlobal s3) = ?n + 1 \<and> links s3"
    using s3 by (auto simp: at_state_def fresh_state_def links_def getCurrentSystemState_def
        getSystemStateSequenceNumber_def Let_def split: option.splits)
  with c show "changing ?n s'" "ch_sequenceNumber c = ?n" "ch_systemStateBefore c = ?n"
    by (auto simp: changing_def)
qed

lemma bumpSystemState_changing:
  assumes "changing n s"
  shows "chained (bumpSystemState ss s)" and "at_state (n + 1) (bumpSystemState ss s)"
  using assms
  by (auto simp: changing_def chained_def links_def at_state_def bumpSystemState_def
      getSystemStateSequenceNumber_def Let_def)

lemma truncate_extend [simp]: "sgChange.truncate (sgChange.extend c x) = c"
  by (simp add: sgChange.defs)

lemma chained_record:
  assumes "chained s"
  shows "linked n (sgChange.truncate c) \<Longrightarrow> chained (s\<lparr>troveChanges := (troveChanges s)(n \<mapsto> c)\<rparr>)"
    and "linked n (sgChange.truncate d) \<Longrightarrow> chained (s\<lparr>stabilityDepositChanges := (stabilityDepositChanges s)(n \<mapsto> d)\<rparr>)"
    and "linked n (sgChange.truncate p) \<Longrightarrow> chained (s\<lparr>priceChanges := (priceChanges s)(n \<mapsto> p)\<rparr>)"
    and "linked n (sgChange.truncate q) \<Longrightarrow> chained (s\<lparr>collSurplusChanges := (collSurplusChanges s)(n \<mapsto> q)\<rparr>)"
  using assms
  by (auto simp: chained_def at_state_def fresh_state_def changesOf_def list_all_append)

subsection \<open>The handlers keep the chain\<close>

text \<open>What the four kinds of change have in common: begin, create the next system state, finish.\<close>

lemma change_completes:
  assumes "changing n s" and "ch_sequenceNumber c = n" and "ch_systemStateBefore c = n"
  shows "finishChange (bumpSystemState ss s) = (n + 1, bumpSystemState ss s)"
    and "chained (bumpSystemState ss s)" and "linked n (c\<lparr>ch_systemStateAfter := Some (n + 1)\<rparr>)"
  using assms bumpSystemState_changing [OF assms(1), of ss] finishChange_at
  by (auto simp: linked_def)

lemma chained_updatePrice:
  assumes "chained s"
  shows "chained (updatePrice env ev p s)"
proof -
  obtain ss s1 where s1: "getCurrentSystemState s = (ss, s1)" by fastforce
  note c1 = getCurrentSystemState_chained [OF assms s1]
  obtain c s2 where s2: "createChange ev s1 = (c, s2)" by fastforce
  note c2 = createChange_chained [OF c1(1) s2]
  note fin = change_completes [OF c2]
  have "chained (s1\<lparr>systemStates := (systemStates s1)(ss_sequenceNumber ss \<mapsto> ss\<lparr>ss_price := x\<rparr>)\<rparr>)" for x
    using c1 by (auto simp: chained_def at_state_def fresh_state_def)
  then show ?thesis
    using c1 fin c2(2) by (auto simp: updatePrice_def s1 s2 Let_def intro!: chained_record split: option.splits)
qed

lemma chained_updateUserClaimColl:
  assumes "chained s"
  shows "chained (updateUserClaimColl env ev b x s)"
proof -
  obtain u s1 where s1: "getUser b s = (u, s1)" by fastforce
  have c1: "chained s1" using keeps_getUser [OF s1] assms by (rule chained_keeps)
  obtain c s2 where s2: "createChange ev s1 = (c, s2)" by fastforce
  note c2 = createChange_chained [OF c1 s2]
  obtain ss where ss: "getCurrentSystemState s2 = (ss, s2)"
    using c2(1) getCurrentSystemState_at by (fastforce simp: changing_def)
  note fin = change_completes [OF c2]
  show ?thesis
    using c1 fin c2(2)
    by (auto simp: updateUserClaimColl_def s1 s2 Let_def updateSystemStateByCollSurplusChange_def ss
        intro!: chained_record chained_keeps [OF keeps_updates(1)])
qed

lemma chained_updateStabilityDepositByOperation:
  assumes "chained s" and "updateStabilityDepositByOperation env ev u d op amount gain s = (d', s')"
  shows "chained s'"
proof -
  obtain c s2 where s2: "createChange ev s = (c, s2)" by fastforce
  note c2 = createChange_chained [OF assms(1) s2]
  obtain ss where ss: "getCurrentSystemState s2 = (ss, s2)"
    using c2(1) getCurrentSystemState_at by (fastforce simp: changing_def)
  note fin = change_completes [OF c2]
  show ?thesis
    using assms(2) fin c2(2)
    by (auto simp: updateStabilityDepositByOperation_def s2 Let_def
        updateSystemStateByStabilityDepositChange_def ss intro!: chained_record)
qed

lemma chained_updateStabilityDeposit:
  assumes "chained s"
  shows "chained (updateStabilityDeposit env ev u amount s)"
proof -
  obtain d s1 where s1: "sg_getStabilityDeposit u s = (d, s1)" by fastforce
  obtain x s2 where s2: "getUser u s1 = (x, s2)" by fastforce
  have "chained s2"
    using keeps_sg_getStabilityDeposit [OF s1] keeps_getUser [OF s2] assms chained_keeps by blast
  then show ?thesis
    by (auto simp: updateStabilityDeposit_def s1 s2 Let_def split: prod.splits
        intro!: chained_keeps [OF keeps_updates(3)] intro: chained_updateStabilityDepositByOperation)
qed

lemma chained_withdrawCollateralGain:
  assumes "chained s"
  shows "chained (withdrawCollateralGainFromStabilityDeposit env ev u coll loss s)"
proof -
  obtain d s1 where s1: "sg_getStabilityDeposit u s = (d, s1)" by fastforce
  have "chained s1" using keeps_sg_getStabilityDeposit [OF s1] assms chained_keeps by blast
  then show ?thesis
    using assms by (auto simp: withdrawCollateralGainFromStabilityDeposit_def s1 Let_def split: prod.splits
        intro!: chained_keeps [OF keeps_updates(3)] intro: chained_updateStabilityDepositByOperation)
qed

lemma updateSystemStateByTroveChange_bumps:
  assumes "changing n s" and "updateSystemStateByTroveChange env c s = Inr s'"
  obtains ss where "s' = bumpSystemState ss s"
proof -
  obtain ss where "getCurrentSystemState s = (ss, s)"
    using assms(1) getCurrentSystemState_at by (fastforce simp: changing_def)
  with assms(2) that show thesis
    by (auto simp: updateSystemStateByTroveChange_def Let_def bindR_Inr_iff split: option.splits)
qed

lemma truncate_fillTroveChange [simp]:
  "sgChange.truncate ((fillTroveChange env c b op p t nc nd l r)\<lparr>ch_systemStateAfter := a\<rparr>) = c\<lparr>ch_systemStateAfter := a\<rparr>"
  "ch_sequenceNumber (fillTroveChange env c b op p t nc nd l r) = ch_sequenceNumber c"
  by (simp_all add: fillTroveChange_def sgChange.defs sgTroveChange.defs)

lemma getCurrentPrice_changing: "changing n s \<Longrightarrow> getCurrentPrice s = Inr (p, s') \<Longrightarrow> s' = s"
  by (auto simp: changing_def getCurrentPrice_def dest!: getCurrentSystemState_at split: option.splits)

subsection \<open>Updates of troves\<close>

text \<open>The optional visits of the current liquidation and redemption.\<close>

definition visitLiquidation :: "graphEvent \<Rightarrow> string \<Rightarrow> graphStore \<Rightarrow> i32 option \<times> graphStore" where
  "visitLiquidation event operation s =
     (if isLiquidation operation
      then (let (l, s) = getCurrentLiquidation event s in (Some (li_sequenceNumber l), s)) else (None, s))"

definition visitRedemption :: "graphEvent \<Rightarrow> string \<Rightarrow> graphStore \<Rightarrow> i32 option \<times> graphStore" where
  "visitRedemption event operation s =
     (if isRedemption operation
      then (let (r, s) = getCurrentRedemption event s in (Some (re_sequenceNumber r), s)) else (None, s))"

lemma keeps_visits:
  "visitLiquidation ev op s = (x, s') \<Longrightarrow> keeps s s'" "visitRedemption ev op s = (y, s') \<Longrightarrow> keeps s s'"
  by (auto simp: visitLiquidation_def visitRedemption_def keeps_refl split: if_splits prod.splits
      dest: keeps_getCurrentLiquidation keeps_getCurrentRedemption)

text \<open>A successful update, step by step.\<close>

lemma updateTrove_cases:
  assumes "updateTrove env ev op b coll debt stake s = Inr s'"
  obtains (same) t where "sg_getTrove b s = (t, s')"
      "sg_decimalize env coll = tr_collateral t" "sg_decimalize env debt = tr_debt t"
  | (changed) t s1 c s2 p s3 l s4 r s5 s6 a s7 t' s8 where
      "sg_getTrove b s = (t, s1)"
      "\<not> (sg_decimalize env coll = tr_collateral t \<and> sg_decimalize env debt = tr_debt t)"
      "createChange ev s1 = (c, s2)" "getCurrentPrice s2 = Inr (p, s3)"
      "visitLiquidation ev op s3 = (l, s4)" "visitRedemption ev op s4 = (r, s5)"
      "updateSystemStateByTroveChange env
         (fillTroveChange env c b op p t (sg_decimalize env coll) (sg_decimalize env debt) l r) s5 = Inr s6"
      "finishChange s6 = (a, s7)"
      "setTroveStatus (statusAfter op coll)
         (setRawAmounts coll debt stake (getGlobal s)
            (t\<lparr>tr_collateral := sg_decimalize env coll, tr_debt := sg_decimalize env debt\<rparr>))
         (s7\<lparr>troveChanges := (troveChanges s7)(ch_sequenceNumber c \<mapsto>
            (fillTroveChange env c b op p t (sg_decimalize env coll) (sg_decimalize env debt) l r)
              \<lparr>ch_systemStateAfter := Some a\<rparr>)\<rparr>) = (t', s8)"
      "s' = s8\<lparr>sgTroves := (sgTroves s8)(b \<mapsto> t')\<rparr>"
proof -
  obtain t s1 where 1: "sg_getTrove b s = (t, s1)" by fastforce
  show thesis
  proof (cases "sg_decimalize env coll = tr_collateral t \<and> sg_decimalize env debt = tr_debt t")
    case True
    then show thesis using assms 1 same by (auto simp: updateTrove_def)
  next
    case False
    obtain c s2 where 2: "createChange ev s1 = (c, s2)" by fastforce
    from assms 1 False 2 obtain p s3 where 3: "getCurrentPrice s2 = Inr (p, s3)"
      by (auto simp: updateTrove_def Let_def bindR_Inr_iff)
    obtain l s4 where 4: "visitLiquidation ev op s3 = (l, s4)" by fastforce
    obtain r s5 where 5: "visitRedemption ev op s4 = (r, s5)" by fastforce
    let ?c = "fillTroveChange env c b op p t (sg_decimalize env coll) (sg_decimalize env debt) l r"
    obtain s6 where 6: "updateSystemStateByTroveChange env ?c s5 = Inr s6"
      using assms 1 False 2 3 4 5
      by (cases "updateSystemStateByTroveChange env ?c s5")
         (auto simp: updateTrove_def Let_def visitLiquidation_def visitRedemption_def)
    obtain a s7 where 7: "finishChange s6 = (a, s7)" by fastforce
    obtain t' s8 where 8: "setTroveStatus (statusAfter op coll)
         (setRawAmounts coll debt stake (getGlobal s)
            (t\<lparr>tr_collateral := sg_decimalize env coll, tr_debt := sg_decimalize env debt\<rparr>))
         (s7\<lparr>troveChanges := (troveChanges s7)(ch_sequenceNumber c \<mapsto> ?c\<lparr>ch_systemStateAfter := Some a\<rparr>)\<rparr>) = (t', s8)"
      by fastforce
    have "s' = s8\<lparr>sgTroves := (sgTroves s8)(b \<mapsto> t')\<rparr>"
      using assms 1 False 2 3 4 5 6 7 8
      by (auto simp: updateTrove_def Let_def visitLiquidation_def visitRedemption_def)
    with 1 False 2 3 4 5 6 7 8 changed show thesis by blast
  qed
qed

lemma chained_updateTrove:
  assumes "chained s" and "updateTrove env ev op b coll debt stake s = Inr s'"
  shows "chained s'"
  using assms(2)
proof (cases rule: updateTrove_cases)
  case (same t)
  then show ?thesis using keeps_sg_getTrove assms(1) chained_keeps by blast
next
  case (changed t s1 c s2 p s3 l s4 r s5 s6 a s7 t' s8)
  have "chained s1" using keeps_sg_getTrove [OF changed(1)] assms(1) by (rule chained_keeps)
  note c2 = createChange_chained [OF this changed(3)]
  have "s3 = s2" using getCurrentPrice_changing c2(1) changed(4) by blast
  then have c5: "changing (g_changeCount (getGlobal s1)) s5"
    using c2(1) keeps_visits(1) [OF changed(5)] keeps_visits(2) [OF changed(6)] changing_keeps by blast
  then obtain ss where s6: "s6 = bumpSystemState ss s5"
    using updateSystemStateByTroveChange_bumps changed(7) by blast
  note fin = change_completes [OF c5 c2(2,3)]
  have s7: "chained s7" "a = g_changeCount (getGlobal s1) + 1"
    using changed(8) fin(1) [of ss] fin(2) [of ss] unfolding s6 by auto
  have "chained s8"
    by (rule chained_keeps [OF keeps_setTroveStatus [OF changed(9)]], rule chained_record(1) [OF s7(1)])
       (use fin(3) in \<open>simp add: c2(2) s7(2)\<close>)
  then show ?thesis unfolding changed(10) by (rule chained_keeps [OF keeps_updates(2)])
qed

lemma chained_handleEvent:
  assumes "chained s" and "handleEvent env ev a s = Inr s'"
  shows "chained s'"
proof (cases a)
  case (THUSDBorrowingFeePaid fee)
  then obtain n c where c: "troveChanges s n = Some c"
    and s': "s' = updateGlobal (\<lambda>g. g\<lparr>g_totalBorrowingFeesPaid := dplus env (g_totalBorrowingFeesPaid g) (sg_decimalize env fee)\<rparr>)
      (s\<lparr>troveChanges := (troveChanges s)(n \<mapsto> c\<lparr>tc_borrowingFee := Some (sg_decimalize env fee)\<rparr>)\<rparr>)"
    using assms(2) by (auto simp: setBorrowingFeeOfLastTroveChange_def Let_def increaseTotalBorrowingFeesPaid_def
        split: option.splits)
  have "linked n (sgChange.truncate c)"
    using assms(1) c by (auto simp: chained_def changesOf_def list_all_append dest!: spec [of _ n])
  then have "chained (s\<lparr>troveChanges := (troveChanges s)(n \<mapsto> c\<lparr>tc_borrowingFee := Some (sg_decimalize env fee)\<rparr>)\<rparr>)"
    by (intro chained_record(1) assms(1)) (simp add: sgChange.defs)
  then show ?thesis unfolding s' by (rule chained_eqI [rotated 2]) (simp_all add: core_def)
next
  case (UserDepositChanged d x)
  then show ?thesis
    using assms by (auto simp: handleUserDepositChanged_def split: prod.splits if_splits
        intro: chained_updateStabilityDeposit chained_keeps [OF keeps_swapTmpDepositUpdate])
next
  case (CollateralGainWithdrawn d x y)
  then show ?thesis
    using assms by (auto simp: handleCollateralGainWithdrawn_def Let_def split: prod.splits option.splits
        intro!: chained_updateStabilityDeposit chained_withdrawCollateralGain
        intro: chained_keeps [OF keeps_swapTmpDepositUpdate])
next
  case (TroveLiquidated b)
  obtain t s1 where s1: "sg_getTrove b s = (t, s1)" by fastforce
  have "chained s1" using keeps_sg_getTrove [OF s1] assms(1) by (rule chained_keeps)
  then show ?thesis
    using assms(2) s1 by (auto simp: TroveLiquidated applyRedistributionToTroveBeforeLiquidation_def Let_def
        split: option.splits dest: chained_updateTrove)
next
  case (LiquidationEvent w x y z)
  then show ?thesis
    using assms by (auto simp: finishCurrentLiquidation_def Let_def split: prod.splits
        dest!: keeps_getCurrentLiquidation intro: chained_eqI simp: keeps_def core_def)
next
  case (RedemptionEvent w x y z)
  then show ?thesis
    using assms by (auto simp: finishCurrentRedemption_def Let_def split: prod.splits
        dest!: keeps_getCurrentRedemption intro: chained_eqI simp: keeps_def core_def)
next
  case (LTermsUpdated x y)
  then show ?thesis
    using assms by (auto simp: updateTotalRedistributed_def core_def intro: chained_eqI)
qed (use assms in \<open>auto intro: chained_updateTrove chained_updateUserClaimColl chained_updatePrice
      chained_keeps [OF keeps_updateBalance] chained_keeps [OF keeps_updateAllowance]\<close>)

text \<open>C5: The history is a chain: in every store that handling events can reach, each recorded change
  \<open>k\<close>, of whatever kind, leads from system state \<open>k\<close> to system state \<open>k + 1\<close>, and the current
  system state, if there is one, exists and has the number of changes made so far as its number.\<close>

theorem changes_chain:
  assumes "graph_run env (\<lambda>_ _ _. True) s"
  shows "list_all (linked k) (changesOf s k) \<and>
    (\<forall>n. g_currentSystemState (getGlobal s) = Some n \<longrightarrow>
       n = g_changeCount (getGlobal s) \<and> (\<exists>ss. systemStates s n = Some ss \<and> ss_sequenceNumber ss = n))"
proof -
  have "chained emptyGraph"
    by (simp add: chained_def fresh_state_def at_state_def changesOf_def emptyGraph_def getGlobal_def newGlobal_def)
  then have "chained s"
    using graph_run_invariant [of env "\<lambda>_ _ _. True" s chained] assms chained_handleEvent by blast
  then show ?thesis by (auto simp: chained_def at_state_def fresh_state_def)
qed

text \<open>An environment whose decimals need no rounding.\<close>

definition exactEnv :: graphEnv where
  "exactEnv = \<lparr>roundDecimal = \<lambda>x. x, truncateDecimal = \<lambda>x _. x, erc20_name = \<lambda>_. ''THUSD'', erc20_tokenSymbol = \<lambda>_. ''thUSD''\<rparr>"

definition openingEvent :: graphEvent where
  "openingEvent = \<lparr>ev_address = ''0xb0'', ev_hash = ''0x01'', ev_from = ''0xa1'', ev_blockNumber = 7, ev_timestamp = 99\<rparr>"

text \<open>The store after a first price and the opening of a trove.\<close>

definition openedStore :: graphStore where
  "openedStore =
     (case bindR (handleEvent exactEnv openingEvent (LastGoodPrice (2000 * 10 ^ 18)) emptyGraph)
             (handleEvent exactEnv openingEvent (BO_TroveUpdated 0 ''0xa1'' (10 ^ 18) (1000 * 10 ^ 18) (10 ^ 18))) of
        Inr s \<Rightarrow> s
      | Inl e \<Rightarrow> emptyGraph)"

lemmas opening_evaluates =
  updatePrice_def updateTrove_def sg_getTrove_def getUser_def getCurrentPrice_def
  getCurrentSystemState_def getSystemStateSequenceNumber_def createChange_def beginChange_def
  getChangeSequenceNumber_def initChange_def getTransaction_def getTransactionSequenceNumber_def
  updateSystemStateByTroveChange_def increaseNumberOfOpenTroves_def Let_def emptyGraph_def newGlobal_def
  getGlobal_def updateGlobal_def fillTroveChange_def sgChange.defs sgTroveChange.defs
  getTroveOperationFromBorrowerOperation_def isLiquidation_def isRedemption_def isBorrowerOperation_def
  exactEnv_def sg_decimalize_def SCALING_FACTOR_def finishChange_def bumpSystemState_def setTroveStatus_def
  statusAfter_def setRawAmounts_def

lemma openedStore_run:
  assumes "V openingEvent (LastGoodPrice (2000 * 10 ^ 18)) emptyGraph"
    and "\<And>s. handleEvent exactEnv openingEvent (LastGoodPrice (2000 * 10 ^ 18)) emptyGraph = Inr s \<Longrightarrow>
      V openingEvent (BO_TroveUpdated 0 ''0xa1'' (10 ^ 18) (1000 * 10 ^ 18) (10 ^ 18)) s"
  shows "graph_run exactEnv V openedStore"
proof -
  obtain s1 where 1: "handleEvent exactEnv openingEvent (LastGoodPrice (2000 * 10 ^ 18)) emptyGraph = Inr s1"
    by simp
  obtain s2 where 2: "handleEvent exactEnv openingEvent (BO_TroveUpdated 0 ''0xa1'' (10 ^ 18) (1000 * 10 ^ 18) (10 ^ 18)) s1 = Inr s2"
    using 1 by (auto simp: opening_evaluates)
  have "openedStore = s2" using 1 2 by (simp add: openedStore_def)
  with graph_run.init graph_run.handle assms 1 2 show ?thesis by metis
qed

theorem changes_chain_witness:
  "graph_run exactEnv (\<lambda>_ _ _. True) openedStore \<and>
   length (changesOf openedStore 0) = 1 \<and> list_all (linked 0) (changesOf openedStore 0)"
proof (intro conjI)
  show run: "graph_run exactEnv (\<lambda>_ _ _. True) openedStore"
    by (rule openedStore_run) simp_all
  show "length (changesOf openedStore 0) = 1"
    by (simp add: openedStore_def changesOf_def opening_evaluates)
  show "list_all (linked 0) (changesOf openedStore 0)"
    using changes_chain [OF run, of 0] by simp
qed

end
