(* ===== verification/Subgraph_Accounts.thy ===== *)
theory Subgraph_Accounts
  imports Subgraph_Correct
begin

text \<open>
  What the indexer's store says about the present: the balances of a token add up to its supply,
  and the two events of a stability deposit may arrive in either order.
\<close>

section \<open>Balances\<close>

text \<open>Every balance is kept under the id of its token and owner, and token addresses have no dash.\<close>

definition dashFree :: "string \<Rightarrow> bool" where
  "dashFree a \<longleftrightarrow> CHR ''-'' \<notin> set a"

definition keyed :: "(string \<rightharpoonup> sgTokenBalance) \<Rightarrow> bool" where
  "keyed m \<longleftrightarrow> finite (dom m) \<and>
     (\<forall>k b. m k = Some b \<longrightarrow> k = balanceId (tb_token b) (tb_owner b) \<and> dashFree (tb_token b))"

definition share :: "string \<Rightarrow> sgTokenBalance \<Rightarrow> int" where
  "share token b = (if tb_token b = token then tb_balance b else 0)"

definition totalBalance :: "string \<Rightarrow> (string \<rightharpoonup> sgTokenBalance) \<Rightarrow> int" where
  "totalBalance token m = (\<Sum>k\<in>dom m. share token (the (m k)))"

definition supplyOf :: "string \<Rightarrow> graphStore \<Rightarrow> int" where
  "supplyOf token s = (case tokens s token of Some t \<Rightarrow> to_totalSupply t | None \<Rightarrow> 0)"

lemma balanceId_inject:
  assumes "dashFree a" and "dashFree b" and "balanceId a x = balanceId b y"
  shows "a = b \<and> x = y"
proof -
  have "takeWhile (\<lambda>c. c \<noteq> CHR ''-'') (balanceId t z) = t" if "dashFree t" for t z
    using that unfolding balanceId_def dashFree_def by (subst takeWhile_append2) auto
  with assms have "a = b" by metis
  with assms(3) show ?thesis by (simp add: balanceId_def)
qed

lemma totalBalance_update:
  assumes "finite (dom m)"
  shows "totalBalance token (m(k \<mapsto> b)) =
    totalBalance token m + share token b - (case m k of Some b' \<Rightarrow> share token b' | None \<Rightarrow> 0)"
proof -
  have rest: "(\<Sum>j\<in>dom m - {k}. share token (the ((m(k \<mapsto> b)) j))) = (\<Sum>j\<in>dom m - {k}. share token (the (m j)))"
    by (rule sum.cong) auto
  have "totalBalance token (m(k \<mapsto> b)) = share token b + (\<Sum>j\<in>dom m - {k}. share token (the (m j)))"
    unfolding totalBalance_def rest [symmetric]
    by (subst sum.remove [where x = k]) (use assms in \<open>auto simp: insert_Diff_if\<close>)
  moreover have "totalBalance token m =
      (case m k of Some b' \<Rightarrow> share token b' | None \<Rightarrow> 0) + (\<Sum>j\<in>dom m - {k}. share token (the (m j)))"
    using assms by (cases "m k") (auto simp: totalBalance_def sum.remove [where x = k] domI domIff Diff_insert_absorb)
  ultimately show ?thesis by simp
qed

lemma getUser_sel [simp]:
  "tokenBalances (snd (getUser u s)) = tokenBalances s" "tokens (snd (getUser u s)) = tokens s"
  by (auto simp: getUser_def Let_def split: option.splits)

lemma addToBalance_adds:
  assumes "keyed (tokenBalances s)" and "dashFree token"
  shows "keyed (tokenBalances (addToBalance token owner v s))"
    and "totalBalance t (tokenBalances (addToBalance token owner v s)) =
           totalBalance t (tokenBalances s) + (if t = token then v else 0)"
    and "tokens (addToBalance token owner v s) = tokens s"
proof -
  let ?k = "balanceId token owner"
  obtain u s1 where s1: "getUser owner s = (u, s1)" by fastforce
  have sel: "tokenBalances s1 = tokenBalances s" "tokens s1 = tokens s"
    using getUser_sel [of owner s] by (simp_all add: s1)
  have own: "tb_token b = token \<and> tb_owner b = owner" if "tokenBalances s ?k = Some b" for b
    using assms that balanceId_inject [of token "tb_token b"] by (auto simp: keyed_def)
  note defs = addToBalance_def getTokenBalance_def s1 Let_def sel
  show "tokens (addToBalance token owner v s) = tokens s"
    by (auto simp: defs split: option.splits)
  show "keyed (tokenBalances (addToBalance token owner v s))"
    using assms own by (cases "tokenBalances s ?k") (auto simp: defs keyed_def)
  show "totalBalance t (tokenBalances (addToBalance token owner v s)) =
      totalBalance t (tokenBalances s) + (if t = token then v else 0)"
    using assms own
    by (cases "tokenBalances s ?k") (auto simp: defs keyed_def totalBalance_update share_def)
qed

definition balanced :: "graphStore \<Rightarrow> bool" where
  "balanced s \<longleftrightarrow> keyed (tokenBalances s) \<and> (\<forall>t. supplyOf t s = totalBalance t (tokenBalances s))"

lemma balanced_eqI:
  "tokens s' = tokens s \<Longrightarrow> tokenBalances s' = tokenBalances s \<Longrightarrow> balanced s \<Longrightarrow> balanced s'"
  by (simp add: balanced_def supplyOf_def)

lemma balanced_updateBalance:
  assumes "balanced s" and "dashFree (ev_address ev)"
  shows "balanced (updateBalance env ev a b v s)"
proof -
  obtain t s1 where t: "getToken env (ev_address ev) s = (t, s1)" by fastforce
  have s1: "tokenBalances s1 = tokenBalances s" "tokens s1 (ev_address ev) = Some t"
    "supplyOf x s1 = supplyOf x s" for x
    using t by (auto simp: getToken_def createToken_def Let_def supplyOf_def split: option.splits if_splits)
  have k: "keyed (tokenBalances s1)" and sup: "supplyOf x s1 = totalBalance x (tokenBalances s1)" for x
    using assms s1 by (auto simp: balanced_def)
  note add = addToBalance_adds [OF _ assms(2)]
  have "to_totalSupply t = totalBalance (ev_address ev) (tokenBalances s1)"
    using sup [of "ev_address ev"] s1(2) by (simp add: supplyOf_def)
  then show ?thesis
    using k sup s1(2)
    by (auto simp: updateBalance_def t Let_def balanced_def add supplyOf_def split: if_splits)
qed

section \<open>What the history leaves alone\<close>

text \<open>Tokens, balances, troves, the counters of troves and the redistribution terms: what the
  operations that only record history do not touch.\<close>

definition troveCounters :: "graphStore \<Rightarrow> i32 list" where
  "troveCounters s =
     [g_numberOfOpenTroves (getGlobal s), g_numberOfLiquidatedTroves (getGlobal s),
      g_numberOfRedeemedTroves (getGlobal s), g_numberOfTrovesClosedByOwner (getGlobal s),
      g_totalNumberOfTroves (getGlobal s)]"

definition tokenPart :: "graphStore \<Rightarrow> (string \<rightharpoonup> sgToken) \<times> (string \<rightharpoonup> sgTokenBalance)" where
  "tokenPart s = (tokens s, tokenBalances s)"

definition trovePart :: "graphStore \<Rightarrow> (string \<rightharpoonup> sgTrove) \<times> i32 list \<times> int \<times> int" where
  "trovePart s =
     (sgTroves s, troveCounters s, g_rawTotalRedistributedCollateral (getGlobal s),
      g_rawTotalRedistributedDebt (getGlobal s))"

definition present :: "graphStore \<Rightarrow> _" where
  "present s = (tokenPart s, trovePart s)"

lemmas part_defs = present_def tokenPart_def trovePart_def troveCounters_def

lemma present_updates [simp]:
  "present (s\<lparr>systemStates := a\<rparr>) = present s" "present (s\<lparr>users := b\<rparr>) = present s"
  "present (s\<lparr>stabilityDeposits := c\<rparr>) = present s" "present (s\<lparr>transactions := d\<rparr>) = present s"
  "present (s\<lparr>troveChanges := e\<rparr>) = present s" "present (s\<lparr>stabilityDepositChanges := f\<rparr>) = present s"
  "present (s\<lparr>priceChanges := g\<rparr>) = present s" "present (s\<lparr>collSurplusChanges := h\<rparr>) = present s"
  "present (s\<lparr>liquidations := i\<rparr>) = present s" "present (s\<lparr>redemptions := j\<rparr>) = present s"
  "present (s\<lparr>tokenAllowances := k\<rparr>) = present s"
  by (simp_all add: part_defs)

lemma present_getUser: "getUser u s = (x, s') \<Longrightarrow> present s' = present s"
  by (auto simp: getUser_def Let_def split: option.splits)

lemma present_getTransaction: "getTransaction ev s = (x, s') \<Longrightarrow> present s' = present s"
  by (auto simp: getTransaction_def getTransactionSequenceNumber_def Let_def split: option.splits)
     (simp add: part_defs)

lemma present_getCurrentSystemState: "getCurrentSystemState s = (x, s') \<Longrightarrow> present s' = present s"
  by (auto simp: getCurrentSystemState_def getSystemStateSequenceNumber_def Let_def part_defs split: option.splits)

lemma present_createChange: "createChange ev s = (c, s') \<Longrightarrow> present s' = present s"
  by (auto simp: createChange_def beginChange_def getChangeSequenceNumber_def initChange_def split: prod.splits
      dest!: present_getTransaction present_getCurrentSystemState) (simp add: part_defs)

lemma present_finishChange: "finishChange s = (c, s') \<Longrightarrow> present s' = present s"
  by (auto simp: finishChange_def dest: present_getCurrentSystemState split: prod.splits)

lemma present_bumpSystemState [simp]: "present (bumpSystemState ss s) = present s"
  by (simp add: bumpSystemState_def getSystemStateSequenceNumber_def Let_def part_defs)

lemma present_getCurrentLiquidation: "getCurrentLiquidation ev s = (x, s') \<Longrightarrow> present s' = present s"
  by (auto simp: getCurrentLiquidation_def getLiquidationSequenceNumber_def Let_def split: option.splits prod.splits
      dest!: present_getTransaction present_getUser) (simp_all add: part_defs)

lemma present_getCurrentRedemption: "getCurrentRedemption ev s = (x, s') \<Longrightarrow> present s' = present s"
  by (auto simp: getCurrentRedemption_def getRedemptionSequenceNumber_def Let_def split: option.splits prod.splits
      dest!: present_getTransaction present_getUser) (simp_all add: part_defs)

lemmas present_steps =
  present_getUser present_getTransaction present_getCurrentSystemState present_createChange
  present_finishChange present_getCurrentLiquidation present_getCurrentRedemption

lemma present_updatePrice: "present (updatePrice env ev p s) = present s"
  by (auto simp: updatePrice_def Let_def split: prod.splits option.splits dest!: present_steps)

lemma present_updateUserClaimColl: "present (updateUserClaimColl env ev b x s) = present s"
  by (auto simp: updateUserClaimColl_def updateSystemStateByCollSurplusChange_def Let_def
      split: prod.splits option.splits dest!: present_steps)

lemma present_finishCurrent:
  "present (finishCurrentLiquidation env ev a b c d s) = present s"
  "present (finishCurrentRedemption env ev a b c d s) = present s"
  by (auto simp: finishCurrentLiquidation_def finishCurrentRedemption_def Let_def
      split: prod.splits dest!: present_steps) (simp_all add: part_defs)

lemma present_updateStabilityDepositByOperation:
  "updateStabilityDepositByOperation env ev u d op amount gain s = (d', s') \<Longrightarrow> present s' = present s"
  by (auto simp: updateStabilityDepositByOperation_def updateSystemStateByStabilityDepositChange_def Let_def
      split: prod.splits if_splits dest!: present_steps)

lemma present_sg_getStabilityDeposit: "sg_getStabilityDeposit u s = (d, s') \<Longrightarrow> present s' = present s"
  by (auto simp: sg_getStabilityDeposit_def Let_def split: option.splits prod.splits dest!: present_steps)

lemma present_stabilityDeposit:
  "present (updateStabilityDeposit env ev u amount s) = present s"
  "present (withdrawCollateralGainFromStabilityDeposit env ev u coll loss s) = present s"
  by (auto simp: updateStabilityDeposit_def withdrawCollateralGainFromStabilityDeposit_def Let_def
      split: prod.splits if_splits dest!: present_steps present_updateStabilityDepositByOperation
        present_sg_getStabilityDeposit)

lemma present_swapTmpDepositUpdate: "swapTmpDepositUpdate v s = (x, s') \<Longrightarrow> present s' = present s"
  by (auto simp: swapTmpDepositUpdate_def Let_def part_defs)

lemma present_stabilityPool:
  "present (handleUserDepositChanged env ev u x s) = present s"
  "present (handleCollateralGainWithdrawn env ev u y z s) = present s"
  by (auto simp: handleUserDepositChanged_def handleCollateralGainWithdrawn_def Let_def present_stabilityDeposit
      split: prod.splits option.splits dest!: present_swapTmpDepositUpdate)

lemma present_updateAllowance: "present (updateAllowance ev a b v s) = present s"
  by (auto simp: updateAllowance_def getTokenAllowance_def Let_def split: prod.splits option.splits dest!: present_steps)

lemma present_borrowingFee:
  "handleEvent env ev (THUSDBorrowingFeePaid fee) s = Inr s' \<Longrightarrow> present s' = present s"
  by (auto simp: setBorrowingFeeOfLastTroveChange_def increaseTotalBorrowingFeesPaid_def Let_def part_defs
      split: option.splits)

text \<open>The events that change what the store says about the present.\<close>

definition touchesTroves :: "graphAction \<Rightarrow> bool" where
  "touchesTroves a \<longleftrightarrow>
     (case a of BO_TroveUpdated _ _ _ _ _ \<Rightarrow> True | TM_TroveUpdated _ _ _ _ _ \<Rightarrow> True
      | TroveLiquidated _ \<Rightarrow> True | LTermsUpdated _ _ \<Rightarrow> True | _ \<Rightarrow> False)"

definition touchesTokens :: "graphAction \<Rightarrow> bool" where
  "touchesTokens a \<longleftrightarrow> (case a of Transfer _ _ _ \<Rightarrow> True | _ \<Rightarrow> False)"

lemma present_handleEvent:
  assumes "handleEvent env ev a s = Inr s'" and "\<not> touchesTroves a" and "\<not> touchesTokens a"
  shows "present s' = present s"
proof (cases a)
  case (THUSDBorrowingFeePaid fee)
  with assms(1) present_borrowingFee show ?thesis by blast
qed (use assms in \<open>auto simp: touchesTroves_def touchesTokens_def present_updatePrice present_updateUserClaimColl
      present_finishCurrent present_stabilityPool present_updateAllowance\<close>)

section \<open>The supply of a token\<close>

lemma tokenPart_present: "present s' = present s \<Longrightarrow> tokenPart s' = tokenPart s"
  by (simp add: present_def)

lemma trovePart_present: "present s' = present s \<Longrightarrow> trovePart s' = trovePart s"
  by (simp add: present_def)

lemma present_troveSteps:
  "getCurrentPrice s = Inr (p, s') \<Longrightarrow> present s' = present s"
  "visitLiquidation ev op s = (l, s') \<Longrightarrow> present s' = present s"
  "visitRedemption ev op s = (l, s') \<Longrightarrow> present s' = present s"
  "updateSystemStateByTroveChange env c s = Inr s' \<Longrightarrow> present s' = present s"
  by (auto simp: getCurrentPrice_def visitLiquidation_def visitRedemption_def
      updateSystemStateByTroveChange_def Let_def bindR_Inr_iff
      split: prod.splits option.splits if_splits dest!: present_steps)

lemma tokenPart_trove:
  "sg_getTrove b s = (t, s') \<Longrightarrow> tokenPart s' = tokenPart s"
  "setTroveStatus st x s = (y, s') \<Longrightarrow> tokenPart s' = tokenPart s"
  by (auto simp: sg_getTrove_def setTroveStatus_def neutral_defs tokenPart_def Let_def
      split: option.splits prod.splits if_splits sgTroveStatus.splits)

text \<open>Between loading the trove and setting its status, the update only records history.\<close>

lemma updateTrove_parts:
  assumes "updateTrove env ev op b coll debt stake s = Inr s'"
  obtains (same) t where "sg_getTrove b s = (t, s')"
      "sg_decimalize env coll = tr_collateral t" "sg_decimalize env debt = tr_debt t"
  | (changed) t s1 s7 t' s8 where "sg_getTrove b s = (t, s1)" "present s7 = present s1"
      "\<not> (sg_decimalize env coll = tr_collateral t \<and> sg_decimalize env debt = tr_debt t)"
      "setTroveStatus (statusAfter op coll) (setRawAmounts coll debt stake (getGlobal s)
         (t\<lparr>tr_collateral := sg_decimalize env coll, tr_debt := sg_decimalize env debt\<rparr>)) s7 = (t', s8)"
      "s' = s8\<lparr>sgTroves := (sgTroves s8)(b \<mapsto> t')\<rparr>"
  using assms
proof (cases rule: updateTrove_cases)
  case (changed t s1 c s2 p s3 l s4 r s5 s6 a s7 t' s8)
  have "present s7 = present s1"
    using present_createChange [OF changed(3)] present_troveSteps(1) [OF changed(4)]
      present_troveSteps(2) [OF changed(5)] present_troveSteps(3) [OF changed(6)]
      present_troveSteps(4) [OF changed(7)] present_finishChange [OF changed(8)] by simp
  with that(2) [OF changed(1) _ changed(2) changed(9,10)] show thesis by simp
qed (rule that(1))

lemma tokenPart_updateTrove:
  "updateTrove env ev op b coll debt stake s = Inr s' \<Longrightarrow> tokenPart s' = tokenPart s"
  by (erule updateTrove_parts) (auto dest!: tokenPart_trove tokenPart_present simp: tokenPart_def)

lemma tokenPart_handleEvent:
  assumes "handleEvent env ev a s = Inr s'" and "\<not> touchesTokens a"
  shows "tokenPart s' = tokenPart s"
proof (cases "touchesTroves a")
  case True
  with assms(1) show ?thesis
    by (cases a) (auto simp: touchesTroves_def applyRedistributionToTroveBeforeLiquidation_def Let_def
        updateTotalRedistributed_def tokenPart_def [of "updateGlobal _ _"] tokenPart_def [of s]
        split: prod.splits option.splits dest!: tokenPart_updateTrove dest: tokenPart_trove)
next
  case False
  with assms show ?thesis by (intro tokenPart_present present_handleEvent) auto
qed

text \<open>C23: The supply of every token is the sum of the balances of its holders, in every store that
  handling events can reach, whatever the order of transfers, mints (from the zero address) and
  burns (to it), transfers of an account to itself included.  The ids of balances join the addresses of
  token and holder with a dash, so the addresses of tokens must not contain one.\<close>

theorem token_supply:
  assumes "graph_run env (\<lambda>ev a s. touchesTokens a \<longrightarrow> dashFree (ev_address ev)) s"
  shows "supplyOf token s = totalBalance token (tokenBalances s)"
proof -
  have "balanced s"
    using assms
  proof (rule graph_run_invariant)
    show "balanced emptyGraph"
      by (simp add: balanced_def emptyGraph_def keyed_def supplyOf_def totalBalance_def)
  next
    fix s ev a s'
    assume s: "balanced s" and V: "touchesTokens a \<longrightarrow> dashFree (ev_address ev)"
      and s': "handleEvent env ev a s = Inr s'"
    show "balanced s'"
    proof (cases "touchesTokens a")
      case True
      with s V s' show ?thesis
        by (cases a) (auto simp: touchesTokens_def intro: balanced_updateBalance)
    next
      case False
      with tokenPart_handleEvent [OF s'] s show ?thesis
        by (auto simp: tokenPart_def intro: balanced_eqI)
    qed
  qed
  then show ?thesis by (simp add: balanced_def)
qed

definition tokenEvent :: graphEvent where
  "tokenEvent = openingEvent\<lparr>ev_address := ''0x70''\<rparr>"

text \<open>A mint of 5 and a transfer of 2 of them.\<close>

definition tokenStore :: graphStore where
  "tokenStore = updateBalance exactEnv tokenEvent ''0xa1'' ''0xa2'' 2
     (updateBalance exactEnv tokenEvent sg_ZERO_ADDRESS ''0xa1'' 5 emptyGraph)"

theorem token_supply_witness:
  "supplyOf ''0x70'' tokenStore = 5 \<and> totalBalance ''0x70'' (tokenBalances tokenStore) = 5"
proof -
  let ?V = "\<lambda>ev a (s :: graphStore). touchesTokens a \<longrightarrow> dashFree (ev_address ev)"
  have d: "dashFree (ev_address tokenEvent)"
    by (simp add: tokenEvent_def dashFree_def)
  have "graph_run exactEnv ?V (updateBalance exactEnv tokenEvent sg_ZERO_ADDRESS ''0xa1'' 5 emptyGraph)"
    by (rule graph_run.handle [OF graph_run.init, where a = "Transfer sg_ZERO_ADDRESS ''0xa1'' 5" and ev = tokenEvent])
       (simp_all add: d)
  then have "graph_run exactEnv ?V tokenStore"
    unfolding tokenStore_def
    by (rule graph_run.handle [where a = "Transfer ''0xa1'' ''0xa2'' 2" and ev = tokenEvent]) (simp_all add: d)
  moreover have "supplyOf ''0x70'' tokenStore = 5"
    by (simp add: tokenStore_def supplyOf_def updateBalance_def getToken_def createToken_def emptyGraph_def
        tokenEvent_def sg_ZERO_ADDRESS_def addToBalance_adds(3) addToBalance_def getTokenBalance_def getUser_def
        Let_def balanceId_def numeral_eq_Suc)
  ultimately show ?thesis using token_supply [of exactEnv tokenStore "''0x70''"] by simp
qed

section \<open>The two events of a stability deposit\<close>

definition setTmp :: "int option \<Rightarrow> graphStore \<Rightarrow> graphStore" where
  "setTmp x = updateGlobal (\<lambda>g. g\<lparr>g_tmpDepositUpdate := x\<rparr>)"

named_theorems commutes \<open>operations that pass over the update of \<open>tmpDepositUpdate\<close>\<close>

lemma setTmp_sel [simp]:
  "systemStates (setTmp x s) = systemStates s" "users (setTmp x s) = users s"
  "stabilityDeposits (setTmp x s) = stabilityDeposits s" "transactions (setTmp x s) = transactions s"
  "stabilityDepositChanges (setTmp x s) = stabilityDepositChanges s"
  "getGlobal (setTmp x s) = (getGlobal s)\<lparr>g_tmpDepositUpdate := x\<rparr>"
  "setTmp x (setTmp y s) = setTmp x s"
  by (simp_all add: setTmp_def) (simp add: updateGlobal_def getGlobal_def)

lemma setTmp_update [commutes]:
  "(setTmp x s)\<lparr>systemStates := a\<rparr> = setTmp x (s\<lparr>systemStates := a\<rparr>)"
  "(setTmp x s)\<lparr>users := b\<rparr> = setTmp x (s\<lparr>users := b\<rparr>)"
  "(setTmp x s)\<lparr>stabilityDeposits := c\<rparr> = setTmp x (s\<lparr>stabilityDeposits := c\<rparr>)"
  "(setTmp x s)\<lparr>transactions := d\<rparr> = setTmp x (s\<lparr>transactions := d\<rparr>)"
  "(setTmp x s)\<lparr>stabilityDepositChanges := e\<rparr> = setTmp x (s\<lparr>stabilityDepositChanges := e\<rparr>)"
  by (simp_all add: setTmp_def updateGlobal_def getGlobal_def)

lemma setTmp_counters [commutes]:
  "updateGlobal (\<lambda>g. g\<lparr>g_systemStateCount := g_systemStateCount g + 1\<rparr>) (setTmp x s) =
     setTmp x (updateGlobal (\<lambda>g. g\<lparr>g_systemStateCount := g_systemStateCount g + 1\<rparr>) s)"
  "updateGlobal (\<lambda>g. g\<lparr>g_transactionCount := g_transactionCount g + 1\<rparr>) (setTmp x s) =
     setTmp x (updateGlobal (\<lambda>g. g\<lparr>g_transactionCount := g_transactionCount g + 1\<rparr>) s)"
  "updateGlobal (\<lambda>g. g\<lparr>g_changeCount := g_changeCount g + 1\<rparr>) (setTmp x s) =
     setTmp x (updateGlobal (\<lambda>g. g\<lparr>g_changeCount := g_changeCount g + 1\<rparr>) s)"
  "updateGlobal (\<lambda>g. g\<lparr>g_currentSystemState := n\<rparr>) (setTmp x s) =
     setTmp x (updateGlobal (\<lambda>g. g\<lparr>g_currentSystemState := n\<rparr>) s)"
  by (simp_all add: setTmp_def updateGlobal_def getGlobal_def)

text \<open>Operations that return a value and a store.\<close>

definition onStore :: "('s \<Rightarrow> 't) \<Rightarrow> 'a \<times> 's \<Rightarrow> 'a \<times> 't" where
  "onStore f = map_prod id f"

lemma onStore_simps [simp]: "onStore f (a, s) = (a, f s)" "fst (onStore f p) = fst p" "snd (onStore f p) = f (snd p)"
  by (simp_all add: onStore_def)

lemma case_onStore [simp]: "(case onStore f p of (a, s) \<Rightarrow> k a s) = (case p of (a, s) \<Rightarrow> k a (f s))"
  by (cases p) simp

lemma getUser_commutes [commutes]: "getUser u (setTmp x s) = onStore (setTmp x) (getUser u s)"
  by (auto simp: getUser_def Let_def commutes split: option.splits)

lemma getTransaction_commutes [commutes]: "getTransaction ev (setTmp x s) = onStore (setTmp x) (getTransaction ev s)"
  by (auto simp: getTransaction_def getTransactionSequenceNumber_def Let_def commutes split: option.splits)

lemma getCurrentSystemState_commutes [commutes]:
  "getCurrentSystemState (setTmp x s) = onStore (setTmp x) (getCurrentSystemState s)"
  by (auto simp: getCurrentSystemState_def getSystemStateSequenceNumber_def Let_def commutes split: option.splits)

lemma createChange_commutes [commutes]: "createChange ev (setTmp x s) = onStore (setTmp x) (createChange ev s)"
  by (auto simp: createChange_def beginChange_def getChangeSequenceNumber_def initChange_def commutes
      split: prod.splits)

lemma bumpSystemState_commutes [commutes]: "bumpSystemState ss (setTmp x s) = setTmp x (bumpSystemState ss s)"
  by (simp add: bumpSystemState_def getSystemStateSequenceNumber_def Let_def commutes)

lemma finishChange_commutes [commutes]: "finishChange (setTmp x s) = onStore (setTmp x) (finishChange s)"
  by (auto simp: finishChange_def commutes split: prod.splits)

lemma sg_getStabilityDeposit_commutes [commutes]:
  "sg_getStabilityDeposit u (setTmp x s) = onStore (setTmp x) (sg_getStabilityDeposit u s)"
  by (auto simp: sg_getStabilityDeposit_def Let_def commutes split: option.splits prod.splits)

lemma updateStabilityDepositByOperation_commutes [commutes]:
  "updateStabilityDepositByOperation env ev u d op amount gain (setTmp x s) =
     onStore (setTmp x) (updateStabilityDepositByOperation env ev u d op amount gain s)"
  by (auto simp: updateStabilityDepositByOperation_def updateSystemStateByStabilityDepositChange_def Let_def commutes
      split: prod.splits)

lemma withdrawCollateralGain_commutes [commutes]:
  "withdrawCollateralGainFromStabilityDeposit env ev u coll loss (setTmp x s) =
     setTmp x (withdrawCollateralGainFromStabilityDeposit env ev u coll loss s)"
  by (auto simp: withdrawCollateralGainFromStabilityDeposit_def Let_def commutes split: prod.splits)

lemma swapTmpDepositUpdate_setTmp:
  "swapTmpDepositUpdate v s =
     (g_tmpDepositUpdate (getGlobal s),
      setTmp (if g_tmpDepositUpdate (getGlobal s) = None then Some v else None) s)"
  by (simp add: swapTmpDepositUpdate_def setTmp_def Let_def)

lemma updateStabilityDeposit_commutes [commutes]:
  "updateStabilityDeposit env ev u d (setTmp x s) = setTmp x (updateStabilityDeposit env ev u d s)"
  by (auto simp: updateStabilityDeposit_def Let_def commutes split: prod.splits)

text \<open>C24: A change of a stability deposit emits two events.  With no half of a pair pending, either
  order of the two events of one transaction gives the same store: first the gain is withdrawn, with
  the loss it compensates, and then the deposit is set to its new value, and no half is left
  pending.\<close>

theorem deposit_events_order:
  assumes "g_tmpDepositUpdate (getGlobal s) = None"
  shows "handleUserDepositChanged env ev u d (handleCollateralGainWithdrawn env ev u coll loss s) =
           updateStabilityDeposit env ev u d
             (withdrawCollateralGainFromStabilityDeposit env ev u coll loss (setTmp None s)) \<and>
         handleCollateralGainWithdrawn env ev u coll loss (handleUserDepositChanged env ev u d s) =
           updateStabilityDeposit env ev u d
             (withdrawCollateralGainFromStabilityDeposit env ev u coll loss (setTmp None s)) \<and>
         g_tmpDepositUpdate (getGlobal (updateStabilityDeposit env ev u d
             (withdrawCollateralGainFromStabilityDeposit env ev u coll loss (setTmp None s)))) = None"
  using assms
  by (simp add: handleUserDepositChanged_def handleCollateralGainWithdrawn_def swapTmpDepositUpdate_setTmp commutes)

text \<open>A new deposit of 3.\<close>

theorem deposit_events_order_witness:
  "handleUserDepositChanged exactEnv openingEvent ''0xa1'' (3 * 10 ^ 18)
     (handleCollateralGainWithdrawn exactEnv openingEvent ''0xa1'' 0 0 emptyGraph) =
   handleCollateralGainWithdrawn exactEnv openingEvent ''0xa1'' 0 0
     (handleUserDepositChanged exactEnv openingEvent ''0xa1'' (3 * 10 ^ 18) emptyGraph)"
  using deposit_events_order [of emptyGraph exactEnv openingEvent "''0xa1''" "3 * 10 ^ 18" 0 0]
  by (simp add: emptyGraph_def getGlobal_def newGlobal_def)

end
