(* ===== verification/Subgraph_Troves.thy ===== *)
theory Subgraph_Troves
  imports Subgraph_Accounts
begin

text \<open>
  The counters of troves in the indexer's global entity: an invariant of the stores reached by
  events that a deployment of the contracts emits, and why it needs them to be such.
\<close>

section \<open>Well-formed troves\<close>

text \<open>What an update of a trove that succeeds leaves in the trove.\<close>

definition wfTrove :: "graphEnv \<Rightarrow> int \<Rightarrow> int \<Rightarrow> sgTrove \<Rightarrow> bool" where
  "wfTrove env L_Coll L_Debt t \<longleftrightarrow>
     (case (tr_rawCollateral t, tr_rawDebt t, tr_rawStake t,
            tr_rawSnapshotOfTotalRedistributedCollateral t, tr_rawSnapshotOfTotalRedistributedDebt t) of
        (Some coll, Some debt, Some stake, Some snapshotColl, Some snapshotDebt) \<Rightarrow>
          0 \<le> coll \<and> 0 \<le> debt \<and> 0 \<le> stake \<and> (coll = 0 \<longrightarrow> debt = 0 \<and> stake = 0) \<and>
          tr_collateral t = sg_decimalize env coll \<and> tr_debt t = sg_decimalize env debt \<and>
          (tr_status t = SgOpen \<longleftrightarrow> coll \<noteq> 0) \<and>
          0 \<le> snapshotColl \<and> snapshotColl \<le> L_Coll \<and> 0 \<le> snapshotDebt \<and> snapshotDebt \<le> L_Debt
      | _ \<Rightarrow> False)"

text \<open>The events of troves: amounts are not negative, only an empty trove has no collateral, the
  first update of a trove gives it collateral, and the redistribution terms only grow.\<close>

definition validAmounts :: "int \<Rightarrow> int \<Rightarrow> int \<Rightarrow> bool" where
  "validAmounts coll debt stake \<longleftrightarrow>
     0 \<le> coll \<and> 0 \<le> debt \<and> 0 \<le> stake \<and> (coll = 0 \<longrightarrow> debt = 0 \<and> stake = 0)"

fun validAction :: "graphAction \<Rightarrow> graphStore \<Rightarrow> bool" where
  "validAction (BO_TroveUpdated operation borrower coll debt stake) s =
     (validAmounts coll debt stake \<and> (sgTroves s borrower = None \<longrightarrow> coll \<noteq> 0))"
| "validAction (TM_TroveUpdated operation borrower coll debt stake) s =
     (validAmounts coll debt stake \<and> (sgTroves s borrower = None \<longrightarrow> coll \<noteq> 0))"
| "validAction (LTermsUpdated L_Coll L_Debt) s =
     (g_rawTotalRedistributedCollateral (getGlobal s) \<le> L_Coll \<and>
      g_rawTotalRedistributedDebt (getGlobal s) \<le> L_Debt)"
| "validAction _ s = True"

definition exactZero :: "graphEnv \<Rightarrow> bool" where
  "exactZero env \<longleftrightarrow> (\<forall>x. roundDecimal env x = 0 \<longleftrightarrow> x = 0)"

lemma decimalize_zero_iff: "exactZero env \<Longrightarrow> sg_decimalize env x = 0 \<longleftrightarrow> x = 0"
  by (simp add: exactZero_def sg_decimalize_def SCALING_FACTOR_def)

section \<open>The number of troves of a status\<close>

definition statusCount :: "sgTroveStatus \<Rightarrow> (string \<rightharpoonup> sgTrove) \<Rightarrow> nat" where
  "statusCount st m = card {b. \<exists>t. m b = Some t \<and> tr_status t = st}"

definition counted :: "(string \<rightharpoonup> sgTrove) \<Rightarrow> i32 list \<Rightarrow> bool" where
  "counted m counters \<longleftrightarrow>
     counters = [of_nat (statusCount SgOpen m), of_nat (statusCount SgClosedByLiquidation m),
       of_nat (statusCount SgClosedByRedemption m), of_nat (statusCount SgClosedByOwner m), of_nat (card (dom m))]"

lemma statusCount_update:
  assumes "finite (dom m)"
  shows "int (statusCount st (m(b \<mapsto> t))) = int (statusCount st m) + (if tr_status t = st then 1 else 0) -
    (case m b of Some t' \<Rightarrow> if tr_status t' = st then 1 else 0 | None \<Rightarrow> 0)"
proof -
  let ?A = "{c. c \<noteq> b \<and> (\<exists>t. m c = Some t \<and> tr_status t = st)}"
  have fin: "finite ?A" by (rule finite_subset [OF _ assms]) auto
  have new: "{c. \<exists>t'. (m(b \<mapsto> t)) c = Some t' \<and> tr_status t' = st} = (if tr_status t = st then insert b ?A else ?A)"
    by auto
  have old: "{c. \<exists>t'. m c = Some t' \<and> tr_status t' = st} =
      (case m b of Some t' \<Rightarrow> if tr_status t' = st then insert b ?A else ?A | None \<Rightarrow> ?A)"
    by (auto split: option.splits)
  show ?thesis unfolding statusCount_def new old using fin by (auto split: option.splits)
qed

lemma of_nat_statusCount_update:
  assumes "finite (dom m)"
  shows "(of_nat (statusCount st (m(b \<mapsto> t))) :: i32) = of_nat (statusCount st m) + (if tr_status t = st then 1 else 0) -
    (case m b of Some t' \<Rightarrow> if tr_status t' = st then 1 else 0 | None \<Rightarrow> 0)"
proof -
  have "(of_nat (statusCount st (m(b \<mapsto> t))) :: i32) = of_int (int (statusCount st (m(b \<mapsto> t))))"
    by simp
  also have "\<dots> = of_int (int (statusCount st m)) + (if tr_status t = st then 1 else 0) -
      (case m b of Some t' \<Rightarrow> if tr_status t' = st then 1 else 0 | None \<Rightarrow> 0)"
    unfolding statusCount_update [OF assms] by (auto split: option.splits)
  finally show ?thesis by simp
qed

text \<open>The counters after \<open>setTroveStatus\<close>, as long as it does not replace one closed status by another.\<close>

definition moveStatus :: "sgTroveStatus \<Rightarrow> sgTroveStatus \<Rightarrow> i32 list \<Rightarrow> i32 list" where
  "moveStatus x y cs = map2 (+) cs
     (map (\<lambda>st. (if y = st then 1 else 0) - (if x = st then 1 else 0))
        [SgOpen, SgClosedByLiquidation, SgClosedByRedemption, SgClosedByOwner] @ [0])"

lemma setTroveStatus_moves:
  assumes "setTroveStatus st t s = (t', s')" and "st = tr_status t \<or> st = SgOpen \<or> tr_status t = SgOpen"
  shows "t' = t\<lparr>tr_status := st\<rparr>" and "sgTroves s' = sgTroves s"
    and "troveCounters s' = moveStatus (tr_status t) st (troveCounters s)"
    and "g_rawTotalRedistributedCollateral (getGlobal s') = g_rawTotalRedistributedCollateral (getGlobal s)"
    and "g_rawTotalRedistributedDebt (getGlobal s') = g_rawTotalRedistributedDebt (getGlobal s)"
  using assms
  by (cases "tr_status t"; cases st; force simp: setTroveStatus_def neutral_defs troveCounters_def moveStatus_def)+

lemma counted_known:
  assumes "finite (dom m)" and "counted m cs" and "m b = Some t"
  shows "counted (m(b \<mapsto> t')) (moveStatus (tr_status t) (tr_status t') cs)"
  using assms by (auto simp: counted_def moveStatus_def of_nat_statusCount_update insert_absorb domI)

lemma counted_new:
  assumes "finite (dom m)" and "counted m cs" and "m b = None" and "tr_status t = SgOpen"
  shows "counted (m(b \<mapsto> t)) (map2 (+) cs [1, 0, 0, 0, 1])"
  using assms by (auto simp: counted_def of_nat_statusCount_update domIff)

section \<open>The invariant\<close>

definition counting :: "graphEnv \<Rightarrow> graphStore \<Rightarrow> bool" where
  "counting env s \<longleftrightarrow>
     finite (dom (sgTroves s)) \<and> counted (sgTroves s) (troveCounters s) \<and>
     0 \<le> g_rawTotalRedistributedCollateral (getGlobal s) \<and> 0 \<le> g_rawTotalRedistributedDebt (getGlobal s) \<and>
     (\<forall>b t. sgTroves s b = Some t \<longrightarrow>
        wfTrove env (g_rawTotalRedistributedCollateral (getGlobal s)) (g_rawTotalRedistributedDebt (getGlobal s)) t)"

lemma counting_eqI: "trovePart s' = trovePart s \<Longrightarrow> counting env s \<Longrightarrow> counting env s'"
  by (auto simp: trovePart_def counting_def)

lemma sg_getTrove_new:
  assumes "sg_getTrove b s = (t, s')" and "sgTroves s b = None"
  shows "tr_status t = SgOpen" "tr_collateral t = 0" "tr_debt t = 0" "sgTroves s' = sgTroves s"
    and "troveCounters s' = map2 (+) (troveCounters s) [1, 0, 0, 0, 1]"
    and "g_rawTotalRedistributedCollateral (getGlobal s') = g_rawTotalRedistributedCollateral (getGlobal s)"
    and "g_rawTotalRedistributedDebt (getGlobal s') = g_rawTotalRedistributedDebt (getGlobal s)"
  using assms
  by (auto simp: sg_getTrove_def getUser_def Let_def increaseNumberOfOpenTroves_def troveCounters_def
      split: option.splits)

lemma wfTrove_updated:
  assumes "validAmounts coll debt stake" and "0 \<le> g_rawTotalRedistributedCollateral g" and "0 \<le> g_rawTotalRedistributedDebt g"
  shows "wfTrove env (g_rawTotalRedistributedCollateral g) (g_rawTotalRedistributedDebt g)
    ((setRawAmounts coll debt stake g (t\<lparr>tr_collateral := sg_decimalize env coll, tr_debt := sg_decimalize env debt\<rparr>))
       \<lparr>tr_status := statusAfter op coll\<rparr>)"
  using assms by (auto simp: wfTrove_def validAmounts_def setRawAmounts_def statusAfter_def Let_def)

lemma setRawAmounts_status [simp]: "tr_status (setRawAmounts coll debt stake g t) = tr_status t"
  by (simp add: setRawAmounts_def Let_def)

text \<open>An update never replaces one closed status by another: a closed trove is empty, and an
  update that leaves it empty changes nothing.\<close>

lemma status_moves:
  assumes "wfTrove env x y t" and "validAmounts coll debt stake"
    and "\<not> (sg_decimalize env coll = tr_collateral t \<and> sg_decimalize env debt = tr_debt t)"
  shows "statusAfter op coll = SgOpen \<or> tr_status t = SgOpen"
  using assms by (auto simp: wfTrove_def validAmounts_def statusAfter_def split: option.splits prod.splits)

lemma counting_updateTrove:
  assumes "exactZero env" and s: "counting env s" and amounts: "validAmounts coll debt stake"
    and first: "sgTroves s b = None \<Longrightarrow> coll \<noteq> 0" and s': "updateTrove env ev op b coll debt stake s = Inr s'"
  shows "counting env s'"
proof (cases "sgTroves s b")
  case None
  note new = sg_getTrove_new [OF _ None]
  have "coll \<noteq> 0" using first None by simp
  then have open_after: "statusAfter op coll = SgOpen" and "sg_decimalize env coll \<noteq> 0"
    using decimalize_zero_iff [OF assms(1)] by (auto simp: statusAfter_def)
  from s' show ?thesis
  proof (cases rule: updateTrove_parts)
    case (same t)
    with new \<open>sg_decimalize env coll \<noteq> 0\<close> show ?thesis by simp
  next
    case (changed t s1 s7 t' s8)
    note n = new [OF changed(1)]
    have "statusAfter op coll = tr_status t" using n(1) open_after by simp
    then have "statusAfter op coll = tr_status (setRawAmounts coll debt stake (getGlobal s)
        (t\<lparr>tr_collateral := sg_decimalize env coll, tr_debt := sg_decimalize env debt\<rparr>)) \<or> A" for A by simp
    note m = setTroveStatus_moves [OF changed(4) this]
    have p: "trovePart s7 = trovePart s1" using changed(2) by (rule trovePart_present)
    have cs: "troveCounters s8 = map2 (+) (troveCounters s) [1, 0, 0, 0, 1]"
      using m(3) p n(5) open_after by (simp add: trovePart_def n(1) moveStatus_def troveCounters_def)
    have "wfTrove env (g_rawTotalRedistributedCollateral (getGlobal s)) (g_rawTotalRedistributedDebt (getGlobal s)) t'"
      unfolding m(1) by (rule wfTrove_updated [OF amounts]) (use s in \<open>auto simp: counting_def\<close>)
    moreover have "counted ((sgTroves s)(b \<mapsto> t')) (troveCounters s8)"
      unfolding cs by (rule counted_new) (use s None open_after in \<open>auto simp: counting_def m(1)\<close>)
    ultimately show ?thesis
      using s p n(4,6,7) m(2,4,5) by (auto simp: changed(5) counting_def trovePart_def troveCounters_def)
  qed
next
  case (Some t0)
  then have get: "sg_getTrove b s = (t0, s)" by (simp add: sg_getTrove_def)
  from s' show ?thesis
  proof (cases rule: updateTrove_parts)
    case (same t)
    with get s show ?thesis by simp
  next
    case (changed t s1 s7 t' s8)
    have t: "t = t0" "s1 = s" using get changed(1) by auto
    let ?t = "setRawAmounts coll debt stake (getGlobal s)
        (t\<lparr>tr_collateral := sg_decimalize env coll, tr_debt := sg_decimalize env debt\<rparr>)"
    have "wfTrove env (g_rawTotalRedistributedCollateral (getGlobal s)) (g_rawTotalRedistributedDebt (getGlobal s)) t"
      using s Some t by (auto simp: counting_def)
    then have "statusAfter op coll = tr_status ?t \<or> statusAfter op coll = SgOpen \<or> tr_status ?t = SgOpen"
      using status_moves [OF _ amounts changed(3)] by auto
    note m = setTroveStatus_moves [OF changed(4) this]
    have p: "trovePart s7 = trovePart s" using changed(2) unfolding t by (rule trovePart_present)
    have "wfTrove env (g_rawTotalRedistributedCollateral (getGlobal s)) (g_rawTotalRedistributedDebt (getGlobal s)) t'"
      unfolding m(1) by (rule wfTrove_updated [OF amounts]) (use s in \<open>auto simp: counting_def\<close>)
    moreover have "counted ((sgTroves s)(b \<mapsto> t')) (troveCounters s8)"
      using counted_known [of "sgTroves s" "troveCounters s" b t t'] s Some t p m(1,3)
      by (auto simp: counting_def trovePart_def)
    ultimately show ?thesis
      using s p m(2,4,5) by (auto simp: changed(5) counting_def trovePart_def troveCounters_def)
  qed
qed

lemma redistributedRaw_nonneg:
  "snapshot \<le> L \<Longrightarrow> 0 \<le> stake \<Longrightarrow> 0 \<le> redistributedRaw L snapshot stake"
  by (auto simp: redistributedRaw_def bigint_div_def SCALING_FACTOR_def sgn_if pos_imp_zdiv_nonneg_iff
      not_less mult_less_0_iff)

text \<open>Accruing the pending redistribution keeps amounts valid.\<close>

lemma redistribution_valid:
  assumes "wfTrove env L_Coll L_Debt t" and "tr_rawCollateral t = Some coll" and "tr_rawDebt t = Some debt"
    and "tr_rawStake t = Some stake" and "tr_rawSnapshotOfTotalRedistributedCollateral t = Some sc"
    and "tr_rawSnapshotOfTotalRedistributedDebt t = Some sd"
  shows "validAmounts (coll + redistributedRaw L_Coll sc stake) (debt + redistributedRaw L_Debt sd stake) 0"
proof -
  have wf: "0 \<le> coll" "0 \<le> debt" "0 \<le> stake" "coll = 0 \<longrightarrow> debt = 0 \<and> stake = 0" "sc \<le> L_Coll" "sd \<le> L_Debt"
    using assms by (auto simp: wfTrove_def)
  then have "0 \<le> redistributedRaw L_Coll sc stake" "0 \<le> redistributedRaw L_Debt sd stake"
    by (auto intro: redistributedRaw_nonneg)
  moreover have "coll = 0 \<longrightarrow> redistributedRaw L_Debt sd stake = 0"
    using wf(4) by (simp add: redistributedRaw_def bigint_div_def)
  ultimately show ?thesis using wf by (auto simp: validAmounts_def)
qed

lemma counting_troveLiquidated:
  assumes "exactZero env" and s: "counting env s"
    and s': "applyRedistributionToTroveBeforeLiquidation env ev b s = Inr s'"
  shows "counting env s'"
proof (cases "sgTroves s b")
  case None
  then show ?thesis
    using s' by (auto simp: applyRedistributionToTroveBeforeLiquidation_def sg_getTrove_def Let_def split: prod.splits)
next
  case (Some t)
  then have get: "sg_getTrove b s = (t, s)" by (simp add: sg_getTrove_def)
  let ?c = "g_rawTotalRedistributedCollateral (getGlobal s)" and ?d = "g_rawTotalRedistributedDebt (getGlobal s)"
  have wf: "wfTrove env ?c ?d t" using s Some by (auto simp: counting_def)
  then obtain coll debt stake sc sd where raw: "tr_rawCollateral t = Some coll" "tr_rawDebt t = Some debt"
    "tr_rawStake t = Some stake" "tr_rawSnapshotOfTotalRedistributedCollateral t = Some sc"
    "tr_rawSnapshotOfTotalRedistributedDebt t = Some sd"
    by (auto simp: wfTrove_def split: option.splits)
  have "updateTrove env ev ''accrueRewards'' b (coll + redistributedRaw ?c sc stake) (debt + redistributedRaw ?d sd stake) 0 s = Inr s'"
    using s' by (simp add: applyRedistributionToTroveBeforeLiquidation_def get raw Let_def)
  with Some show ?thesis
    by (intro counting_updateTrove [OF assms(1) s redistribution_valid [OF wf raw]]) auto
qed

lemma wfTrove_mono: "wfTrove env a b t \<Longrightarrow> a \<le> a' \<Longrightarrow> b \<le> b' \<Longrightarrow> wfTrove env a' b' t"
  by (auto simp: wfTrove_def split: option.splits)

lemma trovePart_tokens [simp]:
  "trovePart (s\<lparr>tokens := x\<rparr>) = trovePart s" "trovePart (s\<lparr>tokenBalances := y\<rparr>) = trovePart s"
  by (simp_all add: trovePart_def troveCounters_def)

lemma trovePart_addToBalance [simp]: "trovePart (addToBalance t u v s) = trovePart s"
  by (auto simp: addToBalance_def getTokenBalance_def Let_def split: prod.splits option.splits
      dest!: present_getUser trovePart_present)

lemma trovePart_updateBalance: "trovePart (updateBalance env ev a b v s) = trovePart s"
proof -
  obtain t s1 where t: "getToken env (ev_address ev) s = (t, s1)" by fastforce
  then have "trovePart s1 = trovePart s"
    by (auto simp: getToken_def createToken_def Let_def split: option.splits)
  then show ?thesis by (simp add: updateBalance_def t Let_def)
qed

lemma counting_handleEvent:
  assumes "exactZero env" and s: "counting env s" and V: "validAction a s" and s': "handleEvent env ev a s = Inr s'"
  shows "counting env s'"
proof (cases "touchesTroves a")
  case True
  then show ?thesis
  proof (cases a)
    case (LTermsUpdated x y)
    with V have L: "g_rawTotalRedistributedCollateral (getGlobal s) \<le> x" "g_rawTotalRedistributedDebt (getGlobal s) \<le> y"
      by simp_all
    have "wfTrove env x y t" if "sgTroves s b = Some t" for b t
      by (rule wfTrove_mono [OF _ L]) (use s that in \<open>simp add: counting_def\<close>)
    with LTermsUpdated s V s' show ?thesis
      by (auto simp: updateTotalRedistributed_def counting_def troveCounters_def)
  next
    case (BO_TroveUpdated op b coll debt stake)
    with V s' show ?thesis by (intro counting_updateTrove [OF assms(1) s, of coll debt stake b]) auto
  next
    case (TM_TroveUpdated op b coll debt stake)
    with V s' show ?thesis by (intro counting_updateTrove [OF assms(1) s, of coll debt stake b]) auto
  qed (use s' counting_troveLiquidated [OF assms(1) s] in \<open>auto simp: touchesTroves_def\<close>)
next
  case False
  have "trovePart s' = trovePart s"
  proof (cases "touchesTokens a")
    case True
    then obtain x y v where "a = Transfer x y v" by (cases a) (auto simp: touchesTokens_def)
    with s' show ?thesis using trovePart_updateBalance by auto
  next
    case no: False
    show ?thesis by (rule trovePart_present [OF present_handleEvent [OF s' False no]])
  qed
  then show ?thesis using s by (rule counting_eqI)
qed

lemma graph_run_counting:
  assumes "\<forall>x. roundDecimal env x = 0 \<longleftrightarrow> x = 0" and "graph_run env (\<lambda>ev a s. validAction a s) s"
  shows "counting env s"
  using assms(2)
proof (rule graph_run_invariant)
  show "counting env emptyGraph"
    by (simp add: counting_def counted_def statusCount_def emptyGraph_def troveCounters_def getGlobal_def newGlobal_def)
  show "counting env s'" if "counting env s" "validAction a s" "handleEvent env ev a s = Inr s'" for s ev a s'
    using counting_handleEvent [of env] assms(1) that by (simp add: exactZero_def)
qed

text \<open>C6: The counters of the global entity are exact: in every store reached by valid events, each of
  them is the number of saved troves of its status (modulo the width of the counter), and the total is
  the number of all saved troves; a trove has collateral just when it is open.  The events are those of
  borrowers and of the trove manager with amounts that are not negative and vanish together, where the
  first event of a borrower brings collateral and the redistribution terms never decrease.\<close>

theorem trove_counters_exact:
  assumes "\<forall>x. roundDecimal env x = 0 \<longleftrightarrow> x = 0" and "graph_run env (\<lambda>ev a s. validAction a s) s"
  shows "g_numberOfOpenTroves (getGlobal s) = of_nat (statusCount SgOpen (sgTroves s)) \<and>
    g_numberOfLiquidatedTroves (getGlobal s) = of_nat (statusCount SgClosedByLiquidation (sgTroves s)) \<and>
    g_numberOfRedeemedTroves (getGlobal s) = of_nat (statusCount SgClosedByRedemption (sgTroves s)) \<and>
    g_numberOfTrovesClosedByOwner (getGlobal s) = of_nat (statusCount SgClosedByOwner (sgTroves s)) \<and>
    g_totalNumberOfTroves (getGlobal s) = of_nat (card (dom (sgTroves s))) \<and>
    (\<forall>b t. sgTroves s b = Some t \<longrightarrow> (tr_status t = SgOpen \<longleftrightarrow> tr_collateral t \<noteq> 0))"
proof -
  have z: "exactZero env" using assms(1) by (simp add: exactZero_def)
  have "counting env s" using assms by (rule graph_run_counting)
  moreover have "tr_status t = SgOpen \<longleftrightarrow> tr_collateral t \<noteq> 0" if "wfTrove env x y t" for x y t
    using that by (auto simp: wfTrove_def decimalize_zero_iff [OF z] split: option.splits)
  ultimately show ?thesis
    unfolding counting_def counted_def troveCounters_def by blast
qed

theorem trove_counters_exact_witness:
  "graph_run exactEnv (\<lambda>ev a s. validAction a s) openedStore \<and>
   g_numberOfOpenTroves (getGlobal openedStore) = of_nat (statusCount SgOpen (sgTroves openedStore)) \<and>
   g_numberOfOpenTroves (getGlobal openedStore) = 1"
proof (intro conjI)
  show run: "graph_run exactEnv (\<lambda>ev a s. validAction a s) openedStore"
    by (rule openedStore_run) (auto simp: validAmounts_def)
  show "g_numberOfOpenTroves (getGlobal openedStore) = of_nat (statusCount SgOpen (sgTroves openedStore))"
    using trove_counters_exact [OF _ run] by (simp add: exactEnv_def)
  show "g_numberOfOpenTroves (getGlobal openedStore) = 1"
    by (simp add: openedStore_def opening_evaluates)
qed

text \<open>Without validity the counters drift: an update with no amounts, of a borrower that is not known,
  counts a trove that is not saved.\<close>

lemma empty_update_counts:
  assumes "roundDecimal env 0 = 0" and "sgTroves s b = None" and "updateTrove env ev op b 0 0 stake s = Inr s'"
  shows "g_totalNumberOfTroves (getGlobal s') = g_totalNumberOfTroves (getGlobal s) + 1"
    and "sgTroves s' = sgTroves s"
proof -
  obtain t s1 where get: "sg_getTrove b s = (t, s1)" by fastforce
  note n = sg_getTrove_new [OF get assms(2)]
  have "s' = s1" using assms(1,3) by (simp add: updateTrove_def get n(2,3) sg_decimalize_def Let_def)
  with n(4,5) show "g_totalNumberOfTroves (getGlobal s') = g_totalNumberOfTroves (getGlobal s) + 1"
    and "sgTroves s' = sgTroves s" by (simp_all add: troveCounters_def)
qed

end
