(* ===== verification/SubgraphLiquity.thy ===== *)
theory SubgraphLiquity
  imports ReadableEthers
begin

text \<open>
  The client of the indexer, \<open>packages/lib-subgraph/src/SubgraphLiquity.ts\<close> and \<open>Query.ts\<close>.

  The GraphQL server is a parameter (\<open>graphClient\<close>): the answer to each query of the source, or an error.  A
  \<open>BigInt\<close> of an answer is the integer that its string denotes; a \<open>BigDecimal\<close> is a string.  The
  two queries of \<open>getTrove\<close> and \<open>getTroves\<close> are separate requests, which may be answered at
  different blocks: they have a client each.  \<open>getAddress\<close> of ethers, which checks and capitalises an address,
  is a parameter.
\<close>

section \<open>Queries\<close>

text \<open>\<open>Query\<close> is its \<open>mapResult\<close>; \<open>watch\<close> delivers the mapped results until it is stopped.\<close>

type_synonym ('t, 'u, 'v) query = "'u \<Rightarrow> 'v \<Rightarrow> 't res"

definition Query_get :: "('t, 'u, 'v) query \<Rightarrow> 'u res \<Rightarrow> 'v \<Rightarrow> 't res" where
  "Query_get mapResult answer variables = bindR answer (\<lambda>result. mapResult result variables)"

definition Query_watch :: "('t, 'u, 'v) query \<Rightarrow> 'u list \<Rightarrow> 'v \<Rightarrow> 't res list" where
  "Query_watch mapResult results variables = map (\<lambda>result. mapResult result variables) results"

record systemStateResult =
  sr_price :: "string option"
  sr_totalCollateral :: string
  sr_totalDebt :: string
  sr_tokensInStabilityPool :: string

record globalResult =
  gr_numberOfOpenTroves :: int
  gr_rawTotalRedistributedCollateral :: int
  gr_rawTotalRedistributedDebt :: int
  gr_currentSystemState :: "systemStateResult option"

record troveRawFields =
  rf_owner :: string
  rf_status :: userTroveStatus
  rf_rawCollateral :: int
  rf_rawDebt :: int
  rf_rawStake :: int
  rf_rawSnapshotOfTotalRedistributedCollateral :: int
  rf_rawSnapshotOfTotalRedistributedDebt :: int

datatype orderDirection = OrderAsc | OrderDesc

record graphClient =
  query_global :: "globalResult option res"
  query_userTrove :: "string \<Rightarrow> troveRawFields option res"
  query_troves :: "orderDirection \<Rightarrow> jsNumber \<Rightarrow> jsNumber \<Rightarrow> troveRawFields list res"

definition toLowerCase :: "string \<Rightarrow> string" where
  "toLowerCase = map (\<lambda>ch. let n = of_char ch :: nat in if 65 \<le> n \<and> n \<le> 90 then char_of (n + 32) else ch)"

definition normalizeAddress :: "string option \<Rightarrow> string res" where
  "normalizeAddress address =
     (case address of
        None \<Rightarrow> Inl (Error ''An address is required'')
      | Some a \<Rightarrow> Inr (toLowerCase a))"

definition numberOfTroves :: "(int, globalResult option, unit) query" where
  "numberOfTroves global _ = Inr (case global of Some g \<Rightarrow> gr_numberOfOpenTroves g | None \<Rightarrow> 0)"

definition troveFrom :: "int \<Rightarrow> int \<Rightarrow> trove res" where
  "troveFrom coll deb =
     bindR (new_Decimal coll) (\<lambda>c. bindR (new_Decimal deb) (\<lambda>d. Inr \<lparr>collateral = c, debt = d\<rparr>))"

definition totalRedistributed :: "(trove, globalResult option, unit) query" where
  "totalRedistributed global _ =
     (case global of
        Some g \<Rightarrow> troveFrom (gr_rawTotalRedistributedCollateral g) (gr_rawTotalRedistributedDebt g)
      | None \<Rightarrow> Inr emptyTrove)"

definition sub_price :: "(decimal, globalResult option, unit) query" where
  "sub_price global _ =
     Decimal_from (coalesce
       (map_option DString (case global of Some g \<Rightarrow> (case gr_currentSystemState g of Some s \<Rightarrow> sr_price s | None \<Rightarrow> None) | None \<Rightarrow> None))
       (DNumber ''200''))"

text \<open>The amounts of \<open>total\<close> are put into the trove as they come, as strings (\<open>Inr\<close>); only the empty trove has
  decimals.\<close>

definition sub_total :: "(trove + string \<times> string, globalResult option, unit) query" where
  "sub_total global _ =
     (case global of
        Some g \<Rightarrow>
          (case gr_currentSystemState g of
             Some s \<Rightarrow> Inr (Inr (sr_totalCollateral s, sr_totalDebt s))
           | None \<Rightarrow> Inr (Inl emptyTrove))
      | None \<Rightarrow> Inr (Inl emptyTrove))"

definition tokensInStabilityPool :: "(decimal, globalResult option, unit) query" where
  "tokensInStabilityPool global _ =
     Decimal_from (coalesce
       (map_option DString (case global of Some g \<Rightarrow> map_option sr_tokensInStabilityPool (gr_currentSystemState g) | None \<Rightarrow> None))
       (DNumber ''0''))"

definition troveFromRawFields :: "(string \<Rightarrow> string res) \<Rightarrow> troveRawFields \<Rightarrow> troveWithPendingRedistribution res" where
  "troveFromRawFields getAddress f =
     bindR (getAddress (rf_owner f)) (\<lambda>owner.
     bindR (new_Decimal (rf_rawCollateral f)) (\<lambda>coll.
     bindR (new_Decimal (rf_rawDebt f)) (\<lambda>deb.
     bindR (new_Decimal (rf_rawStake f)) (\<lambda>st.
     bindR (troveFrom (rf_rawSnapshotOfTotalRedistributedCollateral f) (rf_rawSnapshotOfTotalRedistributedDebt f)) (\<lambda>snapshot.
       Inr \<lparr>collateral = coll, debt = deb, ownerAddress = owner, status = rf_status f, stake = st,
            snapshotOfTotalRedistributed = snapshot\<rparr>)))))"

definition troveBeforeRedistribution ::
    "(string \<Rightarrow> string res) \<Rightarrow> (troveWithPendingRedistribution, troveRawFields option, string) query" where
  "troveBeforeRedistribution getAddress t address =
     (case t of
        Some f \<Rightarrow> troveFromRawFields getAddress f
      | None \<Rightarrow> Inr \<lparr>collateral = Decimal_ZERO, debt = Decimal_ZERO, ownerAddress = address, status = NonExistent,
                     stake = Decimal_ZERO, snapshotOfTotalRedistributed = emptyTrove\<rparr>)"

definition sub_troves :: "(string \<Rightarrow> string res) \<Rightarrow> (troveWithPendingRedistribution list, troveRawFields list, unit) query" where
  "sub_troves getAddress ts _ = mapR (troveFromRawFields getAddress) ts"

section \<open>The client\<close>

definition sub_getTotalRedistributed :: "graphClient \<Rightarrow> trove res" where
  "sub_getTotalRedistributed c = Query_get totalRedistributed (query_global c) ()"

definition sub_getTroveBeforeRedistribution ::
    "(string \<Rightarrow> string res) \<Rightarrow> graphClient \<Rightarrow> string option \<Rightarrow> troveWithPendingRedistribution res" where
  "sub_getTroveBeforeRedistribution getAddress c address =
     bindR (normalizeAddress address)
       (\<lambda>a. Query_get (troveBeforeRedistribution getAddress) (query_userTrove c a) a)"

definition sub_getTrove :: "(string \<Rightarrow> string res) \<Rightarrow> graphClient \<Rightarrow> graphClient \<Rightarrow> string option \<Rightarrow> userTrove res" where
  "sub_getTrove getAddress c c' address =
     bindR (sub_getTroveBeforeRedistribution getAddress c address)
       (\<lambda>t. bindR (sub_getTotalRedistributed c') (applyRedistribution t))"

definition sub_getNumberOfTroves :: "graphClient \<Rightarrow> int res" where
  "sub_getNumberOfTroves c = Query_get numberOfTroves (query_global c) ()"

definition sub_getPrice :: "graphClient \<Rightarrow> decimal res" where
  "sub_getPrice c = Query_get sub_price (query_global c) ()"

definition sub_getTotal :: "graphClient \<Rightarrow> (trove + string \<times> string) res" where
  "sub_getTotal c = Query_get sub_total (query_global c) ()"

definition sub_getTHUSDInStabilityPool :: "graphClient \<Rightarrow> decimal res" where
  "sub_getTHUSDInStabilityPool c = Query_get tokensInStabilityPool (query_global c) ()"

text \<open>The methods that the class has to have but does not implement.\<close>

datatype unimplementedMethod =
    GetSymbol | GetCollateralAddress | GetStableAddress | GetStabilityDeposit "string option" | GetBammDeposit "string option"
  | WatchStabilityDeposit "string option" | GetTHUSDBalance "string option" | GetPCVBalance | GetErc20TokenBalance "string option"
  | GetErc20TokenAllowance "string option" | IsStabilityPools | IsBorrowerOperations | IsTroveManager | CheckMintList
  | WatchTHUSDBalance "string option" | GetCollateralSurplusBalance "string option" | GetFees | GetWithdrawsSpShare

definition sub_unimplemented :: "unimplementedMethod \<Rightarrow> 'a res" where
  "sub_unimplemented _ = Inl (Error ''Method not implemented.'')"

definition sub_orderDirection :: "string \<Rightarrow> orderDirection" where
  "sub_orderDirection sorting = (if sorting = ''ascendingCollateralRatio'' then OrderAsc else OrderDesc)"

definition sub_getTroves ::
    "(string \<Rightarrow> string res) \<Rightarrow> graphClient \<Rightarrow> graphClient \<Rightarrow> troveListingParams \<Rightarrow>
     (troveWithPendingRedistribution list + userTrove list) res" where
  "sub_getTroves getAddress c c' params =
     (let listing = Query_get (sub_troves getAddress)
            (query_troves c (sub_orderDirection (sortedBy params)) (coalesce (startingAt params) (JInt 0)) (first params)) ()
      in if beforeRedistribution params then bindR listing (\<lambda>ts. Inr (Inl ts))
         else bindR (sub_getTotalRedistributed c')
           (\<lambda>total. bindR listing (\<lambda>ts. bindR (mapR (\<lambda>t. applyRedistribution t total) ts) (\<lambda>us. Inr (Inr us)))))"

text \<open>\<open>waitForBlock\<close>: \<open>attempt n\<close> is the answer to the query after \<open>n\<close> pauses; the result is the number of pauses.\<close>

partial_function (option) waitForBlock :: "(nat \<Rightarrow> unit res) \<Rightarrow> nat \<Rightarrow> nat option" where
  "waitForBlock attempt n =
     (case attempt n of
        Inr _ \<Rightarrow> Some n
      | Inl _ \<Rightarrow> waitForBlock attempt (Suc n))"

declare waitForBlock.simps [code]

end
