(* ===== verification/Fuzzer_Checks.thy ===== *)
theory Fuzzer_Checks
  imports SubgraphLiquity Difference
begin

text \<open>
  The checks of the fuzzer, \<open>packages/fuzzer/src/utils.ts\<close>: that troves are listed in the order of their
  ratios, that two listings agree, that the pools hold what the troves add up to, and that the indexer agrees with
  the contracts.

  Both implementations of the interface \<open>ReadableLiquity\<close> enter as a record of what their getters give; of several
  requests in parallel that fail the first in the order of the source is reported.  The lines that \<open>dumpTroves\<close>
  prints are its result.
\<close>

section \<open>Listings\<close>

record readable =
  rd_getNumberOfTroves :: "int res"
  rd_getPrice :: "decimal res"
  rd_getTotal :: "(decimalish \<times> decimalish) res"
  rd_getTotalRedistributed :: "trove res"
  rd_getTHUSDInStabilityPool :: "decimal res"
  rd_getTroves :: "troveListingParams \<Rightarrow> (troveWithPendingRedistribution list + userTrove list) res"

definition getListOfTroves :: "readable \<Rightarrow> userTrove list res" where
  "getListOfTroves liquity =
     bindR (rd_getNumberOfTroves liquity)
       (\<lambda>n. bindR (rd_getTroves liquity \<lparr>first = JInt n, sortedBy = ''descendingCollateralRatio'', startingAt = None,
                                        beforeRedistribution = False\<rparr>)
          (\<lambda>ts. case ts of Inr us \<Rightarrow> Inr us | Inl us \<Rightarrow> Inl TypeError))"

definition getListOfTrovesBeforeRedistribution :: "readable \<Rightarrow> troveWithPendingRedistribution list res" where
  "getListOfTrovesBeforeRedistribution liquity =
     bindR (rd_getNumberOfTroves liquity)
       (\<lambda>n. bindR (rd_getTroves liquity \<lparr>first = JInt n, sortedBy = ''descendingCollateralRatio'', startingAt = None,
                                        beforeRedistribution = True\<rparr>)
          (\<lambda>ts. case ts of Inl us \<Rightarrow> Inr us | Inr us \<Rightarrow> Inl TypeError))"

definition getListOfTroveOwners :: "readable \<Rightarrow> string list res" where
  "getListOfTroveOwners liquity = bindR (getListOfTrovesBeforeRedistribution liquity) (\<lambda>ts. Inr (map ownerAddress ts))"

definition tinyDifference :: decimal where
  "tinyDifference = Dec (10 ^ 9)"

fun sortedByICR_loop :: "trove \<Rightarrow> decimal \<Rightarrow> userTrove \<Rightarrow> troveWithPendingRedistribution list \<Rightarrow> bool res" where
  "sortedByICR_loop redis price current [] = Inr True"
| "sortedByICR_loop redis price current (t # ts) =
     bindR (applyRedistribution t redis) (\<lambda>next.
       if Decimal_gt (Trove_collateralRatio next price) (Decimal_add (Trove_collateralRatio current price) tinyDifference)
       then Inr False
       else sortedByICR_loop redis price next ts)"

definition sortedByICR :: "troveWithPendingRedistribution list \<Rightarrow> trove \<Rightarrow> decimal \<Rightarrow> bool res" where
  "sortedByICR listOfTroves redis price =
     (case listOfTroves of
        t # u # ts \<Rightarrow> bindR (applyRedistribution t redis) (\<lambda>current. sortedByICR_loop redis price current (u # ts))
      | _ \<Rightarrow> Inr True)"

definition listDifference :: "string list \<Rightarrow> string list \<Rightarrow> string list" where
  "listDifference listA listB = filter (\<lambda>x. x \<notin> set listB) listA"

fun sameTroves :: "(string \<rightharpoonup> troveWithPendingRedistribution) \<Rightarrow> troveWithPendingRedistribution list \<Rightarrow> unit res" where
  "sameTroves mapB [] = Inr ()"
| "sameTroves mapB (troveA # ts) =
     (case mapB (ownerAddress troveA) of
        None \<Rightarrow> Inl (Error (ownerAddress troveA @ '' has no trove in listB''))
      | Some troveB \<Rightarrow>
          if \<not> TroveWithPendingRedistribution_equals troveA troveB
          then Inl (Error (ownerAddress troveA @ '' has different troves in listA & listB''))
          else sameTroves mapB ts)"

definition listOfTrovesShouldBeEqual ::
    "troveWithPendingRedistribution list \<Rightarrow> troveWithPendingRedistribution list \<Rightarrow> unit res" where
  "listOfTrovesShouldBeEqual listA listB =
     (if length listA \<noteq> length listB then Inl (Error ''length of trove lists is different'')
      else sameTroves (map_of (rev (map (\<lambda>t. (ownerAddress t, t)) listB))) listA)"

section \<open>Printing troves\<close>

definition fz_shortenAddress :: "string \<Rightarrow> string" where
  "fz_shortenAddress address = take 6 address @ ''...'' @ drop (length address - 4) address"

definition troveToString :: "troveWithPendingRedistribution \<Rightarrow> trove \<Rightarrow> decimal \<Rightarrow> string res" where
  "troveToString t redis price =
     bindR (applyRedistribution t redis) (\<lambda>trove.
     bindR (Trove_subtract trove t) (\<lambda>rewards.
     bindR (Percent_toString (new_Percent (RDecimal (Trove_collateralRatio trove price))) 2) (\<lambda>icr.
     bindR (Percent_toString (new_Percent (RDecimal (Trove_collateralRatio t price))) 2) (\<lambda>icr0.
     bindR (Decimal_toString (collateral trove) (Some 2)) (\<lambda>coll.
     bindR (Decimal_toString (debt trove) (Some 2)) (\<lambda>deb.
     bindR (Decimal_toString (collateral rewards) (Some 2)) (\<lambda>collReward.
     bindR (Decimal_toString (debt rewards) (Some 2)) (\<lambda>debtReward.
       Inr (''['' @ fz_shortenAddress (ownerAddress t) @ '']: ICR = '' @ icr @ '', ICR w/o reward = '' @ icr0 @
            '', coll = '' @ coll @ '', debt = '' @ deb @ '', coll reward = '' @ collReward @
            '', debt reward = '' @ debtReward)))))))))"

fun dumpTroves_loop ::
    "trove \<Rightarrow> decimal \<Rightarrow> troveWithPendingRedistribution \<Rightarrow> troveWithPendingRedistribution list \<Rightarrow> string list res" where
  "dumpTroves_loop redis price current [] = Inr []"
| "dumpTroves_loop redis price current (t # ts) =
     bindR (applyRedistribution t redis) (\<lambda>next.
     bindR (Decimal_sub (Trove_collateralRatio next price) tinyDifference) (\<lambda>ratio.
     bindR (applyRedistribution current redis) (\<lambda>cur.
     bindR (troveToString t redis price) (\<lambda>s.
     bindR (dumpTroves_loop redis price t ts) (\<lambda>ls.
       Inr (((if Decimal_gt ratio (Trove_collateralRatio cur price) then ''!! '' else ''   '') @ s) # ls))))))"

definition dumpTroves :: "troveWithPendingRedistribution list \<Rightarrow> trove \<Rightarrow> decimal \<Rightarrow> string list res" where
  "dumpTroves listOfTroves redis price =
     (case listOfTroves of
        [] \<Rightarrow> Inr []
      | t # ts \<Rightarrow>
          bindR (troveToString t redis price) (\<lambda>s.
          bindR (dumpTroves_loop redis price t ts) (\<lambda>ls. Inr ((''   '' @ s) # ls))))"

section \<open>Checks\<close>

definition checkTroveOrdering ::
    "troveWithPendingRedistribution list \<Rightarrow> trove \<Rightarrow> decimal \<Rightarrow> troveWithPendingRedistribution list option \<Rightarrow> unit res" where
  "checkTroveOrdering listOfTroves redis price previousListOfTroves =
     bindR (sortedByICR listOfTroves redis price) (\<lambda>ok.
       if ok then Inr ()
       else
         bindR (case previousListOfTroves of Some ts \<Rightarrow> dumpTroves ts redis price | None \<Rightarrow> Inr []) (\<lambda>_.
         bindR (dumpTroves listOfTroves redis price) (\<lambda>_. Inl (Error ''ordering is broken''))))"

text \<open>The sums of the troves without and of the redistributed amounts.\<close>

fun poolTotals :: "trove \<Rightarrow> trove \<times> trove \<Rightarrow> troveWithPendingRedistribution list \<Rightarrow> (trove \<times> trove) res" where
  "poolTotals redis (activeTotal, defaultTotal) [] = Inr (activeTotal, defaultTotal)"
| "poolTotals redis (activeTotal, defaultTotal) (troveActive # ts) =
     bindR (applyRedistribution troveActive redis) (\<lambda>troveTotal.
     bindR (Trove_subtract troveTotal troveActive) (\<lambda>troveDefault.
       poolTotals redis (Trove_add activeTotal troveActive, Trove_add defaultTotal troveDefault) ts))"

definition absoluteBelow :: "decimal \<Rightarrow> difference \<Rightarrow> bool" where
  "absoluteBelow bound d = (case Difference_absoluteValue d of Some a \<Rightarrow> Decimal_lt a bound | None \<Rightarrow> False)"

definition checkPoolBalances :: "trove \<Rightarrow> trove \<Rightarrow> troveWithPendingRedistribution list \<Rightarrow> trove \<Rightarrow> unit res" where
  "checkPoolBalances activePool defaultPool listOfTroves redis =
     bindR (poolTotals redis (emptyTrove, emptyTrove) listOfTroves) (\<lambda>(activeTotal, defaultTotal).
     bindR (mapR (\<lambda>(a, b). Difference_between (Some a) (Some b))
         [(collateral activePool, collateral activeTotal), (debt activePool, debt activeTotal),
          (collateral defaultPool, collateral defaultTotal), (debt defaultPool, debt defaultTotal)]) (\<lambda>diffs.
       if list_all (absoluteBelow tinyDifference) diffs then Inr ()
       else Inl (Error ''discrepancy between Troves & Pools'')))"

definition trovesRoughlyEqual :: "decimalish \<times> decimalish \<Rightarrow> decimalish \<times> decimalish \<Rightarrow> bool res" where
  "trovesRoughlyEqual troveA troveB =
     bindR (mapR (\<lambda>(a, b). bindR (Decimal_from a) (\<lambda>x. bindR (Decimal_from b) (\<lambda>y. Difference_between (Some x) (Some y))))
         [(fst troveA, fst troveB), (snd troveA, snd troveB)])
       (\<lambda>diffs. Inr (list_all (absoluteBelow tinyDifference) diffs))"

text \<open>\<open>EqualityCheck.allEqual\<close> of two implementations.\<close>

definition allEqual :: "string \<Rightarrow> ('t \<Rightarrow> 't \<Rightarrow> bool res) \<Rightarrow> 't res \<Rightarrow> 't res \<Rightarrow> unit res" where
  "allEqual name eq a b =
     bindR a (\<lambda>x. bindR b (\<lambda>y. bindR (eq x y) (\<lambda>ok.
       if ok then Inr () else Inl (Error (''Mismatch in '' @ name)))))"

definition equalityChecks :: "readable \<Rightarrow> readable \<Rightarrow> unit res" where
  "equalityChecks l l' =
     bindR (allEqual ''numberOfTroves'' (\<lambda>a b. Inr (a = b)) (rd_getNumberOfTroves l) (rd_getNumberOfTroves l')) (\<lambda>_.
     bindR (allEqual ''price'' (\<lambda>a b. Inr (Decimal_eq a b)) (rd_getPrice l) (rd_getPrice l')) (\<lambda>_.
     bindR (allEqual ''total'' trovesRoughlyEqual (rd_getTotal l) (rd_getTotal l')) (\<lambda>_.
     bindR (allEqual ''totalRedistributed'' (\<lambda>a b. Inr (Trove_equals a b)) (rd_getTotalRedistributed l) (rd_getTotalRedistributed l')) (\<lambda>_.
       allEqual ''tokensInStabilityPool'' (\<lambda>a b. Inr (Decimal_eq a b))
         (rd_getTHUSDInStabilityPool l) (rd_getTHUSDInStabilityPool l')))))"

definition checkSubgraph :: "readable \<Rightarrow> readable \<Rightarrow> unit res" where
  "checkSubgraph subgraph l1Liquity =
     bindR (equalityChecks subgraph l1Liquity) (\<lambda>_.
     bindR (getListOfTrovesBeforeRedistribution l1Liquity) (\<lambda>l1ListOfTroves.
     bindR (getListOfTrovesBeforeRedistribution subgraph) (\<lambda>subgraphListOfTroves.
     bindR (listOfTrovesShouldBeEqual l1ListOfTroves subgraphListOfTroves) (\<lambda>_.
     bindR (rd_getTotalRedistributed subgraph) (\<lambda>redis.
     bindR (rd_getPrice subgraph) (\<lambda>price.
     bindR (sortedByICR subgraphListOfTroves redis price) (\<lambda>ok.
       if ok then Inr ()
       else bindR (dumpTroves subgraphListOfTroves redis price) (\<lambda>_. Inl (Error ''subgraph sorting broken'')))))))))"

section \<open>The two implementations\<close>

definition subgraphReadable :: "(string \<Rightarrow> string res) \<Rightarrow> graphClient \<Rightarrow> readable" where
  "subgraphReadable getAddress c =
     \<lparr>rd_getNumberOfTroves = sub_getNumberOfTroves c, rd_getPrice = sub_getPrice c,
      rd_getTotal = bindR (sub_getTotal c) (\<lambda>t. Inr (case t of
         Inl t' \<Rightarrow> (DDecimal (collateral t'), DDecimal (debt t')) | Inr (coll, deb) \<Rightarrow> (DString coll, DString deb))),
      rd_getTotalRedistributed = sub_getTotalRedistributed c, rd_getTHUSDInStabilityPool = sub_getTHUSDInStabilityPool c,
      rd_getTroves = sub_getTroves getAddress c c\<rparr>"

definition l1Readable :: "connection \<Rightarrow> readable" where
  "l1Readable conn =
     \<lparr>rd_getNumberOfTroves = bindR (getNumberOfTroves conn None) (\<lambda>n. Inr (int n)), rd_getPrice = getPrice conn None,
      rd_getTotal = bindR (getTotal conn None) (\<lambda>t. Inr (DDecimal (collateral t), DDecimal (debt t))),
      rd_getTotalRedistributed = getTotalRedistributed conn None,
      rd_getTHUSDInStabilityPool = getTHUSDInStabilityPool conn None,
      rd_getTroves = (\<lambda>params. getTroves conn params None)\<rparr>"

end
