(* ===== verification/SubgraphLiquity_Correct.thy ===== *)
theory SubgraphLiquity_Correct
  imports SubgraphLiquity Subgraph_Troves Trove_Correct
begin

text \<open>
  The client of the indexer over the store that the indexer keeps: what its getters give after any valid
  history of events, what goes wrong when its two requests are answered at different blocks, and in which order
  it lists troves.
\<close>

section \<open>Answers from a store\<close>

text \<open>The server answers from the indexer's store: an entity's fields are those of the saved entity.\<close>

fun libStatus :: "sgTroveStatus \<Rightarrow> userTroveStatus" where
  "libStatus SgOpen = Open"
| "libStatus SgClosedByOwner = ClosedByOwner"
| "libStatus SgClosedByLiquidation = ClosedByLiquidation"
| "libStatus SgClosedByRedemption = ClosedByRedemption"

definition rawFields :: "sgTrove \<Rightarrow> troveRawFields \<Rightarrow> bool" where
  "rawFields t r \<longleftrightarrow>
     rf_owner r = tr_owner t \<and> rf_status r = libStatus (tr_status t) \<and>
     tr_rawCollateral t = Some (rf_rawCollateral r) \<and> tr_rawDebt t = Some (rf_rawDebt r) \<and>
     tr_rawStake t = Some (rf_rawStake r) \<and>
     tr_rawSnapshotOfTotalRedistributedCollateral t = Some (rf_rawSnapshotOfTotalRedistributedCollateral r) \<and>
     tr_rawSnapshotOfTotalRedistributedDebt t = Some (rf_rawSnapshotOfTotalRedistributedDebt r)"

definition globalFields :: "sgGlobal \<Rightarrow> globalResult \<Rightarrow> bool" where
  "globalFields g r \<longleftrightarrow>
     gr_numberOfOpenTroves r = sint (g_numberOfOpenTroves g) \<and>
     gr_rawTotalRedistributedCollateral r = g_rawTotalRedistributedCollateral g \<and>
     gr_rawTotalRedistributedDebt r = g_rawTotalRedistributedDebt g"

definition troveOfUser :: "graphStore \<Rightarrow> string \<Rightarrow> sgTrove option" where
  "troveOfUser s a = Option.bind (Option.bind (users s a) us_trove) (sgTroves s)"

definition answersFrom :: "graphStore \<Rightarrow> graphClient \<Rightarrow> bool" where
  "answersFrom s c \<longleftrightarrow>
     (\<exists>r. query_global c = Inr r \<and> rel_option globalFields (globalOf s) r) \<and>
     (\<forall>a. \<exists>r. query_userTrove c a = Inr r \<and> rel_option rawFields (troveOfUser s a) r)"

lemma answersFrom_global:
  assumes "answersFrom s c"
  shows "\<exists>r. query_global c = Inr r \<and>
    (case r of
       Some x \<Rightarrow> globalFields (getGlobal s) x
     | None \<Rightarrow> getGlobal s = newGlobal)"
  using assms by (auto simp: answersFrom_def getGlobal_def option_rel_Some1 split: option.splits)

section \<open>The number of troves\<close>

lemma sint_of_nat_small:
  assumes "n < 2 ^ 31"
  shows "sint (of_nat n :: i32) = int n"
proof -
  have "sint (of_nat n :: i32) = signed_take_bit 31 (int n)" by (simp add: signed_of_nat)
  also have "\<dots> = int n" using assms by (intro signed_take_bit_int_eq_self) auto
  finally show ?thesis .
qed

text \<open>After any history of valid events the client's number of troves is the number of open troves that the indexer
  has saved, as long as that number fits the counter.\<close>

theorem subgraph_numberOfTroves:
  assumes "\<forall>x. roundDecimal env x = 0 \<longleftrightarrow> x = 0" and "graph_run env (\<lambda>ev a s. validAction a s) s"
    and "answersFrom s c" and "statusCount SgOpen (sgTroves s) < 2 ^ 31"
  shows "sub_getNumberOfTroves c = Inr (int (statusCount SgOpen (sgTroves s)))"
proof -
  have "g_numberOfOpenTroves (getGlobal s) = of_nat (statusCount SgOpen (sgTroves s))"
    using graph_run_counting [OF assms(1,2)] by (simp add: counting_def counted_def troveCounters_def)
  then have n: "sint (g_numberOfOpenTroves (getGlobal s)) = int (statusCount SgOpen (sgTroves s))"
    using assms(4) by (simp only: sint_of_nat_small)
  obtain r where "query_global c = Inr r" "case r of Some x \<Rightarrow> globalFields (getGlobal s) x | None \<Rightarrow> getGlobal s = newGlobal"
    using answersFrom_global [OF assms(3)] by blast
  with n show ?thesis
    by (cases r) (simp_all add: sub_getNumberOfTroves_def Query_get_def numberOfTroves_def globalFields_def newGlobal_def)
qed

text \<open>A client of the store in which one trove was opened.\<close>

definition openedClient :: graphClient where
  "openedClient =
     (let f = \<lparr>rf_owner = ''0xa1'', rf_status = Open, rf_rawCollateral = 10 ^ 18, rf_rawDebt = 1000 * 10 ^ 18,
               rf_rawStake = 10 ^ 18, rf_rawSnapshotOfTotalRedistributedCollateral = 0,
               rf_rawSnapshotOfTotalRedistributedDebt = 0\<rparr>
      in \<lparr>query_global = Inr (Some \<lparr>gr_numberOfOpenTroves = 1, gr_rawTotalRedistributedCollateral = 0,
              gr_rawTotalRedistributedDebt = 0, gr_currentSystemState = None\<rparr>),
          query_userTrove = \<lambda>a. Inr (if a = ''0xa1'' then Some f else None),
          query_troves = \<lambda>_ _ _. Inr [f]\<rparr>)"

lemma openedStore_valid: "graph_run exactEnv (\<lambda>ev a s. validAction a s) openedStore"
  by (rule openedStore_run) (auto simp: validAmounts_def)

lemma openedClient_answers: "answersFrom openedStore openedClient"
  by (auto simp: answersFrom_def openedClient_def openedStore_def troveOfUser_def globalFields_def rawFields_def
      option_rel_Some1 opening_evaluates)

theorem subgraph_numberOfTroves_witness:
  "sub_getNumberOfTroves openedClient = Inr (int (statusCount SgOpen (sgTroves openedStore)))"
proof -
  have "statusCount SgOpen (sgTroves openedStore) \<le> 1"
    by (simp add: statusCount_def openedStore_def opening_evaluates)
  then show ?thesis
    using subgraph_numberOfTroves [OF _ openedStore_valid openedClient_answers] by (simp add: exactEnv_def)
qed

section \<open>Amounts\<close>

text \<open>A trove of the library and a trove of the indexer that come from the same amounts.\<close>

definition sameTrove :: "troveWithPendingRedistribution \<Rightarrow> sgTrove \<Rightarrow> bool" where
  "sameTrove t u \<longleftrightarrow>
     tr_rawCollateral u = Some (int (bn (collateral t))) \<and> tr_rawDebt u = Some (int (bn (debt t))) \<and>
     tr_rawStake u = Some (int (bn (stake t))) \<and>
     tr_rawSnapshotOfTotalRedistributedCollateral u = Some (int (bn (collateral (snapshotOfTotalRedistributed t)))) \<and>
     tr_rawSnapshotOfTotalRedistributedDebt u = Some (int (bn (debt (snapshotOfTotalRedistributed t))))"

lemma bigint_div_nat: "bigint_div (int a) (int b) = int (a div b)"
  by (cases "a = 0"; cases "b = 0") (simp_all add: bigint_div_def zdiv_int)

lemma redistributedRaw_Decimal:
  assumes "bn snapshot \<le> bn L"
  shows "redistributedRaw (int (bn L)) (int (bn snapshot)) (int (bn x)) =
    int (bn (Decimal_mul (Dec (bn L - bn snapshot)) x))"
  using bigint_div_nat [of "(bn L - bn snapshot) * bn x" "10 ^ 18"] assms
  by (simp add: redistributedRaw_def SCALING_FACTOR_def Decimal_mul_def DIGITS_eq of_nat_diff)

text \<open>The library's redistribution is the one that the indexer writes before a liquidation.\<close>

lemma redistribution_written:
  assumes "sgTroves s b = Some u" and "sameTrove t u"
    and "g_rawTotalRedistributedCollateral (getGlobal s) = int (bn (collateral L))"
    and "g_rawTotalRedistributedDebt (getGlobal s) = int (bn (debt L))"
    and "bn (collateral (snapshotOfTotalRedistributed t)) \<le> bn (collateral L)"
    and "bn (debt (snapshotOfTotalRedistributed t)) \<le> bn (debt L)"
  shows "\<exists>after. applyRedistribution t L = Inr after \<and> ownerAddress after = ownerAddress t \<and> status after = status t \<and>
    handleEvent env ev (TroveLiquidated b) s =
      updateTrove env ev ''accrueRewards'' b (int (bn (collateral after))) (int (bn (debt after))) 0 s"
  using assms
  by (simp add: applyRedistribution_def Trove_subtract_eq Trove_add_def Trove_multiply_def Decimal_add_def Let_def
      applyRedistributionToTroveBeforeLiquidation_def sg_getTrove_def sameTrove_def redistributedRaw_Decimal)

lemma new_Decimal_nonneg: "0 \<le> x \<Longrightarrow> new_Decimal x = Inr (Dec (nat x))"
  by (simp add: new_Decimal_def)

lemma troveFromRawFields_indexed:
  assumes "rawFields t r" and "wfTrove env LC LD t" and "getAddress (tr_owner t) = Inr owner"
  shows "\<exists>T. troveFromRawFields getAddress r = Inr T \<and> sameTrove T t \<and> ownerAddress T = owner \<and>
    status T = libStatus (tr_status t) \<and>
    int (bn (collateral (snapshotOfTotalRedistributed T))) \<le> LC \<and> int (bn (debt (snapshotOfTotalRedistributed T))) \<le> LD"
  using assms
  by (simp add: troveFromRawFields_def troveFrom_def rawFields_def wfTrove_def sameTrove_def new_Decimal_nonneg)

lemma getTotalRedistributed_indexed:
  assumes "answersFrom s c" and "0 \<le> g_rawTotalRedistributedCollateral (getGlobal s)" "0 \<le> g_rawTotalRedistributedDebt (getGlobal s)"
  shows "sub_getTotalRedistributed c = Inr \<lparr>collateral = Dec (nat (g_rawTotalRedistributedCollateral (getGlobal s))),
    debt = Dec (nat (g_rawTotalRedistributedDebt (getGlobal s)))\<rparr>"
proof -
  obtain r where "query_global c = Inr r" "case r of Some x \<Rightarrow> globalFields (getGlobal s) x | None \<Rightarrow> getGlobal s = newGlobal"
    using answersFrom_global [OF assms(1)] by blast
  with assms(2,3) show ?thesis
    by (cases r) (simp_all add: sub_getTotalRedistributed_def Query_get_def totalRedistributed_def troveFrom_def globalFields_def
        new_Decimal_nonneg newGlobal_def emptyTrove_def Decimal_ZERO_def)
qed

text \<open>C13: From the events to the client: after any history of valid events, if the server answers both requests from the indexer's
  store, \<open>getTrove\<close> succeeds for every user with a trove, with the owner and the status of the saved trove, and its
  amounts are those that the indexer itself would write for the trove if it were liquidated next.\<close>

theorem subgraph_getTrove:
  assumes "\<forall>x. roundDecimal env x = 0 \<longleftrightarrow> x = 0" and "graph_run env (\<lambda>ev a s. validAction a s) s" and "answersFrom s c"
    and "normalizeAddress (Some addr) = Inr a" and "Option.bind (users s a) us_trove = Some b" and "sgTroves s b = Some t"
    and "getAddress (tr_owner t) = Inr owner"
  shows "\<exists>T. sub_getTrove getAddress c c (Some addr) = Inr T \<and> ownerAddress T = owner \<and> status T = libStatus (tr_status t) \<and>
    handleEvent env ev (TroveLiquidated b) s =
      updateTrove env ev ''accrueRewards'' b (int (bn (collateral T))) (int (bn (debt T))) 0 s"
proof -
  let ?LC = "g_rawTotalRedistributedCollateral (getGlobal s)" and ?LD = "g_rawTotalRedistributedDebt (getGlobal s)"
  have count: "0 \<le> ?LC" "0 \<le> ?LD" "wfTrove env ?LC ?LD t"
    using graph_run_counting [OF assms(1,2)] assms(6) by (auto simp: counting_def)
  have "rel_option rawFields (Some t) r \<Longrightarrow> \<exists>f. r = Some f \<and> rawFields t f" for r
    by (auto simp: option_rel_Some1)
  then obtain f where f: "query_userTrove c a = Inr (Some f)" "rawFields t f"
    using assms(3,5,6) unfolding answersFrom_def troveOfUser_def by (metis Option.bind.bind_lunit)
  obtain T where T: "troveFromRawFields getAddress f = Inr T" "sameTrove T t" "ownerAddress T = owner"
    "status T = libStatus (tr_status t)" "int (bn (collateral (snapshotOfTotalRedistributed T))) \<le> ?LC"
    "int (bn (debt (snapshotOfTotalRedistributed T))) \<le> ?LD"
    using troveFromRawFields_indexed [OF f(2) count(3), of getAddress owner] assms(7) by blast
  obtain L where L: "sub_getTotalRedistributed c = Inr L" "?LC = int (bn (collateral L))" "?LD = int (bn (debt L))"
    by (rule that [OF getTotalRedistributed_indexed [OF assms(3) count(1,2)]]) (use count(1,2) in simp_all)
  obtain u where "applyRedistribution T L = Inr u" "ownerAddress u = owner" "status u = libStatus (tr_status t)"
    "handleEvent env ev (TroveLiquidated b) s =
      updateTrove env ev ''accrueRewards'' b (int (bn (collateral u))) (int (bn (debt u))) 0 s"
    using redistribution_written [OF assms(6) T(2) L(2,3), of env ev] T(3-6) L(2,3) by auto
  then show ?thesis
    using assms(4) f(1) T(1) L(1)
    by (simp add: sub_getTrove_def sub_getTroveBeforeRedistribution_def Query_get_def troveBeforeRedistribution_def)
qed

theorem subgraph_getTrove_witness:
  "\<exists>T. sub_getTrove Inr openedClient openedClient (Some ''0xA1'') = Inr T \<and> ownerAddress T = ''0xa1'' \<and> status T = Open"
proof -
  let ?t = "the (sgTroves openedStore ''0xa1'')"
  have a: "normalizeAddress (Some ''0xA1'') = Inr ''0xa1''" by code_simp
  have t: "Option.bind (users openedStore ''0xa1'') us_trove = Some ''0xa1''" "sgTroves openedStore ''0xa1'' = Some ?t"
    "tr_owner ?t = ''0xa1''" "tr_status ?t = SgOpen"
    by (simp_all add: openedStore_def opening_evaluates)
  from subgraph_getTrove [OF _ openedStore_valid openedClient_answers a t(1,2), of Inr "''0xa1''" openingEvent] t(3,4)
  show ?thesis by (auto simp: exactEnv_def)
qed

section \<open>The order of a listing\<close>

text \<open>The server's order of a list of open troves by their sort key, highest first (\<open>orderDirection: desc\<close>).\<close>

definition keyOrder :: "sgTrove list \<Rightarrow> bool" where
  "keyOrder us \<longleftrightarrow> sorted_wrt (\<lambda>t u. the (tr_collateralRatioSortKey t) \<ge> the (tr_collateralRatioSortKey u)) us"

text \<open>A trove of the time before any redistribution: its stake is its collateral, and its key is the debt per stake.\<close>

definition freshTrove :: "sgTrove \<Rightarrow> bool" where
  "freshTrove t \<longleftrightarrow> (\<exists>coll deb. 0 < coll \<and> 0 \<le> deb \<and> tr_rawCollateral t = Some coll \<and> tr_rawDebt t = Some deb \<and>
     tr_rawStake t = Some coll \<and> tr_rawSnapshotOfTotalRedistributedCollateral t = Some 0 \<and>
     tr_rawSnapshotOfTotalRedistributedDebt t = Some 0 \<and>
     tr_collateralRatioSortKey t = Some (bigint_div (deb * SCALING_FACTOR) coll))"

lemma key_reverses:
  fixes c c' d d' :: nat
  assumes "0 < c" "0 < c'" and "d' * 10 ^ 18 div c' \<le> d * 10 ^ 18 div c"
  shows "c * d' * 10 ^ 18 < c' * d * 10 ^ 18 + c * c'"
proof -
  let ?S = "10 ^ 18 :: nat"
  have "d' * ?S < (d' * ?S div c' + 1) * c'"
    using dividend_less_div_times [OF assms(2), of "d' * ?S"] by (simp add: algebra_simps)
  also have "\<dots> \<le> (d * ?S div c + 1) * c'" using assms(3) by simp
  finally have "c * (d' * ?S) < c * ((d * ?S div c + 1) * c')" using assms(1) by simp
  also have "\<dots> \<le> (d * ?S) * c' + c * c'"
    using mult_le_mono1 [OF div_times_less_eq_dividend [of "d * ?S" c], of c'] by (simp add: algebra_simps)
  finally show ?thesis by (simp add: algebra_simps)
qed

text \<open>The ratio of the first trove is at most that of the second, up to the rounding of the sort key.\<close>

definition ratioAtMost :: "troveWithPendingRedistribution \<Rightarrow> troveWithPendingRedistribution \<Rightarrow> bool" where
  "ratioAtMost t u \<longleftrightarrow> bn (collateral t) * bn (debt u) * 10 ^ 18 <
     bn (collateral u) * bn (debt t) * 10 ^ 18 + bn (collateral t) * bn (collateral u)"

lemma fresh_listing:
  assumes "list_all2 rawFields us rs" and "list_all freshTrove us" and "\<And>u. u \<in> set us \<Longrightarrow> \<exists>a. getAddress (tr_owner u) = Inr a"
  shows "\<exists>ts. mapR (troveFromRawFields getAddress) rs = Inr ts \<and> list_all2 sameTrove ts us"
  using assms
proof (induction us rs rule: list_all2_induct)
  case (Cons u us r rs)
  obtain a where "getAddress (tr_owner u) = Inr a" using Cons.prems by auto
  with Cons.hyps(1) Cons.prems(1) have "\<exists>t. troveFromRawFields getAddress r = Inr t \<and> sameTrove t u"
    by (auto simp: freshTrove_def rawFields_def troveFromRawFields_def troveFrom_def new_Decimal_nonneg sameTrove_def)
  moreover have "\<exists>ts. mapR (troveFromRawFields getAddress) rs = Inr ts \<and> list_all2 sameTrove ts us"
    using Cons by simp
  ultimately show ?case by fastforce
qed simp

lemma key_order_ratio:
  assumes "sameTrove t u" "sameTrove t' u'" "freshTrove u" "freshTrove u'"
    and "the (tr_collateralRatioSortKey u) \<ge> the (tr_collateralRatioSortKey u')"
  shows "ratioAtMost t t'"
proof -
  have key: "the (tr_collateralRatioSortKey v) = int (bn (debt x) * 10 ^ 18 div bn (collateral x)) \<and> 0 < bn (collateral x)"
    if "sameTrove x v" "freshTrove v" for x v
    using that bigint_div_nat [of "bn (debt x) * 10 ^ 18" "bn (collateral x)"]
    by (auto simp: sameTrove_def freshTrove_def SCALING_FACTOR_def)
  from key [OF assms(1,3)] key [OF assms(2,4)] assms(5) show ?thesis
    unfolding ratioAtMost_def by (intro key_reverses) simp_all
qed

text \<open>The list that the client gives for \<open>descendingCollateralRatio\<close> is in ascending order of the ratio: the sort key is the debt
  per stake, which falls when the ratio rises, as the schema says (the ordering by the key is the ordering by ratio, reversed), but
  the client asks for descending keys.\<close>

theorem subgraph_listing_reversed:
  assumes "query_troves c OrderDesc (JInt 0) n = Inr rs" and "list_all2 rawFields us rs" and "list_all freshTrove us"
    and "keyOrder us" and "\<forall>u \<in> set us. \<exists>a. getAddress (tr_owner u) = Inr a"
  shows "\<exists>ts. sub_getTroves getAddress c c \<lparr>first = n, sortedBy = ''descendingCollateralRatio'', startingAt = None,
      beforeRedistribution = True\<rparr> = Inr (Inl ts) \<and> length ts = length us \<and> sorted_wrt ratioAtMost ts"
proof -
  obtain ts where ts: "mapR (troveFromRawFields getAddress) rs = Inr ts" "list_all2 sameTrove ts us"
    using fresh_listing [OF assms(2,3), of getAddress] assms(5) by blast
  have len: "length ts = length us" using ts(2) by (rule list_all2_lengthD)
  have "ratioAtMost (ts ! i) (ts ! j)" if "i < j" "j < length ts" for i j
    using key_order_ratio [of "ts ! i" "us ! i" "ts ! j" "us ! j"] that len ts(2) assms(3,4)
    by (simp add: list_all2_nthD list_all_length keyOrder_def sorted_wrt_iff_nth_less)
  then have "sorted_wrt ratioAtMost ts" by (simp add: sorted_wrt_iff_nth_less)
  with ts(1) len assms(1) show ?thesis
    by (simp add: sub_getTroves_def sub_orderDirection_def Query_get_def sub_troves_def)
qed

section \<open>Waiting for a block\<close>

lemma waitForBlock_SomeD:
  assumes "waitForBlock attempt n = Some k"
  shows "n \<le> k \<and> (\<exists>x. attempt k = Inr x) \<and> (\<forall>j. n \<le> j \<and> j < k \<longrightarrow> (\<exists>e. attempt j = Inl e))"
proof (rule waitForBlock.raw_induct [OF _ assms])
  fix f attempt m k'
  assume IH: "\<And>attempt m k'. f attempt m = Some k' \<Longrightarrow>
      m \<le> k' \<and> (\<exists>x. attempt k' = Inr x) \<and> (\<forall>j. m \<le> j \<and> j < k' \<longrightarrow> (\<exists>e. attempt j = Inl e))"
    and body: "(case attempt m of Inl _ \<Rightarrow> f attempt (Suc m) | Inr _ \<Rightarrow> Some m) = Some k'"
  show "m \<le> k' \<and> (\<exists>x. attempt k' = Inr x) \<and> (\<forall>j. m \<le> j \<and> j < k' \<longrightarrow> (\<exists>e. attempt j = Inl e))"
  proof (cases "attempt m")
    case (Inl e)
    with body have "f attempt (Suc m) = Some k'" by simp
    from IH [OF this] have "Suc m \<le> k'" "\<exists>x. attempt k' = Inr x"
      "\<And>j. Suc m \<le> j \<Longrightarrow> j < k' \<Longrightarrow> \<exists>e. attempt j = Inl e" by auto
    with Inl show ?thesis by (metis Suc_leD Suc_leI nat_less_le)
  qed (use body in auto)
qed

text \<open>\<open>waitForBlock\<close> returns just when some attempt succeeds, after the pauses before the first such attempt;
  if none succeeds it does not return.\<close>

theorem waitForBlock_returns:
  "waitForBlock attempt n = Some k \<longleftrightarrow> n \<le> k \<and> (\<exists>x. attempt k = Inr x) \<and> (\<forall>j. n \<le> j \<and> j < k \<longrightarrow> (\<exists>e. attempt j = Inl e))"
proof
  show "waitForBlock attempt n = Some k \<Longrightarrow> n \<le> k \<and> (\<exists>x. attempt k = Inr x) \<and> (\<forall>j. n \<le> j \<and> j < k \<longrightarrow> (\<exists>e. attempt j = Inl e))"
    by (rule waitForBlock_SomeD)
next
  assume a: "n \<le> k \<and> (\<exists>x. attempt k = Inr x) \<and> (\<forall>j. n \<le> j \<and> j < k \<longrightarrow> (\<exists>e. attempt j = Inl e))"
  then have "n \<le> k" by blast
  then show "waitForBlock attempt n = Some k"
    using a
  proof (induction rule: inc_induct)
    case base
    then show ?case by (subst waitForBlock.simps) auto
  next
    case (step m)
    then obtain e where "attempt m = Inl e" by auto
    with step show ?case by (subst waitForBlock.simps) auto
  qed
qed

theorem waitForBlock_returns_witness:
  "waitForBlock (\<lambda>n. if n < 2 then Inl TypeError else Inr ()) 0 = Some 2"
  using waitForBlock_returns [of "\<lambda>n. if n < 2 then Inl TypeError else Inr ()" 0 2] by simp

text \<open>Two troves of the same collateral, the one with the higher debt first.\<close>

definition listedTrove :: "string \<Rightarrow> int \<Rightarrow> sgTrove" where
  "listedTrove owner deb =
     \<lparr>tr_owner = owner, tr_status = SgOpen, tr_collateral = 1, tr_debt = of_int deb / 10 ^ 18, tr_rawCollateral = Some (10 ^ 18),
      tr_rawDebt = Some deb, tr_rawStake = Some (10 ^ 18), tr_rawSnapshotOfTotalRedistributedCollateral = Some 0,
      tr_rawSnapshotOfTotalRedistributedDebt = Some 0, tr_collateralRatioSortKey = Some deb\<rparr>"

definition listedFields :: "string \<Rightarrow> int \<Rightarrow> troveRawFields" where
  "listedFields owner deb =
     \<lparr>rf_owner = owner, rf_status = Open, rf_rawCollateral = 10 ^ 18, rf_rawDebt = deb, rf_rawStake = 10 ^ 18,
      rf_rawSnapshotOfTotalRedistributedCollateral = 0, rf_rawSnapshotOfTotalRedistributedDebt = 0\<rparr>"

definition listingClient :: graphClient where
  "listingClient = openedClient\<lparr>query_troves := \<lambda>_ _ _. Inr [listedFields ''0xa1'' (1800 * 10 ^ 18), listedFields ''0xa2'' (900 * 10 ^ 18)]\<rparr>"

theorem subgraph_listing_reversed_witness:
  "\<exists>ts. sub_getTroves Inr listingClient listingClient \<lparr>first = JInt 2, sortedBy = ''descendingCollateralRatio'', startingAt = None,
      beforeRedistribution = True\<rparr> = Inr (Inl ts) \<and> length ts = 2 \<and> sorted_wrt ratioAtMost ts"
proof -
  let ?us = "[listedTrove ''0xa1'' (1800 * 10 ^ 18), listedTrove ''0xa2'' (900 * 10 ^ 18)]"
  have "list_all freshTrove ?us" by (simp add: freshTrove_def listedTrove_def bigint_div_def SCALING_FACTOR_def)
  then show ?thesis
    using subgraph_listing_reversed [of listingClient "JInt 2" _ ?us Inr]
    by (simp add: listingClient_def listedFields_def listedTrove_def rawFields_def keyOrder_def numeral_2_eq_2)
qed

end
