(* ===== verification/Fuzzer_Correct.thy ===== *)
theory Fuzzer_Correct
  imports Fuzzer_Checks SubgraphLiquity_Correct ReadableEthers_Correct "HOL-Library.Multiset"
begin

text \<open>
  What it means that a check of the fuzzer passes: each check decides the condition that it is named after, and
  the comparison of the indexer with the contracts passes only if the two implementations agree.
\<close>

section \<open>Order\<close>

text \<open>The ratio of a trove with its redistribution.\<close>

definition currentRatio :: "trove \<Rightarrow> decimal \<Rightarrow> troveWithPendingRedistribution \<Rightarrow> nat" where
  "currentRatio L price t = bn (Trove_collateralRatio (projr (applyRedistribution t L)) price)"

lemma applyRedistribution_total: "\<exists>u. applyRedistribution t L = Inr u"
  by (simp add: applyRedistribution_def Trove_subtract_eq Let_def)

lemma applyRedistribution_projr: "applyRedistribution t L = Inr (projr (applyRedistribution t L))"
  using applyRedistribution_total [of t L] by auto

definition nearlySorted :: "nat list \<Rightarrow> bool" where
  "nearlySorted rs = successively (\<lambda>r r'. r' \<le> r + 10 ^ 9) rs"

lemma sortedByICR_loop_eq:
  "sortedByICR_loop L price (projr (applyRedistribution t L)) ts =
     Inr (nearlySorted (map (currentRatio L price) (t # ts)))"
proof (induction ts arbitrary: t)
  case (Cons u ts)
  show ?case
    using Cons.IH [of u]
    by (subst sortedByICR_loop.simps, subst applyRedistribution_projr)
      (auto simp: nearlySorted_def currentRatio_def [symmetric] Decimal_gt_def Decimal_add_def tinyDifference_def)
qed (simp add: nearlySorted_def)

lemma sortedByICR_eq: "sortedByICR ts L price = Inr (nearlySorted (map (currentRatio L price) ts))"
proof (cases ts)
  case (Cons t us)
  show ?thesis
  proof (cases us)
    case (Cons u vs)
    then show ?thesis
      using \<open>ts = t # us\<close> sortedByICR_loop_eq [of L price t "u # vs"] applyRedistribution_projr [of t L]
      by (simp add: sortedByICR_def del: sortedByICR_loop.simps) (metis bindR.simps(2))
  qed (simp add: sortedByICR_def \<open>ts = t # us\<close> nearlySorted_def)
qed (simp add: sortedByICR_def nearlySorted_def)

lemma nearlySorted_drift:
  assumes "nearlySorted rs" and "i \<le> j" and "j < length rs"
  shows "rs ! j \<le> rs ! i + (j - i) * 10 ^ 9"
  using assms(2,3)
proof (induction j)
  case (Suc j)
  show ?case
  proof (cases "i = Suc j")
    case False
    with Suc have IH: "rs ! j \<le> rs ! i + (j - i) * 10 ^ 9" and ij: "i \<le> j" by auto
    have "rs ! Suc j \<le> rs ! j + 10 ^ 9"
      using assms(1) Suc.prems(2) unfolding nearlySorted_def successively_conv_nth by blast
    with IH show ?thesis using ij by (simp add: Suc_diff_le)
  qed simp
qed simp

text \<open>\<open>checkTroveOrdering\<close> passes just when no trove of the list has a ratio, redistribution included, that exceeds
  the ratio of its predecessor by more than 0.000000001; then a trove exceeds one that is \<open>k\<close> places before it by at
  most \<open>k\<close> times that much.\<close>

theorem checkTroveOrdering_decides:
  assumes "rs = map (currentRatio L price) ts"
  shows "(checkTroveOrdering ts L price previous = Inr () \<longleftrightarrow> (\<forall>i. Suc i < length rs \<longrightarrow> rs ! Suc i \<le> rs ! i + 10 ^ 9)) \<and>
    (checkTroveOrdering ts L price previous = Inr () \<longrightarrow>
       (\<forall>i j. i \<le> j \<and> j < length rs \<longrightarrow> rs ! j \<le> rs ! i + (j - i) * 10 ^ 9))"
proof -
  have iff: "checkTroveOrdering ts L price previous = Inr () \<longleftrightarrow> nearlySorted rs"
    by (auto simp: checkTroveOrdering_def sortedByICR_eq assms bindR_Inr_iff)
  show ?thesis unfolding iff using nearlySorted_drift [of rs] by (auto simp: nearlySorted_def successively_conv_nth)
qed

section \<open>Equal listings\<close>

lemma equals_iff:
  fixes t u :: troveWithPendingRedistribution
  shows "TroveWithPendingRedistribution_equals t u \<longleftrightarrow> t = u"
  by (cases t; cases u) (auto simp: TroveWithPendingRedistribution_equals_def UserTrove_equals_def Trove_equals_def Decimal_eq_def
      decimal_eq_iff trove.equality)

lemma sameTroves_iff: "sameTroves m ts = Inr () \<longleftrightarrow> (\<forall>t \<in> set ts. m (ownerAddress t) = Some t)"
  by (induction ts) (auto simp: equals_iff split: option.splits)

lemma listing_subset:
  assumes "\<forall>t \<in> set A. map_of (rev (map (\<lambda>t. (ownerAddress t, t)) B)) (ownerAddress t) = Some t"
  shows "set A \<subseteq> set B"
  using assms by (auto dest!: map_of_SomeD)

lemma listOfTroves_mset:
  assumes "distinct (map ownerAddress A)"
  shows "listOfTrovesShouldBeEqual A B = Inr () \<longleftrightarrow> mset A = mset B"
proof
  assume eq: "listOfTrovesShouldBeEqual A B = Inr ()"
  then have len: "length A = length B" and "set A \<subseteq> set B"
    by (auto simp: listOfTrovesShouldBeEqual_def sameTroves_iff split: if_splits dest: listing_subset)
  have A: "distinct A" using assms by (simp add: distinct_map)
  then have "card (set B) \<le> card (set A)" using len card_length [of B] by (simp add: distinct_card)
  then have set: "set A = set B" using \<open>set A \<subseteq> set B\<close> by (intro card_seteq) auto
  moreover have "distinct B" using A len set by (metis card_distinct distinct_card)
  ultimately show "mset A = mset B" using A set_eq_iff_mset_eq_distinct by blast
next
  assume "mset A = mset B"
  then have len: "length A = length B" and set: "set A = set B" by (auto dest: mset_eq_length mset_eq_setD)
  have "image_mset ownerAddress (mset A) = image_mset ownerAddress (mset B)" using \<open>mset A = mset B\<close> by simp
  then have "mset (map ownerAddress A) = mset (map ownerAddress B)" by simp
  then have "distinct (map ownerAddress B)" using assms mset_eq_imp_distinct_iff by blast
  then have "distinct (map fst (rev (map (\<lambda>t. (ownerAddress t, t)) B)))"
    by (simp add: rev_map [symmetric] comp_def)
  then show "listOfTrovesShouldBeEqual A B = Inr ()"
    using len set by (auto simp: listOfTrovesShouldBeEqual_def sameTroves_iff intro!: map_of_is_SomeI)
qed

text \<open>\<open>listOfTrovesShouldBeEqual\<close> decides, for a list with one trove per owner, whether the other list has
  the same troves with the same multiplicity, in any order.\<close>

theorem listOfTrovesShouldBeEqual_decides:
  assumes "distinct (map ownerAddress A)"
  shows "listOfTrovesShouldBeEqual A B = Inr () \<longleftrightarrow> mset A = mset B"
  using assms by (rule listOfTroves_mset)

text \<open>The order that the indexer's client gives for two troves of different ratios is not the order that the check
  expects of it.\<close>

lemma reversed_listing_rejected:
  "bindR (getListOfTrovesBeforeRedistribution (subgraphReadable Inr listingClient))
     (\<lambda>ts. sortedByICR ts emptyTrove (Dec (2000 * 10 ^ 18))) = Inr False"
  by (simp add: getListOfTrovesBeforeRedistribution_def subgraphReadable_def sub_getNumberOfTroves_def sub_getTroves_def
      Query_get_def numberOfTroves_def sub_troves_def troveFromRawFields_def troveFrom_def new_Decimal_def listingClient_def
      openedClient_def listedFields_def sub_orderDirection_def sortedByICR_eq nearlySorted_def currentRatio_def
      applyRedistribution_def Trove_subtract_eq Trove_add_def Trove_multiply_def Decimal_add_def Decimal_mul_def
      Trove_collateralRatio_def Decimal_mulDiv_def emptyTrove_def Decimal_ZERO_def Decimal_isZero_def DIGITS_num Let_def)

section \<open>Pools\<close>

definition withinTiny :: "nat \<Rightarrow> nat \<Rightarrow> bool" where
  "withinTiny a b \<longleftrightarrow> \<bar>int a - int b\<bar> < 10 ^ 9"

lemma between_within:
  assumes "bn a < MAX_UINT_256" and "bn b < MAX_UINT_256"
  shows "\<exists>d. Difference_between (Some a) (Some b) = Inr d \<and> (absoluteBelow tinyDifference d \<longleftrightarrow> withinTiny (bn a) (bn b))"
proof -
  have f: "Decimal_infinite a = None" "Decimal_infinite b = None"
    using assms by (auto simp: Decimal_infinite_def Decimal_INFINITY_def Decimal_eq_def)
  show ?thesis
    by (auto simp: Difference_between_def f Decimal_gt_def Decimal_sub_def absoluteBelow_def Difference_absoluteValue_def
        Decimal_lt_def tinyDifference_def withinTiny_def Decimal_ZERO_def new_Decimal_def of_nat_diff)
qed

definition pendingCollateral :: "trove \<Rightarrow> troveWithPendingRedistribution \<Rightarrow> nat" where
  "pendingCollateral L t = (bn (collateral L) - bn (collateral (snapshotOfTotalRedistributed t))) * bn (stake t) div DIGITS"

definition pendingDebt :: "trove \<Rightarrow> troveWithPendingRedistribution \<Rightarrow> nat" where
  "pendingDebt L t = (bn (debt L) - bn (debt (snapshotOfTotalRedistributed t))) * bn (stake t) div DIGITS"

lemma poolTotals_eq:
  "poolTotals L (a, d) ts =
     Inr (\<lparr>collateral = Dec (bn (collateral a) + sum_list (map (bn \<circ> collateral) ts)),
           debt = Dec (bn (debt a) + sum_list (map (bn \<circ> debt) ts))\<rparr>,
          \<lparr>collateral = Dec (bn (collateral d) + sum_list (map (pendingCollateral L) ts)),
           debt = Dec (bn (debt d) + sum_list (map (pendingDebt L) ts))\<rparr>)"
proof (induction ts arbitrary: a d)
  case (Cons t ts)
  then show ?case
    by (simp add: applyRedistribution_def Trove_subtract_eq Trove_add_def Trove_multiply_def Decimal_add_def Decimal_mul_def Let_def
        pendingCollateral_def pendingDebt_def)
qed simp

text \<open>\<open>checkPoolBalances\<close> passes just when the active pool holds the sum of the troves' recorded amounts, and the default pool
  the sum of their pending redistributions, each to within less than 0.000000001; the amounts are finite.\<close>

theorem checkPoolBalances_decides:
  assumes "sum_list (map (bn \<circ> collateral) ts) < MAX_UINT_256" "sum_list (map (bn \<circ> debt) ts) < MAX_UINT_256"
    and "sum_list (map (pendingCollateral L) ts) < MAX_UINT_256" "sum_list (map (pendingDebt L) ts) < MAX_UINT_256"
    and "bn (collateral P) < MAX_UINT_256" "bn (debt P) < MAX_UINT_256"
    and "bn (collateral D) < MAX_UINT_256" "bn (debt D) < MAX_UINT_256"
  shows "checkPoolBalances P D ts L = Inr () \<longleftrightarrow>
    withinTiny (bn (collateral P)) (sum_list (map (bn \<circ> collateral) ts)) \<and> withinTiny (bn (debt P)) (sum_list (map (bn \<circ> debt) ts)) \<and>
    withinTiny (bn (collateral D)) (sum_list (map (pendingCollateral L) ts)) \<and> withinTiny (bn (debt D)) (sum_list (map (pendingDebt L) ts))"
proof -
  obtain d1 d2 d3 d4 where
    "Difference_between (Some (collateral P)) (Some (Dec (sum_list (map (bn \<circ> collateral) ts)))) = Inr d1"
    "absoluteBelow tinyDifference d1 \<longleftrightarrow> withinTiny (bn (collateral P)) (sum_list (map (bn \<circ> collateral) ts))"
    "Difference_between (Some (debt P)) (Some (Dec (sum_list (map (bn \<circ> debt) ts)))) = Inr d2"
    "absoluteBelow tinyDifference d2 \<longleftrightarrow> withinTiny (bn (debt P)) (sum_list (map (bn \<circ> debt) ts))"
    "Difference_between (Some (collateral D)) (Some (Dec (sum_list (map (pendingCollateral L) ts)))) = Inr d3"
    "absoluteBelow tinyDifference d3 \<longleftrightarrow> withinTiny (bn (collateral D)) (sum_list (map (pendingCollateral L) ts))"
    "Difference_between (Some (debt D)) (Some (Dec (sum_list (map (pendingDebt L) ts)))) = Inr d4"
    "absoluteBelow tinyDifference d4 \<longleftrightarrow> withinTiny (bn (debt D)) (sum_list (map (pendingDebt L) ts))"
    using between_within assms by (metis decimal.sel)
  then show ?thesis
    by (simp add: checkPoolBalances_def poolTotals_eq emptyTrove_def Decimal_ZERO_def)
qed

section \<open>The indexer and the contracts\<close>

lemma allEqual_Inr: "allEqual name eq a b = Inr () \<longleftrightarrow> (\<exists>x y. a = Inr x \<and> b = Inr y \<and> eq x y = Inr True)"
  by (auto simp: allEqual_def bindR_Inr_iff)

text \<open>C27: If the comparison of the indexer with the contracts passes, both give the same number of troves, price, redistributed
  amounts and stability pool, and the same troves, and the indexer lists them by falling ratio up to the tolerance of the
  check.\<close>

theorem checkSubgraph_sound:
  assumes "checkSubgraph (subgraphReadable getAddress c) (l1Readable conn) = Inr ()"
    and "getListOfTrovesBeforeRedistribution (l1Readable conn) = Inr A" and "distinct (map ownerAddress A)"
  shows "\<exists>n p L m B. sub_getNumberOfTroves c = Inr (int n) \<and> getNumberOfTroves conn None = Inr n \<and>
    sub_getPrice c = Inr p \<and> getPrice conn None = Inr p \<and>
    sub_getTotalRedistributed c = Inr L \<and> getTotalRedistributed conn None = Inr L \<and>
    sub_getTHUSDInStabilityPool c = Inr m \<and> getTHUSDInStabilityPool conn None = Inr m \<and>
    getListOfTrovesBeforeRedistribution (subgraphReadable getAddress c) = Inr B \<and> mset A = mset B \<and>
    nearlySorted (map (currentRatio L p) B)"
proof -
  have "\<exists>L p B. equalityChecks (subgraphReadable getAddress c) (l1Readable conn) = Inr () \<and>
    getListOfTrovesBeforeRedistribution (subgraphReadable getAddress c) = Inr B \<and> listOfTrovesShouldBeEqual A B = Inr () \<and>
    sub_getTotalRedistributed c = Inr L \<and> sub_getPrice c = Inr p \<and> sortedByICR B L p = Inr True"
    using assms(1,2) by (auto simp: checkSubgraph_def bindR_Inr_iff subgraphReadable_def split: if_splits)
  then obtain L p B where eq: "equalityChecks (subgraphReadable getAddress c) (l1Readable conn) = Inr ()"
    and B: "getListOfTrovesBeforeRedistribution (subgraphReadable getAddress c) = Inr B" "listOfTrovesShouldBeEqual A B = Inr ()"
      "sortedByICR B L p = Inr True"
    and Lp: "sub_getTotalRedistributed c = Inr L" "sub_getPrice c = Inr p" by blast
  have "mset A = mset B" using listOfTroves_mset [OF assms(3)] B(2) by blast
  moreover have "nearlySorted (map (currentRatio L p) B)" using B(3) by (simp add: sortedByICR_eq)
  moreover have "\<exists>n. sub_getNumberOfTroves c = Inr (int n) \<and> getNumberOfTroves conn None = Inr n"
    "getPrice conn None = Inr p" "getTotalRedistributed conn None = Inr L"
    "\<exists>m. sub_getTHUSDInStabilityPool c = Inr m \<and> getTHUSDInStabilityPool conn None = Inr m"
    using eq Lp by (auto simp: equalityChecks_def bindR_Inr_iff allEqual_Inr subgraphReadable_def l1Readable_def
        Decimal_eq_def decimal_eq_iff Trove_equals_def trove.equality)
  ultimately show ?thesis using B(1) Lp by blast
qed

section \<open>Witnesses\<close>

text \<open>A system without troves at a price of 1, as the contracts and as the indexer give it.\<close>

definition quietClient :: graphClient where
  "quietClient =
     \<lparr>query_global = Inr (Some \<lparr>gr_numberOfOpenTroves = 0, gr_rawTotalRedistributedCollateral = 0, gr_rawTotalRedistributedDebt = 0,
        gr_currentSystemState = Some \<lparr>sr_price = Some (Decimal_toStringWithAutomaticPrecision (Dec (10 ^ 18))),
          sr_totalCollateral = Decimal_toStringWithAutomaticPrecision (Dec 0), sr_totalDebt = Decimal_toStringWithAutomaticPrecision (Dec 0),
          sr_tokensInStabilityPool = Decimal_toStringWithAutomaticPrecision (Dec 0)\<rparr>\<rparr>),
      query_userTrove = \<lambda>_. Inr None, query_troves = \<lambda>_ _ _. Inr []\<rparr>"

lemma quiet_listings:
  "getListOfTrovesBeforeRedistribution (subgraphReadable Inr quietClient) = Inr []"
  "getListOfTrovesBeforeRedistribution (l1Readable empty_connection) = Inr []"
  by (simp_all add: getListOfTrovesBeforeRedistribution_def subgraphReadable_def l1Readable_def sub_getNumberOfTroves_def Query_get_def
      numberOfTroves_def quietClient_def sub_getTroves_def sub_troves_def getNumberOfTroves_def getTroves_def expectPositiveInt_def
      validSortingOptions_def mapBackendTroves_def empty_chain_def)

lemma quiet_checks: "equalityChecks (subgraphReadable Inr quietClient) (l1Readable empty_connection) = Inr ()"
  by (simp add: equalityChecks_def allEqual_def subgraphReadable_def l1Readable_def sub_getNumberOfTroves_def sub_getPrice_def
      sub_getTotal_def sub_getTotalRedistributed_def sub_getTHUSDInStabilityPool_def Query_get_def numberOfTroves_def sub_price_def
      sub_total_def totalRedistributed_def troveFrom_def new_Decimal_def tokensInStabilityPool_def quietClient_def
      toString_automatic_parses empty_chain_def getNumberOfTroves_def getPrice_def getTotal_def getTotalRedistributed_def
      getTHUSDInStabilityPool_def trovesRoughlyEqual_def Difference_between_def absoluteBelow_def decimalifyR_def decimalify_def
      getActivePool_def getDefaultPool_def Trove_add_def Decimal_add_def Decimal_eq_def Decimal_infinite_def Decimal_INFINITY_def
      MAX_UINT_256_def Decimal_gt_def Difference_absoluteValue_def Decimal_lt_def tinyDifference_def Decimal_ZERO_def Trove_equals_def)

theorem checkSubgraph_sound_witness:
  "\<exists>p. sub_getPrice quietClient = Inr p \<and> getPrice empty_connection None = Inr p"
proof -
  have "checkSubgraph (subgraphReadable Inr quietClient) (l1Readable empty_connection) = Inr ()"
    by (simp add: checkSubgraph_def quiet_checks quiet_listings listOfTrovesShouldBeEqual_def sortedByICR_def)
      (simp add: subgraphReadable_def sub_getTotalRedistributed_def sub_getPrice_def Query_get_def totalRedistributed_def sub_price_def
        quietClient_def troveFrom_def new_Decimal_def toString_automatic_parses)
  from checkSubgraph_sound [OF this quiet_listings(2)] show ?thesis by auto
qed

definition listedPending :: "string \<Rightarrow> nat \<Rightarrow> troveWithPendingRedistribution" where
  "listedPending owner deb =
     \<lparr>collateral = Dec (10 ^ 18), debt = Dec deb, ownerAddress = owner, status = Open, stake = Dec (10 ^ 18),
      snapshotOfTotalRedistributed = emptyTrove\<rparr>"

lemma listedPending_ratio:
  "currentRatio emptyTrove price (listedPending owner deb) = (if deb = 0 then MAX_UINT_256 else 10 ^ 18 * bn price div deb)"
  by (simp add: currentRatio_def listedPending_def applyRedistribution_def Trove_subtract_eq Trove_add_def Trove_multiply_def
      Decimal_add_def Decimal_mul_def Trove_collateralRatio_def Decimal_mulDiv_def Decimal_isZero_def emptyTrove_def Decimal_ZERO_def
      Decimal_INFINITY_def Let_def)

theorem checkTroveOrdering_decides_witness:
  "checkTroveOrdering [listedPending ''0xa1'' (900 * 10 ^ 18), listedPending ''0xa2'' (1800 * 10 ^ 18)] emptyTrove
     (Dec (2000 * 10 ^ 18)) None = Inr ()"
  using checkTroveOrdering_decides [OF refl, of "[listedPending ''0xa1'' (900 * 10 ^ 18), listedPending ''0xa2'' (1800 * 10 ^ 18)]"
      emptyTrove "Dec (2000 * 10 ^ 18)" None]
  by (simp add: listedPending_ratio)

theorem listOfTrovesShouldBeEqual_decides_witness:
  "listOfTrovesShouldBeEqual [listedPending ''0xa1'' 1, listedPending ''0xa2'' 2] [listedPending ''0xa2'' 2, listedPending ''0xa1'' 1] = Inr ()"
  using listOfTrovesShouldBeEqual_decides [of "[listedPending ''0xa1'' 1, listedPending ''0xa2'' 2]"
      "[listedPending ''0xa2'' 2, listedPending ''0xa1'' 1]"]
  by (simp add: listedPending_def add_mset_commute)

theorem checkPoolBalances_decides_witness:
  "checkPoolBalances \<lparr>collateral = Dec (10 ^ 18), debt = Dec 7\<rparr> emptyTrove [listedPending ''0xa1'' 5] emptyTrove = Inr ()"
  using checkPoolBalances_decides [of "[listedPending ''0xa1'' 5]" emptyTrove "\<lparr>collateral = Dec (10 ^ 18), debt = Dec 7\<rparr>" emptyTrove]
  by (simp add: listedPending_def pendingCollateral_def pendingDebt_def emptyTrove_def Decimal_ZERO_def withinTiny_def MAX_UINT_256_def)

end
