(* ===== verification/BatchedProvider.thy ===== *)
theory BatchedProvider
  imports Prelude
begin

text \<open>
  The call batching of \<open>packages/providers/src/BatchedProvider.ts\<close>: read calls that arrive within
  a short delay are collected and sent as one \<open>aggregate\<close> call of the Multicall contract.

  The state is the object's fields, and beside them what the JavaScript runtime keeps for it: the
  timers that are scheduled, the dispatches that wait for an answer, and the promises that
  \<open>_enqueueCall\<close> created.  Promises, timers and dispatches are numbered in the order of their
  creation; \<open>bp_requests\<close> records the request of each promise, and \<open>bp_settled\<close> the outcomes in the
  order in which the callbacks were called.  An \<open>async\<close> method is one operation per stretch between
  two \<open>await\<close>s.
\<close>

section \<open>Data\<close>

datatype bytesLike = HexString string | ByteArray "nat list"

datatype blockTag = TagString string | TagNumber int

text \<open>\<open>CallRequest\<close>; \<open>to!\<close> and \<open>data!\<close> assert nothing at run time.\<close>

record callRequest =
  target :: "string option"
  callData :: "bytesLike option"

record transactionRequest =
  rq_to :: "string option"
  rq_from :: "string option"
  rq_gasLimit :: "int option"
  rq_gasPrice :: "int option"
  rq_data :: "bytesLike option"
  rq_value :: "int option"

record batchedCalls =
  calls :: "callRequest list"
  callbacks :: "nat list"
  batchTag :: "blockTag option"

definition emptyBatch :: batchedCalls where
  "emptyBatch = \<lparr>calls = [], callbacks = [], batchTag = None\<rparr>"

text \<open>What the callbacks of a promise are called with; \<open>results[i]\<close> is \<open>undefined\<close> past the end.\<close>

datatype settlement = Resolved "string option" | Rejected string

record batchedProvider =
  bp_chainId :: int
  bp_multicall :: "string option"
  bp_timeoutId :: "nat option"
  bp_batched :: batchedCalls
  bp_numberOfBatchedCalls :: nat
  bp_numberOfActualCalls :: nat
  bp_timeOfLastRatioCheck :: "int option"
  bp_timers :: "nat list"
  bp_timerCount :: nat
  bp_dispatched :: "(nat \<times> batchedCalls) list"
  bp_dispatchCount :: nat
  bp_requests :: "(callRequest \<times> blockTag option) list"
  bp_settled :: "(nat \<times> settlement) list"

definition newBatchedProvider :: batchedProvider where
  "newBatchedProvider =
     \<lparr>bp_chainId = 0, bp_multicall = None, bp_timeoutId = None, bp_batched = emptyBatch,
      bp_numberOfBatchedCalls = 0, bp_numberOfActualCalls = 0, bp_timeOfLastRatioCheck = None,
      bp_timers = [], bp_timerCount = 0, bp_dispatched = [], bp_dispatchCount = 0,
      bp_requests = [], bp_settled = []\<rparr>"

section \<open>The chain\<close>

definition multicallAddress :: "(int \<times> string) list" where
  "multicallAddress =
     [(1, ''0xeefBa1e63905eF1D7ACbA5a8513c70307C1cE441''),
      (3, ''0x53C43764255c17BD724F74c4eF150724AC50a3ed''),
      (4, ''0x42Ad527de7d4e9d9d011aC45B31D8551f8Fe9821''),
      (5, ''0x77dCa2C955b15e9dE4dbBCf1246B4B85b651e50e''),
      (42, ''0x2cc8688C5f75E365aaEEb4ea8D6a480405A48D2A'')]"

definition hasMulticall :: "int \<Rightarrow> bool" where
  "hasMulticall chainId \<longleftrightarrow> map_of multicallAddress chainId \<noteq> None"

definition set_chainId :: "int \<Rightarrow> batchedProvider \<Rightarrow> batchedProvider res" where
  "set_chainId chainId s =
     (if bp_multicall s \<noteq> None then Inl (Error ''can only set chainId once'')
      else
        (let s = (if hasMulticall chainId then s\<lparr>bp_multicall := map_of multicallAddress chainId\<rparr> else s)
         in Inr (s\<lparr>bp_chainId := chainId\<rparr>)))"

section \<open>Calls\<close>

definition batchableCall :: "transactionRequest \<Rightarrow> bool" where
  "batchableCall request \<longleftrightarrow> rq_gasLimit request = None \<and> rq_gasPrice request = None \<and> rq_value request = None"

definition aggregateSignature :: string where
  "aggregateSignature = ''0x252dba42''"

definition batchedCall :: "transactionRequest \<Rightarrow> string \<Rightarrow> bool" where
  "batchedCall request multicall \<longleftrightarrow>
     rq_to request = Some multicall \<and>
     (case rq_data request of
        Some (HexString d) \<Rightarrow> take (length aggregateSignature) d = aggregateSignature
      | _ \<Rightarrow> False)"

definition orLatest :: "blockTag option \<Rightarrow> blockTag" where
  "orLatest blockTag = (case blockTag of Some t \<Rightarrow> t | None \<Rightarrow> TagString ''latest'')"

definition alreadyBatchedCallsConflictWith :: "blockTag option \<Rightarrow> batchedProvider \<Rightarrow> bool" where
  "alreadyBatchedCallsConflictWith blockTag s \<longleftrightarrow>
     length (calls (bp_batched s)) \<noteq> 0 \<and> orLatest blockTag \<noteq> orLatest (batchTag (bp_batched s))"

text \<open>\<open>clearTimeout\<close> of a timer that has fired does nothing.  The executor of the promise runs at once,
  so its callbacks go to the batch that the call went to.\<close>

definition enqueueCall :: "callRequest \<Rightarrow> batchedProvider \<Rightarrow> nat \<times> batchedProvider" where
  "enqueueCall call s =
     (let s = (case bp_timeoutId s of Some t \<Rightarrow> s\<lparr>bp_timers := removeAll t (bp_timers s)\<rparr> | None \<Rightarrow> s);
          s = s\<lparr>bp_batched := (bp_batched s)\<lparr>calls := calls (bp_batched s) @ [call]\<rparr>\<rparr>;
          timer = bp_timerCount s;
          s = s\<lparr>bp_timeoutId := Some timer, bp_timers := bp_timers s @ [timer], bp_timerCount := timer + 1\<rparr>;
          promise = length (bp_requests s)
      in (promise,
          s\<lparr>bp_batched := (bp_batched s)\<lparr>callbacks := callbacks (bp_batched s) @ [promise]\<rparr>,
            bp_requests := bp_requests s @ [(call, batchTag (bp_batched s))]\<rparr>))"

text \<open>\<open>call\<close> up to its \<open>await\<close>: \<open>None\<close> when the base class takes the call over.\<close>

definition call_start :: "int \<Rightarrow> batchedProvider \<Rightarrow> batchedProvider option" where
  "call_start now s =
     (if bp_multicall s = None then None
      else
        (case bp_timeOfLastRatioCheck s of
           None \<Rightarrow> Some (s\<lparr>bp_timeOfLastRatioCheck := Some now\<rparr>)
         | Some lastCheck \<Rightarrow>
             if now - lastCheck \<ge> 10000 \<and> bp_numberOfActualCalls s \<noteq> 0
             then Some (s\<lparr>bp_numberOfBatchedCalls := 0, bp_numberOfActualCalls := 0,
                          bp_timeOfLastRatioCheck := Some now\<rparr>)
             else Some s))"

datatype callRoute = ToBase transactionRequest "blockTag option" | Enqueued nat

definition call_resume :: "transactionRequest \<Rightarrow> blockTag option \<Rightarrow> batchedProvider \<Rightarrow> (callRoute \<times> batchedProvider) res" where
  "call_resume request blockTag s =
     (case bp_multicall s of
        None \<Rightarrow> Inl TypeError
      | Some multicall \<Rightarrow>
          if batchedCall request multicall \<or> \<not> batchableCall request \<or> alreadyBatchedCallsConflictWith blockTag s
          then Inr (ToBase request blockTag, s\<lparr>bp_numberOfActualCalls := bp_numberOfActualCalls s + 1\<rparr>)
          else
            (let s = s\<lparr>bp_numberOfBatchedCalls := bp_numberOfBatchedCalls s + 1\<rparr>;
                 s = (if length (calls (bp_batched s)) = 0
                      then s\<lparr>bp_batched := (bp_batched s)\<lparr>batchTag := blockTag\<rparr>\<rparr> else s);
                 (promise, s) = enqueueCall \<lparr>target = rq_to request, callData = rq_data request\<rparr> s
             in Inr (Enqueued promise, s)))"

datatype balanceRoute = BaseBalance | MulticallBalance string

definition getBalance_route :: "(string \<Rightarrow> bool) \<Rightarrow> string \<Rightarrow> batchedProvider \<Rightarrow> balanceRoute" where
  "getBalance_route isAddress addressOrName s =
     (case bp_multicall s of
        Some multicall \<Rightarrow> if isAddress addressOrName then MulticallBalance multicall else BaseBalance
      | None \<Rightarrow> BaseBalance)"

section \<open>Dispatch\<close>

text \<open>The timer's callback, \<open>_dispatchCalls\<close> up to its \<open>await\<close>.\<close>

definition dispatchCalls :: "batchedProvider \<Rightarrow> batchedProvider" where
  "dispatchCalls s =
     s\<lparr>bp_batched := emptyBatch,
       bp_dispatched := bp_dispatched s @ [(bp_dispatchCount s, bp_batched s)],
       bp_dispatchCount := bp_dispatchCount s + 1\<rparr>"

definition fireTimer :: "nat \<Rightarrow> batchedProvider \<Rightarrow> batchedProvider" where
  "fireTimer t s = dispatchCalls (s\<lparr>bp_timers := removeAll t (bp_timers s)\<rparr>)"

text \<open>What \<open>_dispatchCalls\<close> waits for: the answer to the one call, or to \<open>aggregate\<close>, which the
  arguments \<open>base\<close> and \<open>aggregate\<close> stand for.  Both may fail with an error.\<close>

definition dispatchResults ::
    "(callRequest \<Rightarrow> blockTag option \<Rightarrow> string + string) \<Rightarrow> (callRequest list \<Rightarrow> blockTag option \<Rightarrow> string + string list) \<Rightarrow>
     batchedCalls \<Rightarrow> string + string list" where
  "dispatchResults base aggregate b =
     (if length (calls b) > 1 then aggregate (calls b) (batchTag b)
      else (case calls b of
              [] \<Rightarrow> Inl ''TypeError''
            | c # _ \<Rightarrow> (case base c (batchTag b) of Inl e \<Rightarrow> Inl e | Inr r \<Rightarrow> Inr [r])))"

text \<open>The rest of \<open>_dispatchCalls\<close>.\<close>

definition settleAll :: "nat list \<Rightarrow> string + string list \<Rightarrow> (nat \<times> settlement) list" where
  "settleAll cbs outcome =
     (case outcome of
        Inr results \<Rightarrow>
          map (\<lambda>(i, p). (p, Resolved (if i < length results then Some (results ! i) else None))) (enumerate 0 cbs)
      | Inl error \<Rightarrow> map (\<lambda>p. (p, Rejected error)) cbs)"

definition dispatch_resume :: "nat \<Rightarrow> string + string list \<Rightarrow> batchedProvider \<Rightarrow> batchedProvider" where
  "dispatch_resume d outcome s =
     (case map_of (bp_dispatched s) d of
        None \<Rightarrow> s
      | Some b \<Rightarrow>
          s\<lparr>bp_dispatched := filter (\<lambda>(d', _). d' \<noteq> d) (bp_dispatched s),
            bp_settled := bp_settled s @ settleAll (callbacks b) outcome\<rparr>)"

end
