(* ===== verification/BatchedProvider_Correct.thy ===== *)
theory BatchedProvider_Correct
  imports BatchedProvider "HOL-Library.Multiset"
begin

text \<open>
  Batching loses no call and answers each with its own result: an invariant of the states that
  calls, timers and answers can reach, in any interleaving, and the liveness that follows from it when timers
  fire and dispatches are answered.
\<close>

section \<open>Steps\<close>

text \<open>\<open>node d\<close> is what the node answers to single calls at the time of dispatch \<open>d\<close>.\<close>

type_synonym node = "nat \<Rightarrow> callRequest \<Rightarrow> blockTag option \<Rightarrow> string + string"

text \<open>The contract \<open>aggregate\<close> of Multicall: the results of all calls in order, or a failure with the error of one of
  them.\<close>

definition aggregates ::
    "(callRequest \<Rightarrow> blockTag option \<Rightarrow> string + string) \<Rightarrow>
     (callRequest list \<Rightarrow> blockTag option \<Rightarrow> string + string list) \<Rightarrow> bool" where
  "aggregates base agg \<longleftrightarrow>
     (\<forall>cs tag. case agg cs tag of
        Inr rs \<Rightarrow> map (\<lambda>c. base c tag) cs = map Inr rs
      | Inl e \<Rightarrow> e \<in> {e. \<exists>c\<in>set cs. base c tag = Inl e})"

inductive bp_step :: "node \<Rightarrow> (nat \<Rightarrow> callRequest list \<Rightarrow> blockTag option \<Rightarrow> string + string list) \<Rightarrow>
    batchedProvider \<Rightarrow> batchedProvider \<Rightarrow> bool" for node agg where
  chain: "set_chainId c s = Inr s' \<Longrightarrow> bp_step node agg s s'"
| start: "call_start now s = Some s' \<Longrightarrow> bp_step node agg s s'"
| resume: "call_resume request tag s = Inr (route, s') \<Longrightarrow> bp_step node agg s s'"
| timer: "t \<in> set (bp_timers s) \<Longrightarrow> bp_step node agg s (fireTimer t s)"
| answer: "(d, b) \<in> set (bp_dispatched s) \<Longrightarrow>
    bp_step node agg s (dispatch_resume d (dispatchResults (node d) (agg d) b) s)"
| idle: "bp_step node agg s s"

inductive bp_reach :: "node \<Rightarrow> (nat \<Rightarrow> callRequest list \<Rightarrow> blockTag option \<Rightarrow> string + string list) \<Rightarrow>
    batchedProvider \<Rightarrow> bool" for node agg where
  new: "bp_reach node agg newBatchedProvider"
| step: "bp_reach node agg s \<Longrightarrow> bp_step node agg s s' \<Longrightarrow> bp_reach node agg s'"

section \<open>The invariant\<close>

definition waiting :: "batchedProvider \<Rightarrow> batchedCalls list" where
  "waiting s = bp_batched s # map snd (bp_dispatched s)"

text \<open>Promise \<open>p\<close> belongs to a call of batch \<open>b\<close>.\<close>

definition batch_ok :: "(callRequest \<times> blockTag option) list \<Rightarrow> batchedCalls \<Rightarrow> bool" where
  "batch_ok reqs b \<longleftrightarrow> list_all2 (\<lambda>c p. p < length reqs \<and> reqs ! p = (c, batchTag b)) (calls b) (callbacks b)"

definition answer_ok ::
    "node \<Rightarrow> (callRequest \<times> blockTag option) list \<Rightarrow> nat \<times> settlement \<Rightarrow> bool" where
  "answer_ok node reqs = (\<lambda>(p, r). p < length reqs \<and>
     (\<exists>d. case r of
        Resolved v \<Rightarrow> \<exists>x. v = Some x \<and> node d (fst (reqs ! p)) (snd (reqs ! p)) = Inr x
      | Rejected e \<Rightarrow> \<exists>(c, tag) \<in> set reqs. tag = snd (reqs ! p) \<and> node d c tag = Inl e))"

definition conserved :: "batchedProvider \<Rightarrow> bool" where
  "conserved s \<longleftrightarrow>
     mset (concat (map callbacks (waiting s)) @ map fst (bp_settled s)) = mset [0..<length (bp_requests s)]"

definition timed :: "batchedProvider \<Rightarrow> bool" where
  "timed s \<longleftrightarrow>
     (if calls (bp_batched s) = [] then bp_timers s = []
      else \<exists>t. bp_timers s = [t] \<and> bp_timeoutId s = Some t)"

definition numbered :: "batchedProvider \<Rightarrow> bool" where
  "numbered s \<longleftrightarrow> distinct (map fst (bp_dispatched s)) \<and> (\<forall>d \<in> set (map fst (bp_dispatched s)). d < bp_dispatchCount s)"

definition bp_inv :: "node \<Rightarrow> batchedProvider \<Rightarrow> bool" where
  "bp_inv node s \<longleftrightarrow>
     conserved s \<and> timed s \<and> numbered s \<and>
     (calls (bp_batched s) \<noteq> [] \<longrightarrow> bp_multicall s \<noteq> None) \<and>
     list_all (batch_ok (bp_requests s)) (waiting s) \<and> (\<forall>(d, b) \<in> set (bp_dispatched s). calls b \<noteq> []) \<and>
     list_all (answer_ok node (bp_requests s)) (bp_settled s)"

lemma batch_ok_append: "batch_ok reqs b \<Longrightarrow> batch_ok (reqs @ xs) b"
  by (auto simp: batch_ok_def nth_append elim!: list_all2_mono)

lemma answer_ok_append: "answer_ok node reqs a \<Longrightarrow> answer_ok node (reqs @ xs) a"
  by (cases a; cases "snd a") (fastforce simp: answer_ok_def nth_append)+

lemma batch_ok_snoc:
  assumes "batch_ok reqs b"
  shows "batch_ok (reqs @ [(c, batchTag b)]) (b\<lparr>calls := calls b @ [c], callbacks := callbacks b @ [length reqs]\<rparr>)"
  using batch_ok_append [OF assms, of "[(c, batchTag b)]"]
  by (auto simp: batch_ok_def list_all2_appendI nth_append)

lemma bp_inv_frame:
  assumes "bp_inv node s" and "bp_batched s' = bp_batched s" and "bp_requests s' = bp_requests s"
    and "bp_settled s' = bp_settled s" and "bp_dispatched s' = bp_dispatched s"
    and "bp_dispatchCount s' = bp_dispatchCount s" and "bp_timers s' = bp_timers s"
    and "bp_timeoutId s' = bp_timeoutId s" and "bp_multicall s \<noteq> None \<longrightarrow> bp_multicall s' \<noteq> None"
  shows "bp_inv node s'"
  using assms(1) unfolding bp_inv_def conserved_def timed_def numbered_def waiting_def assms(2-8)
  using assms(9) by blast

lemma enqueue_inv:
  assumes inv: "bp_inv node s" and "bp_multicall s \<noteq> None"
    and e: "enqueueCall c s = (p, s')"
  shows "bp_inv node s'"
proof -
  let ?r = "bp_requests s @ [(c, batchTag (bp_batched s))]"
  have s': "bp_batched s' = (bp_batched s)\<lparr>calls := calls (bp_batched s) @ [c],
      callbacks := callbacks (bp_batched s) @ [length (bp_requests s)]\<rparr>"
    "bp_requests s' = ?r" "bp_settled s' = bp_settled s" "bp_dispatched s' = bp_dispatched s"
    "bp_dispatchCount s' = bp_dispatchCount s" "bp_multicall s' = bp_multicall s"
    "bp_timeoutId s' = Some (bp_timerCount s)"
    "bp_timers s' = (case bp_timeoutId s of Some t \<Rightarrow> removeAll t (bp_timers s) | None \<Rightarrow> bp_timers s) @ [bp_timerCount s]"
    using e by (auto simp: enqueueCall_def Let_def split: option.splits)
  have "conserved s'"
    using inv by (simp add: bp_inv_def conserved_def waiting_def s')
  moreover have "timed s'"
    using inv by (auto simp: bp_inv_def timed_def s' split: if_splits option.splits)
  moreover have "list_all (batch_ok ?r) (waiting s')"
    using inv batch_ok_snoc by (auto simp: bp_inv_def waiting_def s' list_all_iff intro: batch_ok_append)
  ultimately show ?thesis
    using inv assms(2) by (auto simp: bp_inv_def numbered_def s' list_all_iff intro: answer_ok_append)
qed

lemma dispatchResults_each:
  assumes "aggregates base agg" and "calls b \<noteq> []"
  shows "case dispatchResults base agg b of
      Inr rs \<Rightarrow> map (\<lambda>c. base c (batchTag b)) (calls b) = map Inr rs
    | Inl e \<Rightarrow> \<exists>c \<in> set (calls b). base c (batchTag b) = Inl e"
proof (cases "length (calls b) > 1")
  case True
  with assms(1) show ?thesis
    unfolding aggregates_def dispatchResults_def
    by (auto dest!: spec [of _ "calls b"] spec [of _ "batchTag b"] split: sum.splits)
next
  case False
  with assms(2) obtain c where "calls b = [c]" by (cases "calls b") auto
  then show ?thesis by (auto simp: dispatchResults_def split: sum.splits)
qed

lemma settleAll_fst [simp]: "map fst (settleAll cbs outcome) = cbs"
  by (cases outcome) (auto simp: settleAll_def comp_def case_prod_beta' map_snd_enumerate [unfolded comp_def] intro: map_idI)

lemma settleAll_ok:
  assumes b: "batch_ok reqs b" and "calls b \<noteq> []" and "aggregates (node d) agg"
  shows "list_all (answer_ok node reqs) (settleAll (callbacks b) (dispatchResults (node d) agg b))"
proof -
  have len: "length (callbacks b) = length (calls b)"
    and req: "i < length (calls b) \<Longrightarrow> callbacks b ! i < length reqs \<and> reqs ! (callbacks b ! i) = (calls b ! i, batchTag b)" for i
    using b by (auto simp: batch_ok_def list_all2_conv_all_nth)
  have "answer_ok node reqs (settleAll (callbacks b) (dispatchResults (node d) agg b) ! i)" if i: "i < length (calls b)" for i
  proof (cases "dispatchResults (node d) agg b")
    case (Inl e)
    with dispatchResults_each [OF assms(3,2)] obtain j where "j < length (calls b)" "node d (calls b ! j) (batchTag b) = Inl e"
      by (auto simp: in_set_conv_nth)
    moreover have "settleAll (callbacks b) (dispatchResults (node d) agg b) ! i = (callbacks b ! i, Rejected e)"
      using i len by (simp add: settleAll_def Inl)
    ultimately show ?thesis
      using req [OF i] req [of j] nth_mem [of "callbacks b ! j" reqs]
      by (auto simp: answer_ok_def intro!: exI [of _ d] bexI [of _ "reqs ! (callbacks b ! j)"])
  next
    case (Inr rs)
    with dispatchResults_each [OF assms(3,2)] have rs: "map (\<lambda>c. node d c (batchTag b)) (calls b) = map Inr rs" by simp
    then have "length rs = length (calls b)" by (metis length_map)
    moreover have "node d (calls b ! i) (batchTag b) = Inr (rs ! i)"
      using arg_cong [OF rs, of "\<lambda>l. l ! i"] i \<open>length rs = length (calls b)\<close> by simp
    ultimately show ?thesis
      using req [OF i] i len by (auto simp: answer_ok_def settleAll_def Inr nth_enumerate_eq)
  qed
  moreover have "length (settleAll (callbacks b) (dispatchResults (node d) agg b)) = length (calls b)"
    using len by (auto simp: settleAll_def split: sum.splits)
  ultimately show ?thesis by (simp add: list_all_length)
qed

lemma answer_inv:
  assumes inv: "bp_inv node s" and d: "(d, b) \<in> set (bp_dispatched s)" and agg: "aggregates (node d) agg"
  shows "bp_inv node (dispatch_resume d (dispatchResults (node d) agg b) s)"
proof -
  have dist: "distinct (map fst (bp_dispatched s))" using inv by (simp add: bp_inv_def numbered_def)
  then have m: "map_of (bp_dispatched s) d = Some b" using d by simp
  obtain xs ys where split: "bp_dispatched s = xs @ (d, b) # ys" using d by (auto dest: split_list)
  then have rest: "filter (\<lambda>(d', _). d' \<noteq> d) (bp_dispatched s) = xs @ ys"
    using dist by (force simp: filter_id_conv image_iff intro!: arg_cong2 [where f = "(@)"])
  note s' = dispatch_resume_def [of d _ s, unfolded m option.case rest]
  have "batch_ok (bp_requests s) b" "calls b \<noteq> []"
    using inv split by (auto simp: bp_inv_def waiting_def)
  note ok = settleAll_ok [OF this, of node d, OF agg]
  show ?thesis
    using inv ok unfolding s'
    by (auto simp: bp_inv_def split conserved_def timed_def numbered_def waiting_def ac_simps)
qed

lemma timer_inv:
  assumes inv: "bp_inv node s" and t: "t \<in> set (bp_timers s)"
  shows "bp_inv node (fireTimer t s)"
proof -
  have "calls (bp_batched s) \<noteq> []" "bp_timers s = [t]"
    using inv t by (auto simp: bp_inv_def timed_def split: if_splits)
  with inv show ?thesis
    by (auto simp: bp_inv_def fireTimer_def dispatchCalls_def emptyBatch_def conserved_def timed_def numbered_def
        waiting_def batch_ok_def ac_simps)
qed

lemma resume_inv:
  assumes inv: "bp_inv node s" and r: "call_resume request tag s = Inr (route, s')"
  shows "bp_inv node s'"
proof -
  obtain m where m: "bp_multicall s = Some m" using r by (auto simp: call_resume_def split: option.splits)
  let ?s = "s\<lparr>bp_numberOfBatchedCalls := bp_numberOfBatchedCalls s + 1\<rparr>"
  have 1: "bp_inv node (s\<lparr>bp_numberOfActualCalls := n\<rparr>)" "bp_inv node (s\<lparr>bp_numberOfBatchedCalls := n\<rparr>)" for n
    by (rule bp_inv_frame [OF inv]; simp)+
  have 2: "bp_inv node (s\<lparr>bp_numberOfBatchedCalls := n, bp_batched := (bp_batched s)\<lparr>batchTag := tag\<rparr>\<rparr>)"
    if "calls (bp_batched s) = []" for n
    using inv that by (clarsimp simp: bp_inv_def conserved_def timed_def numbered_def waiting_def batch_ok_def)
  show ?thesis
    using r m 1(1) enqueue_inv [OF 1(2)] enqueue_inv [OF 2]
    by (auto simp: call_resume_def Let_def split: if_splits prod.splits)
qed

lemma bp_step_inv:
  assumes "bp_step node agg s s'" and "bp_inv node s" and "\<And>d. aggregates (node d) (agg d)"
  shows "bp_inv node s'"
  using assms(1)
proof cases
  case (chain c)
  then show ?thesis
    by (intro bp_inv_frame [OF assms(2)]) (auto simp: set_chainId_def hasMulticall_def Let_def split: if_splits)
next
  case (start now)
  then show ?thesis
    by (intro bp_inv_frame [OF assms(2)]) (auto simp: call_start_def split: if_splits option.splits)
qed (use assms in \<open>auto intro: resume_inv timer_inv answer_inv\<close>)

lemma bp_reach_inv:
  assumes "bp_reach node agg s" and "\<And>d. aggregates (node d) (agg d)"
  shows "bp_inv node s"
  using assms(1)
proof induction
  case new
  show ?case
    by (simp add: bp_inv_def newBatchedProvider_def emptyBatch_def conserved_def timed_def numbered_def waiting_def batch_ok_def)
qed (use assms(2) bp_step_inv in blast)

section \<open>Answers\<close>

text \<open>Later states: requests are kept, and so is every settlement.\<close>

inductive bp_steps :: "node \<Rightarrow> (nat \<Rightarrow> callRequest list \<Rightarrow> blockTag option \<Rightarrow> string + string list) \<Rightarrow>
    batchedProvider \<Rightarrow> batchedProvider \<Rightarrow> bool" for node agg where
  refl: "bp_steps node agg s s"
| more: "bp_steps node agg s s' \<Longrightarrow> bp_step node agg s' s'' \<Longrightarrow> bp_steps node agg s s''"

lemma bp_step_requests:
  assumes "bp_step node agg s s'"
  shows "\<exists>xs. bp_requests s' = bp_requests s @ xs"
  using assms
  by cases (auto simp: set_chainId_def call_start_def call_resume_def enqueueCall_def fireTimer_def dispatchCalls_def
      dispatch_resume_def Let_def split: if_splits option.splits)

lemma bp_steps_requests: "bp_steps node agg s s' \<Longrightarrow> \<exists>xs. bp_requests s' = bp_requests s @ xs"
proof (induction rule: bp_steps.induct)
  case (more s s' s'')
  then show ?case using bp_step_requests by fastforce
qed simp

lemma bp_steps_reach: "bp_steps node agg s s' \<Longrightarrow> bp_reach node agg s \<Longrightarrow> bp_reach node agg s'"
  by (induction rule: bp_steps.induct) (auto intro: bp_reach.step)

lemma call_resume_Enqueued:
  assumes "call_resume request tag s = Inr (Enqueued p, s')"
  shows "p = length (bp_requests s) \<and> (\<exists>tag'. orLatest tag' = orLatest tag \<and>
    bp_requests s' = bp_requests s @ [(\<lparr>target = rq_to request, callData = rq_data request\<rparr>, tag')])"
  using assms
  by (auto simp: call_resume_def enqueueCall_def alreadyBatchedCallsConflictWith_def Let_def
      split: if_splits option.splits)


definition echoNode :: node where
  "echoNode d c tag = (case target c of Some t \<Rightarrow> Inr (''0x'' @ t) | None \<Rightarrow> Inl ''no target'')"

definition echoAggregate :: "nat \<Rightarrow> callRequest list \<Rightarrow> blockTag option \<Rightarrow> string + string list" where
  "echoAggregate d cs tag =
     (if \<forall>c \<in> set cs. target c \<noteq> None then Inr (map (\<lambda>c. ''0x'' @ the (target c)) cs) else Inl ''no target'')"

lemma echo_aggregates: "aggregates (echoNode d) (echoAggregate d)"
  by (auto simp: aggregates_def echoNode_def echoAggregate_def split: option.splits sum.splits)

definition callTo :: "string \<Rightarrow> transactionRequest" where
  "callTo t = \<lparr>rq_to = Some t, rq_from = None, rq_gasLimit = None, rq_gasPrice = None,
     rq_data = Some (HexString ''0x01''), rq_value = None\<rparr>"

text \<open>A provider for chain 1 before and after two calls, and after the answer to their batch.\<close>

definition readyProvider :: batchedProvider where
  "readyProvider = newBatchedProvider\<lparr>bp_multicall := map_of multicallAddress 1, bp_chainId := 1\<rparr>"

definition afterCall :: "string \<Rightarrow> batchedProvider \<Rightarrow> batchedProvider" where
  "afterCall t s = (case call_resume (callTo t) None s of Inr (_, s') \<Rightarrow> s' | Inl _ \<Rightarrow> s)"

definition dispatchedProvider :: batchedProvider where
  "dispatchedProvider = fireTimer 1 (afterCall ''ff'' (afterCall ''ee'' readyProvider))"

definition answeredProvider :: batchedProvider where
  "answeredProvider =
     dispatch_resume 0
       (dispatchResults (echoNode 0) (echoAggregate 0) (snd (hd (bp_dispatched dispatchedProvider)))) dispatchedProvider"

lemmas provider_evaluates =
  readyProvider_def newBatchedProvider_def multicallAddress_def afterCall_def call_resume_def enqueueCall_def
  batchedCall_def batchableCall_def callTo_def alreadyBatchedCallsConflictWith_def emptyBatch_def Let_def

lemma readyProvider_reach: "bp_reach node agg readyProvider"
  by (rule bp_reach.step [OF bp_reach.new bp_step.chain [where c = 1]])
     (simp add: set_chainId_def hasMulticall_def readyProvider_def newBatchedProvider_def multicallAddress_def)

lemma example_steps:
  "call_resume (callTo ''ee'') None readyProvider = Inr (Enqueued 0, afterCall ''ee'' readyProvider)"
  "call_resume (callTo ''ff'') None (afterCall ''ee'' readyProvider) =
     Inr (Enqueued 1, afterCall ''ff'' (afterCall ''ee'' readyProvider))"
  "bp_step node agg (afterCall ''ff'' (afterCall ''ee'' readyProvider)) dispatchedProvider"
  "bp_step echoNode echoAggregate dispatchedProvider answeredProvider"
proof -
  show "call_resume (callTo ''ee'') None readyProvider = Inr (Enqueued 0, afterCall ''ee'' readyProvider)"
    "call_resume (callTo ''ff'') None (afterCall ''ee'' readyProvider) =
       Inr (Enqueued 1, afterCall ''ff'' (afterCall ''ee'' readyProvider))"
    by (simp_all add: provider_evaluates)
  show "bp_step node agg (afterCall ''ff'' (afterCall ''ee'' readyProvider)) dispatchedProvider"
    unfolding dispatchedProvider_def by (rule bp_step.timer) (simp add: provider_evaluates)
  have "(0, snd (hd (bp_dispatched dispatchedProvider))) \<in> set (bp_dispatched dispatchedProvider)"
    by (simp add: dispatchedProvider_def fireTimer_def dispatchCalls_def provider_evaluates)
  then show "bp_step echoNode echoAggregate dispatchedProvider answeredProvider"
    unfolding answeredProvider_def by (rule bp_step.answer)
qed


section \<open>Liveness\<close>

lemma bp_step_settled:
  assumes "bp_step node agg s s'"
  shows "set (bp_settled s) \<subseteq> set (bp_settled s')"
  using assms
  by cases (auto simp: set_chainId_def call_start_def call_resume_def enqueueCall_def fireTimer_def dispatchCalls_def
      dispatch_resume_def Let_def split: if_splits option.splits)

lemma bp_step_in_flight:
  assumes "bp_step node agg s s'" and inv: "bp_inv node s" and "(d, b) \<in> set (bp_dispatched s)" and "p \<in> set (callbacks b)"
  shows "(d, b) \<in> set (bp_dispatched s') \<or> p \<in> fst ` set (bp_settled s')"
  using assms(1)
proof cases
  case (answer d' b')
  have "map_of (bp_dispatched s) d' = Some b'" "map_of (bp_dispatched s) d = Some b"
    using inv answer(2) assms(3) by (auto simp: bp_inv_def numbered_def)
  then show ?thesis
    using assms(3,4) by (auto simp: answer(1) dispatch_resume_def image_Un simp flip: set_map)
qed (use assms(3) in \<open>auto simp: set_chainId_def call_start_def call_resume_def enqueueCall_def fireTimer_def
      dispatchCalls_def Let_def split: if_splits option.splits\<close>)

lemma bp_inv_where:
  assumes "bp_inv node s" and "p < length (bp_requests s)"
  shows "p \<in> set (callbacks (bp_batched s)) \<or> (\<exists>d b. (d, b) \<in> set (bp_dispatched s) \<and> p \<in> set (callbacks b)) \<or>
    p \<in> fst ` set (bp_settled s)"
proof -
  have "set (concat (map callbacks (waiting s)) @ map fst (bp_settled s)) = {0..<length (bp_requests s)}"
    using assms(1) unfolding bp_inv_def conserved_def by (metis set_mset_mset set_upt)
  then have "p \<in> set (concat (map callbacks (waiting s)) @ map fst (bp_settled s))"
    using assms(2) by simp
  then show ?thesis by (auto simp: waiting_def)
qed

text \<open>A run of the provider: consecutive states from its creation on.\<close>

definition bp_run :: "node \<Rightarrow> (nat \<Rightarrow> callRequest list \<Rightarrow> blockTag option \<Rightarrow> string + string list) \<Rightarrow>
    (nat \<Rightarrow> batchedProvider) \<Rightarrow> bool" where
  "bp_run node agg \<sigma> \<longleftrightarrow> \<sigma> 0 = newBatchedProvider \<and> (\<forall>n. bp_step node agg (\<sigma> n) (\<sigma> (Suc n)))"

lemma bp_run_inv: "bp_run node agg \<sigma> \<Longrightarrow> \<forall>d. aggregates (node d) (agg d) \<Longrightarrow> bp_inv node (\<sigma> n)"
proof -
  assume run: "bp_run node agg \<sigma>" and agg: "\<forall>d. aggregates (node d) (agg d)"
  have "bp_reach node agg (\<sigma> n)"
    using run by (induction n) (auto simp: bp_run_def intro: bp_reach.intros)
  then show ?thesis using agg by (intro bp_reach_inv) auto
qed

lemma in_flight_settles:
  assumes run: "bp_run node agg \<sigma>" and agg: "\<forall>d. aggregates (node d) (agg d)"
    and d: "(d, b) \<in> set (bp_dispatched (\<sigma> n))" "p \<in> set (callbacks b)"
    and m: "n \<le> m" "d \<notin> fst ` set (bp_dispatched (\<sigma> m))"
  shows "p \<in> fst ` set (bp_settled (\<sigma> m))"
proof -
  have "(d, b) \<in> set (bp_dispatched (\<sigma> m)) \<or> p \<in> fst ` set (bp_settled (\<sigma> m))"
    using m(1)
  proof (induction m rule: dec_induct)
    case (step k)
    have st: "bp_step node agg (\<sigma> k) (\<sigma> (Suc k))" using run by (simp add: bp_run_def)
    show ?case
      using step.IH bp_step_in_flight [OF st bp_run_inv [OF run agg] _ d(2)] bp_step_settled [OF st] by blast
  qed (use d in simp)
  then show ?thesis using m(2) by force
qed


definition exampleRun :: "nat \<Rightarrow> batchedProvider" where
  "exampleRun n =
     (let states = [newBatchedProvider, readyProvider, afterCall ''ee'' readyProvider,
                    afterCall ''ff'' (afterCall ''ee'' readyProvider), dispatchedProvider]
      in if n < 5 then states ! n else answeredProvider)"

lemma exampleRun_run: "bp_run echoNode echoAggregate exampleRun"
proof -
  have ready: "bp_step echoNode echoAggregate newBatchedProvider readyProvider"
    by (rule bp_step.chain [where c = 1])
       (simp add: set_chainId_def hasMulticall_def readyProvider_def newBatchedProvider_def multicallAddress_def)
  have "bp_step echoNode echoAggregate (exampleRun n) (exampleRun (Suc n))" for n
  proof -
    consider "n = 0" | "n = 1" | "n = 2" | "n = 3" | "n = 4" | "5 \<le> n" by linarith
    then show ?thesis
      by cases (auto simp: exampleRun_def numeral_eq_Suc ready intro: bp_step.resume example_steps bp_step.idle)
  qed
  then show ?thesis by (simp add: bp_run_def exampleRun_def)
qed


end
