(* ===== verification/WebSocketAugmented.thy ===== *)
theory WebSocketAugmented
  imports Prelude
begin

text \<open>
  \<open>packages/providers/src/WebSocketAugmentedProvider.ts\<close>: a provider that listens for blocks on a WebSocket while it has
  one and on its base provider otherwise, and that repeats requests which a load-balanced node answers from an
  older block.

  What the class asks of the two providers is the list \<open>ws_calls\<close>.  A listener is known by its identity, a number; the
  deferred calls of listeners are the list \<open>ws_delivered\<close>.  A request that waits for its answer is an element of
  \<open>ws_fetches\<close>.  Answers of the node are functions of the number of the attempt, and a loop that may repeat for ever is
  a partial function.
\<close>

section \<open>State\<close>

type_synonym listener = nat

text \<open>\<open>_wrap\<close> with \<open>pass\<close>, \<open>passOnce\<close>, \<open>waitFor(fetchReceipt)\<close> and \<open>sequence(waitFor(fetchReceipt), passOnce)\<close>.\<close>

datatype blockListener = Pass | PassOnce | PassReceipt string | PassReceiptOnce string

datatype delivery = BlockNumber nat | ReceiptOf string

datatype providerCall =
    BaseOnBlock | BaseOffBlock | WsOnBlock nat | WsOffBlock nat | WsOpen nat string string | WsClose nat
  | BaseOn string listener | BaseOnce string listener | BaseOff string listener

record receiptFetch =
  rq_key :: listener
  rq_hash :: string
  rq_once :: bool
  rq_latest :: "nat option"

record wsState =
  ws_current :: "nat option"
  ws_params :: "(string \<times> string) option"
  ws_onClose :: "nat set"
  ws_reconnect :: "nat option"
  ws_timers :: "nat list"
  ws_seenBlock :: nat
  ws_scheduled :: bool
  ws_listeners :: "(listener \<times> blockListener) list"
  ws_fetches :: "receiptFetch list"
  ws_delivered :: "(listener \<times> delivery) list"
  ws_calls :: "providerCall list"
  ws_created :: nat
  ws_timersSet :: nat

text \<open>\<open>ws_timers\<close> are the pending timers for reconnection with their ids, \<open>ws_reconnect\<close> is \<open>_reconnectTimerId\<close>, which keeps
  its value when the timer fires; \<open>ws_onClose\<close> are the sockets whose closing is watched; \<open>ws_created\<close> and \<open>ws_timersSet\<close> count the
  sockets and the timers.\<close>

definition newWebSocketAugmented :: wsState where
  "newWebSocketAugmented = \<lparr>ws_current = None, ws_params = None, ws_onClose = {}, ws_reconnect = None, ws_timers = [], ws_seenBlock = 0,
     ws_scheduled = False, ws_listeners = [], ws_fetches = [], ws_delivered = [], ws_calls = [], ws_created = 0, ws_timersSet = 0\<rparr>"

definition callProvider :: "providerCall \<Rightarrow> wsState \<Rightarrow> wsState" where
  "callProvider c s = s\<lparr>ws_calls := ws_calls s @ [c]\<rparr>"

section \<open>Block events\<close>

definition startBlockEvents :: "wsState \<Rightarrow> wsState" where
  "startBlockEvents s = callProvider (case ws_current s of Some n \<Rightarrow> WsOnBlock n | None \<Rightarrow> BaseOnBlock) s"

definition stopBlockEvents :: "wsState \<Rightarrow> wsState" where
  "stopBlockEvents s = callProvider (case ws_current s of Some n \<Rightarrow> WsOffBlock n | None \<Rightarrow> BaseOffBlock) s"

definition switchover :: "wsState \<Rightarrow> wsState" where
  "switchover s =
     (if ws_listeners s \<noteq> [] then
        startBlockEvents (if ws_current s \<noteq> None then callProvider BaseOffBlock s else s)
      else s)"

definition openWebSocket :: "string \<Rightarrow> string \<Rightarrow> wsState \<Rightarrow> wsState" where
  "openWebSocket url network s =
     (let n = ws_created s
      in switchover ((callProvider (WsOpen n url network) s)
           \<lparr>ws_current := Some n, ws_created := Suc n, ws_onClose := insert n (ws_onClose s), ws_params := Some (url, network)\<rparr>))"

text \<open>\<open>closeWebSocket\<close>; \<open>clearTimeout\<close> removes the timer.\<close>

definition clearReconnect :: "wsState \<Rightarrow> wsState" where
  "clearReconnect s =
     (case ws_reconnect s of
        None \<Rightarrow> s
      | Some t \<Rightarrow> s\<lparr>ws_timers := filter (\<lambda>t'. t' \<noteq> t) (ws_timers s), ws_reconnect := None\<rparr>)"

definition closeWebSocket :: "wsState \<Rightarrow> wsState" where
  "closeWebSocket s =
     (case ws_current s of
        None \<Rightarrow> s
      | Some n \<Rightarrow>
          clearReconnect (switchover ((callProvider (WsClose n) s)\<lparr>ws_onClose := ws_onClose s - {n}, ws_current := None\<rparr>)))"

text \<open>The listener of a socket's close event, and the timer it sets: the parameters are read when the timer fires, and
  spreading parameters that are undefined throws in the timer's callback.\<close>

definition onWebSocketClose :: "wsState \<Rightarrow> wsState" where
  "onWebSocketClose s =
     (let s' = closeWebSocket s; t = ws_timersSet s'
      in s'\<lparr>ws_timers := ws_timers s' @ [t], ws_reconnect := Some t, ws_timersSet := Suc t\<rparr>)"

definition reconnectFires :: "nat \<Rightarrow> wsState \<Rightarrow> wsState" where
  "reconnectFires t s =
     (if t \<in> set (ws_timers s) then
        let s' = s\<lparr>ws_timers := filter (\<lambda>t'. t' \<noteq> t) (ws_timers s)\<rparr>
        in case ws_params s' of
             None \<Rightarrow> s'
           | Some (url, network) \<Rightarrow> openWebSocket url network s'
      else s)"

section \<open>Listeners\<close>

definition hasListener :: "listener \<Rightarrow> wsState \<Rightarrow> bool" where
  "hasListener k s \<longleftrightarrow> k \<in> fst ` set (ws_listeners s)"

definition deleteListener :: "listener \<Rightarrow> wsState \<Rightarrow> wsState" where
  "deleteListener k s = s\<lparr>ws_listeners := filter (\<lambda>(k', _). k' \<noteq> k) (ws_listeners s)\<rparr>"

definition deliverTo :: "listener \<Rightarrow> delivery \<Rightarrow> wsState \<Rightarrow> wsState" where
  "deliverTo k d s = s\<lparr>ws_delivered := ws_delivered s @ [(k, d)]\<rparr>"

definition fetchReceipt :: "listener \<Rightarrow> string \<Rightarrow> bool \<Rightarrow> nat option \<Rightarrow> wsState \<Rightarrow> wsState" where
  "fetchReceipt k hash once latest s =
     s\<lparr>ws_fetches := ws_fetches s @ [\<lparr>rq_key = k, rq_hash = hash, rq_once = once, rq_latest = latest\<rparr>]\<rparr>"

fun callListener :: "nat option \<Rightarrow> listener \<times> blockListener \<Rightarrow> wsState \<Rightarrow> wsState" where
  "callListener block (k, Pass) s = (case block of Some b \<Rightarrow> deliverTo k (BlockNumber b) s | None \<Rightarrow> s)"
| "callListener block (k, PassOnce) s = (case block of Some b \<Rightarrow> deleteListener k (deliverTo k (BlockNumber b) s) | None \<Rightarrow> s)"
| "callListener block (k, PassReceipt hash) s = fetchReceipt k hash False block s"
| "callListener block (k, PassReceiptOnce hash) s = fetchReceipt k hash True block s"

definition addBlockListener :: "listener \<Rightarrow> blockListener \<Rightarrow> wsState \<Rightarrow> wsState" where
  "addBlockListener k l s =
     (if hasListener k s then s
      else
        let s' = s\<lparr>ws_listeners := ws_listeners s @ [(k, l)]\<rparr>
        in if length (ws_listeners s') = 1 then startBlockEvents s' else s')"

definition removeBlockListener :: "listener \<Rightarrow> wsState \<Rightarrow> wsState" where
  "removeBlockListener k s =
     (if hasListener k s then
        let s' = deleteListener k s
        in if ws_listeners s' = [] then stopBlockEvents s' else s'
      else s)"

text \<open>The event names: a transaction hash, blocks, or anything else, which goes to the base provider.\<close>

datatype eventName = TxHash string | Blocks | OtherEvent string

fun ws_on :: "eventName \<Rightarrow> listener \<Rightarrow> wsState \<Rightarrow> wsState" where
  "ws_on (TxHash hash) k s = addBlockListener k (PassReceipt hash) (callListener None (k, PassReceipt hash) s)"
| "ws_on Blocks k s = addBlockListener k Pass s"
| "ws_on (OtherEvent e) k s = callProvider (BaseOn e k) s"

fun ws_once :: "eventName \<Rightarrow> listener \<Rightarrow> wsState \<Rightarrow> wsState" where
  "ws_once (TxHash hash) k s = addBlockListener k (PassReceiptOnce hash) (callListener None (k, PassReceiptOnce hash) s)"
| "ws_once Blocks k s = addBlockListener k PassOnce s"
| "ws_once (OtherEvent e) k s = callProvider (BaseOnce e k) s"

fun ws_off :: "eventName \<Rightarrow> listener \<Rightarrow> wsState \<Rightarrow> wsState" where
  "ws_off (OtherEvent e) k s = callProvider (BaseOff e k) s"
| "ws_off _ k s = removeBlockListener k s"

definition onBlock :: "nat \<Rightarrow> wsState \<Rightarrow> wsState" where
  "onBlock blockNumber s = s\<lparr>ws_seenBlock := blockNumber, ws_scheduled := True\<rparr>"

text \<open>The timer of \<open>_onBlock\<close>: all listeners of the moment are called with the last block.\<close>

definition blocksFire :: "wsState \<Rightarrow> wsState" where
  "blocksFire s = fold (callListener (Some (ws_seenBlock s))) (ws_listeners s) (s\<lparr>ws_scheduled := False\<rparr>)"

text \<open>A fetched receipt (or none) arrives.\<close>

definition receiptArrives :: "nat \<Rightarrow> bool \<Rightarrow> wsState \<Rightarrow> wsState" where
  "receiptArrives i found s =
     (let f = ws_fetches s ! i;
          s' = s\<lparr>ws_fetches := take i (ws_fetches s) @ drop (Suc i) (ws_fetches s)\<rparr>
      in if found \<and> hasListener (rq_key f) s'
         then (if rq_once f then deleteListener (rq_key f) (deliverTo (rq_key f) (ReceiptOf (rq_hash f)) s')
               else deliverTo (rq_key f) (ReceiptOf (rq_hash f)) s')
         else s')"

section \<open>Requests\<close>

text \<open>An error of the node; \<open>None\<close> for an error that is not an object with a message.\<close>

definition isHeaderNotFoundError :: "string option \<Rightarrow> bool" where
  "isHeaderNotFoundError message \<longleftrightarrow>
     (case message of
        Some m \<Rightarrow> str_includes m ''header not found'' \<or>
          str_includes m ''request is not supported because your node is running with state pruning''
      | None \<Rightarrow> False)"

text \<open>\<open>_retrySeenBlock\<close>: the answer of an attempt and the block seen when it arrived.\<close>

partial_function (option) retrySeenBlock ::
    "(nat \<Rightarrow> (string option + 'a) \<times> nat) \<Rightarrow> nat \<Rightarrow> nat \<Rightarrow> (string option + 'a) option" where
  "retrySeenBlock attempt startingBlock n =
     (case attempt n of
        (Inr ret, _) \<Rightarrow> Some (Inr ret)
      | (Inl e, seen) \<Rightarrow>
          if seen \<noteq> startingBlock \<or> \<not> isHeaderNotFoundError e then Some (Inl e)
          else retrySeenBlock attempt startingBlock (Suc n))"

text \<open>\<open>call\<close> and \<open>getBalance\<close>; a block tag that is not a number is \<open>None\<close>.\<close>

definition callAtBlock :: "nat option \<Rightarrow> nat \<Rightarrow> (nat \<Rightarrow> (string option + 'a) \<times> nat) \<Rightarrow> (string option + 'a) option" where
  "callAtBlock blockTag seenBlock attempt =
     (if blockTag = Some seenBlock then retrySeenBlock attempt seenBlock 0 else Some (fst (attempt 0)))"

text \<open>The getters that go to the socket when it is ready.\<close>

definition viaWebSocket :: "bool \<Rightarrow> 'a \<Rightarrow> 'a \<Rightarrow> 'a" where
  "viaWebSocket isReady ws base = (if isReady then ws else base)"

text \<open>\<open>getTransaction\<close>: the answer that came first, and the answers of all providers.\<close>

definition ws_getTransaction :: "'t option \<Rightarrow> 't option list \<Rightarrow> 't option" where
  "ws_getTransaction first' txs =
     (case first' of
        Some tx \<Rightarrow> Some tx
      | None \<Rightarrow> (case find (\<lambda>tx. tx \<noteq> None) txs of Some tx \<Rightarrow> tx | None \<Rightarrow> None))"

record wsReceipt =
  wr_blockNumber :: nat
  wr_confirmations :: nat

text \<open>\<open>_blockContainsTx\<close>: the block may be missing for some attempts.\<close>

partial_function (option) blockContainsTx :: "(nat \<Rightarrow> string list option) \<Rightarrow> string \<Rightarrow> nat \<Rightarrow> bool option" where
  "blockContainsTx getBlock txHash n =
     (case getBlock n of
        None \<Rightarrow> blockContainsTx getBlock txHash (Suc n)
      | Some txs \<Rightarrow> Some (txHash \<in> set txs))"

text \<open>Whether \<open>_getTransactionReceiptFromLatest\<close> takes an answer; \<open>contains\<close> is asked only if there is no receipt.\<close>

definition upToDate :: "nat option \<Rightarrow> wsReceipt option \<Rightarrow> bool \<Rightarrow> bool" where
  "upToDate latestBlock receipt contains \<longleftrightarrow>
     (case latestBlock of
        None \<Rightarrow> True
      | Some latest \<Rightarrow>
          (case receipt of
             None \<Rightarrow> \<not> contains
           | Some r \<Rightarrow> int (wr_blockNumber r) + int (wr_confirmations r) - 1 \<ge> int latest))"

text \<open>An attempt is the node's receipt and whether the latest block contains the transaction; the result has the number of the
  attempt after the last one.\<close>

partial_function (option) getTransactionReceiptFromLatest ::
    "(nat \<Rightarrow> wsReceipt option \<times> bool) \<Rightarrow> nat option \<Rightarrow> nat \<Rightarrow> (wsReceipt option \<times> nat) option" where
  "getTransactionReceiptFromLatest attempt latestBlock n =
     (case attempt n of
        (receipt, contains) \<Rightarrow>
          if upToDate latestBlock receipt contains then Some (receipt, Suc n)
          else getTransactionReceiptFromLatest attempt latestBlock (Suc n))"

definition confirmedBy :: "nat option \<Rightarrow> wsReceipt option \<Rightarrow> bool" where
  "confirmedBy confirmations receipt \<longleftrightarrow>
     (case receipt of
        None \<Rightarrow> False
      | Some r \<Rightarrow> (case confirmations of None \<Rightarrow> True | Some c \<Rightarrow> wr_confirmations r \<ge> c))"

text \<open>\<open>waitForTransaction\<close> without a timeout: \<open>block k\<close> is the block that the \<open>k\<close>-th wait for one gives.\<close>

partial_function (option) waitForTransaction ::
    "(nat \<Rightarrow> wsReceipt option \<times> bool) \<Rightarrow> (nat \<Rightarrow> nat) \<Rightarrow> nat option \<Rightarrow> nat option \<Rightarrow> nat \<Rightarrow> nat \<Rightarrow> (wsReceipt \<times> nat) option" where
  "waitForTransaction attempt block confirmations latestBlock k n =
     Option.bind (getTransactionReceiptFromLatest attempt latestBlock n)
       (\<lambda>(receipt, n').
          if confirmedBy confirmations receipt then Some (the receipt, n')
          else waitForTransaction attempt block confirmations (Some (block k)) (Suc k) n')"

end
