(* ===== verification/WebSocketAugmented_Correct.thy ===== *)
theory WebSocketAugmented_Correct
  imports WebSocketAugmented
begin

text \<open>
  Requests that are repeated: what a loop returns and when; listeners that are called once; and what remains of
  block subscriptions and of a closed socket.
\<close>

section \<open>Repeated requests\<close>

definition decisive :: "(nat \<Rightarrow> (string option + 'a) \<times> nat) \<Rightarrow> nat \<Rightarrow> nat \<Rightarrow> bool" where
  "decisive attempt startingBlock n \<longleftrightarrow>
     (case attempt n of (Inr _, _) \<Rightarrow> True | (Inl e, seen) \<Rightarrow> seen \<noteq> startingBlock \<or> \<not> isHeaderNotFoundError e)"

lemma retrySeenBlock_step:
  "retrySeenBlock attempt b n = (if decisive attempt b n then Some (fst (attempt n)) else retrySeenBlock attempt b (Suc n))"
  by (subst retrySeenBlock.simps) (auto simp: decisive_def split: prod.splits sum.splits)

lemma retrySeenBlock_SomeD:
  assumes "retrySeenBlock attempt b n = Some r"
  shows "\<exists>k. first_from (decisive attempt b) n k \<and> r = fst (attempt k)"
proof (rule retrySeenBlock.raw_induct [OF _ assms])
  fix f attempt b n r
  assume IH: "\<And>attempt b n r. f attempt b n = Some r \<Longrightarrow> \<exists>k. first_from (decisive attempt b) n k \<and> r = fst (attempt k)"
    and body: "(case attempt n of (Inl e, seen) \<Rightarrow> if seen \<noteq> b \<or> \<not> isHeaderNotFoundError e then Some (Inl e) else f attempt b (Suc n)
      | (Inr ret, _) \<Rightarrow> Some (Inr ret)) = Some r"
  show "\<exists>k. first_from (decisive attempt b) n k \<and> r = fst (attempt k)"
  proof (cases "decisive attempt b n")
    case True
    with body have "r = fst (attempt n)" by (auto simp: decisive_def split: prod.splits sum.splits if_splits)
    with True show ?thesis by (auto simp: first_from_here)
  next
    case False
    with body have "f attempt b (Suc n) = Some r" by (auto simp: decisive_def split: prod.splits sum.splits if_splits)
    with IH False show ?thesis by (simp add: first_from_Suc)
  qed
qed

text \<open>A request at the block seen last is repeated while the node answers that it does not have the block and no newer block
  arrives: it returns just when some attempt is decisive, namely with the answer or the error of the first attempt that
  succeeds, fails with another error, or fails after a newer block was seen; a request for another block is made once.\<close>

theorem callAtBlock_outcome:
  "callAtBlock blockTag seen attempt = Some r \<longleftrightarrow>
     (if blockTag = Some seen then \<exists>k. first_from (decisive attempt seen) 0 k \<and> r = fst (attempt k) else r = fst (attempt 0))"
  using retrySeenBlock_SomeD [of attempt seen 0 r]
    loop_first [of "retrySeenBlock attempt seen" "decisive attempt seen" "\<lambda>n. fst (attempt n)" 0, OF retrySeenBlock_step]
  by (auto simp: callAtBlock_def)

text \<open>The receipt of a transaction.\<close>

definition answered :: "(nat \<Rightarrow> wsReceipt option \<times> bool) \<Rightarrow> nat option \<Rightarrow> nat \<Rightarrow> bool" where
  "answered attempt latest n \<longleftrightarrow> upToDate latest (fst (attempt n)) (snd (attempt n))"

lemma getReceipt_step:
  "getTransactionReceiptFromLatest attempt latest n =
     (if answered attempt latest n then Some (fst (attempt n), Suc n) else getTransactionReceiptFromLatest attempt latest (Suc n))"
  by (subst getTransactionReceiptFromLatest.simps) (auto simp: answered_def split: prod.splits)

lemma getReceipt_first:
  "first_from (answered attempt latest) n k \<Longrightarrow> getTransactionReceiptFromLatest attempt latest n = Some (fst (attempt k), Suc k)"
  using loop_first [of "getTransactionReceiptFromLatest attempt latest" "answered attempt latest" "\<lambda>n. (fst (attempt n), Suc n)",
      OF getReceipt_step] .

lemma getReceipt_SomeD:
  assumes "getTransactionReceiptFromLatest attempt latest n = Some r"
  shows "\<exists>k. first_from (answered attempt latest) n k \<and> r = (fst (attempt k), Suc k)"
proof (rule getTransactionReceiptFromLatest.raw_induct [OF _ assms])
  fix f attempt latest n r
  assume IH: "\<And>attempt latest n r. f attempt latest n = Some r \<Longrightarrow>
      \<exists>k. first_from (answered attempt latest) n k \<and> r = (fst (attempt k), Suc k)"
    and body: "(case attempt n of (receipt, contains) \<Rightarrow>
      if upToDate latest receipt contains then Some (receipt, Suc n) else f attempt latest (Suc n)) = Some r"
  show "\<exists>k. first_from (answered attempt latest) n k \<and> r = (fst (attempt k), Suc k)"
  proof (cases "answered attempt latest n")
    case True
    with body show ?thesis by (auto simp: answered_def first_from_here split: prod.splits)
  next
    case False
    with body have "f attempt latest (Suc n) = Some r" by (auto simp: answered_def split: prod.splits)
    with IH False show ?thesis by (simp add: first_from_Suc)
  qed
qed

text \<open>The receipt that \<open>waitForTransaction\<close> returns is one that the node gave, and has the confirmations asked for.\<close>

lemma waitForTransaction_sound:
  assumes "waitForTransaction attempt block confirmations latest k n = Some (r, m)"
  shows "n < m \<and> fst (attempt (m - 1)) = Some r \<and> confirmedBy confirmations (Some r)"
proof -
  have "n < snd x \<and> fst (attempt (snd x - 1)) = Some (fst x) \<and> confirmedBy confirmations (Some (fst x))"
    if "waitForTransaction attempt block confirmations latest k n = Some x" for x
  proof (rule waitForTransaction.raw_induct [OF _ that])
    fix f attempt block confirmations latest k n x
    assume IH: "\<And>attempt block confirmations latest k n x. f attempt block confirmations latest k n = Some x \<Longrightarrow>
        n < snd x \<and> fst (attempt (snd x - 1)) = Some (fst x) \<and> confirmedBy confirmations (Some (fst x))"
      and body: "Option.bind (getTransactionReceiptFromLatest attempt latest n)
        (\<lambda>(receipt, n'). if confirmedBy confirmations receipt then Some (the receipt, n')
          else f attempt block confirmations (Some (block k)) (Suc k) n') = Some x"
    then obtain receipt n' where g: "getTransactionReceiptFromLatest attempt latest n = Some (receipt, n')"
      by (cases "getTransactionReceiptFromLatest attempt latest n") auto
    from getReceipt_SomeD [OF this] have n': "n < n'" "receipt = fst (attempt (n' - 1))" by (auto simp: first_from_def)
    show "n < snd x \<and> fst (attempt (snd x - 1)) = Some (fst x) \<and> confirmedBy confirmations (Some (fst x))"
    proof (cases "confirmedBy confirmations receipt")
      case True
      with body g n' show ?thesis by (auto simp: confirmedBy_def split: option.splits)
    next
      case False
      with body g have "f attempt block confirmations (Some (block k)) (Suc k) n' = Some x" by simp
      from IH [OF this] n'(1) show ?thesis by auto
    qed
  qed
  from this [OF assms] show ?thesis by simp
qed

text \<open>From some attempt on the node knows the transaction with enough confirmations, at a head that is not older than the
  blocks waited for.\<close>

definition eventuallyConfirmed ::
    "(nat \<Rightarrow> wsReceipt option \<times> bool) \<Rightarrow> (nat \<Rightarrow> nat) \<Rightarrow> nat option \<Rightarrow> nat \<Rightarrow> bool" where
  "eventuallyConfirmed attempt block confirmations N \<longleftrightarrow>
     (\<forall>m \<ge> N. \<exists>r. fst (attempt m) = Some r \<and> confirmedBy confirmations (Some r) \<and>
        (\<forall>j \<le> m. block j < wr_blockNumber r + wr_confirmations r))"

lemma waitForTransaction_ends:
  assumes "eventuallyConfirmed attempt block confirmations N" and "k \<le> n" and "latest = None \<or> (\<exists>j < k. latest = Some (block j))"
  shows "\<exists>x. waitForTransaction attempt block confirmations latest k n = Some x"
  using assms(2,3)
proof (induction "N - n" arbitrary: k n latest rule: less_induct)
  case less
  have good: "answered attempt latest m \<and> confirmedBy confirmations (fst (attempt m))" if m: "N \<le> m" "n \<le> m" for m
  proof -
    obtain r where r: "fst (attempt m) = Some r" "confirmedBy confirmations (Some r)"
      "\<And>j. j \<le> m \<Longrightarrow> block j < wr_blockNumber r + wr_confirmations r"
      using assms(1) m(1) unfolding eventuallyConfirmed_def by meson
    have "answered attempt latest m"
    proof (cases latest)
      case (Some l)
      then obtain j where "j < k" "l = block j" using less.prems by auto
      then have "l < wr_blockNumber r + wr_confirmations r" using r(3) [of j] less.prems(1) m(2) by simp
      then show ?thesis using r(1) Some by (auto simp: answered_def upToDate_def)
    qed (simp add: answered_def upToDate_def)
    with r show ?thesis by simp
  qed
  obtain i where i: "i \<le> max N n" "first_from (answered attempt latest) n i"
    using first_from_ex [of "answered attempt latest" "max N n" n] good [of "max N n"] by auto
  note g = getReceipt_first [OF i(2)]
  have ni: "n \<le> i" using i(2) by (simp add: first_from_def)
  show ?case
  proof (cases "confirmedBy confirmations (fst (attempt i))")
    case True
    then show ?thesis by (subst waitForTransaction.simps) (simp add: g)
  next
    case False
    then have "i < N" using good ni not_le by blast
    then have "\<exists>x. waitForTransaction attempt block confirmations (Some (block k)) (Suc k) (Suc i) = Some x"
      using ni less.prems(1) by (intro less.hyps) auto
    with False show ?thesis by (subst waitForTransaction.simps) (simp add: g)
  qed
qed

text \<open>C39: \<open>waitForTransaction\<close> returns once the node has the transaction with enough confirmations, however many stale answers came
  before, and what it returns is a receipt of the node with these confirmations.\<close>

theorem waitForTransaction_returns:
  assumes "eventuallyConfirmed attempt block confirmations N"
  shows "\<exists>r m. waitForTransaction attempt block confirmations None 0 0 = Some (r, m) \<and> fst (attempt (m - 1)) = Some r \<and>
    confirmedBy confirmations (Some r)"
proof -
  obtain r m where w: "waitForTransaction attempt block confirmations None 0 0 = Some (r, m)"
    using waitForTransaction_ends [OF assms, of 0 0 None] by (auto simp: split_paired_Ex)
  with waitForTransaction_sound [OF w] show ?thesis by blast
qed

theorem waitForTransaction_returns_witness:
  "\<exists>r m. waitForTransaction (\<lambda>n. if n < 3 then (None, True) else (Some \<lparr>wr_blockNumber = 7, wr_confirmations = n\<rparr>, False)) (\<lambda>_. 7)
     (Some 5) None 0 0 = Some (r, m) \<and> 5 \<le> wr_confirmations r"
proof -
  let ?a = "\<lambda>n. if n < 3 then (None, True) else (Some \<lparr>wr_blockNumber = 7, wr_confirmations = n\<rparr>, False)"
  have "eventuallyConfirmed ?a (\<lambda>_. 7) (Some 5) 5"
    by (simp add: eventuallyConfirmed_def confirmedBy_def)
  from waitForTransaction_returns [OF this] show ?thesis by (auto simp: confirmedBy_def)
qed

section \<open>Listeners that are called once\<close>

datatype wsOp =
    Op_on eventName listener | Op_once eventName listener | Op_off eventName listener
  | Op_block nat | Op_fire | Op_receipt nat bool | Op_open string string | Op_close | Op_closed | Op_reconnect nat

fun wsDo :: "wsOp \<Rightarrow> wsState \<Rightarrow> wsState" where
  "wsDo (Op_on e k) s = ws_on e k s"
| "wsDo (Op_once e k) s = ws_once e k s"
| "wsDo (Op_off e k) s = ws_off e k s"
| "wsDo (Op_block b) s = onBlock b s"
| "wsDo Op_fire s = (if ws_scheduled s then blocksFire s else s)"
| "wsDo (Op_receipt i found) s = (if i < length (ws_fetches s) then receiptArrives i found s else s)"
| "wsDo (Op_open url network) s = openWebSocket url network s"
| "wsDo Op_close s = closeWebSocket s"
| "wsDo Op_closed s = onWebSocketClose s"
| "wsDo (Op_reconnect t) s = reconnectFires t s"

definition wsRun :: "wsOp list \<Rightarrow> wsState" where
  "wsRun ops = fold wsDo ops newWebSocketAugmented"

definition deliveries :: "listener \<Rightarrow> wsState \<Rightarrow> nat" where
  "deliveries k s = length (filter (\<lambda>d. fst d = k) (ws_delivered s))"

definition onceOf :: "listener \<Rightarrow> wsOp list \<Rightarrow> nat" where
  "onceOf k ops = length (filter (\<lambda>op. case op of Op_once _ k' \<Rightarrow> k' = k | _ \<Rightarrow> False) ops)"

definition onceListener :: "blockListener \<Rightarrow> bool" where
  "onceListener l \<longleftrightarrow> (case l of PassOnce \<Rightarrow> True | PassReceiptOnce _ \<Rightarrow> True | _ \<Rightarrow> False)"

text \<open>The listener \<open>k\<close> was registered by \<open>once\<close> only, at most \<open>n\<close> times.\<close>

definition onceInv :: "listener \<Rightarrow> nat \<Rightarrow> wsState \<Rightarrow> bool" where
  "onceInv k n s \<longleftrightarrow>
     distinct (map fst (ws_listeners s)) \<and> (\<forall>l. (k, l) \<in> set (ws_listeners s) \<longrightarrow> onceListener l) \<and>
     (\<forall>f \<in> set (ws_fetches s). rq_key f = k \<longrightarrow> rq_once f) \<and>
     deliveries k s + (if hasListener k s then 1 else 0) \<le> n"

lemma onceInv_cong:
  "ws_listeners s = ws_listeners s' \<Longrightarrow> ws_fetches s = ws_fetches s' \<Longrightarrow> ws_delivered s = ws_delivered s' \<Longrightarrow> onceInv k n s = onceInv k n s'"
  by (simp add: onceInv_def deliveries_def hasListener_def)

lemma callProvider_fields [simp]:
  "ws_listeners (callProvider c s) = ws_listeners s" "ws_fetches (callProvider c s) = ws_fetches s"
  "ws_delivered (callProvider c s) = ws_delivered s" "ws_timers (callProvider c s) = ws_timers s"
  "ws_current (callProvider c s) = ws_current s" "ws_params (callProvider c s) = ws_params s"
  "ws_reconnect (callProvider c s) = ws_reconnect s" "ws_timersSet (callProvider c s) = ws_timersSet s"
  by (simp_all add: callProvider_def)

lemma events_fields [simp]:
  "ws_listeners (startBlockEvents s) = ws_listeners s" "ws_fetches (startBlockEvents s) = ws_fetches s"
  "ws_delivered (startBlockEvents s) = ws_delivered s" "ws_listeners (stopBlockEvents s) = ws_listeners s"
  "ws_fetches (stopBlockEvents s) = ws_fetches s" "ws_delivered (stopBlockEvents s) = ws_delivered s"
  by (simp_all add: startBlockEvents_def stopBlockEvents_def)

lemma socket_fields [simp]:
  "ws_listeners (switchover s) = ws_listeners s" "ws_fetches (switchover s) = ws_fetches s"
  "ws_delivered (switchover s) = ws_delivered s" "ws_listeners (openWebSocket u w s) = ws_listeners s"
  "ws_fetches (openWebSocket u w s) = ws_fetches s" "ws_delivered (openWebSocket u w s) = ws_delivered s"
  "ws_listeners (closeWebSocket s) = ws_listeners s" "ws_fetches (closeWebSocket s) = ws_fetches s"
  "ws_delivered (closeWebSocket s) = ws_delivered s" "ws_listeners (onWebSocketClose s) = ws_listeners s"
  "ws_fetches (onWebSocketClose s) = ws_fetches s" "ws_delivered (onWebSocketClose s) = ws_delivered s"
  "ws_listeners (reconnectFires t s) = ws_listeners s" "ws_fetches (reconnectFires t s) = ws_fetches s"
  "ws_delivered (reconnectFires t s) = ws_delivered s"
  by (simp_all add: switchover_def openWebSocket_def closeWebSocket_def clearReconnect_def onWebSocketClose_def reconnectFires_def
      Let_def split: option.splits)

lemma onceInv_calls [simp]:
  "onceInv k n (callProvider c s) = onceInv k n s" "onceInv k n (startBlockEvents s) = onceInv k n s"
  "onceInv k n (stopBlockEvents s) = onceInv k n s" "onceInv k n (openWebSocket u w s) = onceInv k n s"
  "onceInv k n (closeWebSocket s) = onceInv k n s" "onceInv k n (onWebSocketClose s) = onceInv k n s"
  "onceInv k n (reconnectFires t s) = onceInv k n s" "onceInv k n (onBlock b s) = onceInv k n s"
  "onceInv k n (s\<lparr>ws_scheduled := x\<rparr>) = onceInv k n s"
  by (rule onceInv_cong; simp add: onBlock_def)+

lemma hasListener_iff: "hasListener k s \<longleftrightarrow> (\<exists>l. (k, l) \<in> set (ws_listeners s))"
  by (force simp: hasListener_def)

lemma onceInv_deleteListener: "onceInv k n s \<Longrightarrow> onceInv k n (deleteListener k' s)"
  unfolding onceInv_def deleteListener_def hasListener_def deliveries_def
  by (auto simp: distinct_map_filter image_iff split: if_splits)

lemma onceInv_deliver_other: "onceInv k n s \<Longrightarrow> k' \<noteq> k \<Longrightarrow> onceInv k n (deliverTo k' d s)"
  by (simp add: onceInv_def deliverTo_def hasListener_def deliveries_def)

lemma onceInv_deliver_delete:
  assumes "onceInv k n s" and "hasListener k s"
  shows "onceInv k n (deleteListener k (deliverTo k d s))"
  using assms unfolding onceInv_def deleteListener_def deliverTo_def hasListener_def deliveries_def
  by (auto simp: distinct_map_filter image_iff)

lemma onceInv_fetch: "onceInv k n s \<Longrightarrow> k' = k \<longrightarrow> once \<Longrightarrow> onceInv k n (fetchReceipt k' hash once b s)"
  by (auto simp: onceInv_def fetchReceipt_def hasListener_def deliveries_def)

lemma onceInv_add:
  assumes "onceInv k n s" and "k' = k \<longrightarrow> onceListener l"
  shows "onceInv k (n + (if k' = k then 1 else 0)) (addBlockListener k' l s)"
proof (cases "hasListener k' s")
  case True
  with assms(1) show ?thesis by (auto simp: addBlockListener_def onceInv_def)
next
  case False
  then have "onceInv k (n + (if k' = k then 1 else 0)) (s\<lparr>ws_listeners := ws_listeners s @ [(k', l)]\<rparr>)"
    using assms unfolding onceInv_def hasListener_def deliveries_def by auto
  with False show ?thesis unfolding addBlockListener_def Let_def by (simp del: length_append)
qed

lemma onceInv_remove: "onceInv k n s \<Longrightarrow> onceInv k n (removeBlockListener k' s)"
  by (simp add: removeBlockListener_def Let_def onceInv_deleteListener)

lemma hasListener_call_other:
  assumes "k' \<noteq> k"
  shows "hasListener k (callListener b (k', l) s) = hasListener k s"
  using assms by (cases l) (auto simp: hasListener_iff deliverTo_def deleteListener_def fetchReceipt_def split: option.splits)

lemma onceInv_call:
  assumes "onceInv k n s" and "k' = k \<longrightarrow> onceListener l \<and> hasListener k s"
  shows "onceInv k n (callListener b (k', l) s)"
  using assms onceInv_deliver_delete [of k n s] onceInv_deliver_other [of k n s] onceInv_deleteListener onceInv_fetch [of k n s]
  by (cases l; cases "k' = k") (auto simp: onceListener_def split: option.splits)

lemma onceInv_fold:
  assumes "onceInv k n s" and "distinct (map fst ls)" and "\<And>l. (k, l) \<in> set ls \<Longrightarrow> onceListener l \<and> hasListener k s"
  shows "onceInv k n (fold (callListener b) ls s)"
  using assms
proof (induction ls arbitrary: s)
  case (Cons x ls)
  obtain k' l where x: "x = (k', l)" by fastforce
  have "onceInv k n (callListener b (k', l) s)" using Cons.prems x by (intro onceInv_call) auto
  moreover have "onceListener l' \<and> hasListener k (callListener b (k', l) s)" if "(k, l') \<in> set ls" for l'
    using that Cons.prems x hasListener_call_other [of k' k b l s] by (force simp: image_iff)
  ultimately show ?case using Cons.IH [of "callListener b (k', l) s"] Cons.prems(2) x by auto
qed simp

lemma onceInv_fire:
  assumes "onceInv k n s"
  shows "onceInv k n (blocksFire s)"
  unfolding blocksFire_def
proof (rule onceInv_fold)
  show "onceInv k n (s\<lparr>ws_scheduled := False\<rparr>)" using assms by simp
  show "distinct (map fst (ws_listeners s))" using assms by (simp add: onceInv_def)
  show "onceListener l \<and> hasListener k (s\<lparr>ws_scheduled := False\<rparr>)" if "(k, l) \<in> set (ws_listeners s)" for l
    using that assms by (auto simp: onceInv_def hasListener_iff)
qed

lemma onceInv_receipt:
  assumes "onceInv k n s" and "i < length (ws_fetches s)"
  shows "onceInv k n (receiptArrives i found s)"
proof -
  let ?s = "s\<lparr>ws_fetches := take i (ws_fetches s) @ drop (Suc i) (ws_fetches s)\<rparr>" and ?f = "ws_fetches s ! i"
  have s': "onceInv k n ?s"
    using assms(1) by (auto simp: onceInv_def hasListener_def deliveries_def dest: in_set_takeD in_set_dropD)
  have "rq_key ?f = k \<longrightarrow> rq_once ?f" using assms by (simp add: onceInv_def)
  then show ?thesis
    using s' onceInv_deliver_delete [OF s'] onceInv_deliver_other [OF s'] onceInv_deleteListener
    by (cases "rq_key ?f = k") (auto simp: receiptArrives_def Let_def)
qed

lemma onceInv_step:
  assumes inv: "onceInv k n s" and "\<And>e. op \<noteq> Op_on e k"
  shows "onceInv k (n + onceOf k [op]) (wsDo op s)"
proof (cases op)
  case (Op_on e k')
  with assms have k: "k' \<noteq> k" by blast
  show ?thesis
  proof (cases e)
    case (TxHash hash)
    have "onceInv k n (addBlockListener k' (PassReceipt hash) (fetchReceipt k' hash False None s))"
      using onceInv_add [OF onceInv_fetch [OF inv], of k' False k' "PassReceipt hash" hash None] k by simp
    with Op_on TxHash show ?thesis by (simp add: onceOf_def)
  qed (use Op_on onceInv_add [OF inv, of k' Pass] k inv in \<open>simp_all add: onceOf_def\<close>)
next
  case (Op_once e k')
  have n: "onceOf k [op] = (if k' = k then 1 else 0)" using Op_once by (simp add: onceOf_def)
  show ?thesis
  proof (cases e)
    case (TxHash hash)
    with Op_once n show ?thesis
      using onceInv_add [OF onceInv_fetch [OF inv, of k' True hash None], of k' "PassReceiptOnce hash"] by (simp add: onceListener_def)
  next
    case Blocks
    with Op_once n show ?thesis using onceInv_add [OF inv, of k' PassOnce] by (simp add: onceListener_def)
  next
    case (OtherEvent x)
    have "onceInv k (n + onceOf k [op]) s" using inv by (simp add: onceInv_def)
    with Op_once OtherEvent show ?thesis by simp
  qed
next
  case (Op_off e k')
  with inv show ?thesis by (cases e) (simp_all add: onceOf_def onceInv_remove)
qed (use inv in \<open>simp_all add: onceOf_def onceInv_fire onceInv_receipt\<close>)

text \<open>C36: A listener that is only registered by \<open>once\<close> is called at most once per registration, in every sequence of
  registrations, removals, blocks, answers and reconnections.\<close>

theorem once_at_most_once:
  assumes "\<forall>e. Op_on e k \<notin> set ops"
  shows "deliveries k (wsRun ops) \<le> onceOf k ops"
proof -
  have "onceInv k (onceOf k ops) (fold wsDo ops newWebSocketAugmented)"
    using assms
  proof (induction ops rule: rev_induct)
    case Nil
    show ?case by (simp add: onceInv_def newWebSocketAugmented_def deliveries_def hasListener_def onceOf_def)
  next
    case (snoc op ops)
    then have "onceInv k (onceOf k ops + onceOf k [op]) (wsDo op (fold wsDo ops newWebSocketAugmented))"
      by (intro onceInv_step) auto
    then show ?case by (simp add: onceOf_def)
  qed
  then show ?thesis by (simp add: onceInv_def wsRun_def)
qed

theorem once_at_most_once_witness:
  "deliveries 3 (wsRun [Op_once Blocks 3, Op_block 7, Op_fire, Op_block 8, Op_fire]) \<le> 1 \<and>
   deliveries 3 (wsRun [Op_once Blocks 3, Op_block 7, Op_fire]) = 1"
  using once_at_most_once [of 3 "[Op_once Blocks 3, Op_block 7, Op_fire, Op_block 8, Op_fire]"]
  by (simp add: onceOf_def wsRun_def newWebSocketAugmented_def addBlockListener_def hasListener_def startBlockEvents_def callProvider_def
      onBlock_def blocksFire_def deleteListener_def deliverTo_def deliveries_def)
section \<open>Two places where a resource is kept\<close>

text \<open>\<open>closeWebSocket\<close> cancels the reconnection only while a socket is open, and there is none while the timer runs: closing
  after a lost connection changes nothing, and the timer opens a socket again.\<close>

lemma onWebSocketClose_current [simp]: "ws_current (onWebSocketClose s) = None"
  by (simp add: onWebSocketClose_def closeWebSocket_def clearReconnect_def switchover_def startBlockEvents_def Let_def split: option.splits)

lemma onWebSocketClose_timer: "ws_timersSet s \<in> set (ws_timers (onWebSocketClose s))"
  by (simp add: onWebSocketClose_def closeWebSocket_def clearReconnect_def switchover_def startBlockEvents_def Let_def split: option.splits)

lemma ws_params_closed [simp]: "ws_params (onWebSocketClose s) = ws_params s"
  by (simp add: onWebSocketClose_def closeWebSocket_def clearReconnect_def switchover_def startBlockEvents_def callProvider_def Let_def
      split: option.splits)

lemma openWebSocket_current: "ws_current (openWebSocket url network s) = Some (ws_created s)"
  by (simp add: openWebSocket_def switchover_def startBlockEvents_def Let_def)

theorem close_does_not_cancel_reconnect:
  assumes "ws_params s = Some p"
  shows "closeWebSocket (onWebSocketClose s) = onWebSocketClose s \<and>
         ws_current (reconnectFires (ws_timersSet s) (closeWebSocket (onWebSocketClose s))) \<noteq> None"
proof -
  have "closeWebSocket (onWebSocketClose s) = onWebSocketClose s" by (simp add: closeWebSocket_def)
  with assms onWebSocketClose_timer [of s] show ?thesis
    by (cases p) (simp add: reconnectFires_def Let_def openWebSocket_current)
qed

text \<open>A listener that removes itself does not stop the block events: every round of \<open>once\<close> and its block subscribes the provider
  once more and never unsubscribes it.\<close>

definition onceRound :: "wsState \<Rightarrow> wsState" where
  "onceRound s = blocksFire (onBlock 1 (ws_once Blocks 0 s))"

theorem once_subscriptions_leak:
  "ws_calls ((onceRound ^^ n) newWebSocketAugmented) = replicate n BaseOnBlock \<and>
   ws_listeners ((onceRound ^^ n) newWebSocketAugmented) = [] \<and> ws_current ((onceRound ^^ n) newWebSocketAugmented) = None"
proof (induction n)
  case 0
  show ?case by (simp add: newWebSocketAugmented_def)
next
  case (Suc n)
  then show ?case
    by (simp add: onceRound_def addBlockListener_def hasListener_def startBlockEvents_def callProvider_def onBlock_def blocksFire_def
        deleteListener_def deliverTo_def replicate_append_same)
qed

end
