(* ===== verification/ObservableEthers.thy ===== *)
theory ObservableEthers
  imports ReadableEthers
begin

text \<open>
  \<open>packages/lib-ethers/src/ObservableEthersLiquity.ts\<close>: watching a value of the chain.  A watch subscribes to events of the
  contracts, collects bursts of them with a timer of 50 milliseconds (\<open>debounce\<close>), then reads the value at the newest
  block that it heard of and passes it to the caller.

  The filters are the objects that the contracts build; a contract calls the listeners of a filter with
  the event, which is the operation \<open>eventArrives\<close>.  Reads are promises of the readable, and settle in any order.
\<close>

section \<open>Watches\<close>

datatype eventFilter =
    ActivePool_CollateralSent
  | TroveManager_TroveUpdated "string option"
  | BorrowerOperations_TroveUpdated "string option"
  | StabilityPool_UserDepositChanged "string option"
  | ThusdToken_Transfer "string option" "string option"

text \<open>The listener that a watch puts on a filter: the debounced one, or one that first compares the receiver
  of the collateral.\<close>

datatype eventListener = Debounced | IfSentTo string

record 'v watch =
  subscriptions :: "(eventFilter \<times> eventListener) list"
  readAt :: "nat \<Rightarrow> 'v res"

definition watchTotalRedistributed :: "connection \<Rightarrow> string \<Rightarrow> trove watch" where
  "watchTotalRedistributed conn defaultPool =
     \<lparr>subscriptions = [(ActivePool_CollateralSent, IfSentTo defaultPool)],
      readAt = (\<lambda>blockTag. getTotalRedistributed conn (Some blockTag))\<rparr>"

definition watchTroveWithoutRewards :: "connection \<Rightarrow> string option \<Rightarrow> troveWithPendingRedistribution watch res" where
  "watchTroveWithoutRewards conn address =
     bindR (addressOr conn address) (\<lambda>a. Inr
       \<lparr>subscriptions = [(TroveManager_TroveUpdated (Some a), Debounced), (BorrowerOperations_TroveUpdated (Some a), Debounced)],
        readAt = (\<lambda>blockTag. getTroveBeforeRedistribution conn (Some a) (Some blockTag))\<rparr>)"

definition watchNumberOfTroves :: "connection \<Rightarrow> nat watch" where
  "watchNumberOfTroves conn =
     \<lparr>subscriptions = [(TroveManager_TroveUpdated None, Debounced)], readAt = (\<lambda>blockTag. getNumberOfTroves conn (Some blockTag))\<rparr>"

definition watchPrice :: "decimal watch res" where
  "watchPrice = Inl (Error ''Method not implemented.'')"

definition watchTotal :: "connection \<Rightarrow> trove watch" where
  "watchTotal conn =
     \<lparr>subscriptions = [(TroveManager_TroveUpdated None, Debounced)], readAt = (\<lambda>blockTag. getTotal conn (Some blockTag))\<rparr>"

definition watchStabilityDeposit :: "connection \<Rightarrow> string option \<Rightarrow> stabilityDeposit watch res" where
  "watchStabilityDeposit conn address =
     bindR (addressOr conn address) (\<lambda>a. Inr
       \<lparr>subscriptions =
          [(StabilityPool_UserDepositChanged (Some a), Debounced),
           (ActivePool_CollateralSent, IfSentTo (stabilityPool_address (chain_of conn)))],
        readAt = (\<lambda>blockTag. getStabilityDeposit conn (Some a) (Some blockTag))\<rparr>)"

definition watchTHUSDInStabilityPool :: "connection \<Rightarrow> decimal watch" where
  "watchTHUSDInStabilityPool conn =
     (let pool = stabilityPool_address (chain_of conn)
      in \<lparr>subscriptions = map (\<lambda>f. (f, Debounced)) [ThusdToken_Transfer (Some pool) None, ThusdToken_Transfer None (Some pool)],
          readAt = (\<lambda>blockTag. getTHUSDInStabilityPool conn (Some blockTag))\<rparr>)"

definition watchTHUSDBalance :: "connection \<Rightarrow> string option \<Rightarrow> decimal watch res" where
  "watchTHUSDBalance conn address =
     bindR (addressOr conn address) (\<lambda>a. Inr
       \<lparr>subscriptions = map (\<lambda>f. (f, Debounced)) [ThusdToken_Transfer (Some a) None, ThusdToken_Transfer None (Some a)],
        readAt = (\<lambda>blockTag. getTHUSDBalance conn (Some a) (Some blockTag))\<rparr>)"

section \<open>A watch at work\<close>

text \<open>\<open>ob_timer\<close> and \<open>ob_latestBlock\<close> are the variables of \<open>debounce\<close> (there is at most one timer, since the pending one
  is cleared first), \<open>ob_calls\<close> the block tags of all reads that were asked of the readable, \<open>ob_reads\<close> those that wait for their
  answer, and \<open>ob_notified\<close> the values passed to the caller.\<close>

record 'v observer =
  ob_subscriptions :: "(eventFilter \<times> eventListener) list"
  ob_timer :: bool
  ob_latestBlock :: nat
  ob_calls :: "nat list"
  ob_reads :: "nat list"
  ob_notified :: "'v list"

definition startWatch :: "'v watch \<Rightarrow> 'v observer" where
  "startWatch w =
     \<lparr>ob_subscriptions = subscriptions w, ob_timer = False, ob_latestBlock = 0, ob_calls = [], ob_reads = [], ob_notified = []\<rparr>"

definition debounce :: "nat option \<Rightarrow> 'v observer \<Rightarrow> 'v observer" where
  "debounce blockNumber ob =
     (case blockNumber of
        Some b \<Rightarrow> if b > ob_latestBlock ob then ob\<lparr>ob_latestBlock := b\<rparr> else ob
      | None \<Rightarrow> ob)\<lparr>ob_timer := True\<rparr>"

text \<open>The first argument of a \<open>CollateralSent\<close> event is the receiver; the others are not read.\<close>

fun listenerAccepts :: "eventListener \<Rightarrow> string \<Rightarrow> bool" where
  "listenerAccepts Debounced _ = True"
| "listenerAccepts (IfSentTo a) toAddress = (toAddress = a)"

definition eventArrives :: "eventFilter \<Rightarrow> string \<Rightarrow> nat option \<Rightarrow> 'v observer \<Rightarrow> 'v observer" where
  "eventArrives f toAddress blockNumber ob =
     fold (\<lambda>(f', l) ob. if f' = f \<and> listenerAccepts l toAddress then debounce blockNumber ob else ob) (ob_subscriptions ob) ob"

definition debounceFires :: "'v observer \<Rightarrow> 'v observer" where
  "debounceFires ob =
     (if ob_timer ob then
        ob\<lparr>ob_timer := False, ob_calls := ob_calls ob @ [ob_latestBlock ob], ob_reads := ob_reads ob @ [ob_latestBlock ob]\<rparr>
      else ob)"

text \<open>The \<open>i\<close>-th read in flight settles; nothing handles a rejection.\<close>

definition readSettles :: "'v watch \<Rightarrow> nat \<Rightarrow> 'v observer \<Rightarrow> 'v observer" where
  "readSettles w i ob =
     (if i < length (ob_reads ob) then
        let ob' = ob\<lparr>ob_reads := take i (ob_reads ob) @ drop (Suc i) (ob_reads ob)\<rparr>
        in case readAt w (ob_reads ob ! i) of
             Inl _ \<Rightarrow> ob'
           | Inr v \<Rightarrow> ob'\<lparr>ob_notified := ob_notified ob' @ [v]\<rparr>
      else ob)"

definition unwatch :: "'v observer \<Rightarrow> 'v observer" where
  "unwatch ob = ob\<lparr>ob_subscriptions := []\<rparr>"

end
