(* ===== verification/ObservableEthers_Correct.thy ===== *)
theory ObservableEthers_Correct
  imports ObservableEthers ReadableEthers_Correct
begin

text \<open>
  What a watch promises: it reads only at the newest block of the events it heard, it reads at most once per
  event, it never misses the last event, and with answers in order the last value that the caller gets is that of
  the newest block.
\<close>

section \<open>Runs of a watch\<close>

datatype watchOp =
    Op_event eventFilter string "nat option"
  | Op_timer
  | Op_settle nat
  | Op_unwatch

fun watchDo :: "'v watch \<Rightarrow> watchOp \<Rightarrow> 'v observer \<Rightarrow> 'v observer" where
  "watchDo w (Op_event f toAddress b) ob = eventArrives f toAddress b ob"
| "watchDo w Op_timer ob = debounceFires ob"
| "watchDo w (Op_settle i) ob = readSettles w i ob"
| "watchDo w Op_unwatch ob = unwatch ob"

definition watchRun :: "'v watch \<Rightarrow> watchOp list \<Rightarrow> 'v observer" where
  "watchRun w ops = fold (watchDo w) ops (startWatch w)"

text \<open>The blocks of the events that a watch with the given subscriptions hears; an event without a block counts as block 0.\<close>

definition hears :: "(eventFilter \<times> eventListener) list \<Rightarrow> eventFilter \<Rightarrow> string \<Rightarrow> bool" where
  "hears subs f toAddress \<longleftrightarrow> (\<exists>(f', l) \<in> set subs. f' = f \<and> listenerAccepts l toAddress)"

fun heard :: "(eventFilter \<times> eventListener) list \<Rightarrow> watchOp list \<Rightarrow> nat list" where
  "heard subs [] = []"
| "heard subs (Op_event f toAddress b # ops) =
     (if hears subs f toAddress then [case b of Some n \<Rightarrow> n | None \<Rightarrow> 0] else []) @ heard subs ops"
| "heard subs (Op_unwatch # ops) = heard [] ops"
| "heard subs (_ # ops) = heard subs ops"

definition newest :: "nat list \<Rightarrow> nat" where
  "newest bs = fold max bs 0"

lemma newest_snoc: "newest (bs @ [b]) = max b (newest bs)"
  by (simp add: newest_def)

lemma newest_ge: "b \<in> set bs \<Longrightarrow> b \<le> newest bs"
  by (induction bs rule: rev_induct) (auto simp: newest_snoc)

lemma newest_in: "bs \<noteq> [] \<Longrightarrow> newest bs \<in> set bs"
proof (induction bs rule: rev_induct)
  case (snoc b bs)
  then show ?case by (cases "bs = []") (auto simp: newest_snoc max_def, simp add: newest_def)
qed simp

section \<open>One event\<close>

lemma debounce_def':
  "debounce b ob = ob\<lparr>ob_latestBlock := max (ob_latestBlock ob) (case b of Some n \<Rightarrow> n | None \<Rightarrow> 0), ob_timer := True\<rparr>"
  by (simp add: debounce_def split: option.split)

lemma debounce_idem: "debounce b (debounce b ob) = debounce b ob"
  by (simp add: debounce_def')

lemma fold_debounce:
  "fold (\<lambda>(f', l) ob. if f' = f \<and> listenerAccepts l to then debounce b ob else ob) subs ob =
   (if hears subs f to then debounce b ob else ob)"
proof (induction subs arbitrary: ob)
  case (Cons s subs)
  then show ?case by (cases s) (auto simp: hears_def debounce_idem)
qed (simp add: hears_def)

lemma eventArrives_hears:
  "eventArrives f to b ob = (if hears (ob_subscriptions ob) f to then debounce b ob else ob)"
  unfolding eventArrives_def by (rule fold_debounce)

section \<open>The invariant\<close>

lemma subscriptions_kept [simp]:
  "ob_subscriptions (debounce b ob) = ob_subscriptions ob"
  "ob_subscriptions (debounceFires ob) = ob_subscriptions ob"
  "ob_subscriptions (readSettles w i ob) = ob_subscriptions ob"
  by (simp_all add: debounce_def' debounceFires_def readSettles_def Let_def split: sum.split)

lemma readSettles_kept [simp]:
  "ob_latestBlock (readSettles w i ob) = ob_latestBlock ob"
  "ob_calls (readSettles w i ob) = ob_calls ob"
  "ob_timer (readSettles w i ob) = ob_timer ob"
  by (simp_all add: readSettles_def Let_def split: sum.split)

text \<open>After the events with blocks \<open>bs\<close>.\<close>

definition watchInv :: "nat list \<Rightarrow> 'v observer \<Rightarrow> bool" where
  "watchInv bs ob \<longleftrightarrow>
     ob_latestBlock ob = newest bs \<and>
     sorted (ob_calls ob) \<and> (\<forall>b \<in> set (ob_calls ob). b \<le> newest bs) \<and>
     length (ob_calls ob) + (if ob_timer ob then 1 else 0) \<le> length bs \<and>
     (\<not> ob_timer ob \<longrightarrow> bs \<noteq> [] \<longrightarrow> ob_calls ob \<noteq> [] \<and> last (ob_calls ob) = newest bs)"

lemma watchInv_debounce:
  assumes "watchInv bs ob"
  shows "watchInv (bs @ [case b of Some n \<Rightarrow> n | None \<Rightarrow> 0]) (debounce b ob)"
  using assms by (auto simp: watchInv_def debounce_def' newest_snoc max.commute le_max_iff_disj split: if_splits)

lemma watchInv_fires: "watchInv bs ob \<Longrightarrow> watchInv bs (debounceFires ob)"
  by (auto simp: watchInv_def debounceFires_def sorted_append)

lemma watchInv_settles: "watchInv bs ob \<Longrightarrow> watchInv bs (readSettles w i ob)"
  by (simp add: watchInv_def)

lemma watchInv_unwatch: "watchInv bs ob \<Longrightarrow> watchInv bs (unwatch ob)"
  by (simp add: watchInv_def unwatch_def)

lemma watchInv_run:
  assumes "watchInv bs ob"
  shows "watchInv (bs @ heard (ob_subscriptions ob) ops) (fold (watchDo w) ops ob)"
  using assms
proof (induction ops arbitrary: bs ob)
  case (Cons op ops)
  show ?case
  proof (cases op)
    case (Op_event f to b)
    show ?thesis
    proof (cases "hears (ob_subscriptions ob) f to")
      case True
      with Op_event Cons.IH [OF watchInv_debounce [OF Cons.prems, of b]] show ?thesis
        by (simp add: eventArrives_hears)
    next
      case False
      with Op_event Cons show ?thesis by (simp add: eventArrives_hears)
    qed
  next
    case Op_timer
    then show ?thesis using Cons.IH [OF watchInv_fires [OF Cons.prems]] by simp
  next
    case (Op_settle i)
    then show ?thesis using Cons.IH [OF watchInv_settles [OF Cons.prems, of w i]] by simp
  next
    case Op_unwatch
    then show ?thesis using Cons.IH [OF watchInv_unwatch [OF Cons.prems]] by (simp add: unwatch_def)
  qed
qed simp

lemma watchInv_start: "watchInv [] (startWatch w)"
  by (simp add: watchInv_def startWatch_def newest_def)

lemma watchRun_inv: "watchInv (heard (subscriptions w) ops) (watchRun w ops)"
  using watchInv_run [OF watchInv_start, of w ops] by (simp add: watchRun_def startWatch_def)

text \<open>A watch reads at blocks that never decrease, at most once per event it heard, and once its timer has fired the last read
  is at the newest block of all events it heard.\<close>

theorem watch_reads_newest:
  assumes "\<not> ob_timer (watchRun w ops)" and "b \<in> set (heard (subscriptions w) ops)"
  shows "sorted (ob_calls (watchRun w ops)) \<and>
         length (ob_calls (watchRun w ops)) \<le> length (heard (subscriptions w) ops) \<and>
         b \<le> last (ob_calls (watchRun w ops)) \<and> last (ob_calls (watchRun w ops)) \<in> set (heard (subscriptions w) ops)"
proof -
  let ?bs = "heard (subscriptions w) ops"
  have ne: "?bs \<noteq> []" using assms(2) by auto
  from watchRun_inv [of w ops] assms(1) ne show ?thesis
    using newest_ge [OF assms(2)] newest_in [OF ne] by (simp add: watchInv_def)
qed

text \<open>A chain whose stability pool has as many wei as the number of the block.\<close>

definition growing_watch :: "decimal watch" where
  "growing_watch =
     watchTHUSDInStabilityPool \<lparr>chain_of = empty_chain\<lparr>getTotalTHUSDDeposits := (\<lambda>tag. Inr (the tag))\<rparr>, userAddress = None\<rparr>"

definition growing_ops :: "watchOp list" where
  "growing_ops =
     [Op_event (ThusdToken_Transfer None (Some ''0xS'')) [] (Some 8), Op_event (ThusdToken_Transfer (Some ''0xS'') None) [] (Some 7),
      Op_event (ThusdToken_Transfer None None) [] (Some 9), Op_timer, Op_settle 0]"

lemma growing_watch_sel [simp]:
  "subscriptions growing_watch = [(ThusdToken_Transfer (Some ''0xS'') None, Debounced), (ThusdToken_Transfer None (Some ''0xS''), Debounced)]"
  "readAt growing_watch b = Inr (Dec b)"
  by (simp_all add: growing_watch_def watchTHUSDInStabilityPool_def empty_chain_def Let_def getTHUSDInStabilityPool_def decimalifyR_def
      decimalify_def)

lemmas watch_run_defs = watchRun_def startWatch_def eventArrives_def debounce_def debounceFires_def readSettles_def

lemma growing_heard: "heard (subscriptions growing_watch) growing_ops = [8, 7]"
  by (simp add: growing_ops_def hears_def)

lemma growing_run:
  "\<not> ob_timer (watchRun growing_watch growing_ops)" "ob_reads (watchRun growing_watch growing_ops) = []"
  by (simp_all add: growing_ops_def watch_run_defs)

theorem watch_reads_newest_witness:
  "8 \<le> last (ob_calls (watchRun growing_watch growing_ops)) \<and> length (ob_calls (watchRun growing_watch growing_ops)) \<le> 2"
  using watch_reads_newest [of growing_watch growing_ops 8] growing_run growing_heard by simp

section \<open>What the caller sees\<close>

text \<open>Answers that come in the order of the reads: the reads that are answered are a prefix of all reads.\<close>

definition answersInv :: "'v watch \<Rightarrow> 'v observer \<Rightarrow> bool" where
  "answersInv w ob \<longleftrightarrow> (\<exists>answered. ob_calls ob = answered @ ob_reads ob \<and> map Inr (ob_notified ob) = map (readAt w) answered)"

lemma answersInv_settles:
  assumes "answersInv w ob" and ok: "\<And>b. \<exists>v. readAt w b = Inr v"
  shows "answersInv w (readSettles w 0 ob)"
proof (cases "ob_reads ob")
  case (Cons b bs)
  obtain v where "readAt w b = Inr v" using ok by blast
  moreover obtain ans where "ob_calls ob = ans @ b # bs" "map Inr (ob_notified ob) = map (readAt w) ans"
    using assms(1) Cons by (auto simp: answersInv_def)
  ultimately show ?thesis
    using Cons by (auto simp: answersInv_def readSettles_def Let_def intro: exI [of _ "ans @ [b]"])
qed (use assms in \<open>simp add: readSettles_def\<close>)

lemma answersInv_do:
  assumes "answersInv w ob" and "\<And>b. \<exists>v. readAt w b = Inr v" and "\<And>i. op = Op_settle i \<Longrightarrow> i = 0"
  shows "answersInv w (watchDo w op ob)"
proof (cases op)
  case (Op_settle i)
  with assms answersInv_settles show ?thesis by fastforce
qed (use assms(1) in \<open>auto simp: answersInv_def eventArrives_hears debounce_def' debounceFires_def unwatch_def\<close>)

text \<open>C40: If the readable answers in order and does not fail, then as soon as no timer and no read is pending the last value that the
  caller has is the value at the newest block the watch heard of.\<close>

theorem watch_converges:
  assumes "\<forall>b. \<exists>v. readAt w b = Inr v" and "\<forall>i. Op_settle i \<in> set ops \<longrightarrow> i = 0"
    and "heard (subscriptions w) ops \<noteq> []"
    and "\<not> ob_timer (watchRun w ops)" and "ob_reads (watchRun w ops) = []"
  shows "Inr (last (ob_notified (watchRun w ops))) = readAt w (newest (heard (subscriptions w) ops))"
proof -
  have "answersInv w (fold (watchDo w) ops (startWatch w))" using assms(2)
  proof (induction ops rule: rev_induct)
    case Nil
    show ?case by (simp add: answersInv_def startWatch_def)
  next
    case (snoc op ops)
    then show ?case using answersInv_do [of w _ op] assms(1) by simp
  qed
  then have notified: "map Inr (ob_notified (watchRun w ops)) = map (readAt w) (ob_calls (watchRun w ops))"
    using assms(5) by (auto simp: answersInv_def watchRun_def)
  have calls: "ob_calls (watchRun w ops) \<noteq> []" "last (ob_calls (watchRun w ops)) = newest (heard (subscriptions w) ops)"
    using watchRun_inv [of w ops] assms(3,4) by (auto simp: watchInv_def)
  then have ne: "ob_notified (watchRun w ops) \<noteq> []" using notified by auto
  have "Inr (last (ob_notified (watchRun w ops))) = last (map Inr (ob_notified (watchRun w ops)))"
    using ne by (simp add: last_map)
  also have "\<dots> = readAt w (newest (heard (subscriptions w) ops))" using notified calls by (simp add: last_map)
  finally show ?thesis .
qed

theorem watch_converges_witness:
  "Inr (last (ob_notified (watchRun growing_watch growing_ops))) = (Inr (Dec 8) :: decimal res)"
proof -
  have "\<forall>i. Op_settle i \<in> set growing_ops \<longrightarrow> i = 0" by (simp add: growing_ops_def)
  moreover have "newest [8, 7] = 8" by (simp add: newest_def)
  ultimately show ?thesis
    using watch_converges [of growing_watch growing_ops] growing_run growing_heard by simp
qed

section \<open>What it does not promise\<close>

text \<open>Answers out of order: the caller is left with the value of an older block.\<close>

theorem watch_answers_out_of_order:
  "ob_notified (watchRun growing_watch
     [Op_event (ThusdToken_Transfer None (Some ''0xS'')) [] (Some 7), Op_timer,
      Op_event (ThusdToken_Transfer None (Some ''0xS'')) [] (Some 8), Op_timer, Op_settle 1, Op_settle 0]) = [Dec 8, Dec 7]"
  by (simp add: watch_run_defs)

text \<open>A watch that was stopped while its timer was pending still calls its caller.\<close>

theorem watch_after_unwatch:
  assumes "ob_timer ob" and "readAt w (ob_latestBlock ob) = Inr v"
  shows "ob_notified (readSettles w (length (ob_reads ob)) (debounceFires (unwatch ob))) = ob_notified ob @ [v]"
  using assms by (simp add: unwatch_def debounceFires_def readSettles_def)

end
