(* ===== verification/EthersConnection.thy ===== *)
theory EthersConnection
  imports Receipts "HOL-Library.AList"
begin

text \<open>
  \<open>packages/lib-ethers/src/EthersLiquityConnection.ts\<close>, \<open>_connectToContracts\<close> of \<open>contracts.ts\<close> and \<open>_Multicall.ts\<close>: how a
  connection is put together, and \<open>connect\<close> of \<open>EthersLiquity.ts\<close>.

  A contract object of the ethers package is its address with the name of its interface; providers are known
  by a name.  What the signer, the node and dynamic imports answer are arguments.
\<close>

section \<open>Contracts\<close>

text \<open>The keys of \<open>getAbi\<close>.\<close>

definition abiKeys :: "string list" where
  "abiKeys =
     [''activePool'', ''borrowerOperations'', ''troveManager'', ''thusdToken'', ''defaultPool'', ''hintHelpers'', ''pcv'',
      ''multiTroveGetter'', ''priceFeed'', ''sortedTroves'', ''stabilityPool'', ''bamm'', ''bLens'', ''chainlink'', ''gasPool'',
      ''collSurplusPool'', ''erc20'', ''piCalculator'']"

definition getAbi :: "bool \<Rightarrow> string \<Rightarrow> string option" where
  "getAbi priceFeedIsTestnet key =
     (if key = ''priceFeed'' then Some (if priceFeedIsTestnet then ''priceFeedTestnet'' else ''priceFeed'')
      else if key = ''chainlink'' then Some ''chainlinkTestnet''
      else if key \<in> set abiKeys then Some key else None)"

record contractObject =
  co_address :: string
  co_abi :: string

record deploymentJSON =
  dj_chainId :: nat
  dj_addresses :: "(string \<times> string option) list option"
  dj_version :: string
  dj_deploymentDate :: int
  dj_startBlock :: nat
  dj_priceFeedIsTestnet :: bool
  dj_isDev :: bool

definition connectToContract :: "bool \<Rightarrow> string \<times> string option \<Rightarrow> (string \<times> contractObject) res" where
  "connectToContract priceFeedIsTestnet entry =
     (case entry of
        (key, address) \<Rightarrow>
          if address = None \<or> address = Some [] then Inl (Error (''Address for '' @ key @ '' cannot be null or undefined''))
          else case getAbi priceFeedIsTestnet key of
                 None \<Rightarrow> Inl (Error (''ABI for '' @ key @ '' cannot be null or undefined''))
               | Some abi \<Rightarrow> Inr (key, \<lparr>co_address = the address, co_abi = abi\<rparr>))"

definition connectToContracts :: "deploymentJSON \<Rightarrow> (string \<times> contractObject) list res" where
  "connectToContracts deployment =
     (case dj_addresses deployment of
        None \<Rightarrow> Inl (Error ''Addresses object cannot be null or undefined'')
      | Some addresses \<Rightarrow> mapR (connectToContract (dj_priceFeedIsTestnet deployment)) addresses)"

definition multicallAddress :: "nat \<Rightarrow> string option" where
  "multicallAddress = map_of
     [(1, ''0xeefba1e63905ef1d7acba5a8513c70307c1ce441''), (3, ''0x53c43764255c17bd724f74c4ef150724ac50a3ed''),
      (4, ''0x42ad527de7d4e9d9d011ac45b31d8551f8fe9821''), (5, ''0x77dca2c955b15e9de4dbbcf1246b4b85b651e50e''),
      (42, ''0x2cc8688c5f75e365aaeeb4ea8d6a480405a48d2a'')]"

section \<open>Connections\<close>

record signer =
  sg_provider :: "string option"
  sg_getAddress :: "string res"

datatype signerOrProvider = SignerArg signer | ProviderArg string

record connectionParams =
  cp_userAddress :: "string option"
  cp_useStore :: "string option"

record ethersConnection =
  ec_collateral :: string
  ec_version :: string
  ec_provider :: string
  ec_signer :: "signer option"
  ec_contracts :: "(string \<times> contractObject) list"
  ec_multicall :: "string option"
  ec_deployment :: deploymentJSON
  ec_userAddress :: "string option"
  ec_useStore :: "string option"

definition validStoreOptions :: "string list" where
  "validStoreOptions = [''blockPolled'']"

definition connectionFrom ::
    "string \<Rightarrow> string \<Rightarrow> string \<Rightarrow> signer option \<Rightarrow> (string \<times> contractObject) list \<Rightarrow> string option \<Rightarrow> deploymentJSON \<Rightarrow>
     connectionParams option \<Rightarrow> ethersConnection res" where
  "connectionFrom deploymentCollateral deploymentVersion provider signer contracts multicall deployment optionalParams =
     bindR
       (case Option.bind optionalParams cp_useStore of
          Some store \<Rightarrow> if store \<in> set validStoreOptions then Inr () else Inl (Error (''Invalid useStore value '' @ store))
        | None \<Rightarrow> Inr ())
       (\<lambda>_. Inr
          \<lparr>ec_collateral = deploymentCollateral, ec_version = deploymentVersion, ec_provider = provider, ec_signer = signer,
           ec_contracts = contracts, ec_multicall = multicall, ec_deployment = deployment,
           ec_userAddress = Option.bind optionalParams cp_userAddress, ec_useStore = Option.bind optionalParams cp_useStore\<rparr>)"

definition getProviderAndSigner :: "signerOrProvider \<Rightarrow> (string \<times> signer option) res" where
  "getProviderAndSigner arg =
     (case arg of
        SignerArg signer \<Rightarrow>
          (case sg_provider signer of
             Some provider \<Rightarrow> Inr (provider, Some signer)
           | None \<Rightarrow> Inl (Error ''Signer must have a Provider''))
      | ProviderArg provider \<Rightarrow> Inr (provider, None))"

definition connectToDeployment ::
    "string \<Rightarrow> string \<Rightarrow> deploymentJSON \<Rightarrow> signerOrProvider \<Rightarrow> connectionParams option \<Rightarrow> ethersConnection res" where
  "connectToDeployment collateral' version deployment arg optionalParams =
     bindR (getProviderAndSigner arg)
       (\<lambda>(provider, signer). bindR (connectToContracts deployment)
       (\<lambda>contracts. connectionFrom collateral' version provider signer contracts None deployment optionalParams))"

definition connectByChainId ::
    "string \<Rightarrow> string \<Rightarrow> deploymentJSON \<Rightarrow> string \<Rightarrow> signer option \<Rightarrow> nat \<Rightarrow> connectionParams option \<Rightarrow> ethersConnection res" where
  "connectByChainId collateral' version deployment provider signer chainId optionalParams =
     bindR (connectToContracts deployment)
       (\<lambda>contracts. connectionFrom collateral' version provider signer contracts (multicallAddress chainId) deployment optionalParams)"

text \<open>\<open>_connect\<close>; \<open>getNetwork\<close> gives the chain id that the provider reports.\<close>

definition connect ::
    "string \<Rightarrow> string \<Rightarrow> deploymentJSON \<Rightarrow> (string \<Rightarrow> nat res) \<Rightarrow> string \<Rightarrow> signer option \<Rightarrow> connectionParams option \<Rightarrow>
     ethersConnection res" where
  "connect collateral' version deployment getNetwork provider signer optionalParams =
     bindR
       (case signer of
          None \<Rightarrow> Inr optionalParams
        | Some sig \<Rightarrow>
            if Option.bind optionalParams cp_userAddress \<noteq> None
            then Inl (Error (''Can'' @ [CHR 0x27] @ ''t override userAddress when connecting through Signer''))
            else bindR (sg_getAddress sig)
                   (\<lambda>address. Inr (Some \<lparr>cp_userAddress = Some address, cp_useStore = Option.bind optionalParams cp_useStore\<rparr>)))
       (\<lambda>params. bindR (getNetwork provider)
       (\<lambda>chainId. connectByChainId collateral' version deployment provider signer chainId params))"

definition requireSigner_of :: "ethersConnection \<Rightarrow> signer res" where
  "requireSigner_of conn =
     (case ec_signer conn of Some s \<Rightarrow> Inr s | None \<Rightarrow> Inl (Error ''Must be connected through a Signer''))"

definition requireAddress_of :: "ethersConnection \<Rightarrow> string option \<Rightarrow> string res" where
  "requireAddress_of conn overrides_from =
     (case overrides_from of
        Some a \<Rightarrow> Inr a
      | None \<Rightarrow> (case ec_userAddress conn of Some a \<Rightarrow> Inr a | None \<Rightarrow> Inl (Error ''A user address is required'')))"

definition usingStore :: "ethersConnection \<Rightarrow> bool" where
  "usingStore conn \<longleftrightarrow> ec_useStore conn \<noteq> None"

text \<open>\<open>_getBlockTimestamp\<close>: the contract's and the node's answers.\<close>

definition blockTimestampOf :: "ethersConnection \<Rightarrow> (string \<Rightarrow> nat res) \<Rightarrow> nat res \<Rightarrow> nat res" where
  "blockTimestampOf conn getCurrentBlockTimestamp getBlock =
     (case ec_multicall conn of Some address \<Rightarrow> getCurrentBlockTimestamp address | None \<Rightarrow> getBlock)"

section \<open>Deployments\<close>

record folderInfo =
  fi_name :: string
  fi_path :: string

type_synonym versions = "(string \<times> deploymentJSON) list"
type_synonym deployments = "(string \<times> versions) list"

text \<open>\<open>deployments/collaterals/collaterals.json\<close>.\<close>

definition collateralsJSON :: "(string \<times> folderInfo list) list" where
  "collateralsJSON =
     [(''eth'', [\<lparr>fi_name = ''v1'', fi_path = ''deployments/default/eth/v1''\<rparr>, \<lparr>fi_name = ''v2'', fi_path = ''deployments/default/eth/v2''\<rparr>]),
      (''tbtc'', [\<lparr>fi_name = ''v1'', fi_path = ''deployments/default/tbtc/v1''\<rparr>]),
      (''usd'', [\<lparr>fi_name = ''v0'', fi_path = ''deployments/default/usd/v0''\<rparr>])]"

text \<open>The imports that \<open>getCollateralsDeployments\<close> starts, by collateral, version and path.  It does not wait for them: the
  promise of an import is neither returned nor awaited.\<close>

definition deploymentImports :: "string \<Rightarrow> (string \<times> folderInfo list) list \<Rightarrow> (string \<times> string \<times> string) list" where
  "deploymentImports network collaterals =
     (let network' = (if network = ''homestead'' then ''mainnet'' else network)
      in concat (map (\<lambda>(collateral', versions).
           map (\<lambda>v. (collateral', fi_name v, ''@liquity/lib-ethers/'' @ fi_path v @ ''/'' @ network' @ ''.json'')) versions) collaterals))"

text \<open>The callback of an import that has arrived; a failed import is only logged.\<close>

definition deploymentArrives :: "string \<times> string \<times> deploymentJSON option \<Rightarrow> deployments \<Rightarrow> deployments" where
  "deploymentArrives arrival ds =
     (case arrival of
        (collateral', version, None) \<Rightarrow> ds
      | (collateral', version, Some deployment) \<Rightarrow>
          AList.update collateral' (AList.update version deployment (coalesce (map_of ds collateral') [])) ds)"

text \<open>\<open>EthersLiquity.connect\<close> and \<open>ReadableEthersLiquity.connect\<close>: \<open>loaded\<close> is the object of deployments as it is when it is
  read, for the network that is asked for.\<close>

definition liquity_connect ::
    "(string \<Rightarrow> nat res) \<Rightarrow> (string \<Rightarrow> deployments) \<Rightarrow> signerOrProvider \<Rightarrow> connectionParams option \<Rightarrow> ethersConnection res" where
  "liquity_connect getNetwork loaded arg optionalParams =
     bindR (getProviderAndSigner arg)
       (\<lambda>(provider, signer). bindR (getNetwork provider)
       (\<lambda>chainId.
          case map_of (loaded (if chainId = 1 then ''mainnet'' else ''goerli'')) ''v1'' of
            None \<Rightarrow> Inl TypeError
          | Some versions \<Rightarrow>
              (case map_of versions ''deployment'' of
                 None \<Rightarrow> Inl (Error (''Unsupported network (chainId = '' @ dec_string chainId @ '')''))
               | Some deployment \<Rightarrow> connect ''tst'' ''v1'' deployment getNetwork provider signer optionalParams)))"

text \<open>\<open>hasStore\<close> of the objects that \<open>_from\<close> makes of a connection.\<close>

definition liquity_hasStore :: "ethersConnection \<Rightarrow> string option \<Rightarrow> bool" where
  "liquity_hasStore conn store \<longleftrightarrow> usingStore conn \<and> (store = None \<or> store = ec_useStore conn)"

definition readable_hasStore :: "ethersConnection \<Rightarrow> string option \<Rightarrow> bool" where
  "readable_hasStore conn store \<longleftrightarrow>
     ec_useStore conn = Some ''blockPolled'' \<and> (store = None \<or> store = Some ''blockPolled'')"

end
