(* ===== verification/EthersConnection_Correct.thy ===== *)
theory EthersConnection_Correct
  imports EthersConnection
begin

text \<open>
  When a connection can be made and what it holds; deployments that arrive in any order; and what \<open>connect\<close> of the public
  classes does with them.
\<close>

section \<open>Connecting\<close>

definition addressesOk :: "deploymentJSON \<Rightarrow> bool" where
  "addressesOk d \<longleftrightarrow>
     (\<exists>as. dj_addresses d = Some as \<and> (\<forall>(key, a) \<in> set as. key \<in> set abiKeys \<and> a \<noteq> None \<and> a \<noteq> Some []))"

definition storeOk :: "connectionParams option \<Rightarrow> bool" where
  "storeOk ps \<longleftrightarrow> Option.bind ps cp_useStore \<in> {None, Some ''blockPolled''}"

lemma getAbi_known: "getAbi t key \<noteq> None \<longleftrightarrow> key \<in> set abiKeys"
  by (auto simp: getAbi_def abiKeys_def)

lemma connectToContract_ok:
  "\<not> isl (connectToContract t (key, a)) \<longleftrightarrow> key \<in> set abiKeys \<and> a \<noteq> None \<and> a \<noteq> Some []"
  using getAbi_known [of t key] by (auto simp: connectToContract_def split: option.split if_splits)

lemma bindR_ok_iff: "\<not> isl (bindR r f) \<longleftrightarrow> (case r of Inl _ \<Rightarrow> False | Inr x \<Rightarrow> \<not> isl (f x))"
  by (cases r) simp_all

lemma mapR_ok_iff: "\<not> isl (mapR f xs) \<longleftrightarrow> (\<forall>x \<in> set xs. \<not> isl (f x))"
proof (induction xs)
  case (Cons x xs)
  then show ?case by (cases "f x"; cases "mapR f xs") auto
qed simp

lemma connectToContracts_ok: "\<not> isl (connectToContracts d) \<longleftrightarrow> addressesOk d"
proof (cases "dj_addresses d")
  case (Some as)
  have "\<not> isl (connectToContract (dj_priceFeedIsTestnet d) x) \<longleftrightarrow> (case x of (key, a) \<Rightarrow> key \<in> set abiKeys \<and> a \<noteq> None \<and> a \<noteq> Some [])" for x
    by (cases x) (simp only: prod.case connectToContract_ok)
  then show ?thesis unfolding addressesOk_def using Some by (simp add: connectToContracts_def mapR_ok_iff)
qed (simp add: connectToContracts_def addressesOk_def)

lemma connectionFrom_ok: "\<not> isl (connectionFrom c v p sig cs m d ps) \<longleftrightarrow> storeOk ps"
  by (auto simp: connectionFrom_def storeOk_def validStoreOptions_def split: option.split)

lemma connectByChainId_ok: "\<not> isl (connectByChainId c v d p sig n ps) \<longleftrightarrow> addressesOk d \<and> storeOk ps"
  using connectToContracts_ok [of d]
  by (auto simp: connectByChainId_def bindR_ok_iff connectionFrom_ok split: sum.split)

lemma storeOk_same: "Option.bind ps cp_useStore = Option.bind qs cp_useStore \<Longrightarrow> storeOk ps = storeOk qs"
  by (simp add: storeOk_def)

text \<open>C33: A connection is made exactly if the signer, when there is one, gives its address and the user gives none, the provider names its
  network, every address of the deployment is set and has an interface, and the store is one that exists.\<close>

theorem connect_succeeds_iff:
  "(\<exists>conn. connect c v d getNetwork p sig ps = Inr conn) \<longleftrightarrow>
     (\<exists>chainId. getNetwork p = Inr chainId) \<and> addressesOk d \<and> storeOk ps \<and>
     (case sig of
        None \<Rightarrow> True
      | Some s \<Rightarrow> Option.bind ps cp_userAddress = None \<and> (\<exists>a. sg_getAddress s = Inr a))"
proof -
  have "(\<exists>conn. connect c v d getNetwork p sig ps = Inr conn) \<longleftrightarrow> \<not> isl (connect c v d getNetwork p sig ps)"
    by (cases "connect c v d getNetwork p sig ps") simp_all
  also have "\<dots> \<longleftrightarrow> \<not> isl (getNetwork p) \<and> addressesOk d \<and> storeOk ps \<and>
     (case sig of None \<Rightarrow> True | Some s \<Rightarrow> Option.bind ps cp_userAddress = None \<and> \<not> isl (sg_getAddress s))"
  proof (cases sig)
    case (Some s)
    then show ?thesis
      by (cases "sg_getAddress s"; cases "getNetwork p") (auto simp: connect_def connectByChainId_ok storeOk_def)
  qed (cases "getNetwork p"; auto simp: connect_def connectByChainId_ok)
  also have "\<dots> \<longleftrightarrow> (\<exists>chainId. getNetwork p = Inr chainId) \<and> addressesOk d \<and> storeOk ps \<and>
     (case sig of None \<Rightarrow> True | Some s \<Rightarrow> Option.bind ps cp_userAddress = None \<and> (\<exists>a. sg_getAddress s = Inr a))"
    by (auto simp: isl_def split: option.split) (metis Inl_Inr_False sumE)+
  finally show ?thesis .
qed

text \<open>What a connection holds.\<close>

lemma connectionFrom_fields:
  assumes "connectionFrom c v p sig cs m d ps = Inr conn"
  shows "conn = \<lparr>ec_collateral = c, ec_version = v, ec_provider = p, ec_signer = sig, ec_contracts = cs, ec_multicall = m,
                 ec_deployment = d, ec_userAddress = Option.bind ps cp_userAddress, ec_useStore = Option.bind ps cp_useStore\<rparr>"
  using assms by (simp add: connectionFrom_def bindR_Inr_iff)

lemma connect_params:
  assumes "connect c v d getNetwork p sig ps = Inr conn"
  obtains (made) qs n cs where "connectionFrom c v p sig cs (multicallAddress n) d qs = Inr conn"
    "case sig of None \<Rightarrow> qs = ps | Some s \<Rightarrow> \<exists>a. sg_getAddress s = Inr a \<and> Option.bind qs cp_userAddress = Some a"
proof (cases sig)
  case None
  with assms show thesis by (auto simp: connect_def connectByChainId_def bindR_Inr_iff intro: made)
next
  case (Some s)
  with assms obtain a n cs where "sg_getAddress s = Inr a"
      "connectionFrom c v p sig cs (multicallAddress n) d (Some \<lparr>cp_userAddress = Some a, cp_useStore = Option.bind ps cp_useStore\<rparr>) = Inr conn"
    by (auto simp: connect_def connectByChainId_def bindR_Inr_iff split: if_splits)
  with Some show thesis by (intro made [of cs n]) auto
qed

text \<open>A connection through a signer can send, and speaks for the signer's address wherever an address is needed and not given; a
  connection through a provider cannot send.\<close>

theorem connect_speaks_for_signer:
  assumes "connect c v d getNetwork p sig ps = Inr conn"
  shows "(case sig of
            Some s \<Rightarrow> requireSigner_of conn = Inr s \<and> requireAddress_of conn None = sg_getAddress s
          | None \<Rightarrow> requireSigner_of conn = Inl (Error ''Must be connected through a Signer'') \<and>
                    ec_userAddress conn = Option.bind ps cp_userAddress) \<and>
         requireAddress_of conn (Some a) = Inr a"
proof -
  obtain qs n cs where *: "connectionFrom c v p sig cs (multicallAddress n) d qs = Inr conn"
      "case sig of None \<Rightarrow> qs = ps | Some s \<Rightarrow> \<exists>a. sg_getAddress s = Inr a \<and> Option.bind qs cp_userAddress = Some a"
    using assms by (rule connect_params)
  from *(1) have conn: "ec_signer conn = sig" "ec_userAddress conn = Option.bind qs cp_userAddress"
    by (auto dest: connectionFrom_fields)
  show ?thesis
    using *(2) by (cases sig) (auto simp: conn requireSigner_of_def requireAddress_of_def)
qed

definition exampleDeployment :: deploymentJSON where
  "exampleDeployment =
     \<lparr>dj_chainId = 1, dj_addresses = Some [(''priceFeed'', Some ''0xF''), (''erc20'', Some ''0xE'')], dj_version = ''abc'',
      dj_deploymentDate = 0, dj_startBlock = 1, dj_priceFeedIsTestnet = False, dj_isDev = False\<rparr>"

definition exampleSigner :: signer where
  "exampleSigner = \<lparr>sg_provider = Some ''node'', sg_getAddress = Inr ''0xA''\<rparr>"

lemma exampleDeployment_ok: "addressesOk exampleDeployment"
  by (simp add: addressesOk_def exampleDeployment_def abiKeys_def)

theorem connect_speaks_for_signer_witness:
  "\<exists>conn. connect ''eth'' ''v1'' exampleDeployment (\<lambda>_. Inr 5) ''node'' (Some exampleSigner) None = Inr conn \<and>
     requireAddress_of conn None = Inr ''0xA''"
proof -
  obtain conn where c: "connect ''eth'' ''v1'' exampleDeployment (\<lambda>_. Inr 5) ''node'' (Some exampleSigner) None = Inr conn"
    using connect_succeeds_iff [of "''eth''" "''v1''" exampleDeployment "\<lambda>_. Inr 5" "''node''" "Some exampleSigner" None]
      exampleDeployment_ok by (auto simp: storeOk_def exampleSigner_def)
  show ?thesis using c connect_speaks_for_signer [OF c] by (auto simp: exampleSigner_def)
qed

text \<open>The chain id of a connection is that of the deployment; nothing compares it with the network of the provider, whose chain id only selects
  the Multicall contract.\<close>

theorem connect_ignores_network:
  "\<exists>conn. connect ''eth'' ''v1'' exampleDeployment (\<lambda>_. Inr 5) ''node'' None None = Inr conn \<and>
     dj_chainId (ec_deployment conn) = 1 \<and> ec_multicall conn = multicallAddress 5"
  by (simp add: connect_def connectByChainId_def connectToContracts_def connectToContract_def exampleDeployment_def getAbi_def abiKeys_def
      connectionFrom_def)

text \<open>The two classes agree on whether an object made of a connection has a store.\<close>

theorem hasStore_agree:
  assumes "connect c v d getNetwork p sig ps = Inr conn"
  shows "liquity_hasStore conn store = readable_hasStore conn store"
proof -
  obtain qs n cs where *: "connectionFrom c v p sig cs (multicallAddress n) d qs = Inr conn"
    using assms by (rule connect_params)
  then have "storeOk qs" using connectionFrom_ok [of c v p sig cs "multicallAddress n" d qs] by simp
  moreover from * have "ec_useStore conn = Option.bind qs cp_useStore" by (auto dest: connectionFrom_fields)
  ultimately show ?thesis by (auto simp: storeOk_def liquity_hasStore_def readable_hasStore_def usingStore_def)
qed

section \<open>Deployments\<close>

definition deploymentOf :: "deployments \<Rightarrow> string \<Rightarrow> string \<Rightarrow> deploymentJSON option" where
  "deploymentOf ds c v = Option.bind (map_of ds c) (\<lambda>vs. map_of vs v)"

lemma deploymentOf_arrives:
  "deploymentOf (deploymentArrives (c, v, d) ds) c' v' =
     (case d of Some j \<Rightarrow> if c = c' \<and> v = v' then Some j else deploymentOf ds c' v' | None \<Rightarrow> deploymentOf ds c' v')"
  by (auto simp: deploymentOf_def deploymentArrives_def update_conv' coalesce_def split: option.split)

text \<open>Imports may arrive in any order: once those of a set of different versions have arrived, the object has the deployment of exactly
  the versions whose import succeeded.\<close>

theorem deployments_any_order:
  assumes "distinct (map (\<lambda>(c, v, d). (c, v)) arrivals)"
  shows "deploymentOf (fold deploymentArrives arrivals []) c v = Some j \<longleftrightarrow> (c, v, Some j) \<in> set arrivals"
  using assms
proof (induction arrivals rule: rev_induct)
  case (snoc a arrivals)
  obtain c' v' d where a: "a = (c', v', d)" by (cases a) auto
  have "(c', v') \<notin> (\<lambda>(c, v, d). (c, v)) ` set arrivals" using snoc.prems a by auto
  then have "(c', v', x) \<notin> set arrivals" for x by force
  with snoc a show ?case by (auto simp: deploymentOf_arrives split: option.split)
qed (simp add: deploymentOf_def)
text \<open>The keys of the object are collaterals, but \<open>connect\<close> of the public classes looks for \<open>v1\<close> among them: with the collaterals of the
  repository it fails, whatever imports have arrived.\<close>

lemma arrives_keys: "fst ` set (deploymentArrives (c, v, d) ds) \<subseteq> insert c (fst ` set ds)"
  using dom_map_of_conv_image_fst [of "deploymentArrives (c, v, d) ds"] dom_map_of_conv_image_fst [of ds]
  by (auto simp: deploymentArrives_def dom_update split: option.split)

lemma arrived_keys: "fst ` set (fold deploymentArrives arrivals []) \<subseteq> fst ` set arrivals"
proof (induction arrivals rule: rev_induct)
  case (snoc a arrivals)
  obtain c v d where a: "a = (c, v, d)" by (cases a)
  have "fst ` set (fold deploymentArrives (arrivals @ [a]) []) \<subseteq> insert c (fst ` set (fold deploymentArrives arrivals []))"
    using arrives_keys [of c v d "fold deploymentArrives arrivals []"] a by simp
  also have "\<dots> \<subseteq> fst ` set (arrivals @ [a])" using snoc a by auto
  finally show ?case .
qed simp

theorem liquity_connect_throws:
  assumes "getProviderAndSigner arg = Inr (provider, sig)" and "getNetwork provider = Inr chainId"
    and "\<forall>network. \<forall>(c, v, d) \<in> set (arrivals network). \<exists>path. (c, v, path) \<in> set (deploymentImports network collateralsJSON)"
  shows "liquity_connect getNetwork (\<lambda>network. fold deploymentArrives (arrivals network) []) arg optionalParams = Inl TypeError"
proof -
  have keys: "fst ` set (deploymentImports network collateralsJSON) \<subseteq> {''eth'', ''tbtc'', ''usd''}" for network
    by (simp add: deploymentImports_def collateralsJSON_def)
  have "fst a \<in> fst ` set (deploymentImports network collateralsJSON)" if "a \<in> set (arrivals network)" for a network
    using assms(3) that by (cases a) (force simp: image_iff)
  then have "''v1'' \<notin> fst ` set (arrivals network)" for network
    using keys [of network] by fastforce
  then have "map_of (fold deploymentArrives (arrivals network) []) ''v1'' = None" for network
    using arrived_keys [of "arrivals network"] unfolding map_of_eq_None_iff by blast
  with assms(1,2) show ?thesis by (simp add: liquity_connect_def)
qed

end
