(* ===== verification/EthersLiquity.thy ===== *)
theory EthersLiquity
  imports Receipts
begin

text \<open>
  \<open>packages/lib-ethers/src/SendableEthersLiquity.ts\<close> and the transactions of \<open>EthersLiquity.ts\<close>: a transaction is
  prepared, sent, and waited for.

  \<open>liquityEnv\<close> has what the methods talk to: the environment of the preparing code, the contracts, the estimate of
  gas, and the signer, whose answer to a transaction is an error or the sent transaction, of which the model keeps what its \<open>wait\<close> comes
  to.
\<close>

section \<open>Sending\<close>

datatype liquityCall =
    OpenTroveCall openTroveArgs
  | AdjustTroveCall adjustTroveArgs
  | RedeemCall redeemArgs
  | ContractCall contractCall

record liquityEnv =
  le_tx :: txEnv
  le_contracts :: contracts
  le_estimate :: "liquityCall \<Rightarrow> txOverrides \<Rightarrow> nat res"
  le_hasSigner :: bool
  le_sendTransaction :: "liquityCall \<Rightarrow> txOverrides \<Rightarrow> rawError + (rawError + rawReceipt option)"

text \<open>\<open>PopulatedEthersLiquityTransaction\<close> and \<open>SentEthersLiquityTransaction\<close>.\<close>

record 'd populatedTransaction =
  rawPopulatedTransaction :: "liquityCall \<times> txOverrides"
  parseReceipt :: "rawReceipt \<Rightarrow> 'd res"

record 'd sentTransaction =
  rawSentTransaction :: "rawError + rawReceipt option"
  sentParse :: "rawReceipt \<Rightarrow> 'd res"

definition sendTransaction :: "liquityEnv \<Rightarrow> 'd populatedTransaction \<Rightarrow> sentError + 'd sentTransaction" where
  "sendTransaction env tx =
     (case requireSigner (le_hasSigner env) of
        Inl e \<Rightarrow> Inl (Thrown e)
      | Inr _ \<Rightarrow>
          (case le_sendTransaction env (fst (rawPopulatedTransaction tx)) (snd (rawPopulatedTransaction tx)) of
             Inl e \<Rightarrow> Inl (Rethrown e)
           | Inr w \<Rightarrow> Inr \<lparr>rawSentTransaction = w, sentParse = parseReceipt tx\<rparr>))"

text \<open>\<open>this._populate.method(...).then(sendTransaction)\<close>.\<close>

definition thenSend :: "liquityEnv \<Rightarrow> 'd populatedTransaction res \<Rightarrow> sentError + 'd sentTransaction" where
  "thenSend env populated = (case populated of Inl e \<Rightarrow> Inl (Thrown e) | Inr tx \<Rightarrow> sendTransaction env tx)"

text \<open>The transactions of \<open>Transactions\<close> and \<open>Receipts\<close> as prepared transactions.\<close>

definition wrapTroveChange ::
    "liquityEnv \<Rightarrow> ('a \<Rightarrow> liquityCall) \<Rightarrow> ('p, 'a) populatedTroveChange res \<Rightarrow> 'p troveChangeDetails populatedTransaction res" where
  "wrapTroveChange env call r =
     bindR r (\<lambda>p. Inr \<lparr>rawPopulatedTransaction = (call (pt_args p), pt_overrides p),
                      parseReceipt = troveChangeWithFees_details (le_contracts env) (pt_params p)\<rparr>)"

definition wrapRedemption ::
    "liquityEnv \<Rightarrow> (redeemContext \<times> populatedRedemption) res \<Rightarrow> redemptionDetails option populatedTransaction res" where
  "wrapRedemption env r =
     bindR r (\<lambda>(_, p). Inr \<lparr>rawPopulatedTransaction = (RedeemCall (pr_args p), pr_overrides p),
                           parseReceipt = redemption_details (le_contracts env)\<rparr>)"

definition wrapCall :: "'d populatedTx res \<Rightarrow> 'd populatedTransaction res" where
  "wrapCall r =
     bindR r (\<lambda>p. Inr \<lparr>rawPopulatedTransaction = (ContractCall (px_call p), px_overrides p), parseReceipt = px_parse p\<rparr>)"

abbreviation estimateCall :: "liquityEnv \<Rightarrow> estimator" where
  "estimateCall env \<equiv> \<lambda>c. le_estimate env (ContractCall c)"

section \<open>SendableEthersLiquity\<close>

type_synonym 'd sending = "sentError + 'd sentTransaction"

definition send_openTrove ::
    "liquityEnv \<Rightarrow> entries \<Rightarrow> borrowingParams \<Rightarrow> txOverrides \<Rightarrow> troveCreationParams troveChangeDetails sending" where
  "send_openTrove env params optionalParams ov =
     thenSend env (wrapTroveChange env OpenTroveCall
       (openTrove (le_tx env) (\<lambda>a. le_estimate env (OpenTroveCall a)) params optionalParams ov))"

definition send_closeTrove :: "liquityEnv \<Rightarrow> txOverrides \<Rightarrow> closureDetails sending" where
  "send_closeTrove env ov = thenSend env (wrapCall (closeTrove (le_contracts env) (estimateCall env) ov))"

abbreviation estimateAdjust :: "liquityEnv \<Rightarrow> adjustTroveArgs \<Rightarrow> txOverrides \<Rightarrow> nat res" where
  "estimateAdjust env \<equiv> \<lambda>a. le_estimate env (AdjustTroveCall a)"

definition send_adjustTrove ::
    "liquityEnv \<Rightarrow> entries \<Rightarrow> borrowingParams \<Rightarrow> txOverrides \<Rightarrow> troveAdjustmentParams troveChangeDetails sending" where
  "send_adjustTrove env params optionalParams ov =
     thenSend env (wrapTroveChange env AdjustTroveCall (adjustTrove (le_tx env) (estimateAdjust env) params optionalParams ov))"

definition send_depositCollateral :: "liquityEnv \<Rightarrow> decimalish \<Rightarrow> txOverrides \<Rightarrow> troveAdjustmentParams troveChangeDetails sending" where
  "send_depositCollateral env amount ov =
     thenSend env (wrapTroveChange env AdjustTroveCall (populate_depositCollateral (le_tx env) (estimateAdjust env) amount ov))"

definition send_withdrawCollateral :: "liquityEnv \<Rightarrow> decimalish \<Rightarrow> txOverrides \<Rightarrow> troveAdjustmentParams troveChangeDetails sending" where
  "send_withdrawCollateral env amount ov =
     thenSend env (wrapTroveChange env AdjustTroveCall (populate_withdrawCollateral (le_tx env) (estimateAdjust env) amount ov))"

definition send_borrowTHUSD ::
    "liquityEnv \<Rightarrow> decimalish \<Rightarrow> decimalish option \<Rightarrow> txOverrides \<Rightarrow> troveAdjustmentParams troveChangeDetails sending" where
  "send_borrowTHUSD env amount maxBorrowingRate ov =
     thenSend env (wrapTroveChange env AdjustTroveCall
       (populate_borrowTHUSD (le_tx env) (estimateAdjust env) amount maxBorrowingRate ov))"

definition send_repayTHUSD :: "liquityEnv \<Rightarrow> decimalish \<Rightarrow> txOverrides \<Rightarrow> troveAdjustmentParams troveChangeDetails sending" where
  "send_repayTHUSD env amount ov =
     thenSend env (wrapTroveChange env AdjustTroveCall (populate_repayTHUSD (le_tx env) (estimateAdjust env) amount ov))"

definition send_setPrice :: "liquityEnv \<Rightarrow> decimalish \<Rightarrow> txOverrides \<Rightarrow> unit sending" where
  "send_setPrice env newPrice ov = thenSend env (wrapCall (setPrice (le_contracts env) (estimateCall env) newPrice ov))"

definition send_liquidate :: "liquityEnv \<Rightarrow> string + string list \<Rightarrow> txOverrides \<Rightarrow> liquidationDetails sending" where
  "send_liquidate env address ov = thenSend env (wrapCall (liquidate (le_contracts env) (estimateCall env) address ov))"

definition send_liquidateUpTo :: "liquityEnv \<Rightarrow> nat \<Rightarrow> txOverrides \<Rightarrow> liquidationDetails sending" where
  "send_liquidateUpTo env n ov = thenSend env (wrapCall (liquidateUpTo (le_contracts env) (estimateCall env) n ov))"

definition send_depositTHUSDInBammPool :: "liquityEnv \<Rightarrow> decimalish \<Rightarrow> txOverrides \<Rightarrow> depositChangeDetails sending" where
  "send_depositTHUSDInBammPool env amount ov =
     thenSend env (wrapCall (depositTHUSDInBammPool (le_contracts env) (estimateCall env) amount ov))"

definition send_withdrawTHUSDFromBammPool :: "liquityEnv \<Rightarrow> decimalish \<Rightarrow> txOverrides \<Rightarrow> depositChangeDetails sending" where
  "send_withdrawTHUSDFromBammPool env amount ov =
     thenSend env (wrapCall
       (withdrawTHUSDFromBammPool (le_contracts env) (conn_of (le_tx env)) (estimateCall env) amount ov))"

definition send_withdrawGainsFromBammPool :: "liquityEnv \<Rightarrow> txOverrides \<Rightarrow> gainsDetails sending" where
  "send_withdrawGainsFromBammPool env ov =
     thenSend env (wrapCall (withdrawGainsFromBammPool (le_contracts env) (estimateCall env) ov))"

definition send_depositTHUSDInStabilityPool :: "liquityEnv \<Rightarrow> decimalish \<Rightarrow> txOverrides \<Rightarrow> depositChangeDetails sending" where
  "send_depositTHUSDInStabilityPool env amount ov =
     thenSend env (wrapCall (depositTHUSDInStabilityPool (le_contracts env) (estimateCall env) amount ov))"

definition send_withdrawTHUSDFromStabilityPool :: "liquityEnv \<Rightarrow> decimalish \<Rightarrow> txOverrides \<Rightarrow> depositChangeDetails sending" where
  "send_withdrawTHUSDFromStabilityPool env amount ov =
     thenSend env (wrapCall (withdrawTHUSDFromStabilityPool (le_contracts env) (estimateCall env) amount ov))"

definition send_withdrawGainsFromStabilityPool :: "liquityEnv \<Rightarrow> txOverrides \<Rightarrow> gainsDetails sending" where
  "send_withdrawGainsFromStabilityPool env ov =
     thenSend env (wrapCall (withdrawGainsFromStabilityPool (le_contracts env) (estimateCall env) ov))"

definition send_bammUnlock :: "liquityEnv \<Rightarrow> txOverrides \<Rightarrow> unit sending" where
  "send_bammUnlock env ov = thenSend env (wrapCall (bammUnlock (le_contracts env) (estimateCall env) ov))"

definition send_transferCollateralGainToTrove :: "liquityEnv \<Rightarrow> txOverrides \<Rightarrow> gainTransferDetails sending" where
  "send_transferCollateralGainToTrove env ov =
     thenSend env (wrapCall (transferCollateralGainToTrove (le_contracts env) (le_tx env) (estimateCall env) ov))"

definition send_transferBammCollateralGainToTrove :: "liquityEnv \<Rightarrow> txOverrides \<Rightarrow> gainTransferDetails sending" where
  "send_transferBammCollateralGainToTrove env ov =
     thenSend env (wrapCall (transferBammCollateralGainToTrove (le_contracts env) (le_tx env) (estimateCall env) ov))"

definition send_sendTHUSD :: "liquityEnv \<Rightarrow> string \<Rightarrow> decimalish \<Rightarrow> txOverrides \<Rightarrow> unit sending" where
  "send_sendTHUSD env toAddress amount ov = thenSend env (wrapCall (sendTHUSD (estimateCall env) toAddress amount ov))"

definition send_redeemTHUSD ::
    "liquityEnv \<Rightarrow> decimalish \<Rightarrow> decimalish option \<Rightarrow> txOverrides \<Rightarrow> redemptionDetails option sending" where
  "send_redeemTHUSD env amount maxRedemptionRate ov =
     thenSend env (wrapRedemption env
       (redeemTHUSD (le_tx env) (\<lambda>a. le_estimate env (RedeemCall a)) amount maxRedemptionRate ov))"

definition send_approveErc20 :: "liquityEnv \<Rightarrow> decimalish option \<Rightarrow> txOverrides \<Rightarrow> unit sending" where
  "send_approveErc20 env allowance ov = thenSend env (wrapCall (approveErc20 (le_contracts env) (estimateCall env) allowance ov))"

definition send_mintErc20 :: "liquityEnv \<Rightarrow> string \<Rightarrow> decimalish \<Rightarrow> txOverrides \<Rightarrow> unit sending" where
  "send_mintErc20 env toAddress amount ov = thenSend env (wrapCall (mintErc20 (estimateCall env) toAddress amount ov))"

definition send_claimCollateralSurplus :: "liquityEnv \<Rightarrow> txOverrides \<Rightarrow> unit sending" where
  "send_claimCollateralSurplus env ov = thenSend env (wrapCall (claimCollateralSurplus (estimateCall env) ov))"
section \<open>EthersLiquity\<close>

datatype liquityError = SentError sentError | EthersTransactionFailedError string "rawReceipt option"

text \<open>A receipt that is not successful is thrown; a pending one never gets here, since \<open>waitForReceipt\<close> asserts that it is not.\<close>

definition waitForSuccess :: "'d sentTransaction \<Rightarrow> liquityError + 'd" where
  "waitForSuccess tx =
     (case waitForReceipt (sentParse tx) (rawSentTransaction tx) of
        Inl e \<Rightarrow> Inl (SentError e)
      | Inr (SuccessfulReceipt _ details) \<Rightarrow> Inr details
      | Inr (FailedReceipt r) \<Rightarrow> Inl (EthersTransactionFailedError ''Transaction failed'' (Some r))
      | Inr PendingReceipt \<Rightarrow> Inl (EthersTransactionFailedError ''Transaction failed'' None))"

text \<open>\<open>this.send.method(...).then(waitForSuccess)\<close>.\<close>

definition thenWait :: "'d sending \<Rightarrow> liquityError + 'd" where
  "thenWait sent = (case sent of Inl e \<Rightarrow> Inl (SentError e) | Inr tx \<Rightarrow> waitForSuccess tx)"

definition liquity_openTrove :: "liquityEnv \<Rightarrow> entries \<Rightarrow> borrowingParams \<Rightarrow> txOverrides \<Rightarrow> liquityError + troveCreationParams troveChangeDetails" where
  "liquity_openTrove env params optionalParams ov = thenWait (send_openTrove env params optionalParams ov)"

definition liquity_closeTrove :: "liquityEnv \<Rightarrow> txOverrides \<Rightarrow> liquityError + closureDetails" where
  "liquity_closeTrove env ov = thenWait (send_closeTrove env ov)"

definition liquity_adjustTrove :: "liquityEnv \<Rightarrow> entries \<Rightarrow> borrowingParams \<Rightarrow> txOverrides \<Rightarrow> liquityError + troveAdjustmentParams troveChangeDetails" where
  "liquity_adjustTrove env params optionalParams ov = thenWait (send_adjustTrove env params optionalParams ov)"

definition liquity_depositCollateral :: "liquityEnv \<Rightarrow> decimalish \<Rightarrow> txOverrides \<Rightarrow> liquityError + troveAdjustmentParams troveChangeDetails" where
  "liquity_depositCollateral env amount ov = thenWait (send_depositCollateral env amount ov)"

definition liquity_withdrawCollateral :: "liquityEnv \<Rightarrow> decimalish \<Rightarrow> txOverrides \<Rightarrow> liquityError + troveAdjustmentParams troveChangeDetails" where
  "liquity_withdrawCollateral env amount ov = thenWait (send_withdrawCollateral env amount ov)"

definition liquity_borrowTHUSD :: "liquityEnv \<Rightarrow> decimalish \<Rightarrow> decimalish option \<Rightarrow> txOverrides \<Rightarrow> liquityError + troveAdjustmentParams troveChangeDetails" where
  "liquity_borrowTHUSD env amount maxBorrowingRate ov = thenWait (send_borrowTHUSD env amount maxBorrowingRate ov)"

definition liquity_repayTHUSD :: "liquityEnv \<Rightarrow> decimalish \<Rightarrow> txOverrides \<Rightarrow> liquityError + troveAdjustmentParams troveChangeDetails" where
  "liquity_repayTHUSD env amount ov = thenWait (send_repayTHUSD env amount ov)"

definition liquity_setPrice :: "liquityEnv \<Rightarrow> decimalish \<Rightarrow> txOverrides \<Rightarrow> liquityError + unit" where
  "liquity_setPrice env newPrice ov = thenWait (send_setPrice env newPrice ov)"

definition liquity_liquidate :: "liquityEnv \<Rightarrow> string + string list \<Rightarrow> txOverrides \<Rightarrow> liquityError + liquidationDetails" where
  "liquity_liquidate env address ov = thenWait (send_liquidate env address ov)"

definition liquity_liquidateUpTo :: "liquityEnv \<Rightarrow> nat \<Rightarrow> txOverrides \<Rightarrow> liquityError + liquidationDetails" where
  "liquity_liquidateUpTo env n ov = thenWait (send_liquidateUpTo env n ov)"

definition liquity_depositTHUSDInBammPool :: "liquityEnv \<Rightarrow> decimalish \<Rightarrow> txOverrides \<Rightarrow> liquityError + depositChangeDetails" where
  "liquity_depositTHUSDInBammPool env amount ov = thenWait (send_depositTHUSDInBammPool env amount ov)"

definition liquity_withdrawTHUSDFromBammPool :: "liquityEnv \<Rightarrow> decimalish \<Rightarrow> txOverrides \<Rightarrow> liquityError + depositChangeDetails" where
  "liquity_withdrawTHUSDFromBammPool env amount ov = thenWait (send_withdrawTHUSDFromBammPool env amount ov)"

definition liquity_withdrawGainsFromBammPool :: "liquityEnv \<Rightarrow> txOverrides \<Rightarrow> liquityError + gainsDetails" where
  "liquity_withdrawGainsFromBammPool env ov = thenWait (send_withdrawGainsFromBammPool env ov)"

definition liquity_depositTHUSDInStabilityPool :: "liquityEnv \<Rightarrow> decimalish \<Rightarrow> txOverrides \<Rightarrow> liquityError + depositChangeDetails" where
  "liquity_depositTHUSDInStabilityPool env amount ov = thenWait (send_depositTHUSDInStabilityPool env amount ov)"

definition liquity_withdrawTHUSDFromStabilityPool :: "liquityEnv \<Rightarrow> decimalish \<Rightarrow> txOverrides \<Rightarrow> liquityError + depositChangeDetails" where
  "liquity_withdrawTHUSDFromStabilityPool env amount ov = thenWait (send_withdrawTHUSDFromStabilityPool env amount ov)"

definition liquity_bammUnlock :: "liquityEnv \<Rightarrow> txOverrides \<Rightarrow> liquityError + unit" where
  "liquity_bammUnlock env ov = thenWait (send_bammUnlock env ov)"

definition liquity_withdrawGainsFromStabilityPool :: "liquityEnv \<Rightarrow> txOverrides \<Rightarrow> liquityError + gainsDetails" where
  "liquity_withdrawGainsFromStabilityPool env ov = thenWait (send_withdrawGainsFromStabilityPool env ov)"

definition liquity_transferCollateralGainToTrove :: "liquityEnv \<Rightarrow> txOverrides \<Rightarrow> liquityError + gainTransferDetails" where
  "liquity_transferCollateralGainToTrove env ov = thenWait (send_transferCollateralGainToTrove env ov)"

definition liquity_transferBammCollateralGainToTrove :: "liquityEnv \<Rightarrow> txOverrides \<Rightarrow> liquityError + gainTransferDetails" where
  "liquity_transferBammCollateralGainToTrove env ov = thenWait (send_transferBammCollateralGainToTrove env ov)"

definition liquity_sendTHUSD :: "liquityEnv \<Rightarrow> string \<Rightarrow> decimalish \<Rightarrow> txOverrides \<Rightarrow> liquityError + unit" where
  "liquity_sendTHUSD env toAddress amount ov = thenWait (send_sendTHUSD env toAddress amount ov)"

definition liquity_redeemTHUSD :: "liquityEnv \<Rightarrow> decimalish \<Rightarrow> decimalish option \<Rightarrow> txOverrides \<Rightarrow> liquityError + redemptionDetails option" where
  "liquity_redeemTHUSD env amount maxRedemptionRate ov = thenWait (send_redeemTHUSD env amount maxRedemptionRate ov)"

definition liquity_approveErc20 :: "liquityEnv \<Rightarrow> decimalish option \<Rightarrow> txOverrides \<Rightarrow> liquityError + unit" where
  "liquity_approveErc20 env allowance ov = thenWait (send_approveErc20 env allowance ov)"

definition liquity_mintErc20 :: "liquityEnv \<Rightarrow> string \<Rightarrow> decimalish \<Rightarrow> txOverrides \<Rightarrow> liquityError + unit" where
  "liquity_mintErc20 env toAddress amount ov = thenWait (send_mintErc20 env toAddress amount ov)"

definition liquity_claimCollateralSurplus :: "liquityEnv \<Rightarrow> txOverrides \<Rightarrow> liquityError + unit" where
  "liquity_claimCollateralSurplus env ov = thenWait (send_claimCollateralSurplus env ov)"

end
