(* ===== verification/EthersLiquity_Correct.thy ===== *)
theory EthersLiquity_Correct
  imports EthersLiquity Receipts_Correct
begin

text \<open>
  What becomes of a transaction of \<open>EthersLiquity\<close>: details are returned for a transaction that was mined and did not
  revert, and every other end has its error.
\<close>

section \<open>From a prepared transaction to its outcome\<close>

text \<open>The ends of a transaction.\<close>

datatype 'd txEnd =
    NotPrepared js_error
  | NoSigner
  | SignerRefused rawError
  | WaitFailed sentError
  | Reverted rawReceipt
  | Unreadable js_error
  | Succeeded 'd

definition txEnd_of :: "liquityEnv \<Rightarrow> 'd populatedTransaction res \<Rightarrow> 'd txEnd" where
  "txEnd_of env populated =
     (case populated of
        Inl e \<Rightarrow> NotPrepared e
      | Inr tx \<Rightarrow>
          if \<not> le_hasSigner env then NoSigner
          else case le_sendTransaction env (fst (rawPopulatedTransaction tx)) (snd (rawPopulatedTransaction tx)) of
            Inl e \<Rightarrow> SignerRefused e
          | Inr w \<Rightarrow>
              (case waitForRawReceipt w of
                 Inl e \<Rightarrow> WaitFailed e
               | Inr None \<Rightarrow> WaitFailed (Thrown AssertionError)
               | Inr (Some r) \<Rightarrow>
                   if rr_status r = None \<or> rr_status r = Some 0 then Reverted r
                   else case parseReceipt tx r of Inl e \<Rightarrow> Unreadable e | Inr d \<Rightarrow> Succeeded d))"

fun result_of :: "'d txEnd \<Rightarrow> liquityError + 'd" where
  "result_of (NotPrepared e) = Inl (SentError (Thrown e))"
| "result_of NoSigner = Inl (SentError (Thrown (Error ''Must be connected through a Signer'')))"
| "result_of (SignerRefused e) = Inl (SentError (Rethrown e))"
| "result_of (WaitFailed e) = Inl (SentError e)"
| "result_of (Reverted r) = Inl (EthersTransactionFailedError ''Transaction failed'' (Some r))"
| "result_of (Unreadable e) = Inl (SentError (Thrown e))"
| "result_of (Succeeded d) = Inr d"

lemma thenWait_thenSend: "thenWait (thenSend env populated) = result_of (txEnd_of env populated)"
  by (simp add: thenWait_def thenSend_def txEnd_of_def sendTransaction_def requireSigner_def waitForSuccess_def waitForReceipt_def getReceipt_def
      receiptFrom_def split: sum.split option.split)
lemma result_of_success: "result_of e = Inr d \<longleftrightarrow> e = Succeeded d"
  by (cases e) auto

lemma result_of_failed: "result_of e = Inl (EthersTransactionFailedError m r) \<longleftrightarrow> (\<exists>r'. e = Reverted r' \<and> r = Some r') \<and> m = ''Transaction failed''"
  by (cases e) auto

lemma txEnd_of_success:
  "txEnd_of env populated = Succeeded d \<longleftrightarrow>
     (\<exists>tx w r. populated = Inr tx \<and> le_hasSigner env \<and>
        le_sendTransaction env (fst (rawPopulatedTransaction tx)) (snd (rawPopulatedTransaction tx)) = Inr w \<and>
        waitForRawReceipt w = Inr (Some r) \<and> rr_status r \<notin> {None, Some 0} \<and> parseReceipt tx r = Inr d)"
  by (simp add: txEnd_of_def split: sum.split option.split)

lemma txEnd_of_reverted:
  "txEnd_of env populated = Reverted r \<longleftrightarrow>
     (\<exists>tx w. populated = Inr tx \<and> le_hasSigner env \<and>
        le_sendTransaction env (fst (rawPopulatedTransaction tx)) (snd (rawPopulatedTransaction tx)) = Inr w \<and>
        waitForRawReceipt w = Inr (Some r) \<and> rr_status r \<in> {None, Some 0})"
  by (auto simp: txEnd_of_def split: sum.split option.split)

lemmas transaction_iffs = thenWait_thenSend result_of_success result_of_failed txEnd_of_success txEnd_of_reverted

section \<open>The transactions\<close>


text \<open>\<open>send\<close> and \<open>waitForReceipt\<close> of the sent transaction are \<open>sendAndWait\<close>, if the signer sends what it is given.\<close>

lemma sendAndWait_sent:
  assumes "\<And>c ov. le_sendTransaction env (ContractCall c) ov = Inr (network c ov)" and "wrapCall (Inr px) = Inr tx"
  shows "(case sendTransaction env tx of
            Inl e \<Rightarrow> Inl e
          | Inr sent \<Rightarrow> waitForReceipt (sentParse sent) (rawSentTransaction sent)) = sendAndWait (le_hasSigner env) network px"
  using assms by (auto simp: wrapCall_def sendTransaction_def sendAndWait_def split: sum.split)

end
