(* ===== verification/ThresholdStores.thy ===== *)
theory ThresholdStores
  imports LiquityStore
begin

text \<open>
  \<open>packages/lib-react/src\<close>: the component \<open>ThresholdStoreProvider\<close>, which starts the stores and shows its
  children when all of them are loaded, the hook \<open>useThresholdSelector\<close>, and the comparison \<open>equals\<close> that decides whether
  a notification leads to rendering.

  A store is known by a number, and so is a block listener that \<open>start\<close> of a store registers.  React runs the clean-up of an
  effect before the effect itself, both with the values of the render they belong to.
\<close>

section \<open>Comparing selections\<close>

datatype selection = SelectedObject jsObject | SelectedValue jsValue

definition shallowEquals :: "jsObject \<Rightarrow> jsObject \<Rightarrow> bool" where
  "shallowEquals a b \<longleftrightarrow>
     length a = length b \<and> (\<forall>(key, v) \<in> set a. key \<in> fst ` set b \<and> map_of a key = map_of b key)"

fun js_equals :: "selection \<Rightarrow> selection \<Rightarrow> bool" where
  "js_equals (SelectedObject a) (SelectedObject b) = shallowEquals a b"
| "js_equals a b = (a = b)"

text \<open>A selector that picks properties of the state, as those of the front end do.\<close>

definition selectProperties :: "string list \<Rightarrow> jsObject \<Rightarrow> selection" where
  "selectProperties keys state = SelectedObject (map (\<lambda>k. (k, property state k)) keys)"

text \<open>The listener that \<open>subscribeStores\<close> puts on a store: whether it renders.\<close>

definition rerendersOn :: "(jsObject \<Rightarrow> selection) \<Rightarrow> jsObject \<Rightarrow> jsObject \<Rightarrow> bool" where
  "rerendersOn select new old \<longleftrightarrow> \<not> js_equals (select new) (select old)"

section \<open>The provider of stores\<close>

record versionedStore =
  vs_collateral :: string
  vs_version :: string
  vs_store :: nat

record storeProvider =
  sp_stores :: "versionedStore list"
  sp_loaded :: "versionedStore list"
  sp_onLoaded :: "(nat \<times> versionedStore) list"
  sp_blockListeners :: "(nat \<times> nat) list"
  sp_nextListener :: nat

definition mountProvider :: "versionedStore list \<Rightarrow> storeProvider" where
  "mountProvider stores =
     \<lparr>sp_stores = stores, sp_loaded = [], sp_onLoaded = [], sp_blockListeners = [], sp_nextListener = 0\<rparr>"

text \<open>\<open>start\<close> of a store registers a listener of its own and returns the function that removes it.\<close>

definition startStore :: "nat \<Rightarrow> storeProvider \<Rightarrow> nat \<times> storeProvider" where
  "startStore n p =
     (sp_nextListener p,
      p\<lparr>sp_blockListeners := sp_blockListeners p @ [(n, sp_nextListener p)], sp_nextListener := Suc (sp_nextListener p)\<rparr>)"

definition stopStore :: "nat \<times> nat \<Rightarrow> storeProvider \<Rightarrow> storeProvider" where
  "stopStore l p = p\<lparr>sp_blockListeners := filter (\<lambda>l'. l' \<noteq> l) (sp_blockListeners p)\<rparr>"

definition provideStore :: "versionedStore \<Rightarrow> storeProvider \<Rightarrow> storeProvider" where
  "provideStore v p = snd (startStore (vs_store v) (p\<lparr>sp_onLoaded := (vs_store v, v) # sp_onLoaded p\<rparr>))"

definition providerEffect :: "storeProvider \<Rightarrow> storeProvider" where
  "providerEffect p = fold provideStore (sp_stores p) p"

definition unprovideStore :: "versionedStore \<Rightarrow> storeProvider \<Rightarrow> storeProvider" where
  "unprovideStore v p =
     (let p' = p\<lparr>sp_loaded := [], sp_onLoaded := filter (\<lambda>(n, _). n \<noteq> vs_store v) (sp_onLoaded p)\<rparr>;
          (l, p'') = startStore (vs_store v) p'
      in stopStore (vs_store v, l) p'')"

definition providerCleanup :: "storeProvider \<Rightarrow> storeProvider" where
  "providerCleanup p = fold unprovideStore (sp_stores p) p"

text \<open>A store has loaded: it calls its \<open>onLoaded\<close>, if there is one.\<close>

definition storeLoaded :: "nat \<Rightarrow> storeProvider \<Rightarrow> storeProvider" where
  "storeLoaded n p =
     (case map_of (sp_onLoaded p) n of Some v \<Rightarrow> p\<lparr>sp_loaded := sp_loaded p @ [v]\<rparr> | None \<Rightarrow> p)"

text \<open>The stores that the children get; \<open>None\<close> stands for the loader.\<close>

definition providerRender :: "storeProvider \<Rightarrow> versionedStore list option" where
  "providerRender p = (if length (sp_loaded p) \<noteq> length (sp_stores p) then None else Some (sp_loaded p))"

definition useThresholdStore :: "versionedStore list option \<Rightarrow> versionedStore list res" where
  "useThresholdStore context' =
     (case context' of
        Some stores \<Rightarrow> Inr stores
      | None \<Rightarrow> Inl (Error ''You must provide a ThresholdStore via ThresholdStoreProvider''))"

section \<open>The selector\<close>

record selectorHook =
  sh_isMounted :: bool
  sh_subscribed :: "nat list"
  sh_hasCleanup :: bool

definition newSelector :: selectorHook where
  "newSelector = \<lparr>sh_isMounted = True, sh_subscribed = [], sh_hasCleanup = False\<rparr>"

text \<open>A commit whose stores or selector differ from those of the commit before: the clean-up of the last effect, then the effect, which
  reads \<open>isMounted\<close> of its render.  What \<open>subscribe\<close> returns is not kept.\<close>

definition selectorCommit :: "versionedStore list \<Rightarrow> selectorHook \<Rightarrow> selectorHook" where
  "selectorCommit stores s =
     (let s' = (if sh_hasCleanup s then s\<lparr>sh_isMounted := False\<rparr> else s)
      in if sh_isMounted s then s'\<lparr>sh_subscribed := sh_subscribed s @ map vs_store stores, sh_hasCleanup := True\<rparr>
         else s'\<lparr>sh_hasCleanup := False\<rparr>)"

definition getSelectedStoreStates :: "(nat \<Rightarrow> jsObject) \<Rightarrow> (jsObject \<Rightarrow> 's) \<Rightarrow> versionedStore list \<Rightarrow> (string \<times> string \<times> 's) list" where
  "getSelectedStoreStates stateOf select stores =
     map (\<lambda>v. (vs_collateral v, vs_version v, select (stateOf (vs_store v)))) stores"

text \<open>How the components pick the state of theirs among the selected states.\<close>

definition findStore :: "string \<Rightarrow> string \<Rightarrow> (string \<times> string \<times> 's) list \<Rightarrow> 's option" where
  "findStore version collateral' selected =
     map_option (\<lambda>(_, _, s). s) (find (\<lambda>(c, v, _). v = version \<and> c = collateral') selected)"

end
