(* ===== verification/ThresholdStores_Correct.thy ===== *)
theory ThresholdStores_Correct
  imports ThresholdStores "HOL-Library.Multiset"
begin

text \<open>
  A component renders exactly when a property it selects has changed; children of the provider get every store exactly
  once; and two places where listeners stay behind.
\<close>

section \<open>Rendering\<close>

lemma map_of_select: "map_of (map (\<lambda>k. (k, f k)) ks) k = (if k \<in> set ks then Some (f k) else None)"
  by (induction ks) auto

text \<open>A component that selects properties renders on a notification exactly if one of them is among the properties that the store reports as
  changed.\<close>

theorem rerenders_exactly:
  assumes "set keys \<subseteq> fst ` set new" and "distinct (map fst new)"
  shows "rerendersOn (selectProperties keys) new old \<longleftrightarrow> (\<exists>k \<in> set keys. k \<in> fst ` set (difference new old))"
proof -
  have "k \<in> fst ` set (difference new old) \<longleftrightarrow> property new k \<noteq> property old k" if k: "k \<in> set keys" for k
  proof -
    from k assms(1) obtain v where v: "(k, v) \<in> set new" by force
    with assms(2) have new: "map_of new k = Some v" by (intro map_of_is_SomeI)
    have "k \<in> fst ` set (difference new old) \<longleftrightarrow> (\<exists>w. (k, w) \<in> set new \<and> w \<noteq> property old k)"
      by (force simp: difference_def)
    also have "\<dots> \<longleftrightarrow> v \<noteq> property old k"
    proof -
      have "w = v" if "(k, w) \<in> set new" for w using map_of_is_SomeI [OF assms(2) that] new by simp
      with v show ?thesis by blast
    qed
    finally show ?thesis by (simp add: property_def new)
  qed
  then show ?thesis by (auto simp: rerendersOn_def selectProperties_def shallowEquals_def map_of_select image_iff)
qed

section \<open>The provider\<close>

lemma providerEffect_fields:
  "sp_stores (fold provideStore vs p) = sp_stores p"
  "sp_loaded (fold provideStore vs p) = sp_loaded p"
  "sp_onLoaded (fold provideStore vs p) = rev (map (\<lambda>v. (vs_store v, v)) vs) @ sp_onLoaded p"
  by (induction vs arbitrary: p) (simp_all add: provideStore_def startStore_def)

lemma storeLoaded_run:
  assumes "set ns \<subseteq> dom (map_of (sp_onLoaded p))"
  shows "sp_loaded (fold storeLoaded ns p) = sp_loaded p @ map (\<lambda>n. the (map_of (sp_onLoaded p) n)) ns \<and>
         sp_stores (fold storeLoaded ns p) = sp_stores p \<and> sp_onLoaded (fold storeLoaded ns p) = sp_onLoaded p"
  using assms
proof (induction ns arbitrary: p)
  case (Cons n ns)
  then obtain v where "map_of (sp_onLoaded p) n = Some v" by auto
  then have s: "storeLoaded n p = p\<lparr>sp_loaded := sp_loaded p @ [v]\<rparr>" by (simp add: storeLoaded_def)
  show ?case using Cons.IH [of "storeLoaded n p"] Cons.prems \<open>map_of (sp_onLoaded p) n = Some v\<close> by (simp add: s)
qed simp

text \<open>C38: The children are shown once every store has loaded, in whatever order, and get every store exactly once.\<close>

theorem provider_shows_all:
  assumes "distinct (map vs_store stores)" and "distinct ns" and "set ns \<subseteq> vs_store ` set stores"
  shows "(case providerRender (fold storeLoaded ns (providerEffect (mountProvider stores))) of
            None \<Rightarrow> set ns \<noteq> vs_store ` set stores
          | Some provided \<Rightarrow> set ns = vs_store ` set stores \<and> mset provided = mset stores)"
proof -
  let ?p = "providerEffect (mountProvider stores)"
  have p: "sp_stores ?p = stores" "sp_loaded ?p = []" "sp_onLoaded ?p = rev (map (\<lambda>v. (vs_store v, v)) stores)"
    by (simp_all add: providerEffect_def mountProvider_def providerEffect_fields)
  have lookup: "map_of (sp_onLoaded ?p) (vs_store v) = Some v" if "v \<in> set stores" for v
    using that assms(1) unfolding p(3) by (intro map_of_is_SomeI) (auto simp: rev_map comp_def distinct_rev simp flip: rev_map)
  have run: "sp_loaded (fold storeLoaded ns ?p) = map (\<lambda>n. the (map_of (sp_onLoaded ?p) n)) ns" "sp_stores (fold storeLoaded ns ?p) = stores"
    using storeLoaded_run [of ns ?p] assms(3) lookup p(1,2) by (auto simp: subset_iff dom_def)
  have card: "length ns = length stores \<longleftrightarrow> set ns = vs_store ` set stores"
    using assms distinct_card [OF assms(2)] distinct_card [OF assms(1)] by (metis card_subset_eq finite_set length_map set_map finite_imageI)
  have "mset (map (\<lambda>n. the (map_of (sp_onLoaded ?p) n)) ns) = mset stores" if "set ns = vs_store ` set stores"
  proof -
    have "mset ns = mset (map vs_store stores)" using assms(1,2) that by (simp add: set_eq_iff_mset_eq_distinct flip: set_map)
    then have "mset (map (\<lambda>n. the (map_of (sp_onLoaded ?p) n)) ns) = mset (map (\<lambda>n. the (map_of (sp_onLoaded ?p) n)) (map vs_store stores))"
      by (metis mset_map)
    also have "map (\<lambda>n. the (map_of (sp_onLoaded ?p) n)) (map vs_store stores) = stores" using lookup by (simp add: map_idI)
    finally show ?thesis .
  qed
  with card show ?thesis by (auto simp: providerRender_def run)
qed

definition example_stores :: "versionedStore list" where
  "example_stores =
     [\<lparr>vs_collateral = ''eth'', vs_version = ''v1'', vs_store = 1\<rparr>, \<lparr>vs_collateral = ''tbtc'', vs_version = ''v1'', vs_store = 2\<rparr>]"

theorem provider_shows_all_witness:
  "\<exists>provided. providerRender (fold storeLoaded [2, 1] (providerEffect (mountProvider example_stores))) = Some provided \<and>
     mset provided = mset example_stores"
  using provider_shows_all [of example_stores "[2, 1]"] by (auto simp: example_stores_def insert_commute split: option.splits)

theorem rerenders_exactly_witness:
  "\<not> rerendersOn (selectProperties [''price'']) [(''price'', VNumber 1), (''symbol'', VString ''x'')] [(''price'', VNumber 1)]"
  using rerenders_exactly [of "[''price'']" "[(''price'', VNumber 1), (''symbol'', VString ''x'')]" "[(''price'', VNumber 1)]"]
  by (simp add: difference_def property_def)

section \<open>Listeners that stay behind\<close>

text \<open>The clean-up of the provider starts every store once more and stops only that: the block listeners of the effect stay.\<close>

lemma unprovide_listeners:
  assumes "\<forall>(n, l) \<in> set (sp_blockListeners p). l < sp_nextListener p"
  shows "sp_blockListeners (unprovideStore v p) = sp_blockListeners p \<and> sp_nextListener (unprovideStore v p) = Suc (sp_nextListener p)"
proof -
  have "filter (\<lambda>l'. l' \<noteq> (vs_store v, sp_nextListener p)) (sp_blockListeners p) = sp_blockListeners p"
    using assms by (auto simp: filter_id_conv)
  then show ?thesis by (simp add: unprovideStore_def startStore_def stopStore_def Let_def)
qed

theorem cleanup_keeps_listeners:
  assumes "\<forall>(n, l) \<in> set (sp_blockListeners p). l < sp_nextListener p"
  shows "sp_blockListeners (providerCleanup p) = sp_blockListeners p"
proof -
  have "sp_blockListeners (fold unprovideStore vs p) = sp_blockListeners p" for vs
    using assms
  proof (induction vs arbitrary: p)
    case (Cons v vs)
    have "\<forall>(n, l) \<in> set (sp_blockListeners (unprovideStore v p)). l < sp_nextListener (unprovideStore v p)"
      using Cons.prems unprovide_listeners [OF Cons.prems, of v] by auto
    with Cons.IH [OF this] unprovide_listeners [OF Cons.prems, of v] show ?case by simp
  qed simp
  then show ?thesis by (simp add: providerCleanup_def)
qed

text \<open>No subscription of a selector is ever removed, and from the second change of the stores on it does not subscribe any more.\<close>

theorem selector_subscriptions:
  "sh_subscribed (fold selectorCommit (first # second # rest) newSelector) = map vs_store (first @ second)"
proof -
  have "\<not> sh_isMounted s \<Longrightarrow> sh_subscribed (fold selectorCommit rest s) = sh_subscribed s" for s
  proof (induction rest arbitrary: s)
    case (Cons stores rest)
    then show ?case by (simp add: selectorCommit_def Let_def)
  qed simp
  then show ?thesis by (simp add: newSelector_def selectorCommit_def Let_def)
qed

end
