(* ===== verification/GasHistogram.thy ===== *)
theory GasHistogram
  imports Receipts
begin

text \<open>
  \<open>packages/fuzzer/src/GasHistogram.ts\<close>: sending a transaction again when it ran out of gas, and counting the gas that
  successful transactions used in bins of 10000.

  \<open>sendTx\<close> gives, for the number of the attempt, the error of sending or waiting, or the mined transaction.  Messages on the
  console are left out.
\<close>

section \<open>Retries\<close>

definition intervalWidth :: nat where
  "intervalWidth = 10000"

definition numberOfBins :: nat where
  "numberOfBins = 800"

record minedTx =
  mt_succeeded :: bool
  mt_gasUsed :: nat
  mt_gasLimit :: nat

function retryUpTo_loop :: "nat \<Rightarrow> (nat \<Rightarrow> 'e + minedTx) \<Rightarrow> nat \<Rightarrow> 'e + (nat \<times> minedTx)" where
  "retryUpTo_loop limit sendTx retries =
     (case sendTx retries of
        Inl e \<Rightarrow> Inl e
      | Inr tx \<Rightarrow>
          if mt_succeeded tx \<or> mt_gasUsed tx < mt_gasLimit tx \<or> retries \<ge> limit then Inr (retries, tx)
          else retryUpTo_loop limit sendTx (Suc retries))"
  by pat_completeness auto
termination
  by (relation "measure (\<lambda>(limit, sendTx, retries). limit - retries)") auto

declare retryUpTo_loop.simps [simp del]

text \<open>The code compares \<open>retries === times\<close>; it counts up from 0, so the number is never exceeded.\<close>

definition retryUpTo :: "nat \<Rightarrow> (nat \<Rightarrow> 'e + minedTx) \<Rightarrow> 'e + (nat \<times> minedTx)" where
  "retryUpTo limit sendTx = retryUpTo_loop limit sendTx 0"

section \<open>The histogram\<close>

record gasHistogram =
  expectedFailures :: nat
  outOfGasFailures :: nat
  gasUsedBins :: "nat list"

definition new_GasHistogram :: gasHistogram where
  "new_GasHistogram = \<lparr>expectedFailures = 0, outOfGasFailures = 0, gasUsedBins = replicate numberOfBins 0\<rparr>"

text \<open>\<open>toNumber\<close> of the ethers package rejects what is not a safe integer.\<close>

definition addToGasUsedHisto :: "(nat \<Rightarrow> nat res) \<Rightarrow> nat \<Rightarrow> gasHistogram \<Rightarrow> gasHistogram res" where
  "addToGasUsedHisto toNumber' gasUsed h =
     bindR (toNumber' gasUsed)
       (\<lambda>n. let binIndex = n div intervalWidth
            in assertR (binIndex < length (gasUsedBins h))
                 (Inr (h\<lparr>gasUsedBins := (gasUsedBins h)[binIndex := gasUsedBins h ! binIndex + 1]\<rparr>)))"

text \<open>\<open>findIndex(x => x > 0)\<close>, and \<open>slice\<close> with its negative indices.\<close>

fun findNonZero :: "nat list \<Rightarrow> int" where
  "findNonZero [] = -1"
| "findNonZero (x # xs) = (if x > 0 then 0 else let i = findNonZero xs in if i = -1 then -1 else i + 1)"

definition sliceIndex :: "int \<Rightarrow> 'a list \<Rightarrow> nat" where
  "sliceIndex i xs = nat (if i < 0 then max 0 (int (length xs) + i) else min i (int (length xs)))"

definition js_slice :: "int \<Rightarrow> int \<Rightarrow> 'a list \<Rightarrow> 'a list" where
  "js_slice i j xs = take (sliceIndex j xs - sliceIndex i xs) (drop (sliceIndex i xs) xs)"

definition getResults :: "gasHistogram \<Rightarrow> (int \<times> nat) list" where
  "getResults h =
     (let bins = gasUsedBins h;
          firstNonZeroIndex = findNonZero bins;
          firstNonZeroIndexFromEnd = findNonZero (rev bins);
          bins' = js_slice firstNonZeroIndex (int (length bins) - firstNonZeroIndexFromEnd) bins
      in map (\<lambda>(frequency, i). (int intervalWidth * (firstNonZeroIndex + int i), frequency)) (zip bins' [0..<length bins']))"

text \<open>The errors of \<open>expectSuccess\<close>: those of sending and waiting, a failed transaction, and those of counting.\<close>

datatype 'e histoError = SendError 'e | HistoTransactionFailed minedTx | CountError js_error

definition expectSuccess ::
    "(nat \<Rightarrow> nat res) \<Rightarrow> (nat \<Rightarrow> 'e + minedTx) \<Rightarrow> gasHistogram \<Rightarrow> ('e histoError option) \<times> gasHistogram" where
  "expectSuccess toNumber' sendTx h =
     (case retryUpTo 1 sendTx of
        Inl e \<Rightarrow> (Some (SendError e), h)
      | Inr (retries, tx) \<Rightarrow>
          (let h' = h\<lparr>outOfGasFailures := outOfGasFailures h + retries\<rparr>
           in if \<not> mt_succeeded tx then (Some (HistoTransactionFailed tx), h')
              else case addToGasUsedHisto toNumber' (mt_gasUsed tx) h' of
                     Inl e \<Rightarrow> (Some (CountError e), h')
                   | Inr h'' \<Rightarrow> (None, h'')))"

definition expectFailure :: "('e + 'd) \<Rightarrow> gasHistogram \<Rightarrow> js_error option \<times> gasHistogram" where
  "expectFailure outcome h =
     (case outcome of
        Inl _ \<Rightarrow> (None, h\<lparr>expectedFailures := expectedFailures h + 1\<rparr>)
      | Inr _ \<Rightarrow> (Some (Error ''Unexpected success''), h))"

end
