(* ===== verification/Fuzzer_Fixture.thy ===== *)
theory Fuzzer_Fixture
  imports GasHistogram Fuzzer_Checks
begin

text \<open>
  The decisions of the fuzzer, \<open>packages/fuzzer/src/fixture.ts\<close> and the random values of \<open>utils.ts\<close>: which transaction
  is sent and whether it is expected to succeed.

  A method is the function of what it reads from the chain to the actions it takes, in their order; numbers that
  \<open>Math.random()\<close> leads to are arguments, as the decimal that the library makes of them.  Messages on the console are left out.
\<close>

section \<open>Random values\<close>

definition truncateLastDigits :: "int \<Rightarrow> int" where
  "truncateLastDigits n =
     (if n > 100000 then 1000 * (n div 1000)
      else if n > 10000 then 100 * (n div 100)
      else if n > 1000 then 10 * (n div 10)
      else n)"

text \<open>\<open>createRandomTrove\<close>: \<open>value\<close> is \<open>benford(1000)\<close>, \<open>heads\<close> the toss of the coin, \<open>b\<close> the second number of \<open>benford\<close> (of the debt that the
  collateral covers, or of 200).  Numbers become decimals by their digits, and \<open>parseInt\<close> of the digits is the number they denote.\<close>

definition int_string :: "int \<Rightarrow> string" where
  "int_string i = (if i < 0 then ''-'' @ dec_string (nat (- i)) else dec_string (nat i))"

definition decimalOfInt :: "int \<Rightarrow> decimal res" where
  "decimalOfInt n = Decimal_from (DNumber (int_string n))"

definition createRandomTrove :: "decimal \<Rightarrow> nat \<Rightarrow> bool \<Rightarrow> (int \<Rightarrow> int) \<Rightarrow> nat \<Rightarrow> trove res" where
  "createRandomTrove price benford1000 heads benfordOf benford200 =
     (let randomValue = truncateLastDigits (int benford1000)
      in if heads then
           bindR (decimalOfInt randomValue) (\<lambda>coll.
             bindR (Decimal_toString (Decimal_mul price coll) (Some 0)) (\<lambda>digits. bindR (Decimal_from (DString digits)) (\<lambda>covered.
             let maxDebt = int (bn covered div DIGITS)
             in bindR (decimalOfInt (truncateLastDigits (maxDebt - benfordOf maxDebt)))
                  (\<lambda>d. Inr \<lparr>collateral = coll, debt = Decimal_add THUSD_LIQUIDATION_RESERVE d\<rparr>))))
         else
           bindR (decimalOfInt (100 * randomValue)) (\<lambda>d.
             let debt' = Decimal_add THUSD_LIQUIDATION_RESERVE d;
                 factor = Dec ((100 + benford200) * DIGITS);
                 coll = Decimal_div (Decimal_mul (Decimal_div debt' price) factor) (Dec (100 * DIGITS))
             in bindR (Decimal_toString coll (Some 4)) (\<lambda>text. bindR (Decimal_from (DString text))
                  (\<lambda>c. Inr \<lparr>collateral = c, debt = debt'\<rparr>))))"

text \<open>\<open>randomCollateralChange\<close> and \<open>randomDebtChange\<close>, with the factor of the amount.\<close>

definition randomCollateralChange :: "'a trove_scheme \<Rightarrow> bool \<Rightarrow> decimal \<Rightarrow> entries" where
  "randomCollateralChange t heads factor =
     (if heads then [(''withdrawCollateral'', Some (DDecimal (Decimal_mul (collateral t) factor)))]
      else [(''depositCollateral'', Some (DDecimal (Decimal_mul (collateral t) factor)))])"

definition randomDebtChange :: "'a trove_scheme \<Rightarrow> bool \<Rightarrow> decimal \<Rightarrow> entries" where
  "randomDebtChange t heads factor =
     (if heads then [(''repayTHUSD'', Some (DDecimal (Decimal_mul (debt t) factor)))]
      else [(''borrowTHUSD'', Some (DDecimal (Decimal_mul (debt t) factor)))])"

section \<open>The funder\<close>

datatype fuzzAction =
    FunderOpenTrove troveCreationParams
  | FunderAdjustTrove troveAdjustmentParams
  | FunderSendTHUSD string decimal
  | FunderSendCollateral string nat
  | ExpectOpen bool troveCreationParams
  | ExpectAdjust bool entries
  | ExpectClose
  | ExpectRedeem decimal
  | ExpectDeposit decimal
  | ExpectWithdraw bool decimal
  | SetPrice decimal
  | LiquidateUpTo nat
  | SweepTHUSD decimal

record funderView =
  fw_thusdBalance :: decimal
  fw_trove :: trove
  fw_total :: trove
  fw_borrowingRate :: decimal

definition ratio151 :: decimal where
  "ratio151 = Dec (151 * 10 ^ 16)"

definition targetCollateralRatio :: "decimal \<Rightarrow> funderView \<Rightarrow> decimal" where
  "targetCollateralRatio price v =
     (if Trove_isEmpty (fw_trove v) \<or> \<not> Trove_collateralRatioIsBelowCritical (fw_total v) price then ratio151
      else Decimal_max (Decimal_add (Trove_collateralRatio (fw_trove v) price) (Dec (10 ^ 13))) (Dec (111 * 10 ^ 16)))"

text \<open>The trove that is meant to give the funder the missing thUSD.\<close>

definition fundingTrove :: "decimal \<Rightarrow> funderView \<Rightarrow> decimal \<Rightarrow> trove res" where
  "fundingTrove price v amount =
     bindR (if Trove_isEmpty (fw_trove v)
            then Trove_create [(''depositCollateral'', Some (DNumber ''1'')), (''borrowTHUSD'', Some (DNumber ''0''))] None
            else Inr (fw_trove v))
       (\<lambda>start. bindR (Decimal_sub amount (fw_thusdBalance v))
       (\<lambda>missing. bindR (Trove_adjust start [(''borrowTHUSD'', Some (DDecimal (Decimal_mul missing (Dec (2 * DIGITS)))))] None)
       (\<lambda>adjusted.
          let withDebt = (if Decimal_lt (debt adjusted) THUSD_MINIMUM_DEBT then Trove_setDebt adjusted THUSD_MINIMUM_DEBT else adjusted)
          in Inr (Trove_setCollateral withDebt (Decimal_mulDiv (debt withDebt) (targetCollateralRatio price v) price)))))"

text \<open>An existing trove is only adjusted as far as the total stays out of recovery mode.\<close>

definition adjustedFundingTrove :: "decimal \<Rightarrow> funderView \<Rightarrow> trove \<Rightarrow> trove res" where
  "adjustedFundingTrove price v newTrove =
     bindR (Trove_subtract (Trove_add (fw_total v) newTrove) (fw_trove v))
       (\<lambda>newTotal.
          if \<not> Trove_collateralRatioIsBelowCritical (fw_total v) price \<and> Trove_collateralRatioIsBelowCritical newTotal price
          then Trove_subtract (Trove_add (fw_trove v)
                 (Trove_setCollateral newTotal (Decimal_mulDiv (debt newTotal) ratio151 price))) (fw_total v)
          else Inr newTrove)"

definition sendTHUSDFromFunder :: "decimal \<Rightarrow> funderView \<Rightarrow> string \<Rightarrow> decimal \<Rightarrow> fuzzAction list res" where
  "sendTHUSDFromFunder price v toAddress amount =
     (if Decimal_lt (fw_thusdBalance v) amount then
        bindR (fundingTrove price v amount)
          (\<lambda>newTrove.
             if Trove_isEmpty (fw_trove v) then
               bindR (Trove_recreate newTrove (Some (fw_borrowingRate v)))
                 (\<lambda>params. Inr [FunderOpenTrove params, FunderSendTHUSD toAddress amount])
             else
               bindR (adjustedFundingTrove price v newTrove)
                 (\<lambda>newTrove'. bindR (Trove_adjustTo (fw_trove v) newTrove' (Some (fw_borrowingRate v)))
                 (\<lambda>params. Inr [FunderAdjustTrove params, FunderSendTHUSD toAddress amount])))
      else Inr [FunderSendTHUSD toAddress amount])"

section \<open>The actions\<close>

text \<open>\<open>setRandomPrice\<close>; \<open>r\<close> is the random price between 100 and 300.\<close>

definition randomPrice :: "decimal \<Rightarrow> decimal \<Rightarrow> decimal" where
  "randomPrice price r = Decimal_div (Decimal_add price r) (Dec (2 * DIGITS))"

definition setRandomPrice :: "decimal \<Rightarrow> decimal \<Rightarrow> decimal \<times> fuzzAction list" where
  "setRandomPrice price r = (randomPrice price r, [SetPrice (randomPrice price r)])"

text \<open>\<open>liquidateRandomNumberOfTroves\<close> before and after the transaction.\<close>

definition liquidateRandomNumberOfTroves :: "decimal \<Rightarrow> userTrove list \<Rightarrow> nat \<Rightarrow> fuzzAction list" where
  "liquidateRandomNumberOfTroves price trovesBefore n =
     (if trovesBefore = [] \<or> \<not> Trove_collateralRatioIsBelowMinimum (last trovesBefore) price then [] else [LiquidateUpTo n])"

definition countLiquidations :: "nat \<Rightarrow> userTrove list \<Rightarrow> string list \<Rightarrow> nat" where
  "countLiquidations totalNumberOfLiquidations trovesBefore ownersAfter =
     totalNumberOfLiquidations + length (listDifference (map ownerAddress trovesBefore) ownersAfter)"

definition cannotOpen :: "trove \<Rightarrow> decimal \<Rightarrow> trove \<Rightarrow> bool" where
  "cannotOpen tot price newTrove \<longleftrightarrow>
     Decimal_lt (debt newTrove) THUSD_MINIMUM_DEBT \<or>
     (if Trove_collateralRatioIsBelowCritical tot price then \<not> Trove_isOpenableInRecoveryMode newTrove price
      else Trove_collateralRatioIsBelowMinimum newTrove price \<or>
           Trove_collateralRatioIsBelowCritical (Trove_add tot newTrove) price)"

definition openRandomTrove :: "decimal \<Rightarrow> trove \<Rightarrow> decimal \<Rightarrow> string \<Rightarrow> trove \<Rightarrow> fuzzAction list res" where
  "openRandomTrove price tot borrowingRate user newTrove =
     bindR (Trove_recreate newTrove (Some borrowingRate))
       (\<lambda>params. Inr [FunderSendCollateral user (bn (collateral newTrove)), ExpectOpen (\<not> cannotOpen tot price newTrove) params])"

text \<open>\<open>params.key?.test(...)\<close>: a parameter of an adjustment, which is a decimal here.\<close>

definition decimalParam :: "string \<Rightarrow> entries \<Rightarrow> decimal option" where
  "decimalParam key params = (case map_of params key of Some (Some (DDecimal d)) \<Rightarrow> Some d | _ \<Rightarrow> None)"

definition paramNonZero :: "decimal option \<Rightarrow> bool" where
  "paramNonZero p \<longleftrightarrow> (case p of Some d \<Rightarrow> Decimal_nonZero d \<noteq> None | None \<Rightarrow> False)"

definition repaysTooMuch :: "trove \<Rightarrow> decimal option \<Rightarrow> bool res" where
  "repaysTooMuch t repay =
     (case repay of
        None \<Rightarrow> Inr False
      | Some r \<Rightarrow> bindR (Decimal_sub (debt t) THUSD_MINIMUM_DEBT) (\<lambda>d. Inr (Decimal_gt r d)))"

definition withdrawsAll :: "trove \<Rightarrow> decimal option \<Rightarrow> bool" where
  "withdrawsAll t withdraw \<longleftrightarrow> (case withdraw of Some w \<Rightarrow> Decimal_gte w (collateral t) | None \<Rightarrow> False)"

definition cannotAdjust :: "trove \<Rightarrow> decimal \<Rightarrow> decimal \<Rightarrow> trove \<Rightarrow> entries \<Rightarrow> bool res" where
  "cannotAdjust tot price borrowingRate t params =
     (if withdrawsAll t (decimalParam ''withdrawCollateral'' params) then Inr True
      else bindR (repaysTooMuch t (decimalParam ''repayTHUSD'' params))
        (\<lambda>tooMuch. if tooMuch then Inr True
          else bindR (Trove_adjust t params (Some borrowingRate))
            (\<lambda>adjusted.
               if \<not> (paramNonZero (decimalParam ''withdrawCollateral'' params) \<or> paramNonZero (decimalParam ''borrowTHUSD'' params))
               then Inr False
               else if Trove_collateralRatioIsBelowMinimum adjusted price then Inr True
               else if Trove_collateralRatioIsBelowCritical tot price
                 then Inr (Decimal_lt (Trove_nominalCollateralRatio adjusted) (Trove_nominalCollateralRatio t))
               else bindR (Trove_subtract (Trove_add tot adjusted) t)
                      (\<lambda>newTotal. Inr (Trove_collateralRatioIsBelowCritical newTotal price)))))"

text \<open>\<open>randomlyAdjustTrove\<close> with the chosen parameters; \<open>funder\<close> gives the actions of \<open>sendTHUSDFromFunder\<close>.\<close>

definition randomlyAdjustTrove ::
    "decimal \<Rightarrow> trove \<Rightarrow> decimal \<Rightarrow> (string \<Rightarrow> decimal \<Rightarrow> fuzzAction list res) \<Rightarrow> string \<Rightarrow> trove \<Rightarrow> entries \<Rightarrow> fuzzAction list res" where
  "randomlyAdjustTrove price tot borrowingRate funder user t params =
     bindR (case decimalParam ''repayTHUSD'' params of Some r \<Rightarrow> funder user r | None \<Rightarrow> Inr [])
       (\<lambda>funding. bindR (cannotAdjust tot price borrowingRate t params)
       (\<lambda>cannot. Inr
          ((case decimalParam ''depositCollateral'' params of Some d \<Rightarrow> [FunderSendCollateral user (bn d)] | None \<Rightarrow> []) @
           funding @ [ExpectAdjust (\<not> cannot) params])))"

definition fixture_closeTrove ::
    "decimal \<Rightarrow> trove \<Rightarrow> (string \<Rightarrow> decimal \<Rightarrow> fuzzAction list res) \<Rightarrow> string \<Rightarrow> trove \<Rightarrow> fuzzAction list res" where
  "fixture_closeTrove price tot funder user t =
     (if Trove_collateralRatioIsBelowCritical tot price then Inr []
      else bindR (Trove_netDebt t) (\<lambda>net. bindR (funder user net) (\<lambda>funding. Inr (funding @ [ExpectClose]))))"

definition redeemRandomAmount ::
    "decimal \<Rightarrow> trove \<Rightarrow> (string \<Rightarrow> decimal \<Rightarrow> fuzzAction list res) \<Rightarrow> string \<Rightarrow> decimal \<Rightarrow> fuzzAction list res" where
  "redeemRandomAmount price tot funder user amount =
     (if Trove_collateralRatioIsBelowMinimum tot price then Inr []
      else bindR (funder user amount) (\<lambda>funding. Inr (funding @ [ExpectRedeem amount])))"

text \<open>The outcome of a redemption: an error that says that the amount is too low is not reported.\<close>

definition redeemOutcome :: "js_error option \<Rightarrow> js_error option" where
  "redeemOutcome e =
     (case e of Some (Error m) \<Rightarrow> if str_includes m ''amount too low to redeem'' then None else e | _ \<Rightarrow> e)"

definition depositRandomAmountInStabilityPool ::
    "(string \<Rightarrow> decimal \<Rightarrow> fuzzAction list res) \<Rightarrow> string \<Rightarrow> decimal \<Rightarrow> fuzzAction list res" where
  "depositRandomAmountInStabilityPool funder user amount =
     bindR (funder user amount) (\<lambda>funding. Inr (funding @ [ExpectDeposit amount]))"

text \<open>\<open>const [lastTrove] = ...\<close>: reading a ratio of a missing trove throws, but only if the amount is not zero.\<close>

definition withdrawRandomAmountFromStabilityPool :: "decimal \<Rightarrow> userTrove list \<Rightarrow> decimal \<Rightarrow> fuzzAction list res" where
  "withdrawRandomAmountFromStabilityPool price troves amount =
     (if Decimal_nonZero amount = None then Inr [ExpectWithdraw True amount]
      else case troves of
             [] \<Rightarrow> Inl TypeError
           | t # _ \<Rightarrow> Inr [ExpectWithdraw (\<not> Trove_collateralRatioIsBelowMinimum t price) amount])"

definition sweepTHUSD :: "decimal \<Rightarrow> fuzzAction list" where
  "sweepTHUSD thusdBalance = (if Decimal_nonZero thusdBalance \<noteq> None then [SweepTHUSD thusdBalance] else [])"

definition newline :: string where
  "newline = [CHR 0x0A]"

definition summarizeGasStats :: "(string \<times> gasHistogram) list \<Rightarrow> string" where
  "summarizeGasStats histograms =
     concat (map (\<lambda>(name, histo).
       name @ '',outOfGas,'' @ dec_string (outOfGasFailures histo) @ newline @
       name @ '',failure,'' @ dec_string (expectedFailures histo) @ newline @
       concat (map (\<lambda>(intervalMin, frequency).
         name @ '',success,'' @ dec_string frequency @ '','' @ int_string intervalMin @ newline) (getResults histo))) histograms)"

end
