(* ===== verification/GasHistogram_Correct.thy ===== *)
theory GasHistogram_Correct
  imports GasHistogram
begin

text \<open>
  A transaction is sent at most twice, and again only after it ran out of gas; the rows of a histogram account for every
  successful transaction.
\<close>

section \<open>Retries\<close>

definition ranOutOfGas :: "minedTx \<Rightarrow> bool" where
  "ranOutOfGas tx \<longleftrightarrow> \<not> mt_succeeded tx \<and> mt_gasLimit tx \<le> mt_gasUsed tx"

text \<open>What \<open>retryUpTo\<close> returns is the outcome of its last attempt; all attempts before it were mined and ran out of
  gas; and it gave up only when the number of retries was used up.\<close>

lemma retryUpTo_loop_outcome:
  assumes "retryUpTo_loop limit sendTx k = Inr (n, tx)" and "k \<le> limit"
  shows "k \<le> n \<and> n \<le> limit \<and> sendTx n = Inr tx \<and> (ranOutOfGas tx \<longrightarrow> n = limit) \<and>
         (\<forall>i. k \<le> i \<and> i < n \<longrightarrow> (\<exists>tx'. sendTx i = Inr tx' \<and> ranOutOfGas tx'))"
  using assms
proof (induction limit sendTx k rule: retryUpTo_loop.induct)
  case (1 limit sendTx k)
  show ?case
  proof (cases "sendTx k")
    case (Inr t)
    show ?thesis
    proof (cases "mt_succeeded t \<or> mt_gasUsed t < mt_gasLimit t \<or> k \<ge> limit")
      case True
      with 1 Inr show ?thesis by (auto simp: retryUpTo_loop.simps [of limit sendTx k] ranOutOfGas_def)
    next
      case False
      with 1 Inr have "retryUpTo_loop limit sendTx (Suc k) = Inr (n, tx)"
        by (simp add: retryUpTo_loop.simps [of limit sendTx k])
      moreover have "ranOutOfGas t" using False by (auto simp: ranOutOfGas_def)
      ultimately have ih: "Suc k \<le> n \<and> n \<le> limit \<and> sendTx n = Inr tx \<and> (ranOutOfGas tx \<longrightarrow> n = limit) \<and>
         (\<forall>i. Suc k \<le> i \<and> i < n \<longrightarrow> (\<exists>tx'. sendTx i = Inr tx' \<and> ranOutOfGas tx'))"
        using 1 (1) [OF Inr False] False by simp
      have "\<exists>tx'. sendTx i = Inr tx' \<and> ranOutOfGas tx'" if "k \<le> i" "i < n" for i
        using ih that Inr \<open>ranOutOfGas t\<close> by (cases "i = k") auto
      with ih show ?thesis by simp
    qed
  qed (use 1 in \<open>simp add: retryUpTo_loop.simps [of limit sendTx k]\<close>)
qed

theorem retryUpTo_outcome:
  assumes "retryUpTo limit sendTx = Inr (n, tx)"
  shows "n \<le> limit \<and> sendTx n = Inr tx \<and> (ranOutOfGas tx \<longrightarrow> n = limit) \<and>
         (\<forall>i < n. \<exists>tx'. sendTx i = Inr tx' \<and> ranOutOfGas tx')"
  using retryUpTo_loop_outcome [of limit sendTx 0 n tx] assms by (simp add: retryUpTo_def)

section \<open>Rows\<close>

lemma findNonZero_eq:
  "findNonZero xs = (if \<exists>x \<in> set xs. x > 0 then int (length (takeWhile (\<lambda>x. x = 0) xs)) else -1)"
  by (induction xs) (auto simp: Let_def)

lemma takeWhile_zero: "i < length (takeWhile (\<lambda>x. x = 0) xs) \<Longrightarrow> xs ! i = (0 :: nat)"
  using nth_mem [of i "takeWhile (\<lambda>x. x = 0) xs"] by (auto simp: takeWhile_nth dest: set_takeWhileD)

lemma leading_zeros_le: "xs ! i > (0 :: nat) \<Longrightarrow> length (takeWhile (\<lambda>x. x = 0) xs) \<le> i"
  by (rule ccontr) (use takeWhile_zero [of i xs] in simp)

abbreviation leading :: "nat list \<Rightarrow> nat" where
  "leading xs \<equiv> length (takeWhile (\<lambda>x. x = 0) xs)"

text \<open>The rows are the bins from the first to the last that is not zero.\<close>

lemma getResults_rows:
  assumes "i < length (gasUsedBins h)" and "gasUsedBins h ! i > 0"
  shows "getResults h = map (\<lambda>i. (int (intervalWidth * i), gasUsedBins h ! i))
           [leading (gasUsedBins h)..<length (gasUsedBins h) - leading (rev (gasUsedBins h))]" (is ?rows)
    and "leading (gasUsedBins h) \<le> i" and "i < length (gasUsedBins h) - leading (rev (gasUsedBins h))"
proof -
  let ?xs = "gasUsedBins h" and ?a = "leading (gasUsedBins h)" and ?b = "leading (rev (gasUsedBins h))"
  have pos: "\<exists>x \<in> set ?xs. x > 0" using assms nth_mem by blast
  show a: "?a \<le> i" using assms(2) by (rule leading_zeros_le)
  have "rev ?xs ! (length ?xs - Suc i) > 0" using assms by (simp add: rev_nth)
  then have "?b \<le> length ?xs - Suc i" by (rule leading_zeros_le)
  then show b: "i < length ?xs - ?b" using assms(1) by linarith
  have slice: "js_slice (findNonZero ?xs) (int (length ?xs) - findNonZero (rev ?xs)) ?xs = take (length ?xs - ?b - ?a) (drop ?a ?xs)"
    using pos a b assms(1) by (simp add: js_slice_def sliceIndex_def findNonZero_eq nat_diff_distrib')
  show ?rows
    unfolding getResults_def Let_def slice
    using pos a b assms(1) by (intro nth_equalityI) (simp_all add: findNonZero_eq)
qed

text \<open>Every bin with a transaction has its row, the first and the last row are not empty, and the frequencies add up to all
  transactions that were counted.\<close>

lemma getResults_total:
  assumes "i < length (gasUsedBins h)" and "gasUsedBins h ! i > 0"
  shows "sum_list (map snd (getResults h)) = sum_list (gasUsedBins h)"
proof -
  let ?xs = "gasUsedBins h" and ?a = "leading (gasUsedBins h)" and ?b = "leading (rev (gasUsedBins h))"
  let ?n = "length (gasUsedBins h)"
  note rows = getResults_rows [OF assms]
  have split: "[0..<?n] = [0..<?a] @ [?a..<?n - ?b] @ [?n - ?b..<?n]"
  proof -
    have "[0..<?n] = [0..<?a] @ [?a..<?n]" using rows(2) assms(1) upt_add_eq_append [of 0 ?a "?n - ?a"] by simp
    moreover have "[?a..<?n] = [?a..<?n - ?b] @ [?n - ?b..<?n]"
      using rows(2,3) upt_add_eq_append [of ?a "?n - ?b" "?n - (?n - ?b)"] by simp
    ultimately show ?thesis by simp
  qed
  have low: "\<forall>j \<in> set [0..<?a]. ?xs ! j = 0" by (auto intro: takeWhile_zero)
  have high: "\<forall>j \<in> set [?n - ?b..<?n]. ?xs ! j = 0"
  proof
    fix j assume j: "j \<in> set [?n - ?b..<?n]"
    then have "?n - Suc j < ?b" using length_takeWhile_le [of "\<lambda>x. x = 0" "rev ?xs"] by auto
    then have "rev ?xs ! (?n - Suc j) = 0" by (rule takeWhile_zero)
    moreover have "rev ?xs ! (?n - Suc j) = ?xs ! j" using j by (subst rev_nth) auto
    ultimately show "?xs ! j = 0" by simp
  qed
  have zero: "sum_list (map ((!) ?xs) js) = 0" if "\<forall>j \<in> set js. ?xs ! j = 0" for js
    using that by (induction js) auto
  have "sum_list ?xs = sum_list (map ((!) ?xs) [0..<?n])" by (simp add: map_nth)
  also have "\<dots> = sum_list (map ((!) ?xs) [?a..<?n - ?b])"
    unfolding split map_append sum_list_append using zero [OF low] zero [OF high] by simp
  finally show ?thesis unfolding rows(1) by (simp add: comp_def)
qed

section \<open>Counting\<close>

definition histoInv :: "gasHistogram \<Rightarrow> bool" where
  "histoInv h \<longleftrightarrow> length (gasUsedBins h) = numberOfBins"

lemma addToGasUsedHisto_counts:
  assumes "addToGasUsedHisto toNumber' g h = Inr h'"
  shows "length (gasUsedBins h') = length (gasUsedBins h)" and "sum_list (gasUsedBins h') = Suc (sum_list (gasUsedBins h))"
    and "\<exists>n. toNumber' g = Inr n \<and> n div intervalWidth < length (gasUsedBins h) \<and> gasUsedBins h' ! (n div intervalWidth) > 0"
  using assms by (auto simp: addToGasUsedHisto_def bindR_Inr_iff assertR_def Let_def sum_list_update split: if_splits)

text \<open>What the tests of a run add to a histogram.\<close>

datatype 'e histoRun = RunSuccess "nat \<Rightarrow> 'e + minedTx" | RunFailure "'e + unit"

fun runHisto :: "(nat \<Rightarrow> nat res) \<Rightarrow> 'e histoRun \<Rightarrow> gasHistogram \<Rightarrow> bool \<times> gasHistogram" where
  "runHisto toNumber' (RunSuccess sendTx) h = (case expectSuccess toNumber' sendTx h of (e, h') \<Rightarrow> (e = None, h'))"
| "runHisto toNumber' (RunFailure outcome) h = (case expectFailure outcome h of (e, h') \<Rightarrow> (e = None, h'))"

fun runAll :: "(nat \<Rightarrow> nat res) \<Rightarrow> 'e histoRun list \<Rightarrow> gasHistogram \<Rightarrow> gasHistogram" where
  "runAll toNumber' [] h = h"
| "runAll toNumber' (r # rs) h = runAll toNumber' rs (snd (runHisto toNumber' r h))"

fun passed :: "(nat \<Rightarrow> nat res) \<Rightarrow> 'e histoRun list \<Rightarrow> gasHistogram \<Rightarrow> nat" where
  "passed toNumber' [] h = 0"
| "passed toNumber' (r # rs) h =
     (case r of RunSuccess _ \<Rightarrow> if fst (runHisto toNumber' r h) then 1 else 0 | RunFailure _ \<Rightarrow> 0)
     + passed toNumber' rs (snd (runHisto toNumber' r h))"

lemma runHisto_counts:
  "sum_list (gasUsedBins (snd (runHisto toNumber' r h))) =
     sum_list (gasUsedBins h) + (case r of RunSuccess _ \<Rightarrow> if fst (runHisto toNumber' r h) then 1 else 0 | RunFailure _ \<Rightarrow> 0)"
  by (cases r) (auto simp: expectSuccess_def expectFailure_def Let_def addToGasUsedHisto_counts(2) split: sum.split)

lemma runAll_counts: "sum_list (gasUsedBins (runAll toNumber' rs h)) = sum_list (gasUsedBins h) + passed toNumber' rs h"
  by (induction rs arbitrary: h) (simp_all add: runHisto_counts)

text \<open>If at least one test for success passed, the frequencies of the rows add up to the number of the tests for success that passed.\<close>

theorem histogram_accounts:
  assumes "passed toNumber' rs new_GasHistogram > 0"
  shows "sum_list (map snd (getResults (runAll toNumber' rs new_GasHistogram))) = passed toNumber' rs new_GasHistogram"
proof -
  let ?h = "runAll toNumber' rs new_GasHistogram"
  have total: "sum_list (gasUsedBins ?h) = passed toNumber' rs new_GasHistogram"
    by (simp add: runAll_counts new_GasHistogram_def sum_list_replicate)
  with assms have "sum_list (gasUsedBins ?h) \<noteq> 0" by simp
  then obtain x where "x \<in> set (gasUsedBins ?h)" "x > 0" by (auto simp: sum_list_eq_0_iff)
  then obtain i where "i < length (gasUsedBins ?h)" "gasUsedBins ?h ! i > 0" by (auto simp: in_set_conv_nth)
  from getResults_total [OF this] total show ?thesis by simp
qed

text \<open>A histogram without transactions still has a row, with a negative amount of gas.\<close>

lemma findNonZero_replicate: "findNonZero (replicate n 0) = -1"
  by (simp add: findNonZero_eq)

theorem getResults_empty: "getResults new_GasHistogram = [(-10000, 0)]"
proof -
  have "js_slice (-1) 801 (replicate 800 (0 :: nat)) = [0]"
    by (simp add: js_slice_def sliceIndex_def)
  then show ?thesis
    by (simp add: getResults_def new_GasHistogram_def numberOfBins_def intervalWidth_def findNonZero_replicate Let_def)
qed

end
