(* ===== verification/Fuzzer_Fixture_Correct.thy ===== *)
theory Fuzzer_Fixture_Correct
  imports Fuzzer_Fixture GasHistogram_Correct Validation_Correct
begin

text \<open>
  What the fuzzer relies on: prices stay in their range, the funder's trove is safe and does not drive the
  system into recovery mode, and whatever the front end lets a user open the fuzzer expects to succeed.
\<close>

section \<open>Prices\<close>

lemma randomPrice_between:
  assumes "bn lo \<le> bn p" "bn p \<le> bn hi" "bn lo \<le> bn r" "bn r \<le> bn hi"
  shows "bn lo \<le> bn (randomPrice p r) \<and> bn (randomPrice p r) \<le> bn hi"
proof -
  have "bn (randomPrice p r) = (bn p + bn r) div 2"
    by (simp add: randomPrice_def Decimal_div_def Decimal_isZero_def Decimal_add_def DIGITS_num)
  with assms show ?thesis by linarith
qed

section \<open>The funder\<close>

lemma critical_mono:
  assumes "\<not> Trove_collateralRatioIsBelowCritical t p" and "bn (debt u) = bn (debt t)" and "bn (collateral t) \<le> bn (collateral u)"
  shows "\<not> Trove_collateralRatioIsBelowCritical u p"
  using assms(1) mult_le_mono1 [OF assms(3), of "bn p"] unfolding belowCritical_iff assms(2) by linarith

text \<open>A collateral that is set by \<open>mulDiv\<close> for a ratio of 151\% gives at least 150\%, whatever is lost in rounding.\<close>

lemma ratio151_healthy:
  assumes "0 < bn p" and "100 * bn p \<le> bn d * DIGITS"
    and "collateral t = Decimal_mulDiv d ratio151 p" and "debt t = d"
  shows "\<not> Trove_collateralRatioIsBelowCritical t p"
proof -
  have c: "bn (collateral t) = bn d * (151 * 10 ^ 16) div bn p"
    using assms by (simp add: Decimal_mulDiv_def Decimal_isZero_def ratio151_def)
  have "bn d * (151 * 10 ^ 16) < bn (collateral t) * bn p + bn p"
    unfolding c using assms(1) by (metis add.commute dividend_less_times_div mult.commute)
  then have "150 * 10 ^ 16 * bn d \<le> bn (collateral t) * bn p" using assms(2) by (simp add: DIGITS_num)
  then show ?thesis using assms(4) by (simp add: belowCritical_iff DIGITS_num mult.commute)
qed

text \<open>The trove that the funder borrows with has the minimum debt and, unless the system is already in recovery mode, a ratio of at least
  150\%.\<close>

theorem fundingTrove_safe:
  assumes "fundingTrove p v amount = Inr t" and "0 < bn p" and "bn p \<le> 10 ^ 37"
    and "\<not> Trove_collateralRatioIsBelowCritical (fw_total v) p"
  shows "bn THUSD_MINIMUM_DEBT \<le> bn (debt t) \<and> \<not> Trove_collateralRatioIsBelowCritical t p \<and>
         \<not> Trove_collateralRatioIsBelowMinimum t p"
proof -
  from assms(1) obtain adjusted where t: "t = Trove_setCollateral
        (if Decimal_lt (debt adjusted) THUSD_MINIMUM_DEBT then Trove_setDebt adjusted THUSD_MINIMUM_DEBT else adjusted)
        (Decimal_mulDiv (debt (if Decimal_lt (debt adjusted) THUSD_MINIMUM_DEBT then Trove_setDebt adjusted THUSD_MINIMUM_DEBT else adjusted))
           (targetCollateralRatio p v) p)"
    by (auto simp: fundingTrove_def bindR_Inr_iff Let_def)
  have target: "targetCollateralRatio p v = ratio151" using assms(4) by (simp add: targetCollateralRatio_def)
  have debt: "bn THUSD_MINIMUM_DEBT \<le> bn (debt t)"
    by (simp add: t Trove_setCollateral_def Trove_setDebt_def Decimal_lt_def del: bn_constants)
  moreover have critical: "\<not> Trove_collateralRatioIsBelowCritical t p"
  proof (rule ratio151_healthy [OF assms(2)])
    show "100 * bn p \<le> bn (debt t) * DIGITS" using debt assms(3) by (simp add: DIGITS_num)
    show "collateral t = Decimal_mulDiv (debt t) ratio151 p" by (simp add: t target Trove_setCollateral_def)
  qed simp
  moreover from critical have "\<not> Trove_collateralRatioIsBelowMinimum t p"
    by (simp add: belowCritical_iff belowMinimum_iff)
  ultimately show ?thesis by blast
qed

text \<open>A system that is not in recovery mode is not in it after the funder has adjusted its trove.\<close>

theorem funder_keeps_system_safe:
  assumes "\<not> Trove_collateralRatioIsBelowCritical (fw_total v) p" and "adjustedFundingTrove p v newTrove = Inr t"
    and "0 < bn p" and "100 * bn p + bn (debt (fw_trove v)) * DIGITS \<le> (bn (debt (fw_total v)) + bn (debt newTrove)) * DIGITS"
    and "Trove_subtract (Trove_add (fw_total v) t) (fw_trove v) = Inr newTotal"
  shows "\<not> Trove_collateralRatioIsBelowCritical newTotal p"
proof -
  define T where "T = (\<lparr>collateral = Dec (bn (collateral (fw_total v)) + bn (collateral newTrove) - bn (collateral (fw_trove v))),
    debt = Dec (bn (debt (fw_total v)) + bn (debt newTrove) - bn (debt (fw_trove v)))\<rparr> :: trove)"
  have T: "Trove_subtract (Trove_add (fw_total v) newTrove) (fw_trove v) = Inr T"
    by (simp add: T_def Trove_subtract_eq Trove_add_def Decimal_add_def)
  show ?thesis
  proof (cases "Trove_collateralRatioIsBelowCritical T p")
    case False
    with assms(2) T have "t = newTrove" by (simp add: adjustedFundingTrove_def)
    with T assms(5) False show ?thesis by simp
  next
    case True
    let ?U = "Trove_setCollateral T (Decimal_mulDiv (debt T) ratio151 p)"
    from True assms(1,2) T have "Trove_subtract (Trove_add (fw_trove v) ?U) (fw_total v) = Inr t"
      by (simp add: adjustedFundingTrove_def)
    then have t: "bn (collateral t) = bn (collateral (fw_trove v)) + bn (collateral ?U) - bn (collateral (fw_total v))"
        "bn (debt t) = bn (debt (fw_trove v)) + bn (debt T) - bn (debt (fw_total v))"
      by (auto simp: Trove_subtract_eq Trove_add_def Decimal_add_def Trove_setCollateral_def)
    have covered: "bn (debt (fw_trove v)) \<le> bn (debt (fw_total v)) + bn (debt newTrove)"
      "100 * bn p \<le> bn (debt T) * DIGITS"
      using assms(4) by (simp_all add: T_def DIGITS_num)
    have "\<not> Trove_collateralRatioIsBelowCritical ?U p"
      by (rule ratio151_healthy [OF assms(3) covered(2)]) (simp_all add: Trove_setCollateral_def)
    moreover have "bn (debt newTotal) = bn (debt ?U)"
      using assms(5) t(2) covered(1) by (auto simp: Trove_subtract_eq Trove_add_def Decimal_add_def Trove_setCollateral_def T_def)
    moreover have "bn (collateral ?U) \<le> bn (collateral newTotal)"
      using assms(5) t(1) by (auto simp: Trove_subtract_eq Trove_add_def Decimal_add_def)
    ultimately show ?thesis by (rule critical_mono)
  qed
qed

text \<open>A funder whose withdrawal of collateral would bring the total from 160\% to 140\%.\<close>

definition example_funder :: funderView where
  "example_funder =
     \<lparr>fw_thusdBalance = Dec 0, fw_trove = \<lparr>collateral = Dec (4 * 10 ^ 18), debt = Dec (2000 * 10 ^ 18)\<rparr>,
      fw_total = \<lparr>collateral = Dec (16 * 10 ^ 18), debt = Dec (20000 * 10 ^ 18)\<rparr>, fw_borrowingRate = Dec 0\<rparr>"

definition funder_trove :: "nat \<Rightarrow> trove" where
  "funder_trove milli = \<lparr>collateral = Dec (milli * 10 ^ 15), debt = Dec (2000 * 10 ^ 18)\<rparr>"

lemma example_funder_adjusts:
  "\<not> Trove_collateralRatioIsBelowCritical (fw_total example_funder) (Dec (2000 * 10 ^ 18))"
  "adjustedFundingTrove (Dec (2000 * 10 ^ 18)) example_funder (funder_trove 2000) = Inr (funder_trove 3100)"
  "Trove_subtract (Trove_add (fw_total example_funder) (funder_trove 3100)) (fw_trove example_funder) =
     Inr \<lparr>collateral = Dec (15100 * 10 ^ 15), debt = Dec (20000 * 10 ^ 18)\<rparr>"
  by (simp_all add: example_funder_def funder_trove_def adjustedFundingTrove_def belowCritical_iff DIGITS_num Trove_subtract_eq Trove_add_def
      Decimal_add_def Trove_setCollateral_def Decimal_mulDiv_def Decimal_isZero_def ratio151_def)

theorem funder_keeps_system_safe_witness:
  "\<not> Trove_collateralRatioIsBelowCritical
      (\<lparr>collateral = Dec (15100 * 10 ^ 15), debt = Dec (20000 * 10 ^ 18)\<rparr> :: trove) (Dec (2000 * 10 ^ 18))"
  by (rule funder_keeps_system_safe [OF example_funder_adjusts(1,2) _ _ example_funder_adjusts(3)])
     (simp_all add: example_funder_def funder_trove_def DIGITS_num)

section \<open>Openings\<close>

text \<open>C37: What the front end lets a user open, the fuzzer expects to succeed.\<close>

theorem accepted_openings_expected:
  assumes "validateVaultChange emptyTrove u r st = Inr (Some (Creation c), d)" and "Trove_apply emptyTrove (Some (Creation c)) r = Inr v"
  shows "\<not> cannotOpen (sel_total st) (sel_price st) v"
proof -
  have changed: "Trove_whatChanged emptyTrove u r = Inr (Some (Creation c))"
    and valid: "validateVaultCreation c (validationContextOf emptyTrove v st) = Inr None"
    using assms(2) by (auto intro: validateVaultChange_accepted [OF assms(1)])
  have "bn THUSD_MINIMUM_DEBT \<le> bn (debt v)"
    using creation_result(2) [OF changed assms(2)] valid applyFee_split [of r "borrowTHUSD c"] by (simp add: validateVaultCreation_None)
  then show ?thesis
    using valid
    by (auto simp: cannotOpen_def validateVaultCreation_None openable_iff Decimal_lt_def validationContextOf_def emptyTrove_def Trove_add_def
        Decimal_add_def Decimal_ZERO_def split: if_splits)
qed

definition example_opening :: troveCreationParams where
  "example_opening = \<lparr>depositCollateral = Dec (5 * 10 ^ 18), borrowTHUSD = Dec (1800 * 10 ^ 18)\<rparr>"

lemma example_opening_accepted:
  "validateVaultChange emptyTrove (example_vault 5) Decimal_ZERO (example_selected 10000) =
     Inr (Some (Creation example_opening), Some (ChangeDescription (changeParams (Creation example_opening)) ''TBTC''))"
  "Trove_apply emptyTrove (Some (Creation example_opening)) Decimal_ZERO = Inr (example_vault 5)"
  by (simp_all add: example_defs example_opening_def emptyTrove_def validateVaultCreation_def Trove_netDebt_def openable_iff Decimal_add_def)

theorem accepted_openings_expected_witness:
  "\<not> cannotOpen (sel_total (example_selected 10000)) (Dec (2000 * 10 ^ 18)) (example_vault 5)"
  using accepted_openings_expected [OF example_opening_accepted] by (simp add: example_selected_def)

end
