(* ===== verification/VaultForms.thy ===== *)
theory VaultForms
  imports Managers Validation
begin

text \<open>
  The forms that open and adjust a vault in \<open>packages/dev-frontend/src\<close>: \<open>Opening.tsx\<close>, \<open>Adjusting.tsx\<close>,
  \<open>VaultAction.tsx\<close>, the hooks \<open>useStableVaultChange\<close> and \<open>useValidationState\<close>, and the estimation of gas in
  \<open>ExpensiveVaultChangeWarning.tsx\<close>.

  A form is a record of its states; a render is a function of them and of the state of the store, and an effect a step.
  \<open>fees.borrowingRate()\<close> is computed before and passed as \<open>rate\<close>.  Markup is left out, except for the choice of
  the button that a user can press.
\<close>

section \<open>The change that stays the same\<close>

definition paramsEq :: "decimal option \<Rightarrow> decimal option \<Rightarrow> bool" where
  "paramsEq a b =
     (case (a, b) of (Some x, Some y) \<Rightarrow> Decimal_eq x y | _ \<Rightarrow> a = None \<and> b = None)"

fun changeType :: "troveChange \<Rightarrow> string" where
  "changeType (InvalidCreation _ _) = ''invalidCreation''"
| "changeType (Creation _) = ''creation''"
| "changeType (Closure _) = ''closure''"
| "changeType (Adjustment _ _) = ''adjustment''"

definition change_equals :: "troveChange \<Rightarrow> troveChange \<Rightarrow> bool" where
  "change_equals a b \<longleftrightarrow>
     changeType a = changeType b \<and>
     paramsEq (adjBorrowTHUSD (changeParams a)) (adjBorrowTHUSD (changeParams b)) \<and>
     paramsEq (adjRepayTHUSD (changeParams a)) (adjRepayTHUSD (changeParams b)) \<and>
     paramsEq (adjDepositCollateral (changeParams a)) (adjDepositCollateral (changeParams b)) \<and>
     paramsEq (adjWithdrawCollateral (changeParams a)) (adjWithdrawCollateral (changeParams b))"

definition stableEffect :: "troveChange option \<Rightarrow> troveChange option \<Rightarrow> troveChange option" where
  "stableEffect stableVaultChange vaultChange =
     (if (stableVaultChange \<noteq> None) \<noteq> (vaultChange \<noteq> None) then vaultChange
      else case (stableVaultChange, vaultChange) of
             (Some s, Some v) \<Rightarrow> if \<not> change_equals s v then vaultChange else stableVaultChange
           | _ \<Rightarrow> stableVaultChange)"

section \<open>Approval\<close>

record vaultStakeValidation =
  hasApproved :: bool
  amountToApprove :: "decimal option"

definition useValidationState :: "decimal \<Rightarrow> troveChange option \<Rightarrow> vaultStakeValidation" where
  "useValidationState allowance stableVaultChange =
     (case Option.bind stableVaultChange (\<lambda>c. adjDepositCollateral (changeParams c)) of
        Some coll \<Rightarrow>
          let approved = \<not> Decimal_isZero allowance \<and> Decimal_gte allowance coll
          in \<lparr>hasApproved = approved, amountToApprove = Some (if \<not> approved then coll else Decimal_ZERO)\<rparr>
      | None \<Rightarrow> \<lparr>hasApproved = False, amountToApprove = None\<rparr>)"

section \<open>Sending\<close>

datatype vaultSend =
    SendOpenTrove entries borrowingParams
  | SendCloseTrove
  | SendAdjustTrove entries borrowingParams

definition formOptions :: "decimal \<Rightarrow> nat \<Rightarrow> borrowingParams" where
  "formOptions maxBorrowingRate minutes = BorrowingOptions (Some (DDecimal maxBorrowingRate)) (Some minutes)"

fun VaultAction :: "troveChange \<Rightarrow> decimal \<Rightarrow> nat \<Rightarrow> vaultSend" where
  "VaultAction (Creation params) maxRate minutes = SendOpenTrove (creation_entries params) (formOptions maxRate minutes)"
| "VaultAction (Closure params) maxRate minutes = SendCloseTrove"
| "VaultAction change maxRate minutes = SendAdjustTrove (adjustment_entries (changeParams change)) (formOptions maxRate minutes)"

section \<open>Estimating gas\<close>

text \<open>
  \<open>'tx\<close> is a populated transaction.  Each run of the effect has a number; \<open>ge_effect\<close> is the run whose clean-up is pending,
  \<open>ge_timers\<close> are the runs whose timer has not fired, \<open>ge_populating\<close> those that wait for the populatable, and
  \<open>ge_cancelled\<close> those whose variable \<open>cancelled\<close> is set.  The state of the estimation is kept by the form, also while
  the warning is not mounted.
\<close>

datatype 'tx gasEstimationState = GasIdle | GasInProgress | GasComplete 'tx

record 'tx gasEstimation =
  ge_state :: "'tx gasEstimationState"
  ge_change :: "troveChange option"
  ge_effect :: "nat option"
  ge_timers :: "(nat \<times> troveChange) list"
  ge_populating :: "(nat \<times> troveChange) list"
  ge_cancelled :: "nat list"
  ge_runs :: nat

definition newGasEstimation :: "'tx gasEstimation" where
  "newGasEstimation =
     \<lparr>ge_state = GasIdle, ge_change = None, ge_effect = None, ge_timers = [], ge_populating = [], ge_cancelled = [], ge_runs = 0\<rparr>"

definition warningCleanup :: "'tx gasEstimation \<Rightarrow> 'tx gasEstimation" where
  "warningCleanup s =
     (case ge_effect s of
        None \<Rightarrow> s
      | Some n \<Rightarrow> s\<lparr>ge_effect := None, ge_timers := filter (\<lambda>(m, _). m \<noteq> n) (ge_timers s), ge_cancelled := n # ge_cancelled s\<rparr>)"

definition warningEffect :: "troveChange option \<Rightarrow> 'tx gasEstimation \<Rightarrow> 'tx gasEstimation" where
  "warningEffect vaultChange s =
     (if vaultChange \<noteq> None \<and> \<not> is_closure vaultChange
      then s\<lparr>ge_state := GasInProgress, ge_change := vaultChange, ge_effect := Some (ge_runs s),
             ge_timers := ge_timers s @ [(ge_runs s, the vaultChange)], ge_runs := Suc (ge_runs s)\<rparr>
      else s\<lparr>ge_state := GasIdle, ge_change := vaultChange\<rparr>)"

text \<open>The warning is rendered with another change, or mounted.\<close>

definition warningCommit :: "troveChange option \<Rightarrow> 'tx gasEstimation \<Rightarrow> 'tx gasEstimation" where
  "warningCommit vaultChange s = warningEffect vaultChange (warningCleanup s)"

definition estimateTimer :: "nat \<Rightarrow> troveChange \<Rightarrow> 'tx gasEstimation \<Rightarrow> 'tx gasEstimation" where
  "estimateTimer n c s = s\<lparr>ge_timers := remove1 (n, c) (ge_timers s), ge_populating := (n, c) # ge_populating s\<rparr>"

text \<open>The transaction of a run arrives; an error of the populatable leaves the state as it is.\<close>

definition estimateArrives :: "nat \<Rightarrow> troveChange \<Rightarrow> 'tx \<Rightarrow> 'tx gasEstimation \<Rightarrow> 'tx gasEstimation" where
  "estimateArrives n c populatedTx s =
     (let s' = s\<lparr>ge_populating := remove1 (n, c) (ge_populating s)\<rparr>
      in if n \<notin> set (ge_cancelled s) then s'\<lparr>ge_state := GasComplete populatedTx\<rparr> else s')"

definition estimateFails :: "nat \<Rightarrow> troveChange \<Rightarrow> 'tx gasEstimation \<Rightarrow> 'tx gasEstimation" where
  "estimateFails n c s = s\<lparr>ge_populating := remove1 (n, c) (ge_populating s)\<rparr>"

definition expensiveWarning :: "('tx \<Rightarrow> nat option) \<Rightarrow> troveChange option \<Rightarrow> 'tx gasEstimationState \<Rightarrow> string option" where
  "expensiveWarning gasHeadroom vaultChange state =
     (case (vaultChange, state) of
        (Some c, GasComplete tx) \<Rightarrow>
          (case gasHeadroom tx of
             Some headroom \<Rightarrow>
               if 200000 \<le> headroom then
                 Some ((if changeType c = ''creation'' then ''The cost of opening a Vault in this''
                        else ''The cost of adjusting a Vault into this'') @
                       '' collateral ratio range is rather high. To lower it, choose a slightly different collateral ratio.'')
               else None
           | None \<Rightarrow> None)
      | _ \<Rightarrow> None)"

section \<open>Opening a vault\<close>

record openingForm =
  of_isMounted :: bool
  of_collateralAmount :: decimal
  of_borrowAmount :: decimal
  of_hasCleanup :: bool

definition newOpeningForm :: openingForm where
  "newOpeningForm =
     \<lparr>of_isMounted = True, of_collateralAmount = Decimal_ZERO, of_borrowAmount = Decimal_ZERO, of_hasCleanup = False\<rparr>"

definition opening_deps :: "openingForm \<Rightarrow> decimal \<times> decimal \<times> bool" where
  "opening_deps f = (of_collateralAmount f, of_borrowAmount f, of_isMounted f)"

text \<open>A commit with other dependencies: the clean-up of the last effect, if it returned one, and the effect, which reads the states of its
  render.\<close>

definition opening_commit :: "openingForm \<Rightarrow> openingForm" where
  "opening_commit f =
     (let f' = (if of_hasCleanup f then f\<lparr>of_isMounted := False\<rparr> else f)
      in if \<not> of_isMounted f then f'\<lparr>of_hasCleanup := False\<rparr>
         else f'\<lparr>of_hasCleanup := True,
                 of_borrowAmount :=
                   (if \<not> Decimal_isZero (of_collateralAmount f) \<and> Decimal_isZero (of_borrowAmount f)
                    then THUSD_MINIMUM_NET_DEBT else of_borrowAmount f)\<rparr>)"

text \<open>Commits follow one another until the dependencies stay the same.\<close>

function opening_settle :: "decimal \<times> decimal \<times> bool \<Rightarrow> openingForm \<Rightarrow> openingForm" where
  "opening_settle deps f = (if opening_deps f = deps then f else opening_settle (opening_deps f) (opening_commit f))"
  by auto

termination
  by (relation "measure (\<lambda>(deps, f). if of_isMounted f then if of_hasCleanup f then 2 else 3
        else if opening_deps f = deps then 0 else 1)")
     (auto simp: opening_commit_def opening_deps_def Let_def)

declare opening_settle.simps [simp del]

datatype openingEdit = EnterCollateral string | EnterBorrow string

fun opening_edit :: "openingEdit \<Rightarrow> openingForm \<Rightarrow> openingForm res" where
  "opening_edit (EnterCollateral amount) f =
     bindR (Decimal_from (DString amount)) (\<lambda>d. Inr (opening_settle (opening_deps f) (f\<lparr>of_collateralAmount := d\<rparr>)))"
| "opening_edit (EnterBorrow amount) f =
     bindR (Decimal_from (DString amount)) (\<lambda>d. Inr (opening_settle (opening_deps f) (f\<lparr>of_borrowAmount := d\<rparr>)))"

record formView =
  fv_fee :: decimal
  fv_totalDebt :: decimal
  fv_maxBorrowingRate :: decimal
  fv_isDirty :: bool
  fv_vault :: trove
  fv_maxCollateral :: decimal
  fv_collateralRatio :: "decimal option"
  fv_collateralRatioChange :: difference
  fv_vaultChange :: "troveChange option"
  fv_description :: "description option"

definition formSlippage :: decimal where
  "formSlippage = Dec (5 * 10 ^ 15)"

definition opening_render :: "decimal \<Rightarrow> selectedState \<Rightarrow> openingForm \<Rightarrow> formView res" where
  "opening_render rate st f =
     (let fee = Decimal_mul (of_borrowAmount f) rate;
          totalDebt = Decimal_add (Decimal_add (of_borrowAmount f) THUSD_LIQUIDATION_RESERVE) fee;
          isDirty = (\<not> Decimal_isZero (of_collateralAmount f) \<or> \<not> Decimal_isZero (of_borrowAmount f));
          vault = (if isDirty then \<lparr>collateral = of_collateralAmount f, debt = totalDebt\<rparr> else emptyTrove)
      in bindR (validateVaultChange emptyTrove vault rate st)
        (\<lambda>(vaultChange, description).
           Inr \<lparr>fv_fee = fee, fv_totalDebt = totalDebt, fv_maxBorrowingRate = Decimal_add rate formSlippage,
                fv_isDirty = isDirty, fv_vault = vault, fv_maxCollateral = sel_erc20TokenBalance st,
                fv_collateralRatio =
                  (if \<not> Decimal_isZero (of_collateralAmount f) \<and> \<not> Decimal_isZero (of_borrowAmount f)
                   then Some (Trove_collateralRatio vault (sel_price st)) else None),
                fv_collateralRatioChange = None,
                fv_vaultChange = vaultChange, fv_description = description\<rparr>))"

datatype formButton = ApproveButton decimal | SpinnerButton | ConfirmButton vaultSend | DisabledButton

definition opening_button ::
    "vaultStakeValidation \<Rightarrow> 'tx gasEstimationState \<Rightarrow> troveChange option \<Rightarrow> decimal \<Rightarrow> formButton" where
  "opening_button val' gas stableChange maxRate =
     (case (\<not> hasApproved val', amountToApprove val') of
        (True, Some amount) \<Rightarrow> ApproveButton amount
      | _ \<Rightarrow>
          (case gas of
             GasInProgress \<Rightarrow> SpinnerButton
           | _ \<Rightarrow> (case stableChange of
                     Some change \<Rightarrow> ConfirmButton (VaultAction change maxRate 60)
                   | None \<Rightarrow> DisabledButton)))"

definition openingTransactionId :: string where
  "openingTransactionId = ''vault-creation''"

definition opening_transactionEffect :: "string \<Rightarrow> string \<Rightarrow> transactionState \<Rightarrow> vaultEvent option" where
  "opening_transactionEffect version coll s =
     (let tx = useMyTransactionState (\<lambda>i. i = openingTransactionId) version coll s
      in if checkTransactionCollateral tx version coll \<and> (is_TxConfirmedOneShot tx \<or> is_TxConfirmed tx)
         then Some VAULT_OPENED else None)"

section \<open>Adjusting a vault\<close>

definition applyUnsaved :: "difference \<Rightarrow> decimal \<Rightarrow> decimal res" where
  "applyUnsaved unsavedChanges amount =
     (case Difference_absoluteValue unsavedChanges of
        Some v \<Rightarrow>
          if Difference_positive unsavedChanges \<noteq> None then Inr (Decimal_add amount v)
          else if Difference_negative unsavedChanges \<noteq> None \<and> Decimal_lt v amount then Decimal_sub amount v
          else Inr amount
      | None \<Rightarrow> Inr amount)"

definition applyUnsavedCollateralChanges :: "difference \<Rightarrow> 'a trove_scheme \<Rightarrow> decimal res" where
  "applyUnsavedCollateralChanges unsavedChanges vault = applyUnsaved unsavedChanges (collateral vault)"

definition applyUnsavedNetDebtChanges :: "difference \<Rightarrow> 'a trove_scheme \<Rightarrow> decimal res" where
  "applyUnsavedNetDebtChanges unsavedChanges vault = bindR (Trove_netDebt vault) (applyUnsaved unsavedChanges)"

record adjustingForm =
  af_previousVault :: trove
  af_collateralAmount :: decimal
  af_netDebt :: decimal

definition newAdjustingForm :: "'a trove_scheme \<Rightarrow> adjustingForm res" where
  "newAdjustingForm t =
     bindR (Trove_netDebt t)
       (\<lambda>n. Inr \<lparr>af_previousVault = toTrove t, af_collateralAmount = collateral t, af_netDebt = n\<rparr>)"

text \<open>The effect after a render with the vault \<open>t\<close> of the store.\<close>

definition adjusting_effect :: "'a trove_scheme \<Rightarrow> adjustingForm \<Rightarrow> adjustingForm res" where
  "adjusting_effect t f =
     bindR (if \<not> Decimal_eq (collateral (af_previousVault f)) (collateral t)
            then bindR (Difference_between (Some (af_collateralAmount f)) (Some (collateral (af_previousVault f))))
                   (\<lambda>unsaved. applyUnsavedCollateralChanges unsaved t)
            else Inr (af_collateralAmount f))
       (\<lambda>coll. bindR (Trove_netDebt (af_previousVault f))
       (\<lambda>previous. bindR (Trove_netDebt t)
       (\<lambda>current.
          bindR (if \<not> Decimal_eq previous current
                 then bindR (Difference_between (Some (af_netDebt f)) (Some previous))
                        (\<lambda>unsaved. applyUnsavedNetDebtChanges unsaved t)
                 else Inr (af_netDebt f))
            (\<lambda>net. Inr \<lparr>af_previousVault = toTrove t, af_collateralAmount = coll, af_netDebt = net\<rparr>))))"

text \<open>A render evaluates \<open>trove.netDebt\<close> for the initial value of a state before anything else, also when the state exists already; the
  result is \<open>None\<close> if the vault is not open.\<close>

definition adjusting_render ::
    "decimal \<Rightarrow> selectedState \<Rightarrow> userTrove \<Rightarrow> adjustingForm \<Rightarrow> formView option res" where
  "adjusting_render rate st t f =
     bindR (Trove_netDebt t)
       (\<lambda>current.
          let isDirty = (\<not> Decimal_eq (af_collateralAmount f) (collateral t) \<or> \<not> Decimal_eq (af_netDebt f) current);
              isDebtIncrease = Decimal_gt (af_netDebt f) current
          in bindR (if isDebtIncrease
                    then bindR (Decimal_sub (af_netDebt f) current)
                           (\<lambda>increase. feeFrom t (\<lparr>collateral = collateral t, debt = Decimal_add (debt t) increase\<rparr> :: trove) rate)
                    else Inr Decimal_ZERO)
            (\<lambda>fee.
               let totalDebt = Decimal_add (Decimal_add (af_netDebt f) THUSD_LIQUIDATION_RESERVE) fee;
                   updatedVault = (if isDirty then \<lparr>collateral = af_collateralAmount f, debt = totalDebt\<rparr> else toTrove t);
                   ratio = (if \<not> Decimal_isZero (af_collateralAmount f) \<and> \<not> Decimal_isZero (af_netDebt f)
                            then Some (Trove_collateralRatio updatedVault (sel_price st)) else None)
               in bindR (Difference_between ratio (Some (Trove_collateralRatio t (sel_price st))))
                 (\<lambda>ratioChange. bindR (validateVaultChange t updatedVault rate st)
                 (\<lambda>(vaultChange, description).
                    Inr (if status t \<noteq> Open then None
                         else Some \<lparr>fv_fee = fee, fv_totalDebt = totalDebt, fv_maxBorrowingRate = Decimal_add rate formSlippage,
                                    fv_isDirty = isDirty, fv_vault = updatedVault,
                                    fv_maxCollateral = Decimal_add (collateral t) (sel_erc20TokenBalance st),
                                    fv_collateralRatio = ratio, fv_collateralRatioChange = ratioChange,
                                    fv_vaultChange = vaultChange, fv_description = description\<rparr>)))))"

definition adjusting_button :: "string \<Rightarrow> vaultStakeValidation \<Rightarrow> troveChange option \<Rightarrow> decimal \<Rightarrow> formButton" where
  "adjusting_button collateralAddress' val' stableChange maxRate =
     (case (collateralAddress' \<noteq> [] \<and> \<not> hasApproved val', amountToApprove val') of
        (True, Some amount) \<Rightarrow> ApproveButton amount
      | _ \<Rightarrow> (case stableChange of
                Some change \<Rightarrow> ConfirmButton (VaultAction change maxRate 60)
              | None \<Rightarrow> DisabledButton))"

text \<open>Whether the warning, and with it the estimation of gas, is mounted.\<close>

definition adjusting_estimates :: "string \<Rightarrow> vaultStakeValidation \<Rightarrow> bool" where
  "adjusting_estimates collateralAddress' val' \<longleftrightarrow> hasApproved val' \<or> collateralAddress' = []"

definition adjustingTransactionId :: string where
  "adjustingTransactionId = ''vault-adjustment''"

definition adjusting_transactionEffect :: "string \<Rightarrow> string \<Rightarrow> transactionState \<Rightarrow> vaultEvent option" where
  "adjusting_transactionEffect version coll s =
     (let tx = useMyTransactionState (\<lambda>i. i = adjustingTransactionId) version coll s
      in if checkTransactionCollateral tx version coll \<and> is_TxConfirmedOneShot tx then Some VAULT_ADJUSTED else None)"

end
