(* ===== verification/VaultForms_Correct.thy ===== *)
theory VaultForms_Correct
  imports VaultForms Transactions_Correct Validation_Correct
begin

text \<open>
  What the vault forms promise: the transaction that a user confirms has the amounts that were entered and leads to the debt that is shown;
  an estimate of gas belongs to the change that is shown; edits survive updates of the store.
\<close>

section \<open>The change that stays the same\<close>

lemma paramsEq_iff: "paramsEq a b \<longleftrightarrow> a = b"
  by (auto simp: paramsEq_def Decimal_eq_def decimal_eq_iff split: option.splits)

lemma change_equals_iff: "change_equals a b \<longleftrightarrow> changeType a = changeType b \<and> changeParams a = changeParams b"
  unfolding change_equals_def paramsEq_iff by auto

lemma VaultAction_cong: "change_equals a b \<Longrightarrow> VaultAction a r m = VaultAction b r m"
  by (cases a; cases b) (auto simp: change_equals_iff creation_entries_def)

lemma stableEffect_Some: "\<exists>b. stableEffect s (Some c) = Some b \<and> change_equals b c"
  by (cases s) (auto simp: stableEffect_def change_equals_iff)

text \<open>The stable change is confirmed with the transaction of the current change, and it is replaced only if the transaction
  differs, so the effects that depend on it run once per change.\<close>

theorem stable_change_follows:
  "map_option (\<lambda>c. VaultAction c r m) (stableEffect s v) = map_option (\<lambda>c. VaultAction c r m) v"
  "stableEffect (stableEffect s v) v = stableEffect s v"
  "s \<noteq> None \<Longrightarrow> v \<noteq> None \<Longrightarrow> change_equals (the s) (the v) \<Longrightarrow> stableEffect s v = s"
  by (cases s; cases v; simp add: stableEffect_def change_equals_iff; use VaultAction_cong change_equals_iff in blast)+

section \<open>Opening\<close>

lemma applyFee_displayed: "bn (applyFee r b) = bn b + bn b * bn r div DIGITS"
  by (simp add: applyFee_def distrib_left)

lemma opening_change:
  assumes "opening_render rate st f = Inr v" and "fv_vaultChange v = Some c"
  shows "c = Creation \<lparr>depositCollateral = of_collateralAmount f, borrowTHUSD = of_borrowAmount f\<rparr>"
    and "Trove_apply emptyTrove (Some c) rate = Inr (fv_vault v)"
    and "validateVaultChange emptyTrove (fv_vault v) rate st = Inr (Some c, fv_description v)"
    and "fv_vault v = \<lparr>collateral = of_collateralAmount f, debt = fv_totalDebt v\<rparr>"
    and "fv_maxBorrowingRate v = Decimal_add rate formSlippage"
proof -
  from assms show valid: "validateVaultChange emptyTrove (fv_vault v) rate st = Inr (Some c, fv_description v)"
    by (auto simp: opening_render_def Let_def bindR_Inr_iff)
  from assms(1) show "fv_maxBorrowingRate v = Decimal_add rate formSlippage"
    by (auto simp: opening_render_def Let_def bindR_Inr_iff)
  have changed: "Trove_whatChanged emptyTrove (fv_vault v) rate = Inr (Some c)"
    by (rule validateVaultChange_accepted [OF valid])
  then have "fv_vault v \<noteq> emptyTrove" by (auto simp: Trove_whatChanged_def Decimal_eq_def)
  with assms(1) show vault: "fv_vault v = \<lparr>collateral = of_collateralAmount f, debt = fv_totalDebt v\<rparr>"
    by (auto simp: opening_render_def Let_def bindR_Inr_iff)
  have total: "bn (fv_totalDebt v) = bn THUSD_LIQUIDATION_RESERVE + bn (applyFee rate (of_borrowAmount f))"
    using assms(1) by (auto simp: opening_render_def Let_def bindR_Inr_iff applyFee_displayed simp del: bn_constants)
  have "Dec (bn (fv_totalDebt v) - bn THUSD_LIQUIDATION_RESERVE) = applyFee rate (of_borrowAmount f)"
    by (simp add: total decimal_eq_iff)
  moreover have "toTrove emptyTrove \<noteq> toTrove (fv_vault v)" using \<open>fv_vault v \<noteq> emptyTrove\<close> by (simp add: toTrove_def)
  ultimately show c: "c = Creation \<lparr>depositCollateral = of_collateralAmount f, borrowTHUSD = of_borrowAmount f\<rparr>"
    using changed Trove_whatChanged_create [of emptyTrove "fv_vault v" rate] total
    by (simp add: vault Trove_isEmpty_def emptyTrove_def Decimal_isZero_def Decimal_ZERO_def)
  show "Trove_apply emptyTrove (Some c) rate = Inr (fv_vault v)"
    by (simp add: c Trove_apply_create Trove_isEmpty_def emptyTrove_def Decimal_isZero_def Decimal_ZERO_def vault decimal_eq_iff total
        del: bn_constants)
qed
text \<open>C14: What the user confirms in the form for opening: the accepted change is the entered deposit and loan; the vault that it opens has the debt
  that is shown; and the transaction carries the entered amounts, with half a per cent of tolerance for the rate, provided that the tokens
  are approved and the gas has been estimated.\<close>

theorem opening_confirms_entered:
  assumes "opening_render rate st f = Inr v" and "fv_vaultChange v = Some c"
    and "opening_button (useValidationState allowance (stableEffect s (Some c))) gas (stableEffect s (Some c)) (fv_maxBorrowingRate v) =
           ConfirmButton send"
  shows "Trove_apply emptyTrove (Some c) rate = Inr \<lparr>collateral = of_collateralAmount f, debt = fv_totalDebt v\<rparr> \<and>
    of_collateralAmount f \<le> allowance \<and> of_collateralAmount f \<le> sel_erc20TokenBalance st \<and> gas \<noteq> GasInProgress \<and>
    (\<exists>entered options. send = SendOpenTrove entered options \<and>
       (\<forall>env estimateGas overrides r. openTrove env estimateGas entered options overrides = Inr r \<longrightarrow>
          oa_THUSDAmount (pt_args r) = bn (of_borrowAmount f) \<and>
          oa_assetAmount (pt_args r) + oa_value (pt_args r) = bn (of_collateralAmount f) \<and>
          oa_maxFeePercentage (pt_args r) = bn rate + 5 * 10 ^ 15))"
proof -
  let ?p = "\<lparr>depositCollateral = of_collateralAmount f, borrowTHUSD = of_borrowAmount f\<rparr>"
  note change = opening_change [OF assms(1,2)]
  define b where "b = stableEffect s (Some c)"
  obtain b' where b: "b = Some b'" "change_equals b' c"
    using stableEffect_Some [of s c] by (auto simp: b_def)
  from b(2) have b': "b' = Creation ?p" by (cases b') (auto simp: change(1) change_equals_iff)
  have "\<not> Decimal_isZero allowance \<and> of_collateralAmount f \<le> allowance" "gas \<noteq> GasInProgress"
    "send = VaultAction b' (fv_maxBorrowingRate v) 60"
    using assms(3) unfolding b_def [symmetric] b(1)
    by (auto simp: opening_button_def useValidationState_def b' Let_def cmp_iff
        split: if_splits gasEstimationState.splits option.splits)
  moreover have "of_collateralAmount f \<le> sel_erc20TokenBalance st"
    using validateVaultChange_accepted [OF change(3)]
    by (auto simp: change(1) validateVaultCreation_None less_eq_decimal_def)
  moreover have "oa_THUSDAmount (pt_args r) = bn (of_borrowAmount f) \<and>
      oa_assetAmount (pt_args r) + oa_value (pt_args r) = bn (of_collateralAmount f) \<and>
      oa_maxFeePercentage (pt_args r) = bn rate + 5 * 10 ^ 15"
    if "openTrove env estimateGas (creation_entries ?p) (formOptions (fv_maxBorrowingRate v) 60) overrides = Inr r"
    for env estimateGas overrides r
    using that
    by (auto simp: openTrove_def Let_def bindR_Inr_iff normalize_opening formOptions_def change(5) formSlippage_def
        normalizeBorrowingOperationOptionalParams_def debt_warning_def split: option.splits if_splits)
  ultimately show ?thesis using change(2,4) by (simp add: b')
qed
definition example_form :: openingForm where
  "example_form =
     \<lparr>of_isMounted = False, of_collateralAmount = Dec (5 * 10 ^ 18), of_borrowAmount = Dec (1800 * 10 ^ 18), of_hasCleanup = False\<rparr>"

definition example_entered :: troveChange where
  "example_entered = Creation \<lparr>depositCollateral = Dec (5 * 10 ^ 18), borrowTHUSD = Dec (1800 * 10 ^ 18)\<rparr>"

lemma example_form_renders:
  "\<exists>v. opening_render MINIMUM_BORROWING_RATE (example_selected 10000) example_form = Inr v \<and>
     fv_vaultChange v = Some example_entered \<and> fv_totalDebt v = Dec (2009 * 10 ^ 18) \<and>
     fv_maxBorrowingRate v = Dec (10 ^ 16)"
  by (simp add: opening_render_def example_form_def example_entered_def example_defs emptyTrove_def validateVaultCreation_def
      Trove_netDebt_def openable_iff Decimal_add_def Decimal_mul_def unapplyFee_def applyFee_def Decimal_divCeil_def Decimal_isZero_def
      MINIMUM_BORROWING_RATE_def THUSD_LIQUIDATION_RESERVE_def Decimal_ONE_def formSlippage_def)

theorem opening_confirms_entered_witness:
  "Trove_apply emptyTrove (Some example_entered) MINIMUM_BORROWING_RATE =
     Inr \<lparr>collateral = Dec (5 * 10 ^ 18), debt = Dec (2009 * 10 ^ 18)\<rparr>"
proof -
  obtain v where v: "opening_render MINIMUM_BORROWING_RATE (example_selected 10000) example_form = Inr v"
    "fv_vaultChange v = Some example_entered" "fv_totalDebt v = Dec (2009 * 10 ^ 18)"
    using example_form_renders by blast
  have "opening_button (useValidationState (Dec (6 * 10 ^ 18)) (stableEffect None (Some example_entered))) (GasComplete ())
      (stableEffect None (Some example_entered)) (fv_maxBorrowingRate v) =
    ConfirmButton (VaultAction example_entered (fv_maxBorrowingRate v) 60)"
    by (simp add: opening_button_def useValidationState_def stableEffect_def example_entered_def Decimal_isZero_def Decimal_gte_def)
  from opening_confirms_entered [OF v(1,2) this] show ?thesis by (simp add: v(3) example_form_def)
qed

section \<open>Entering amounts\<close>

text \<open>The form as a user sees it: the two amounts, and whether one of them has been edited.  The first edit, if it enters collateral, also
  enters the minimum loan; later edits change only what they edit.\<close>

fun entered :: "(bool \<times> decimal) \<Rightarrow> decimal \<times> decimal \<times> bool \<Rightarrow> decimal \<times> decimal \<times> bool" where
  "entered (isCollateral, d) (c, b, touched) =
     (if isCollateral
      then (d, if \<not> touched \<and> d \<noteq> Decimal_ZERO then THUSD_MINIMUM_NET_DEBT else b, touched \<or> d \<noteq> c)
      else (c, d, touched \<or> d \<noteq> b))"

definition shownAmounts :: "openingForm \<Rightarrow> decimal \<times> decimal \<times> bool" where
  "shownAmounts f = (of_collateralAmount f, of_borrowAmount f, \<not> of_isMounted f)"

definition opening_ok :: "openingForm \<Rightarrow> bool" where
  "opening_ok f \<longleftrightarrow>
     (of_isMounted f \<longrightarrow> of_hasCleanup f \<and> of_collateralAmount f = Decimal_ZERO \<and> of_borrowAmount f = Decimal_ZERO)"

fun editOf :: "openingEdit \<Rightarrow> (bool \<times> decimal) res" where
  "editOf (EnterCollateral s) = bindR (Decimal_fromString s) (\<lambda>d. Inr (True, d))"
| "editOf (EnterBorrow s) = bindR (Decimal_fromString s) (\<lambda>d. Inr (False, d))"

lemma opening_settle_touched:
  assumes "\<not> of_isMounted f"
  shows "opening_settle deps f = (if opening_deps f = deps then f else f\<lparr>of_hasCleanup := False\<rparr>)"
proof -
  have "opening_commit f = f\<lparr>of_hasCleanup := False\<rparr>"
    using assms by (cases f) (simp add: opening_commit_def Let_def)
  then show ?thesis
    using opening_settle.simps [of deps f] opening_settle.simps [of "opening_deps f" "f\<lparr>of_hasCleanup := False\<rparr>"]
    by (simp add: opening_deps_def)
qed

lemma opening_settle_eq:
  assumes "of_isMounted f \<longrightarrow> of_hasCleanup f"
  shows "opening_settle deps f =
    (if opening_deps f = deps then f
     else if of_isMounted f then f\<lparr>of_isMounted := False, of_hasCleanup := False, of_borrowAmount :=
       (if of_collateralAmount f \<noteq> Decimal_ZERO \<and> of_borrowAmount f = Decimal_ZERO then THUSD_MINIMUM_NET_DEBT else of_borrowAmount f)\<rparr>
     else f\<lparr>of_hasCleanup := False\<rparr>)"
  using assms opening_settle.simps [of deps f] opening_settle_touched [of f deps]
    opening_settle_touched [of "opening_commit f" "opening_deps f"]
  by (simp add: opening_commit_def opening_deps_def Let_def cmp_iff)

lemma opening_edit_shown:
  assumes "opening_ok f"
  shows "(case editOf e of Inl err \<Rightarrow> opening_edit e f = Inl err
          | Inr x \<Rightarrow> \<exists>f'. opening_edit e f = Inr f' \<and> opening_ok f' \<and> shownAmounts f' = entered x (shownAmounts f))"
proof (cases e)
  case (EnterCollateral x)
  with assms show ?thesis
    by (cases "Decimal_fromString x") (auto simp: opening_settle_eq opening_ok_def shownAmounts_def opening_deps_def)
next
  case (EnterBorrow x)
  with assms show ?thesis
    by (cases "Decimal_fromString x") (auto simp: opening_settle_eq opening_ok_def shownAmounts_def opening_deps_def)
qed

fun opening_edits :: "openingEdit list \<Rightarrow> openingForm \<Rightarrow> openingForm res" where
  "opening_edits [] f = Inr f"
| "opening_edits (e # es) f = bindR (opening_edit e f) (opening_edits es)"

lemma opening_edits_shown:
  "opening_ok f \<Longrightarrow> mapR editOf es = Inr xs \<Longrightarrow>
     \<exists>f'. opening_edits es f = Inr f' \<and> opening_ok f' \<and> shownAmounts f' = fold entered xs (shownAmounts f)"
proof (induction es arbitrary: f xs)
  case (Cons e es)
  from Cons.prems(2) obtain x ys where x: "editOf e = Inr x" "mapR editOf es = Inr ys" "xs = x # ys"
    by (auto simp: bindR_Inr_iff)
  obtain f' where "opening_edit e f = Inr f'" "opening_ok f'" "shownAmounts f' = entered x (shownAmounts f)"
    using opening_edit_shown [OF Cons.prems(1), of e] by (auto simp: x)
  with Cons.IH [of f' ys] x show ?case by auto
qed simp

text \<open>However the amounts of the opening form are edited, the effects of the form come to rest after each edit, and it shows what was
  entered last, where entering collateral first also enters the minimum loan.\<close>

theorem opening_shows_entered:
  assumes "mapR editOf es = Inr xs"
  shows "\<exists>f. opening_edits es (opening_commit newOpeningForm) = Inr f \<and>
    (of_collateralAmount f, of_borrowAmount f, \<not> of_isMounted f) = fold entered xs (Decimal_ZERO, Decimal_ZERO, False)"
proof -
  have "opening_ok (opening_commit newOpeningForm)"
    "shownAmounts (opening_commit newOpeningForm) = (Decimal_ZERO, Decimal_ZERO, False)"
    by (simp_all add: opening_ok_def opening_commit_def newOpeningForm_def shownAmounts_def Decimal_isZero_def Let_def)
  from opening_edits_shown [OF this(1) assms] this(2) show ?thesis by (auto simp: shownAmounts_def)
qed

theorem opening_shows_entered_witness:
  "\<exists>f. opening_edits [EnterCollateral ''5'', EnterBorrow ''2000''] (opening_commit newOpeningForm) = Inr f \<and>
     of_collateralAmount f = Dec (5 * 10 ^ 18) \<and> of_borrowAmount f = Dec (2000 * 10 ^ 18)"
proof -
  have "mapR editOf [EnterCollateral ''5'', EnterBorrow ''2000''] = Inr [(True, Dec (5 * 10 ^ 18)), (False, Dec (2000 * 10 ^ 18))]"
    by (simp add: fromString_digits literal_simps)
  from opening_shows_entered [OF this] show ?thesis by auto
qed

section \<open>Adjusting\<close>

lemma adjusting_view:
  assumes "adjusting_render rate st t f = Inr (Some v)"
  shows "bn THUSD_LIQUIDATION_RESERVE \<le> bn (debt t)" and "status t = Open"
    and "validateVaultChange t (fv_vault v) rate st = Inr (fv_vaultChange v, fv_description v)"
    and "collateral (fv_vault v) = (if fv_isDirty v then af_collateralAmount f else collateral t)"
    and "debt (fv_vault v) = (if fv_isDirty v then fv_totalDebt v else debt t)"
  using assms by (auto simp: adjusting_render_def Let_def bindR_Inr_iff Trove_netDebt_eq split: if_splits prod.splits simp del: bn_constants)
lemma unapplyFee_le_iff: "bn (unapplyFee r x) \<le> y \<longleftrightarrow> bn x * DIGITS \<le> y * (DIGITS + bn r)"
proof -
  have c: "0 < DIGITS + bn r" by simp
  have "bn (unapplyFee r x) = (bn x * DIGITS + (DIGITS + bn r - 1)) div (DIGITS + bn r)"
    by (simp only: unapplyFee_def Decimal_divCeil_def Decimal_isZero_def fee_divider decimal.sel) (simp add: DIGITS_num)
  then show ?thesis by (simp only: ceil_div_le_iff [OF c])
qed

lemma unapplyFee_mono: "bn x \<le> bn y \<Longrightarrow> bn (unapplyFee r x) \<le> bn (unapplyFee r y)"
  unfolding unapplyFee_le_iff using unapplyFee_le_iff [of r y "bn (unapplyFee r y)"] mult_le_mono1 [of "bn x" "bn y" DIGITS]
  by linarith

lemma unapplyFee_nothing: "bn (unapplyFee r (Dec 0)) = 0"
  using unapplyFee_le_iff [of r "Dec 0" 0] by simp

text \<open>A debt that grows by \<open>n\<close> and the fee for the loan that \<open>n\<close> would pay off is reached by a loan of at most \<open>n\<close>.\<close>

lemma borrow_within:
  assumes "bn d \<le> n + bn (unapplyFee r (Dec n)) * bn r div DIGITS"
  shows "bn (unapplyFee r d) \<le> n"
proof -
  let ?u = "bn (unapplyFee r (Dec n))"
  have "?u \<le> n" unfolding unapplyFee_le_iff by (simp add: distrib_left)
  then have "?u * bn r \<le> n * bn r" by (rule mult_le_mono1)
  moreover have "?u * bn r div DIGITS * DIGITS \<le> ?u * bn r" by simp
  moreover have "bn d * DIGITS \<le> n * DIGITS + ?u * bn r div DIGITS * DIGITS"
    using mult_le_mono1 [OF assms, of DIGITS] by (simp only: distrib_right)
  ultimately have "bn d * DIGITS \<le> n * DIGITS + n * bn r" by linarith
  then show ?thesis by (simp only: unapplyFee_le_iff distrib_left)
qed

lemma feeFrom_increase:
  fixes t :: userTrove
  assumes "0 < n" and "bn THUSD_LIQUIDATION_RESERVE \<le> bn (debt t)"
  shows "feeFrom t (\<lparr>collateral = collateral t, debt = Dec (bn (debt t) + n)\<rparr> :: trove) r = Inr (Decimal_mul (unapplyFee r (Dec n)) r)"
proof -
  let ?u = "\<lparr>collateral = collateral t, debt = Dec (bn (debt t) + n)\<rparr> :: trove"
  have "toTrove t \<noteq> toTrove ?u" "\<not> Trove_isEmpty t" "\<not> Trove_isEmpty ?u"
    using assms by (auto simp: toTrove_def Trove_isEmpty_iff decimal_eq_iff)
  from Trove_whatChanged_adjustment [OF this, of r] assms(1) show ?thesis
    by (simp add: feeFrom_def adjustment_between_def less_decimal_def)
qed

lemma adjusting_debt:
  assumes "adjusting_render rate st t f = Inr (Some v)"
  defines "n \<equiv> bn (af_netDebt f) + bn THUSD_LIQUIDATION_RESERVE - bn (debt t)"
  shows "bn (fv_fee v) = bn (unapplyFee rate (Dec n)) * bn rate div DIGITS"
    and "bn (fv_totalDebt v) = bn (af_netDebt f) + bn THUSD_LIQUIDATION_RESERVE + bn (fv_fee v)"
proof -
  from assms(1) have reserve: "bn THUSD_LIQUIDATION_RESERVE \<le> bn (debt t)" by (rule adjusting_view)
  have sub: "Decimal_sub (af_netDebt f) (Dec (bn (debt t) - bn THUSD_LIQUIDATION_RESERVE)) = Inr (Dec n)" if "0 < n"
    using that reserve by (simp add: n_def dec_simps Decimal_sub_def new_Decimal_def)
  have gt: "Decimal_gt (af_netDebt f) (Dec (bn (debt t) - bn THUSD_LIQUIDATION_RESERVE)) \<longleftrightarrow> 0 < n"
    using reserve by (auto simp: n_def Decimal_gt_def simp del: bn_constants)
  show "bn (fv_fee v) = bn (unapplyFee rate (Dec n)) * bn rate div DIGITS"
    and "bn (fv_totalDebt v) = bn (af_netDebt f) + bn THUSD_LIQUIDATION_RESERVE + bn (fv_fee v)"
    using assms(1) reserve gt sub unapplyFee_nothing [of rate] feeFrom_increase [of n t rate]
    by (auto simp: adjusting_render_def Let_def bindR_Inr_iff Trove_netDebt_eq Decimal_add_def split: if_splits prod.splits simp del: bn_constants)
qed
lemma adjusting_changed:
  assumes "adjusting_render rate st t f = Inr (Some v)" and "fv_vaultChange v = Some c"
  shows "fv_isDirty v" and "Trove_whatChanged t (fv_vault v) rate = Inr (Some c)"
    and "changeParams c = adjustment_between t (fv_vault v) rate"
proof -
  note view = adjusting_view [OF assms(1)]
  show changed: "Trove_whatChanged t (fv_vault v) rate = Inr (Some c)"
    using validateVaultChange_accepted [OF view(3) [unfolded assms(2)]] by blast
  then show dirty: "fv_isDirty v" using view(4,5) by (auto simp: Trove_whatChanged_def Decimal_eq_def split: if_splits)
  have differ: "toTrove t \<noteq> toTrove (fv_vault v)" using changed Trove_whatChanged_None [of t "fv_vault v" rate] by auto
  have "0 < bn THUSD_LIQUIDATION_RESERVE" by simp
  then have "\<not> Trove_isEmpty t" "\<not> Trove_isEmpty (fv_vault v)"
    using view(1,5) adjusting_debt(2) [OF assms(1)] dirty by (auto simp: Trove_isEmpty_iff simp del: bn_constants)
  from Trove_whatChanged_adjustment [OF differ this, of rate] changed
  show "changeParams c = adjustment_between t (fv_vault v) rate" by auto
qed

lemma adjusting_confirmed:
  assumes "adjusting_render rate st t f = Inr (Some v)" and "fv_vaultChange v = Some c" and "bn rate \<le> DIGITS"
  shows "\<exists>t'. Trove_apply t (Some c) rate = Inr t' \<and> collateral t' = af_collateralAmount f \<and>
      bn (fv_totalDebt v) \<le> bn (debt t') \<and> bn (debt t') \<le> bn (fv_totalDebt v) + 1"
    and "bn (collateral t) + (case adjDepositCollateral (changeParams c) of Some d \<Rightarrow> bn d | None \<Rightarrow> 0) =
      bn (af_collateralAmount f) + (case adjWithdrawCollateral (changeParams c) of Some d \<Rightarrow> bn d | None \<Rightarrow> 0)"
    and "bn (debt t) + (case adjBorrowTHUSD (changeParams c) of Some d \<Rightarrow> bn d | None \<Rightarrow> 0) \<le>
      bn (af_netDebt f) + bn THUSD_LIQUIDATION_RESERVE + (case adjRepayTHUSD (changeParams c) of Some d \<Rightarrow> bn d | None \<Rightarrow> 0)"
    and "adjBorrowTHUSD (changeParams c) = None \<Longrightarrow>
      bn (debt t) = bn (af_netDebt f) + bn THUSD_LIQUIDATION_RESERVE + (case adjRepayTHUSD (changeParams c) of Some d \<Rightarrow> bn d | None \<Rightarrow> 0)"
proof -
  note view = adjusting_view [OF assms(1)] and changed = adjusting_changed [OF assms(1,2)] and debt = adjusting_debt [OF assms(1)]
  have vault: "collateral (fv_vault v) = af_collateralAmount f" "debt (fv_vault v) = fv_totalDebt v"
    using view(4,5) changed(1) by simp_all
  show "\<exists>t'. Trove_apply t (Some c) rate = Inr t' \<and> collateral t' = af_collateralAmount f \<and>
      bn (fv_totalDebt v) \<le> bn (debt t') \<and> bn (debt t') \<le> bn (fv_totalDebt v) + 1"
    using whatChanged_reaches [OF changed(2)] assms(3) vault by (auto simp: reaches_def split: sum.splits)
  show "bn (collateral t) + (case adjDepositCollateral (changeParams c) of Some d \<Rightarrow> bn d | None \<Rightarrow> 0) =
      bn (af_collateralAmount f) + (case adjWithdrawCollateral (changeParams c) of Some d \<Rightarrow> bn d | None \<Rightarrow> 0)"
    by (auto simp: changed(3) adjustment_between_def vault less_decimal_def)
  let ?n = "bn (af_netDebt f) + bn THUSD_LIQUIDATION_RESERVE - bn (debt t)" and ?d = "Dec (bn (fv_totalDebt v) - bn (debt t))"
  have fee_none: "bn (fv_fee v) = 0" if "?n = 0" unfolding debt(1) that by (simp add: unapplyFee_nothing)
  have "bn (unapplyFee rate ?d) \<le> ?n" by (rule borrow_within) (use debt in simp_all)
  moreover have "bn (debt t) < bn (af_netDebt f) + bn THUSD_LIQUIDATION_RESERVE" if "bn (debt t) < bn (fv_totalDebt v)"
    using that debt(2) fee_none by (cases "?n = 0") (simp_all del: bn_constants)
  moreover note fee_none
  ultimately show "bn (debt t) + (case adjBorrowTHUSD (changeParams c) of Some d \<Rightarrow> bn d | None \<Rightarrow> 0) \<le>
      bn (af_netDebt f) + bn THUSD_LIQUIDATION_RESERVE + (case adjRepayTHUSD (changeParams c) of Some d \<Rightarrow> bn d | None \<Rightarrow> 0)"
    using debt(2) by (auto simp: changed(3) adjustment_between_def vault less_decimal_def simp del: bn_constants)
  assume "adjBorrowTHUSD (changeParams c) = None"
  then have "bn (fv_totalDebt v) \<le> bn (debt t)" by (simp add: changed(3) adjustment_between_def vault less_decimal_def split: if_splits)
  with debt(2) fee_none show "bn (debt t) = bn (af_netDebt f) + bn THUSD_LIQUIDATION_RESERVE +
      (case adjRepayTHUSD (changeParams c) of Some d \<Rightarrow> bn d | None \<Rightarrow> 0)"
    by (auto simp: changed(3) adjustment_between_def vault less_decimal_def simp del: bn_constants)
qed

text \<open>C15: What the user confirms in the form for adjusting: the change, replayed on the vault, gives the entered collateral and the total debt that
  is shown, up to one unit of the last digit if something is borrowed; deposits, withdrawals and repayments are exactly the entered
  differences; and no more is borrowed than was entered.\<close>

theorem adjusting_confirms_shown:
  assumes "adjusting_render rate st t f = Inr (Some v)" and "fv_vaultChange v = Some c" and "bn rate \<le> DIGITS"
  shows "(\<exists>t'. Trove_apply t (Some c) rate = Inr t' \<and> collateral t' = af_collateralAmount f \<and>
      bn (fv_totalDebt v) \<le> bn (debt t') \<and> bn (debt t') \<le> bn (fv_totalDebt v) + 1) \<and>
    bn (collateral t) + (case adjDepositCollateral (changeParams c) of Some d \<Rightarrow> bn d | None \<Rightarrow> 0) =
      bn (af_collateralAmount f) + (case adjWithdrawCollateral (changeParams c) of Some d \<Rightarrow> bn d | None \<Rightarrow> 0) \<and>
    bn (debt t) + (case adjBorrowTHUSD (changeParams c) of Some d \<Rightarrow> bn d | None \<Rightarrow> 0) \<le>
      bn (af_netDebt f) + bn THUSD_LIQUIDATION_RESERVE + (case adjRepayTHUSD (changeParams c) of Some d \<Rightarrow> bn d | None \<Rightarrow> 0) \<and>
    (adjBorrowTHUSD (changeParams c) = None \<longrightarrow>
      bn (debt t) = bn (af_netDebt f) + bn THUSD_LIQUIDATION_RESERVE + (case adjRepayTHUSD (changeParams c) of Some d \<Rightarrow> bn d | None \<Rightarrow> 0))"
  using adjusting_confirmed [OF assms] by blast

text \<open>A vault of 10 collateral and 2000 thUSD whose owner enters a net debt that is higher by 1000, at a rate of 5\%.\<close>

definition example_open :: userTrove where
  "example_open = \<lparr>collateral = Dec (10 * 10 ^ 18), debt = Dec (2000 * 10 ^ 18), ownerAddress = ''0xa1'', status = Open\<rparr>"

definition example_adjusting :: adjustingForm where
  "example_adjusting =
     \<lparr>af_previousVault = toTrove example_open, af_collateralAmount = Dec (10 * 10 ^ 18), af_netDebt = Dec (2800 * 10 ^ 18)\<rparr>"

definition example_loan :: troveChange where
  "example_loan =
     Adjustment \<lparr>adjDepositCollateral = None, adjWithdrawCollateral = None, adjBorrowTHUSD = Some (Dec 997732426303854875283),
                 adjRepayTHUSD = None\<rparr> None"

lemma example_adjusting_renders:
  "\<exists>v. adjusting_render MAXIMUM_BORROWING_RATE (example_selected 10000) example_open example_adjusting = Inr (Some v) \<and>
     fv_vaultChange v = Some example_loan \<and> fv_fee v = Dec 47619047619047619047 \<and> fv_totalDebt v = Dec 3047619047619047619047"
  by (simp add: adjusting_render_def example_adjusting_def example_loan_def example_open_def toTrove_def example_defs Trove_netDebt_def feeFrom_def
      Trove_debtChange_def Decimal_add_def Decimal_mul_def unapplyFee_def applyFee_def Decimal_divCeil_def Decimal_isZero_def
      MAXIMUM_BORROWING_RATE_def THUSD_LIQUIDATION_RESERVE_def Decimal_ONE_def formSlippage_def Difference_between_def
      Trove_collateralRatio_def Decimal_mulDiv_def)
theorem adjusting_confirms_shown_witness:
  "\<exists>t'. Trove_apply example_open (Some example_loan) MAXIMUM_BORROWING_RATE = Inr t' \<and>
     collateral t' = Dec (10 * 10 ^ 18) \<and> 3047619047619047619047 \<le> bn (debt t')"
proof -
  obtain v where v: "adjusting_render MAXIMUM_BORROWING_RATE (example_selected 10000) example_open example_adjusting = Inr (Some v)"
    "fv_vaultChange v = Some example_loan" "fv_totalDebt v = Dec 3047619047619047619047"
    using example_adjusting_renders by blast
  have "bn MAXIMUM_BORROWING_RATE \<le> DIGITS" by (simp add: DIGITS_num)
  from adjusting_confirms_shown [OF v(1,2) this] v(3) show ?thesis by (auto simp: example_adjusting_def)
qed

text \<open>The fee that the form shows is not the fee of the loan that it sends: for an entered increase of 1000 thUSD at 5\%, it shows 47.62 and
  borrows 997.73, whose fee is 49.89.\<close>

theorem adjusting_fee_understated:
  "\<exists>v. adjusting_render MAXIMUM_BORROWING_RATE (example_selected 10000) example_open example_adjusting = Inr (Some v) \<and>
     fv_vaultChange v = Some example_loan \<and> bn (fv_fee v) = 47619047619047619047 \<and>
     change_borrowTHUSD example_loan = Some (Dec 997732426303854875283) \<and>
     bn (Decimal_mul (Dec 997732426303854875283) MAXIMUM_BORROWING_RATE) = 49886621315192743764"
  using example_adjusting_renders by (auto simp: example_loan_def DIGITS_num)

text \<open>A vault that was closed or liquidated while it is being adjusted has no debt: the form throws, and does not reach its test for an open
  vault.\<close>

theorem adjusting_closed_throws:
  "bn (debt t) < bn THUSD_LIQUIDATION_RESERVE \<Longrightarrow>
     adjusting_render rate st t f = Inl (Error ''netDebt should not be used when debt < 200'')"
  by (simp add: adjusting_render_def Trove_netDebt_eq)

section \<open>Updates of the store during an adjustment\<close>

definition keepsEdit :: "nat \<Rightarrow> nat \<Rightarrow> nat \<Rightarrow> nat" where
  "keepsEdit previous amount current =
     (if previous = current then amount
      else if previous \<le> amount then current + (amount - previous)
      else if previous - amount < current then current - (previous - amount)
      else current)"

lemma applyUnsaved_eq:
  assumes "bn a \<noteq> MAX_UINT_256" and "bn b \<noteq> MAX_UINT_256" and "bn b \<noteq> bn c"
  shows "bindR (Difference_between (Some a) (Some b)) (\<lambda>unsaved. applyUnsaved unsaved c) = Inr (Dec (keepsEdit (bn b) (bn a) (bn c)))"
proof -
  have finite: "Decimal_infinite a = None" "Decimal_infinite b = None"
    using assms by (simp_all add: Decimal_infinite_def Decimal_eq_def)
  consider "bn b < bn a" | "bn b = bn a" | "bn a < bn b" by linarith
  then show ?thesis
    by cases (use assms in \<open>auto simp: Difference_between_def finite applyUnsaved_def keepsEdit_def Difference_absoluteValue_def
        Difference_positive_def Difference_negative_def Decimal_gt_def Decimal_lt_def Decimal_sub_def new_Decimal_def Decimal_add_def
        decimal.collapse split: if_splits\<close>)
qed

text \<open>When the store brings a new value of the vault, what the user has added to or taken from the amounts is carried over; only a
  reduction that exceeds the new amount is dropped.  Running the effect again changes nothing, so it comes to rest.\<close>

theorem adjusting_rebases:
  assumes "bn THUSD_LIQUIDATION_RESERVE \<le> bn (debt t)" and "bn THUSD_LIQUIDATION_RESERVE \<le> bn (debt (af_previousVault f))"
    and "bn (af_collateralAmount f) < MAX_UINT_256" and "bn (collateral (af_previousVault f)) < MAX_UINT_256"
    and "bn (af_netDebt f) < MAX_UINT_256" and "bn (debt (af_previousVault f)) < MAX_UINT_256"
  defines "net \<equiv> \<lambda>u. bn (debt u) - bn THUSD_LIQUIDATION_RESERVE"
  shows "\<exists>f'. adjusting_effect t f = Inr f' \<and> af_previousVault f' = toTrove t \<and>
    bn (af_collateralAmount f') =
      keepsEdit (bn (collateral (af_previousVault f))) (bn (af_collateralAmount f)) (bn (collateral t)) \<and>
    bn (af_netDebt f') = keepsEdit (net (af_previousVault f)) (bn (af_netDebt f)) (bn (debt t) - bn THUSD_LIQUIDATION_RESERVE) \<and>
    adjusting_effect t f' = Inr f'"
proof -
  let ?p = "af_previousVault f"
  have coll: "bindR (Difference_between (Some (af_collateralAmount f)) (Some (collateral ?p))) (\<lambda>unsaved. applyUnsaved unsaved (collateral t)) =
      Inr (Dec (keepsEdit (bn (collateral ?p)) (bn (af_collateralAmount f)) (bn (collateral t))))"
    if "collateral ?p \<noteq> collateral t"
    by (rule applyUnsaved_eq) (use assms(3,4) that in \<open>simp_all add: decimal_eq_iff\<close>)
  have net: "bindR (Difference_between (Some (af_netDebt f)) (Some (Dec (net ?p)))) (\<lambda>unsaved. applyUnsaved unsaved (Dec n)) =
      Inr (Dec (keepsEdit (net ?p) (bn (af_netDebt f)) n))"
    if "net ?p \<noteq> n" for n
    using applyUnsaved_eq [of "af_netDebt f" "Dec (net ?p)" "Dec n"] assms(5,6) that by (simp add: net_def)
  define f' where "f' = \<lparr>af_previousVault = toTrove t,
    af_collateralAmount = Dec (keepsEdit (bn (collateral ?p)) (bn (af_collateralAmount f)) (bn (collateral t))),
    af_netDebt = Dec (keepsEdit (net ?p) (bn (af_netDebt f)) (bn (debt t) - bn THUSD_LIQUIDATION_RESERVE))\<rparr>"
  have "adjusting_effect t f = Inr f'"
    using assms(1,2) coll net [of "bn (debt t) - bn THUSD_LIQUIDATION_RESERVE"]
    by (auto simp: adjusting_effect_def applyUnsavedCollateralChanges_def applyUnsavedNetDebtChanges_def Trove_netDebt_eq f'_def cmp_iff
        keepsEdit_def net_def decimal_eq_iff not_less simp del: bn_constants)
  moreover have "adjusting_effect t f' = Inr f'"
    using assms(1) by (simp add: adjusting_effect_def f'_def Trove_netDebt_eq cmp_iff del: bn_constants)
  ultimately show ?thesis by (simp add: f'_def)
qed
section \<open>Estimates of gas\<close>

text \<open>Everything that can happen to the estimation: the warning is rendered with a change or unmounted, a timer fires, and the populatable
  answers run \<open>n\<close> for the change \<open>c\<close> with \<open>answer n c\<close>, a transaction or an error.\<close>

inductive gas_step :: "(nat \<Rightarrow> troveChange \<Rightarrow> 'tx res) \<Rightarrow> 'tx gasEstimation \<Rightarrow> 'tx gasEstimation \<Rightarrow> bool" for answer where
  render: "gas_step answer s (warningCommit change s)"
| unmount: "gas_step answer s (warningCleanup s)"
| timer: "(n, c) \<in> set (ge_timers s) \<Longrightarrow> gas_step answer s (estimateTimer n c s)"
| arrives: "(n, c) \<in> set (ge_populating s) \<Longrightarrow> answer n c = Inr tx \<Longrightarrow> gas_step answer s (estimateArrives n c tx s)"
| fails: "(n, c) \<in> set (ge_populating s) \<Longrightarrow> answer n c = Inl e \<Longrightarrow> gas_step answer s (estimateFails n c s)"

inductive gas_reachable :: "(nat \<Rightarrow> troveChange \<Rightarrow> 'tx res) \<Rightarrow> 'tx gasEstimation \<Rightarrow> bool" for answer where
  start: "gas_reachable answer newGasEstimation"
| step: "gas_reachable answer s \<Longrightarrow> gas_step answer s s' \<Longrightarrow> gas_reachable answer s'"

definition gas_pending :: "'tx gasEstimation \<Rightarrow> (nat \<times> troveChange) set" where
  "gas_pending s = set (ge_timers s) \<union> set (ge_populating s)"

text \<open>The runs that wait are cancelled or the current one, which works on the change that is shown.\<close>

definition gas_inv :: "(nat \<Rightarrow> troveChange \<Rightarrow> 'tx res) \<Rightarrow> 'tx gasEstimation \<Rightarrow> bool" where
  "gas_inv answer s \<longleftrightarrow>
     (\<forall>(n, c) \<in> gas_pending s. n < ge_runs s \<and> (n \<in> set (ge_cancelled s) \<or> ge_effect s = Some n \<and> ge_change s = Some c)) \<and>
     (\<forall>n \<in> set (ge_cancelled s). n < ge_runs s) \<and>
     (\<forall>n. ge_effect s = Some n \<longrightarrow> n < ge_runs s \<and> n \<notin> set (ge_cancelled s) \<and>
        (ge_state s = GasInProgress \<longrightarrow>
           (\<exists>c. ge_change s = Some c \<and> ((n, c) \<in> gas_pending s \<or> (\<exists>e. answer n c = Inl e))))) \<and>
     (\<forall>tx. ge_state s = GasComplete tx \<longrightarrow> (\<exists>n c. ge_change s = Some c \<and> answer n c = Inr tx))"

lemma pending_cleanup: "gas_pending (warningCleanup s) \<subseteq> gas_pending s"
  by (auto simp: gas_pending_def warningCleanup_def split: option.splits)

lemma gas_inv_cleanup:
  assumes "gas_inv answer s"
  shows "gas_inv answer (warningCleanup s)" and "ge_effect (warningCleanup s) = None" and "ge_runs (warningCleanup s) = ge_runs s"
  using assms pending_cleanup [of s] by (auto 0 4 simp: gas_inv_def warningCleanup_def gas_pending_def split: option.splits)

lemma gas_inv_effect:
  assumes "gas_inv answer s" and "ge_effect s = None"
  shows "gas_inv answer (warningEffect change s)"
proof (cases "change \<noteq> None \<and> \<not> is_closure change")
  case True
  with assms show ?thesis
    by (auto 0 4 simp: gas_inv_def warningEffect_def gas_pending_def less_Suc_eq)
next
  case False
  with assms show ?thesis by (auto 0 4 simp: gas_inv_def warningEffect_def gas_pending_def)
qed

lemma insert_remove1: "y \<in> set xs \<Longrightarrow> insert y (set (remove1 y xs)) = set xs"
  by (induction xs) auto

lemma gas_inv_settled:
  assumes "gas_inv answer s" and "(n, c) \<in> gas_pending s"
    and "gas_pending s' \<subseteq> gas_pending s" and "gas_pending s \<subseteq> insert (n, c) (gas_pending s')"
    and "ge_runs s' = ge_runs s" "ge_cancelled s' = ge_cancelled s" "ge_effect s' = ge_effect s" "ge_change s' = ge_change s"
    and "ge_state s' = ge_state s \<and> (n \<in> set (ge_cancelled s) \<or> (\<exists>e. answer n c = Inl e)) \<or>
         n \<notin> set (ge_cancelled s) \<and> (\<exists>tx. answer n c = Inr tx \<and> ge_state s' = GasComplete tx)"
  shows "gas_inv answer s'"
  unfolding gas_inv_def
proof (intro conjI)
  show "\<forall>(m, d) \<in> gas_pending s'. m < ge_runs s' \<and> (m \<in> set (ge_cancelled s') \<or> ge_effect s' = Some m \<and> ge_change s' = Some d)"
    using assms(1,3,5-8) unfolding gas_inv_def by (simp add: subset_iff) blast
  show "\<forall>m \<in> set (ge_cancelled s'). m < ge_runs s'" using assms(1,5,6) by (simp add: gas_inv_def)
  show "\<forall>m. ge_effect s' = Some m \<longrightarrow> m < ge_runs s' \<and> m \<notin> set (ge_cancelled s') \<and>
      (ge_state s' = GasInProgress \<longrightarrow> (\<exists>d. ge_change s' = Some d \<and> ((m, d) \<in> gas_pending s' \<or> (\<exists>e. answer m d = Inl e))))"
    using assms(1,4-9) unfolding gas_inv_def by (auto simp: subset_iff) metis+
  show "\<forall>tx. ge_state s' = GasComplete tx \<longrightarrow> (\<exists>m d. ge_change s' = Some d \<and> answer m d = Inr tx)"
    using assms(1,2,8,9) unfolding gas_inv_def by fastforce
qed

lemma gas_inv_step:
  assumes "gas_step answer s s'" and "gas_inv answer s"
  shows "gas_inv answer s'"
  using assms(1)
proof cases
  case (render change)
  with gas_inv_effect [OF gas_inv_cleanup(1,2) [OF assms(2)], of change] show ?thesis by (simp add: warningCommit_def)
next
  case unmount
  with gas_inv_cleanup(1) [OF assms(2)] show ?thesis by simp
next
  case (timer n c)
  then have "gas_pending s' = gas_pending s"
    using insert_remove1 [OF timer(2)] by (auto simp: gas_pending_def estimateTimer_def)
  with assms(2) timer(1) show ?thesis by (simp add: gas_inv_def estimateTimer_def)
next
  case (arrives n c tx)
  show ?thesis
    by (rule gas_inv_settled [OF assms(2), of n c])
       (use arrives insert_remove1 [OF arrives(2)] in \<open>auto simp: gas_pending_def estimateArrives_def Let_def\<close>)
next
  case (fails n c e)
  show ?thesis
    by (rule gas_inv_settled [OF assms(2), of n c])
       (use fails insert_remove1 [OF fails(2)] in \<open>auto simp: gas_pending_def estimateFails_def\<close>)
qed

lemma gas_inv_reachable: "gas_reachable answer s \<Longrightarrow> gas_inv answer s"
proof (induction rule: gas_reachable.induct)
  case start
  show ?case by (simp add: gas_inv_def newGasEstimation_def gas_pending_def)
next
  case step
  then show ?case by (blast intro: gas_inv_step)
qed

definition example_estimated :: "nat gasEstimation" where
  "example_estimated =
     estimateArrives 0 example_entered 250000
       (estimateTimer 0 example_entered (warningCommit (Some example_entered) newGasEstimation))"

lemma example_estimated_reachable: "gas_reachable (\<lambda>_ _. Inr 250000) example_estimated"
proof -
  let ?answer = "\<lambda>(_ :: nat) (_ :: troveChange). Inr 250000 :: nat res"
  let ?s = "warningCommit (Some example_entered) newGasEstimation :: nat gasEstimation"
  have timers: "ge_timers ?s = [(0, example_entered)]" "ge_populating ?s = []"
    by (simp_all add: warningCommit_def warningEffect_def warningCleanup_def newGasEstimation_def is_closure_def example_entered_def)
  have "gas_reachable ?answer ?s" by (rule gas_reachable.step [OF gas_reachable.start gas_step.render])
  then have "gas_reachable ?answer (estimateTimer 0 example_entered ?s)"
    by (rule gas_reachable.step) (rule gas_step.timer, simp add: timers)
  then show ?thesis
    unfolding example_estimated_def by (rule gas_reachable.step) (rule gas_step.arrives, simp_all add: estimateTimer_def)
qed


section \<open>Where the forms differ from what they mean to do\<close>

text \<open>Once a change is no longer valid, the warning is unmounted while an estimate is in progress: the form for opening shows a spinner,
  for as long as no valid change is entered.\<close>

theorem opening_spins:
  assumes "ge_state s = GasInProgress"
  shows "opening_button (useValidationState allowance None) (ge_state (warningCleanup s)) None maxRate = SpinnerButton"
proof -
  have "ge_state (warningCleanup s) = GasInProgress" using assms by (simp add: warningCleanup_def split: option.splits)
  then show ?thesis by (simp add: opening_button_def useValidationState_def)
qed

text \<open>The form for adjusting estimates gas only for changes with an approved deposit: a loan, a repayment or a withdrawal alone is never
  warned about.\<close>

theorem adjusting_never_estimates:
  "collateralAddress' \<noteq> [] \<Longrightarrow> adjDepositCollateral (changeParams c) = None \<Longrightarrow>
     \<not> adjusting_estimates collateralAddress' (useValidationState allowance (Some c))"
  by (simp add: adjusting_estimates_def useValidationState_def)

section \<open>Buttons and views\<close>

text \<open>A deposit can be confirmed only if the allowance covers it; what has to be approved is the deposit.\<close>

theorem adjusting_confirms_approved:
  assumes "adjusting_button collateralAddress' (useValidationState allowance (Some c)) (Some c) maxRate = b"
    and "collateralAddress' \<noteq> []" and "adjDepositCollateral (changeParams c) = Some d"
  shows "b = (if allowance \<noteq> Decimal_ZERO \<and> d \<le> allowance then ConfirmButton (VaultAction c maxRate 60) else ApproveButton d)"
  using assms by (auto simp: adjusting_button_def useValidationState_def Let_def cmp_iff)

text \<open>The forms tell the views that a vault was opened or adjusted only for a transaction of their own that has been confirmed, and the views
  then show the vault.\<close>

theorem forms_tell_views:
  "opening_transactionEffect version coll s = Some e \<Longrightarrow>
     tx_id s = ''vault-creation'' \<and> tx_version s = version \<and> tx_collateral s = coll \<and> e = VAULT_OPENED \<and>
     VaultView_transition VOpening e = VActive"
  "adjusting_transactionEffect version coll s = Some e \<Longrightarrow>
     tx_id s = ''vault-adjustment'' \<and> tx_version s = version \<and> tx_collateral s = coll \<and> e = VAULT_ADJUSTED \<and>
     VaultView_transition VAdjusting e = VActive"
  by (auto simp: opening_transactionEffect_def adjusting_transactionEffect_def useMyTransactionState_def checkTransactionCollateral_def
      openingTransactionId_def adjustingTransactionId_def Let_def VaultView_transition_def split: if_splits)

end
