(* ===== verification/Panels.thy ===== *)
theory Panels
  imports Managers Validation SubgraphLiquity
begin

text \<open>
  Further panels of \<open>packages/dev-frontend/src/components\<close>: redemption (\<open>RedemptionManager.tsx\<close>, \<open>RedemptionAction.tsx\<close>), the list of
  risky vaults (\<open>RiskyVaults.tsx\<close>), the leaderboard (\<open>Leaderboard.tsx\<close>) and the claim of surplus collateral
  (\<open>CollateralSurplusAction.tsx\<close>).  Markup is left out; a description is its text.
\<close>

section \<open>Redemption\<close>

record redemptionForm =
  rf_thusdAmount :: decimal
  rf_changePending :: bool

definition newRedemptionForm :: redemptionForm where
  "newRedemptionForm = \<lparr>rf_thusdAmount = Decimal_ZERO, rf_changePending = False\<rparr>"

record redemptionState =
  rs_price :: decimal
  rs_fees :: fees
  rs_total :: trove
  rs_thusdBalance :: decimal
  rs_symbol :: string
  rs_isTroveManager :: bool

record redemptionView =
  rw_ethAmount :: decimal
  rw_redemptionRate :: decimal
  rw_ethFee :: decimal
  rw_maxRedemptionRate :: decimal
  rw_canRedeem :: bool
  rw_description :: string
  rw_disabled :: bool

definition redemptionSlippage :: decimal where
  "redemptionSlippage = Dec (10 ^ 15)"

definition redemptionDescription :: "redemptionState \<Rightarrow> decimal \<Rightarrow> decimal \<Rightarrow> decimal \<Rightarrow> (bool \<times> string) res" where
  "redemptionDescription st amount ethAmount ethFee =
     (if Trove_collateralRatioIsBelowMinimum (rs_total st) (rs_price st) then
        bindR mcrPercent
          (\<lambda>mcr. Inr (False, ''You can'' @ apostrophe @ ''t redeem thUSD when the total collateral ratio is less than '' @ mcr @
                     ''. Please try again later.''))
      else if Decimal_gt amount (rs_thusdBalance st) then
        bindR (balance_error ''redeem'' amount (rs_thusdBalance st) COIN) (\<lambda>e. Inr (False, the e))
      else
        bindR (Decimal_sub ethAmount ethFee)
          (\<lambda>received. bindR (Decimal_prettify received 4)
          (\<lambda>r. bindR (prettify2 amount)
          (\<lambda>a. Inr (True, ''You will receive '' @ r @ '' '' @ rs_symbol st @ '' in exchange for '' @ a @ '' '' @ COIN @ ''.'')))))"

definition redemption_render :: "redemptionState \<Rightarrow> redemptionForm \<Rightarrow> redemptionView res" where
  "redemption_render st f =
     (let dirty = (\<not> Decimal_isZero (rf_thusdAmount f));
          ethAmount = Decimal_div (rf_thusdAmount f) (rs_price st)
      in bindR (Fees_redemptionRate (rs_fees st) (Decimal_div (rf_thusdAmount f) (debt (rs_total st))) None)
        (\<lambda>rate.
           let ethFee = Decimal_mul ethAmount rate
           in bindR (redemptionDescription st (rf_thusdAmount f) ethAmount ethFee)
             (\<lambda>(canRedeem, description).
                Inr \<lparr>rw_ethAmount = ethAmount, rw_redemptionRate = rate, rw_ethFee = ethFee,
                     rw_maxRedemptionRate = Decimal_add rate redemptionSlippage, rw_canRedeem = canRedeem,
                     rw_description =
                       (if dirty \<or> \<not> canRedeem then description
                        else ''Enter the amount of '' @ COIN @ '' you'' @ apostrophe @ ''d like to redeem.''),
                     rw_disabled = (\<not> dirty \<or> \<not> canRedeem \<or> \<not> rs_isTroveManager st)\<rparr>)))"

text \<open>What the button sends: the arguments of \<open>redeemTHUSD\<close>.\<close>

definition RedemptionAction :: "redemptionForm \<Rightarrow> redemptionView \<Rightarrow> (decimalish \<times> decimalish option) option" where
  "RedemptionAction f v =
     (if rw_disabled v then None else Some (DDecimal (rf_thusdAmount f), Some (DDecimal (rw_maxRedemptionRate v))))"

definition redemption_transactionEffect :: "string \<Rightarrow> string \<Rightarrow> transactionState \<Rightarrow> redemptionForm \<Rightarrow> redemptionForm" where
  "redemption_transactionEffect version coll s f =
     (let tx = useMyTransactionState (\<lambda>i. i = ''redemption'') version coll s
      in if \<not> checkTransactionCollateral tx version coll then f
         else if is_TxWaitingForApproval tx \<or> is_TxWaitingForConfirmation tx then f\<lparr>rf_changePending := True\<rparr>
         else if is_TxFailed tx \<or> is_TxCancelled tx then f\<lparr>rf_changePending := False\<rparr>
         else if is_TxConfirmed tx \<or> is_TxConfirmedOneShot tx
         then f\<lparr>rf_thusdAmount := Decimal_ZERO, rf_changePending := False\<rparr>
         else f)"

section \<open>Paging\<close>

definition pageSize :: nat where
  "pageSize = 10"

definition numberOfPages :: "nat \<Rightarrow> nat" where
  "numberOfPages n = (let pages = (n + pageSize - 1) div pageSize in if pages = 0 then 1 else pages)"

definition clampedPage :: "nat \<Rightarrow> nat \<Rightarrow> nat" where
  "clampedPage n page = min page (numberOfPages n - 1)"

definition nextPage :: "nat \<Rightarrow> nat \<Rightarrow> nat" where
  "nextPage n page = (if clampedPage n page < numberOfPages n - 1 then clampedPage n page + 1 else page)"

definition previousPage :: "nat \<Rightarrow> nat \<Rightarrow> nat" where
  "previousPage n page = (if 0 < clampedPage n page then clampedPage n page - 1 else page)"

definition clampEffect :: "nat \<Rightarrow> nat \<Rightarrow> nat" where
  "clampEffect n page = (if page \<noteq> clampedPage n page then clampedPage n page else page)"

text \<open>The numbers of the first and the last item that are shown.\<close>

definition shownRange :: "nat \<Rightarrow> nat \<Rightarrow> nat \<times> nat" where
  "shownRange n page = (clampedPage n page * pageSize + 1, min ((clampedPage n page + 1) * pageSize) n)"

section \<open>Risky vaults\<close>

definition liquidatableInNormalMode :: "'a trove_scheme \<Rightarrow> decimal \<Rightarrow> bool \<times> string" where
  "liquidatableInNormalMode vault price' =
     (Trove_collateralRatioIsBelowMinimum vault price', ''Collateral ratio not low enough'')"

definition liquidatableInRecoveryMode :: "'a trove_scheme \<Rightarrow> decimal \<Rightarrow> decimal \<Rightarrow> decimal \<Rightarrow> bool \<times> string" where
  "liquidatableInRecoveryMode vault price' totalCollateralRatio thusdInPool =
     (let collateralRatio = Trove_collateralRatio vault price'
      in if Decimal_gte collateralRatio MINIMUM_COLLATERAL_RATIO \<and> Decimal_lt collateralRatio totalCollateralRatio
         then (Decimal_lte (debt vault) thusdInPool,
               ''There'' @ apostrophe @ ''s not enough '' @ COIN @ '' in the Stability pool to cover the debt'')
         else liquidatableInNormalMode vault price')"

record riskyState =
  ry_numberOfTroves :: nat
  ry_price :: decimal
  ry_recoveryMode :: bool
  ry_totalCollateralRatio :: decimal
  ry_thusdInStabilityPool :: decimal

definition riskySelect :: "baseState \<Rightarrow> riskyState" where
  "riskySelect b =
     \<lparr>ry_numberOfTroves = baseState.numberOfTroves b, ry_price = val (price b),
      ry_recoveryMode = Trove_collateralRatioIsBelowCritical (val (total_trove b)) (val (price b)),
      ry_totalCollateralRatio = Trove_collateralRatio (val (total_trove b)) (val (price b)),
      ry_thusdInStabilityPool = val (thusdInStabilityPool b)\<rparr>"

text \<open>What the transaction that liquidates a vault requires.\<close>

definition liquidationRequires :: "riskyState \<Rightarrow> 'a trove_scheme \<Rightarrow> bool \<times> string" where
  "liquidationRequires st vault =
     (if ry_recoveryMode st
      then liquidatableInRecoveryMode vault (ry_price st) (ry_totalCollateralRatio st) (ry_thusdInStabilityPool st)
      else liquidatableInNormalMode vault (ry_price st))"

definition riskyListing :: "nat \<Rightarrow> troveListingParams" where
  "riskyListing page =
     \<lparr>first = JInt (int pageSize), sortedBy = ''ascendingCollateralRatio'', startingAt = Some (JInt (int (page * pageSize))),
      beforeRedistribution = False\<rparr>"

text \<open>The rows of a page; an empty vault is one that was liquidated meanwhile.\<close>

definition riskyRows :: "connection \<Rightarrow> blockTag \<Rightarrow> nat \<Rightarrow> userTrove list res" where
  "riskyRows conn b page =
     bindR (getTroves conn (riskyListing page) b)
       (\<lambda>r. case r of
              Inr vaults \<Rightarrow> Inr (filter (\<lambda>v. \<not> Trove_isEmpty v) vaults)
            | Inl _ \<Rightarrow> Inr [])"

text \<open>The pages that were asked for and the rows that are shown; each answer replaces the rows.\<close>

record 'v riskyList =
  rl_page :: nat
  rl_pending :: "nat list"
  rl_vaults :: "(nat \<times> 'v list) option"

definition riskyFetch :: "nat \<Rightarrow> 'v riskyList \<Rightarrow> 'v riskyList" where
  "riskyFetch page s = s\<lparr>rl_page := page, rl_pending := rl_pending s @ [page]\<rparr>"

definition riskyAnswer :: "nat \<Rightarrow> 'v list \<Rightarrow> 'v riskyList \<Rightarrow> 'v riskyList" where
  "riskyAnswer page vaults s = s\<lparr>rl_pending := remove1 page (rl_pending s), rl_vaults := Some (page, vaults)\<rparr>"

section \<open>Leaderboard\<close>

definition blacklistedAddresses :: "string list" where
  "blacklistedAddresses =
     [''0x0000ce08fa224696a819877070bf378e8b131acf'',
      ''0x62509301068f77fed07c2d17609a8730385d24ed'',
      ''0x24EcD23096fCF03A15ee8a6FE63F24345Cc4BA46'']"

record leaderboardReturnItem =
  li_timestamp :: string
  li_network :: string
  li_address :: string
  li_userid :: string
  li_usdassets :: string
  li_ledassets :: string
  li_leddebt :: string
  li_ledprice :: string
  li_netvalue :: string
  li_avatarurl :: string
  li_username :: string

record leaderboardRow =
  lr_address :: string
  lr_avatarurl :: string
  lr_username :: string
  lr_usdassets :: decimal
  lr_ledassets :: decimal
  lr_leddebt :: decimal
  lr_netvalue :: decimal

definition parseNumberString :: "string \<Rightarrow> decimal res" where
  "parseNumberString numstr =
     bindR (Decimal_from (DString numstr))
       (\<lambda>n. bindR (Decimal_from (DNumber ''10''))
       (\<lambda>ten. bindR (Decimal_pow ten 18) (\<lambda>p. Inr (Decimal_div n p))))"

definition parseRow :: "leaderboardReturnItem \<Rightarrow> leaderboardRow res" where
  "parseRow row =
     bindR (parseNumberString (li_usdassets row))
       (\<lambda>usdassets. bindR (parseNumberString (li_ledassets row))
       (\<lambda>ledassets. bindR (parseNumberString (li_leddebt row))
       (\<lambda>leddebt. bindR (parseNumberString (li_netvalue row))
       (\<lambda>netvalue.
          Inr \<lparr>lr_address = li_address row, lr_avatarurl = li_avatarurl row, lr_username = li_username row,
               lr_usdassets = usdassets, lr_ledassets = ledassets, lr_leddebt = leddebt, lr_netvalue = netvalue\<rparr>))))"

text \<open>The comparison function is not consistent on rows of equal value, so the order that \<open>sort\<close> gives depends on the engine; it is the
  parameter \<open>sortRows\<close>.  An error leaves the data as they are.\<close>

definition leaderboardData ::
    "((leaderboardRow \<Rightarrow> leaderboardRow \<Rightarrow> int) \<Rightarrow> leaderboardRow list \<Rightarrow> leaderboardRow list) \<Rightarrow> leaderboardReturnItem list \<Rightarrow>
     leaderboardRow list \<Rightarrow> leaderboardRow list" where
  "leaderboardData sortRows result old =
     (case mapR parseRow result of
        Inr rows \<Rightarrow>
          sortRows (\<lambda>a b. if Decimal_gt (lr_netvalue a) (lr_netvalue b) then -1 else 1)
            (filter (\<lambda>x. toLowerCase (lr_address x) \<notin> set blacklistedAddresses) rows)
      | Inl _ \<Rightarrow> old)"

definition leaderboardPage :: "'r list \<Rightarrow> nat \<Rightarrow> 'r list" where
  "leaderboardPage data page =
     (let begin = clampedPage (length data) page * pageSize;
          end' = min ((clampedPage (length data) page + 1) * pageSize) (length data)
      in take (end' - begin) (drop begin data))"

section \<open>Claiming surplus collateral\<close>

datatype claimView = ClaimWaits | ClaimButton string | ClaimHidden

definition claimTransactionId :: string where
  "claimTransactionId = ''claim-coll-surplus''"

definition CollateralSurplusAction :: "string \<Rightarrow> string \<Rightarrow> decimal \<Rightarrow> string \<Rightarrow> transactionState \<Rightarrow> claimView res" where
  "CollateralSurplusAction version coll surplus symbol' s =
     (let tx = useMyTransactionState (\<lambda>i. i = claimTransactionId) version coll s;
          checked = checkTransactionCollateral tx version coll
      in if checked \<and> is_TxWaitingForApproval tx then Inr ClaimWaits
         else if checked \<and> \<not> is_TxWaitingForConfirmation tx \<and> \<not> is_TxConfirmed tx
         then bindR (prettify2 surplus) (\<lambda>p. Inr (ClaimButton (''Claim '' @ p @ '' '' @ symbol')))
         else Inr ClaimHidden)"

definition claim_transactionEffect :: "string \<Rightarrow> string \<Rightarrow> transactionState \<Rightarrow> vaultEvent option" where
  "claim_transactionEffect version coll s =
     (let tx = useMyTransactionState (\<lambda>i. i = claimTransactionId) version coll s
      in if checkTransactionCollateral tx version coll \<and> is_TxConfirmedOneShot tx
         then Some VAULT_SURPLUS_COLLATERAL_CLAIMED else None)"

end
