(* ===== verification/Panels_Correct.thy ===== *)
theory Panels_Correct
  imports Panels Trove_Correct Transactions_Correct "HOL-Library.Multiset"
begin

text \<open>
  The redemption form, the conditions of liquidation, the pages of a listing, and the claim of surplus collateral.
\<close>

section \<open>Redemption\<close>

lemma printing_defined:
  assumes "0 \<le> p"
  shows "\<exists>s. Decimal_prettify d p = Inr s" and "\<exists>s. Decimal_toString d (Some p) = Inr s"
  using Decimal_prettify_erases [where d = d and p = p] assms by (cases "Decimal_prettify d p"; simp)+

lemma mcrPercent_defined: "\<exists>s. mcrPercent = Inr s"
  using printing_defined(2) [of 0 "Decimal_mul MINIMUM_COLLATERAL_RATIO hundred"]
  by (auto simp: mcrPercent_def Percent_toString_def new_Percent_def Decimal_infinite_def Decimal_eq_def MAX_UINT_256_def)

lemma fee_covered:
  assumes "bn rate \<le> DIGITS"
  shows "bn (Decimal_mul a rate) \<le> bn a"
proof -
  have "bn a * bn rate div DIGITS \<le> bn a * DIGITS div DIGITS" using assms by (intro div_le_mono mult_le_mono) simp_all
  then show ?thesis by simp
qed

lemma redemptionDescription_defined:
  assumes "bn ethFee \<le> bn ethAmount"
  shows "\<exists>d. redemptionDescription st amount ethAmount ethFee =
    Inr (\<not> Trove_collateralRatioIsBelowMinimum (rs_total st) (rs_price st) \<and> amount \<le> rs_thusdBalance st, d)"
proof -
  obtain m where m: "mcrPercent = Inr m" using mcrPercent_defined by blast
  obtain x where x: "Decimal_prettify (Dec (bn amount - bn (rs_thusdBalance st))) 2 = Inr x" using printing_defined(1) [of 2] by auto
  obtain y where y: "Decimal_prettify (Dec (bn ethAmount - bn ethFee)) 4 = Inr y" using printing_defined(1) [of 4] by auto
  obtain z where z: "Decimal_prettify amount 2 = Inr z" using printing_defined(1) [of 2] by auto
  show ?thesis
    using assms
    by (auto simp: redemptionDescription_def m balance_error_def prettify2_def x y z cmp_iff
        less_decimal_def less_eq_decimal_def not_less)
qed

text \<open>The redemption form can be rendered whatever the user enters, for fees that can be computed: the fee is part of the collateral that is
  drawn.  The button is enabled exactly for an amount of the user's own thUSD, while the total collateral ratio is not below the
  minimum and the vault manager is in use.\<close>

theorem redemption_renders:
  assumes "minutesSinceLastFeeOperation (rs_fees st) None \<le> 0xffffffff"
  shows "\<exists>v. redemption_render st f = Inr v \<and> rw_ethFee v \<le> rw_ethAmount v \<and>
    MINIMUM_REDEMPTION_RATE \<le> rw_redemptionRate v \<and> rw_redemptionRate v \<le> Decimal_ONE \<and>
    (RedemptionAction f v \<noteq> None \<longleftrightarrow>
       rf_thusdAmount f \<noteq> Decimal_ZERO \<and> rf_thusdAmount f \<le> rs_thusdBalance st \<and> rs_isTroveManager st \<and>
       \<not> Trove_collateralRatioIsBelowMinimum (rs_total st) (rs_price st))"
proof -
  let ?x = "Decimal_div (rf_thusdAmount f) (debt (rs_total st))"
  obtain r where r: "Fees_redemptionRate (rs_fees st) ?x None = Inr r"
    using assms by (cases "rs_fees st" "None :: date option" rule: baseRate_cases) (simp_all add: Fees_redemptionRate_def Let_def)
  have bounds: "MINIMUM_REDEMPTION_RATE \<le> r" "r \<le> Decimal_ONE" using Fees_redemptionRate_bounds [OF r r] by simp_all
  then have "bn (Decimal_mul (Decimal_div (rf_thusdAmount f) (rs_price st)) r) \<le> bn (Decimal_div (rf_thusdAmount f) (rs_price st))"
    by (intro fee_covered) (simp add: less_eq_decimal_def)
  with redemptionDescription_defined [OF this, of st "rf_thusdAmount f"] bounds show ?thesis
    by (auto simp: redemption_render_def r Let_def RedemptionAction_def less_eq_decimal_def cmp_iff)
qed

theorem redemption_renders_witness:
  "\<exists>v. redemption_render
     \<lparr>rs_price = Dec (2000 * 10 ^ 18), rs_fees = example_fees, rs_total = \<lparr>collateral = Dec (100 * 10 ^ 18), debt = Dec (10000 * 10 ^ 18)\<rparr>,
      rs_thusdBalance = Dec (500 * 10 ^ 18), rs_symbol = ''TBTC'', rs_isTroveManager = True\<rparr>
     \<lparr>rf_thusdAmount = Dec (400 * 10 ^ 18), rf_changePending = False\<rparr> = Inr v \<and>
     RedemptionAction \<lparr>rf_thusdAmount = Dec (400 * 10 ^ 18), rf_changePending = False\<rparr> v \<noteq> None"
proof -
  let ?st = "\<lparr>rs_price = Dec (2000 * 10 ^ 18), rs_fees = example_fees,
    rs_total = \<lparr>collateral = Dec (100 * 10 ^ 18), debt = Dec (10000 * 10 ^ 18)\<rparr>,
    rs_thusdBalance = Dec (500 * 10 ^ 18), rs_symbol = ''TBTC'', rs_isTroveManager = True\<rparr>"
  have "minutesSinceLastFeeOperation (rs_fees ?st) None \<le> 0xffffffff"
    by (simp add: minutesSinceLastFeeOperation_def example_fees_def)
  from redemption_renders [OF this, of "\<lparr>rf_thusdAmount = Dec (400 * 10 ^ 18), rf_changePending = False\<rparr>"] show ?thesis
    by (auto simp: decimal_eq_iff less_eq_decimal_def belowMinimum_iff DIGITS_num)
qed

text \<open>The transaction has the rate that is shown, plus a tenth of a per cent, as its limit; the limit is not capped at 100\%, which the
  contract demands, while the library caps its own default.\<close>

theorem redemption_limit:
  assumes "redemption_render st f = Inr v" and "RedemptionAction f v = Some (amount, limit)"
    and "redeemTHUSD env estimateGas amount limit overrides = Inr (ctx, r)"
  shows "ra_maxFeePercentage (pr_args r) = bn (rw_redemptionRate v) + 10 ^ 15 \<and>
    (defaultMaxRedemptionRate ctx' a = Inr d \<longrightarrow> d \<le> Decimal_ONE)"
proof -
  have limit: "limit = Some (DDecimal (Decimal_add (rw_redemptionRate v) redemptionSlippage))"
    using assms(1,2) by (auto simp: redemption_render_def RedemptionAction_def Let_def bindR_Inr_iff split: if_splits)
  have "ra_maxFeePercentage (pr_args r) = bn (rw_redemptionRate v) + 10 ^ 15"
    using assms(3)
    by (auto simp: redeemTHUSD_def bindR_Inr_iff Let_def limit populateRedemption_def estimateAndPopulate_def redemptionSlippage_def
        split: if_splits option.splits)
  then show ?thesis by (auto simp: defaultMaxRedemptionRate_def bindR_Inr_iff less_eq_decimal_def)
qed

section \<open>Liquidation\<close>

text \<open>A vault can be liquidated from the list exactly if its ratio is below the minimum, or, in recovery mode, if it is below the total ratio
  and the stability pool covers its debt.\<close>

theorem liquidationRequires_iff:
  "fst (liquidationRequires st vault) \<longleftrightarrow>
     Trove_collateralRatioIsBelowMinimum vault (ry_price st) \<or>
     ry_recoveryMode st \<and> Trove_collateralRatio vault (ry_price st) < ry_totalCollateralRatio st \<and>
       MINIMUM_COLLATERAL_RATIO \<le> Trove_collateralRatio vault (ry_price st) \<and> debt vault \<le> ry_thusdInStabilityPool st"
  by (auto simp: liquidationRequires_def liquidatableInRecoveryMode_def liquidatableInNormalMode_def Let_def
      Trove_collateralRatioIsBelowMinimum_def cmp_iff)

section \<open>Pages\<close>

lemma numberOfPages_covers: "n \<le> numberOfPages n * pageSize" and numberOfPages_pos: "0 < numberOfPages n"
  by (auto simp: numberOfPages_def pageSize_def Let_def)

lemma numberOfPages_least: "0 < n \<Longrightarrow> (numberOfPages n - 1) * pageSize < n"
  by (auto simp: numberOfPages_def pageSize_def Let_def)

text \<open>The page that is shown exists and is not empty, its items are numbered within the listing, and the buttons move by one page and stay
  within the listing.\<close>

theorem paging_in_range:
  "clampedPage n page < numberOfPages n"
  "0 < n \<Longrightarrow> fst (shownRange n page) \<le> snd (shownRange n page) \<and> snd (shownRange n page) \<le> n"
  "page < numberOfPages n \<Longrightarrow> nextPage n page < numberOfPages n \<and> previousPage n page < numberOfPages n"
  "page + 1 < numberOfPages n \<Longrightarrow> nextPage n page = page + 1 \<and> previousPage n (nextPage n page) = page"
  "clampEffect n page = clampedPage n page" "clampEffect n (clampEffect n page) = clampEffect n page"
proof -
  show "clampedPage n page < numberOfPages n" using numberOfPages_pos [of n] by (auto simp: clampedPage_def)
  show "fst (shownRange n page) \<le> snd (shownRange n page) \<and> snd (shownRange n page) \<le> n" if "0 < n"
  proof -
    have "clampedPage n page * pageSize \<le> (numberOfPages n - 1) * pageSize" by (simp add: clampedPage_def)
    with numberOfPages_least [OF that] show ?thesis by (simp add: shownRange_def pageSize_def)
  qed
qed (auto simp: clampedPage_def nextPage_def previousPage_def clampEffect_def)
text \<open>A listing that is shown in pages: the pages, one after the other, are the listing.\<close>

locale paged_listing =
  fixes listing :: "'a list" and pageOf :: "nat \<Rightarrow> 'a list"
  assumes page: "k < numberOfPages (length listing) \<Longrightarrow> pageOf k = take pageSize (drop (k * pageSize) listing)"
begin

lemma pages_prefix: "k \<le> numberOfPages (length listing) \<Longrightarrow> concat (map pageOf [0..<k]) = take (k * pageSize) listing"
proof (induction k)
  case (Suc k)
  then have "concat (map pageOf [0..<Suc k]) = take (k * pageSize) listing @ take pageSize (drop (k * pageSize) listing)"
    by (simp add: page)
  also have "\<dots> = take (k * pageSize + pageSize) listing" by (simp only: take_add)
  finally show ?case by (simp add: add.commute)
qed simp

lemma pages_partition: "concat (map pageOf [0..<numberOfPages (length listing)]) = listing"
  using pages_prefix [OF order_refl] numberOfPages_covers [of "length listing"] by simp

end

interpretation leaderboard: paged_listing rows "leaderboardPage rows" for rows
proof
  fix k assume "k < numberOfPages (length rows)"
  then have "clampedPage (length rows) k = k" by (simp add: clampedPage_def)
  then show "leaderboardPage rows k = take pageSize (drop (k * pageSize) rows)"
    by (simp add: leaderboardPage_def Let_def min_def)
qed

text \<open>The pages of the leaderboard show each row that is not excluded exactly once, whatever order the engine gives to rows of equal value.\<close>

theorem leaderboard_shows_all:
  fixes old :: "leaderboardRow list"
  assumes "mapR parseRow result = Inr rows" and "\<And>cmp xs. mset (sortRows cmp xs) = mset xs"
  defines "data \<equiv> leaderboardData sortRows result old"
  shows "mset (concat (map (leaderboardPage data) [0..<numberOfPages (length data)])) =
         mset (filter (\<lambda>x. toLowerCase (lr_address x) \<notin> set blacklistedAddresses) rows)"
  using assms(1,2) by (simp only: leaderboard.pages_partition data_def leaderboardData_def sum.case mset_filter)

text \<open>The third excluded address is written with capital letters, but it is compared with addresses in lower case: it is never excluded.\<close>

theorem third_address_not_excluded: "toLowerCase a \<noteq> blacklistedAddresses ! 2"
proof
  assume eq: "toLowerCase a = blacklistedAddresses ! 2"
  have "CHR ''E'' \<notin> set (toLowerCase a)"
  proof
    assume "CHR ''E'' \<in> set (toLowerCase a)"
    then obtain ch where ch: "CHR ''E'' = (let n = of_char ch :: nat in if 65 \<le> n \<and> n \<le> 90 then char_of (n + 32) else ch)"
      by (auto simp: toLowerCase_def)
    show False
    proof (cases "65 \<le> (of_char ch :: nat) \<and> (of_char ch :: nat) \<le> 90")
      case True
      then have "of_char (CHR ''E'') = ((of_char ch + 32 :: nat) mod 256)" by (simp add: ch Let_def)
      with True show False by simp
    next
      case False
      with ch show False by (auto simp: Let_def)
    qed
  qed
  with eq show False by (simp add: blacklistedAddresses_def)
qed

section \<open>The list of risky vaults\<close>

lemma mapR_page: "mapR f xs = Inr ys \<Longrightarrow> mapR f (take n (drop k xs)) = Inr (take n (drop k ys))"
proof (induction xs arbitrary: ys n k)
  case (Cons x xs)
  then obtain y zs where "f x = Inr y" "mapR f xs = Inr zs" "ys = y # zs" by (auto simp: bindR_Inr_iff)
  with Cons.IH [of zs] Cons.IH [of zs _ 0] show ?case by (cases k; cases n) auto
qed simp

lemma riskyRows_page:
  assumes "getTotalRedistributed conn b = Inr redistributed"
    and "\<And>k n. getMultipleSortedTroves (chain_of conn) (- (int k + 1)) n b = Inr (take n (drop k listed))"
    and "mapR (\<lambda>t. applyRedistribution t redistributed) (mapBackendTroves listed) = Inr vaults"
    and "\<And>v. v \<in> set vaults \<Longrightarrow> \<not> Trove_isEmpty v"
  shows "riskyRows conn b k = Inr (take pageSize (drop (k * pageSize) vaults))"
proof -
  let ?page = "\<lambda>xs. take pageSize (drop (k * pageSize) xs)"
  have "mapBackendTroves (?page listed) = ?page (mapBackendTroves listed)" by (simp add: mapBackendTroves_def take_map drop_map)
  then have "mapR (\<lambda>t. applyRedistribution t redistributed) (mapBackendTroves (?page listed)) = Inr (?page vaults)"
    using mapR_page [OF assms(3)] by simp
  moreover have "filter (\<lambda>v. \<not> Trove_isEmpty v) (?page vaults) = ?page vaults"
    using assms(4) by (intro filter_True) (blast dest: in_set_takeD in_set_dropD)
  ultimately show ?thesis
    using assms(1) assms(2) [of "k * pageSize" pageSize]
    by (simp add: riskyRows_def getTroves_def riskyListing_def expectPositiveInt_def validSortingOptions_def Let_def not_less)
qed

text \<open>The pages of risky vaults, one after the other, are the vaults in the order of their ratio, if the getter of the contract lists them by
  the index that it is given.\<close>

theorem risky_pages_complete:
  assumes "getTotalRedistributed conn b = Inr redistributed"
    and "\<And>k n. getMultipleSortedTroves (chain_of conn) (- (int k + 1)) n b = Inr (take n (drop k listed))"
    and "mapR (\<lambda>t. applyRedistribution t redistributed) (mapBackendTroves listed) = Inr vaults"
    and "\<And>v. v \<in> set vaults \<Longrightarrow> \<not> Trove_isEmpty v"
  shows "\<exists>pages. mapR (riskyRows conn b) [0..<numberOfPages (length vaults)] = Inr pages \<and> concat pages = vaults"
proof -
  let ?page = "\<lambda>k. take pageSize (drop (k * pageSize) vaults)"
  have "mapR (riskyRows conn b) [0..<numberOfPages (length vaults)] = Inr (map ?page [0..<numberOfPages (length vaults)])"
    by (rule mapR_total) (rule riskyRows_page [OF assms])
  with paged_listing.pages_partition [OF paged_listing.intro, of vaults ?page] show ?thesis by blast
qed

text \<open>An answer for a page that was left replaces the rows of the page that is shown.\<close>

theorem stale_page_shown:
  assumes "rl_page s = 0" and "rl_pending s = [0]"
  shows "rl_page (riskyAnswer 0 old (riskyAnswer 1 new (riskyFetch 1 s))) = 1 \<and>
         rl_vaults (riskyAnswer 0 old (riskyAnswer 1 new (riskyFetch 1 s))) = Some (0, old)"
  using assms by (simp add: riskyAnswer_def riskyFetch_def)

section \<open>Claiming\<close>

text \<open>The button that claims surplus collateral is shown only while the state of the last transaction is one of this vault: as long as none has
  been sent, and after a transaction of another vault, it is hidden.\<close>

theorem claim_hidden:
  assumes "tx_version s \<noteq> version \<or> tx_collateral s \<noteq> coll"
  shows "CollateralSurplusAction version coll surplus symbol' s = Inr ClaimHidden"
  using assms by (auto simp: CollateralSurplusAction_def useMyTransactionState_def checkTransactionCollateral_def Let_def)

text \<open>The view leaves the closed vault when the claim is confirmed.\<close>

theorem claim_leaves_closed_vault:
  "claim_transactionEffect version coll s = Some e \<Longrightarrow>
     tx_id s = ''claim-coll-surplus'' \<and> VaultView_transition VLiquidated e = VNone \<and> VaultView_transition VRedeemed e = VNone"
  by (auto simp: claim_transactionEffect_def useMyTransactionState_def checkTransactionCollateral_def claimTransactionId_def Let_def
      VaultView_transition_def split: if_splits)

end
