(* ===== verification/CachedReadable.thy ===== *)
theory CachedReadable
  imports ReadableEthers
begin

text \<open>
  \<open>packages/lib-base/src/_CachedReadableLiquity.ts\<close>: a readable whose answers come from a cache where it has one.  \<open>'p\<close> are the extra
  parameters of a getter.  An answer of the cache is \<open>undefined\<close> (\<open>None\<close>) or a value; \<open>false\<close> and zero are values, since the code
  uses \<open>??\<close>.  Where two reads are awaited together, the error of the first is reported.
\<close>

section \<open>Readable and cache\<close>

record 'p readable =
  r_getTotalRedistributed :: "'p \<Rightarrow> trove res"
  r_getTroveBeforeRedistribution :: "string option \<Rightarrow> 'p \<Rightarrow> troveWithPendingRedistribution res"
  r_getNumberOfTroves :: "'p \<Rightarrow> nat res"
  r_getPrice :: "'p \<Rightarrow> decimal res"
  r_getTotal :: "'p \<Rightarrow> trove res"
  r_getStabilityDeposit :: "string option \<Rightarrow> 'p \<Rightarrow> stabilityDeposit res"
  r_getBammDeposit :: "string option \<Rightarrow> 'p \<Rightarrow> bammDeposit res"
  r_getSymbol :: "'p \<Rightarrow> string res"
  r_getCollateralAddress :: "'p \<Rightarrow> string res"
  r_getStableAddress :: "'p \<Rightarrow> string res"
  r_getTHUSDInStabilityPool :: "'p \<Rightarrow> decimal res"
  r_getPCVBalance :: "'p \<Rightarrow> decimal res"
  r_getTHUSDBalance :: "string option \<Rightarrow> 'p \<Rightarrow> decimal res"
  r_getErc20TokenBalance :: "string option \<Rightarrow> 'p \<Rightarrow> decimal res"
  r_getErc20TokenAllowance :: "string option \<Rightarrow> 'p \<Rightarrow> decimal res"
  r_isStabilityPools :: "'p \<Rightarrow> bool res"
  r_isBorrowerOperations :: "'p \<Rightarrow> bool res"
  r_isTroveManager :: "'p \<Rightarrow> bool res"
  r_getWithdrawsSpShare :: "decimalish \<Rightarrow> 'p \<Rightarrow> string res"
  r_checkMintList :: "'p \<Rightarrow> bool res"
  r_getCollateralSurplusBalance :: "string option \<Rightarrow> 'p \<Rightarrow> decimal res"
  r_getFees :: "'p \<Rightarrow> fees res"
  r_getTroves :: "troveListingParams \<Rightarrow> 'p \<Rightarrow> (troveWithPendingRedistribution list + userTrove list) res"

record 'p readCache =
  c_getTotalRedistributed :: "'p \<Rightarrow> trove option"
  c_getTroveBeforeRedistribution :: "string option \<Rightarrow> 'p \<Rightarrow> troveWithPendingRedistribution option"
  c_getNumberOfTroves :: "'p \<Rightarrow> nat option"
  c_getPrice :: "'p \<Rightarrow> decimal option"
  c_getTotal :: "'p \<Rightarrow> trove option"
  c_getStabilityDeposit :: "string option \<Rightarrow> 'p \<Rightarrow> stabilityDeposit option"
  c_getBammDeposit :: "string option \<Rightarrow> 'p \<Rightarrow> bammDeposit option"
  c_getSymbol :: "'p \<Rightarrow> string option"
  c_getCollateralAddress :: "'p \<Rightarrow> string option"
  c_getStableAddress :: "'p \<Rightarrow> string option"
  c_getTHUSDInStabilityPool :: "'p \<Rightarrow> decimal option"
  c_getPCVBalance :: "'p \<Rightarrow> decimal option"
  c_getTHUSDBalance :: "string option \<Rightarrow> 'p \<Rightarrow> decimal option"
  c_getErc20TokenBalance :: "string option \<Rightarrow> 'p \<Rightarrow> decimal option"
  c_getErc20TokenAllowance :: "string option \<Rightarrow> 'p \<Rightarrow> decimal option"
  c_isStabilityPools :: "'p \<Rightarrow> bool option"
  c_isBorrowerOperations :: "'p \<Rightarrow> bool option"
  c_isTroveManager :: "'p \<Rightarrow> bool option"
  c_getWithdrawsSpShare :: "decimalish \<Rightarrow> 'p \<Rightarrow> string option"
  c_checkMintList :: "'p \<Rightarrow> bool option"
  c_getCollateralSurplusBalance :: "string option \<Rightarrow> 'p \<Rightarrow> decimal option"
  c_getFees :: "'p \<Rightarrow> fees option"
  c_getTroves :: "troveListingParams \<Rightarrow> 'p \<Rightarrow> troveWithPendingRedistribution list option"

definition cachedOr :: "'r option \<Rightarrow> 'r res \<Rightarrow> 'r res" where
  "cachedOr hit read = (case hit of Some v \<Rightarrow> Inr v | None \<Rightarrow> read)"

section \<open>The getters\<close>

definition cached_getTotalRedistributed :: "'p readCache \<Rightarrow> 'p readable \<Rightarrow> 'p \<Rightarrow> trove res" where
  "cached_getTotalRedistributed cache r p = cachedOr (c_getTotalRedistributed cache p) (r_getTotalRedistributed r p)"

definition cached_getTroveBeforeRedistribution :: "'p readCache \<Rightarrow> 'p readable \<Rightarrow> string option \<Rightarrow> 'p \<Rightarrow> troveWithPendingRedistribution res" where
  "cached_getTroveBeforeRedistribution cache r address p = cachedOr (c_getTroveBeforeRedistribution cache address p) (r_getTroveBeforeRedistribution r address p)"

definition cached_getNumberOfTroves :: "'p readCache \<Rightarrow> 'p readable \<Rightarrow> 'p \<Rightarrow> nat res" where
  "cached_getNumberOfTroves cache r p = cachedOr (c_getNumberOfTroves cache p) (r_getNumberOfTroves r p)"

definition cached_getPrice :: "'p readCache \<Rightarrow> 'p readable \<Rightarrow> 'p \<Rightarrow> decimal res" where
  "cached_getPrice cache r p = cachedOr (c_getPrice cache p) (r_getPrice r p)"

definition cached_getTotal :: "'p readCache \<Rightarrow> 'p readable \<Rightarrow> 'p \<Rightarrow> trove res" where
  "cached_getTotal cache r p = cachedOr (c_getTotal cache p) (r_getTotal r p)"

definition cached_getStabilityDeposit :: "'p readCache \<Rightarrow> 'p readable \<Rightarrow> string option \<Rightarrow> 'p \<Rightarrow> stabilityDeposit res" where
  "cached_getStabilityDeposit cache r address p = cachedOr (c_getStabilityDeposit cache address p) (r_getStabilityDeposit r address p)"

definition cached_getBammDeposit :: "'p readCache \<Rightarrow> 'p readable \<Rightarrow> string option \<Rightarrow> 'p \<Rightarrow> bammDeposit res" where
  "cached_getBammDeposit cache r address p = cachedOr (c_getBammDeposit cache address p) (r_getBammDeposit r address p)"

definition cached_getSymbol :: "'p readCache \<Rightarrow> 'p readable \<Rightarrow> 'p \<Rightarrow> string res" where
  "cached_getSymbol cache r p = cachedOr (c_getSymbol cache p) (r_getSymbol r p)"

definition cached_getCollateralAddress :: "'p readCache \<Rightarrow> 'p readable \<Rightarrow> 'p \<Rightarrow> string res" where
  "cached_getCollateralAddress cache r p = cachedOr (c_getCollateralAddress cache p) (r_getCollateralAddress r p)"

definition cached_getStableAddress :: "'p readCache \<Rightarrow> 'p readable \<Rightarrow> 'p \<Rightarrow> string res" where
  "cached_getStableAddress cache r p = cachedOr (c_getStableAddress cache p) (r_getStableAddress r p)"

definition cached_getTHUSDInStabilityPool :: "'p readCache \<Rightarrow> 'p readable \<Rightarrow> 'p \<Rightarrow> decimal res" where
  "cached_getTHUSDInStabilityPool cache r p = cachedOr (c_getTHUSDInStabilityPool cache p) (r_getTHUSDInStabilityPool r p)"

definition cached_getPCVBalance :: "'p readCache \<Rightarrow> 'p readable \<Rightarrow> 'p \<Rightarrow> decimal res" where
  "cached_getPCVBalance cache r p = cachedOr (c_getPCVBalance cache p) (r_getPCVBalance r p)"

definition cached_getTHUSDBalance :: "'p readCache \<Rightarrow> 'p readable \<Rightarrow> string option \<Rightarrow> 'p \<Rightarrow> decimal res" where
  "cached_getTHUSDBalance cache r address p = cachedOr (c_getTHUSDBalance cache address p) (r_getTHUSDBalance r address p)"

definition cached_getErc20TokenBalance :: "'p readCache \<Rightarrow> 'p readable \<Rightarrow> string option \<Rightarrow> 'p \<Rightarrow> decimal res" where
  "cached_getErc20TokenBalance cache r address p = cachedOr (c_getErc20TokenBalance cache address p) (r_getErc20TokenBalance r address p)"

definition cached_getErc20TokenAllowance :: "'p readCache \<Rightarrow> 'p readable \<Rightarrow> string option \<Rightarrow> 'p \<Rightarrow> decimal res" where
  "cached_getErc20TokenAllowance cache r address p = cachedOr (c_getErc20TokenAllowance cache address p) (r_getErc20TokenAllowance r address p)"

definition cached_isStabilityPools :: "'p readCache \<Rightarrow> 'p readable \<Rightarrow> 'p \<Rightarrow> bool res" where
  "cached_isStabilityPools cache r p = cachedOr (c_isStabilityPools cache p) (r_isStabilityPools r p)"

definition cached_isBorrowerOperations :: "'p readCache \<Rightarrow> 'p readable \<Rightarrow> 'p \<Rightarrow> bool res" where
  "cached_isBorrowerOperations cache r p = cachedOr (c_isBorrowerOperations cache p) (r_isBorrowerOperations r p)"

definition cached_isTroveManager :: "'p readCache \<Rightarrow> 'p readable \<Rightarrow> 'p \<Rightarrow> bool res" where
  "cached_isTroveManager cache r p = cachedOr (c_isTroveManager cache p) (r_isTroveManager r p)"

definition cached_getWithdrawsSpShare :: "'p readCache \<Rightarrow> 'p readable \<Rightarrow> decimalish \<Rightarrow> 'p \<Rightarrow> string res" where
  "cached_getWithdrawsSpShare cache r amount p = cachedOr (c_getWithdrawsSpShare cache amount p) (r_getWithdrawsSpShare r amount p)"

definition cached_checkMintList :: "'p readCache \<Rightarrow> 'p readable \<Rightarrow> 'p \<Rightarrow> bool res" where
  "cached_checkMintList cache r p = cachedOr (c_checkMintList cache p) (r_checkMintList r p)"

definition cached_getCollateralSurplusBalance :: "'p readCache \<Rightarrow> 'p readable \<Rightarrow> string option \<Rightarrow> 'p \<Rightarrow> decimal res" where
  "cached_getCollateralSurplusBalance cache r address p = cachedOr (c_getCollateralSurplusBalance cache address p) (r_getCollateralSurplusBalance r address p)"

definition cached_getFees :: "'p readCache \<Rightarrow> 'p readable \<Rightarrow> 'p \<Rightarrow> fees res" where
  "cached_getFees cache r p = cachedOr (c_getFees cache p) (r_getFees r p)"

definition cached_getTrove :: "'p readCache \<Rightarrow> 'p readable \<Rightarrow> string option \<Rightarrow> 'p \<Rightarrow> userTrove res" where
  "cached_getTrove cache r address p =
     bindR (cached_getTroveBeforeRedistribution cache r address p)
       (\<lambda>troveBeforeRedistribution. bindR (cached_getTotalRedistributed cache r p)
       (\<lambda>totalRedistributed. applyRedistribution troveBeforeRedistribution totalRedistributed))"

text \<open>A readable that is asked for troves before redistribution answers with such (\<open>Inl\<close>); the overloads of \<open>getTroves\<close> promise it.\<close>

definition cached_getTroves ::
    "'p readCache \<Rightarrow> 'p readable \<Rightarrow> troveListingParams \<Rightarrow> 'p \<Rightarrow> (troveWithPendingRedistribution list + userTrove list) res" where
  "cached_getTroves cache r params p =
     (let rest = params\<lparr>beforeRedistribution := True\<rparr>
      in bindR (if beforeRedistribution params then Inr None
                else bindR (cached_getTotalRedistributed cache r p) (\<lambda>t. Inr (Some t)))
        (\<lambda>totalRedistributed.
           bindR (cachedOr (map_option Inl (c_getTroves cache rest p)) (r_getTroves r rest p))
             (\<lambda>troves. case (totalRedistributed, troves) of
                (Some tot, Inl ts) \<Rightarrow> bindR (mapR (\<lambda>t. applyRedistribution t tot) ts) (\<lambda>us. Inr (Inr us))
              | (None, _) \<Rightarrow> Inr troves
              | (Some _, Inr _) \<Rightarrow> Inl TypeError)))"

section \<open>The readable of the contracts\<close>

text \<open>\<open>ReadableEthersLiquity\<close> as such a readable, with the overrides of a call as extra parameters.\<close>

definition readableOf :: "nat \<Rightarrow> connection \<Rightarrow> blockTag readable" where
  "readableOf n conn =
     \<lparr>r_getTotalRedistributed = getTotalRedistributed conn,
      r_getTroveBeforeRedistribution = getTroveBeforeRedistribution conn,
      r_getNumberOfTroves = getNumberOfTroves conn,
      r_getPrice = getPrice conn,
      r_getTotal = getTotal conn,
      r_getStabilityDeposit = getStabilityDeposit conn,
      r_getBammDeposit = getBammDeposit n conn,
      r_getSymbol = getSymbol conn,
      r_getCollateralAddress = getCollateralAddress conn,
      r_getStableAddress = getStableAddress conn,
      r_getTHUSDInStabilityPool = getTHUSDInStabilityPool conn,
      r_getPCVBalance = getPCVBalance conn,
      r_getTHUSDBalance = getTHUSDBalance conn,
      r_getErc20TokenBalance = getErc20TokenBalance conn,
      r_getErc20TokenAllowance = getErc20TokenAllowance conn,
      r_isStabilityPools = readIsStabilityPools conn,
      r_isBorrowerOperations = readIsBorrowerOperations conn,
      r_isTroveManager = readIsTroveManager conn,
      r_getWithdrawsSpShare = getWithdrawsSpShare conn,
      r_checkMintList = checkMintList conn,
      r_getCollateralSurplusBalance = getCollateralSurplusBalance conn,
      r_getFees = getFees conn,
      r_getTroves = getTroves conn\<rparr>"

section \<open>Coherent caches\<close>

text \<open>What a cache has is what the readable would answer.\<close>

definition agrees :: "'r option \<Rightarrow> 'r res \<Rightarrow> bool" where
  "agrees hit read \<longleftrightarrow> (case hit of Some v \<Rightarrow> read = Inr v | None \<Rightarrow> True)"

definition coherent :: "'p readCache \<Rightarrow> 'p readable \<Rightarrow> bool" where
  "coherent cache r \<longleftrightarrow>
     (\<forall>p. agrees (c_getTotalRedistributed cache p) (r_getTotalRedistributed r p)) \<and>
     (\<forall>x p. agrees (c_getTroveBeforeRedistribution cache x p) (r_getTroveBeforeRedistribution r x p)) \<and>
     (\<forall>p. agrees (c_getNumberOfTroves cache p) (r_getNumberOfTroves r p)) \<and>
     (\<forall>p. agrees (c_getPrice cache p) (r_getPrice r p)) \<and>
     (\<forall>p. agrees (c_getTotal cache p) (r_getTotal r p)) \<and>
     (\<forall>x p. agrees (c_getStabilityDeposit cache x p) (r_getStabilityDeposit r x p)) \<and>
     (\<forall>x p. agrees (c_getBammDeposit cache x p) (r_getBammDeposit r x p)) \<and>
     (\<forall>p. agrees (c_getSymbol cache p) (r_getSymbol r p)) \<and>
     (\<forall>p. agrees (c_getCollateralAddress cache p) (r_getCollateralAddress r p)) \<and>
     (\<forall>p. agrees (c_getStableAddress cache p) (r_getStableAddress r p)) \<and>
     (\<forall>p. agrees (c_getTHUSDInStabilityPool cache p) (r_getTHUSDInStabilityPool r p)) \<and>
     (\<forall>p. agrees (c_getPCVBalance cache p) (r_getPCVBalance r p)) \<and>
     (\<forall>x p. agrees (c_getTHUSDBalance cache x p) (r_getTHUSDBalance r x p)) \<and>
     (\<forall>x p. agrees (c_getErc20TokenBalance cache x p) (r_getErc20TokenBalance r x p)) \<and>
     (\<forall>x p. agrees (c_getErc20TokenAllowance cache x p) (r_getErc20TokenAllowance r x p)) \<and>
     (\<forall>p. agrees (c_isStabilityPools cache p) (r_isStabilityPools r p)) \<and>
     (\<forall>p. agrees (c_isBorrowerOperations cache p) (r_isBorrowerOperations r p)) \<and>
     (\<forall>p. agrees (c_isTroveManager cache p) (r_isTroveManager r p)) \<and>
     (\<forall>x p. agrees (c_getWithdrawsSpShare cache x p) (r_getWithdrawsSpShare r x p)) \<and>
     (\<forall>p. agrees (c_checkMintList cache p) (r_checkMintList r p)) \<and>
     (\<forall>x p. agrees (c_getCollateralSurplusBalance cache x p) (r_getCollateralSurplusBalance r x p)) \<and>
     (\<forall>p. agrees (c_getFees cache p) (r_getFees r p)) \<and>
     (\<forall>x p. beforeRedistribution x \<longrightarrow> agrees (map_option Inl (c_getTroves cache x p)) (r_getTroves r x p))"

lemma cachedOr_agrees [simp]: "agrees hit read \<Longrightarrow> cachedOr hit read = read"
  by (cases hit) (simp_all add: cachedOr_def agrees_def)

text \<open>Through a coherent cache every getter answers as the readable does.\<close>

lemma cached_transparent:
  assumes "coherent cache r"
  shows "cached_getTotalRedistributed cache r p = r_getTotalRedistributed r p"
    and "cached_getTroveBeforeRedistribution cache r address p = r_getTroveBeforeRedistribution r address p"
    and "cached_getNumberOfTroves cache r p = r_getNumberOfTroves r p"
    and "cached_getPrice cache r p = r_getPrice r p"
    and "cached_getTotal cache r p = r_getTotal r p"
    and "cached_getStabilityDeposit cache r address p = r_getStabilityDeposit r address p"
    and "cached_getBammDeposit cache r address p = r_getBammDeposit r address p"
    and "cached_getSymbol cache r p = r_getSymbol r p"
    and "cached_getCollateralAddress cache r p = r_getCollateralAddress r p"
    and "cached_getStableAddress cache r p = r_getStableAddress r p"
    and "cached_getTHUSDInStabilityPool cache r p = r_getTHUSDInStabilityPool r p"
    and "cached_getPCVBalance cache r p = r_getPCVBalance r p"
    and "cached_getTHUSDBalance cache r address p = r_getTHUSDBalance r address p"
    and "cached_getErc20TokenBalance cache r address p = r_getErc20TokenBalance r address p"
    and "cached_getErc20TokenAllowance cache r address p = r_getErc20TokenAllowance r address p"
    and "cached_isStabilityPools cache r p = r_isStabilityPools r p"
    and "cached_isBorrowerOperations cache r p = r_isBorrowerOperations r p"
    and "cached_isTroveManager cache r p = r_isTroveManager r p"
    and "cached_getWithdrawsSpShare cache r amount p = r_getWithdrawsSpShare r amount p"
    and "cached_checkMintList cache r p = r_checkMintList r p"
    and "cached_getCollateralSurplusBalance cache r address p = r_getCollateralSurplusBalance r address p"
    and "cached_getFees cache r p = r_getFees r p"
  using assms by (simp_all add: coherent_def cached_getTotalRedistributed_def cached_getTroveBeforeRedistribution_def cached_getNumberOfTroves_def cached_getPrice_def cached_getTotal_def cached_getStabilityDeposit_def cached_getBammDeposit_def cached_getSymbol_def cached_getCollateralAddress_def cached_getStableAddress_def cached_getTHUSDInStabilityPool_def cached_getPCVBalance_def cached_getTHUSDBalance_def cached_getErc20TokenBalance_def cached_getErc20TokenAllowance_def cached_isStabilityPools_def cached_isBorrowerOperations_def cached_isTroveManager_def cached_getWithdrawsSpShare_def cached_checkMintList_def cached_getCollateralSurplusBalance_def cached_getFees_def)

lemma readableOf_sel [simp]:
  "r_getTotalRedistributed (readableOf n conn) = getTotalRedistributed conn"
  "r_getTroveBeforeRedistribution (readableOf n conn) = getTroveBeforeRedistribution conn"
  "r_getTroves (readableOf n conn) = getTroves conn"
  by (simp_all add: readableOf_def)

text \<open>Through a coherent cache over the readable of the contracts, troves and listings are those of the readable itself.  For listings the
  redistributed total has to be readable: the cache layer reads it before it looks at the parameters of the listing, which the readable
  tests first.\<close>

theorem cached_troves_transparent:
  assumes "coherent cache (readableOf n conn)" and "getTotalRedistributed conn b = Inr redistributed"
  shows "cached_getTrove cache (readableOf n conn) address b = getTrove conn address b \<and>
         cached_getTroves cache (readableOf n conn) params b = getTroves conn params b"
proof
  note through = cached_transparent(1,2) [OF assms(1)]
  show "cached_getTrove cache (readableOf n conn) address b = getTrove conn address b"
    by (simp add: cached_getTrove_def through getTrove_def)
  let ?rest = "params\<lparr>beforeRedistribution := True\<rparr>"
  let ?fetch = "getMultipleSortedTroves (chain_of conn)
    (if sortedBy params = ''descendingCollateralRatio'' then (case startingAt params of None \<Rightarrow> 0 | Some k \<Rightarrow> number_value k)
     else - ((case startingAt params of None \<Rightarrow> 0 | Some k \<Rightarrow> number_value k) + 1)) (nat (number_value (first params))) b"
  have "cachedOr (map_option Inl (c_getTroves cache ?rest b)) (getTroves conn ?rest b) = getTroves conn ?rest b"
    using assms(1) by (intro cachedOr_agrees) (simp add: coherent_def)
  then show "cached_getTroves cache (readableOf n conn) params b = getTroves conn params b"
    using assms(2)
    by (cases "beforeRedistribution params"; cases "expectPositiveInt ''first'' (Some (first params))";
        cases "expectPositiveInt ''startingAt'' (startingAt params)"; cases ?fetch)
       (simp_all add: cached_getTroves_def through getTroves_def Let_def)
qed

text \<open>A cache that has only the redistributed total.\<close>

definition emptyCache :: "'p readCache" where
  "emptyCache =
     \<lparr>c_getTotalRedistributed = (\<lambda>_. None),
      c_getTroveBeforeRedistribution = (\<lambda>_ _. None),
      c_getNumberOfTroves = (\<lambda>_. None),
      c_getPrice = (\<lambda>_. None),
      c_getTotal = (\<lambda>_. None),
      c_getStabilityDeposit = (\<lambda>_ _. None),
      c_getBammDeposit = (\<lambda>_ _. None),
      c_getSymbol = (\<lambda>_. None),
      c_getCollateralAddress = (\<lambda>_. None),
      c_getStableAddress = (\<lambda>_. None),
      c_getTHUSDInStabilityPool = (\<lambda>_. None),
      c_getPCVBalance = (\<lambda>_. None),
      c_getTHUSDBalance = (\<lambda>_ _. None),
      c_getErc20TokenBalance = (\<lambda>_ _. None),
      c_getErc20TokenAllowance = (\<lambda>_ _. None),
      c_isStabilityPools = (\<lambda>_. None),
      c_isBorrowerOperations = (\<lambda>_. None),
      c_isTroveManager = (\<lambda>_. None),
      c_getWithdrawsSpShare = (\<lambda>_ _. None),
      c_checkMintList = (\<lambda>_. None),
      c_getCollateralSurplusBalance = (\<lambda>_ _. None),
      c_getFees = (\<lambda>_. None),
      c_getTroves = (\<lambda>_ _. None)\<rparr>"

lemma total_cache_coherent:
  assumes "\<And>b. getTotalRedistributed conn b = Inr redistributed"
  shows "coherent (emptyCache\<lparr>c_getTotalRedistributed := \<lambda>_. Some redistributed\<rparr>) (readableOf n conn)"
  using assms by (simp add: coherent_def emptyCache_def agrees_def)

end
