(* ===== verification/ThresholdContext.thy ===== *)
theory ThresholdContext
  imports EthersConnection
begin

text \<open>
  \<open>packages/dev-frontend/src/hooks/ThresholdContext.tsx\<close>: how the front end gets from a wallet to the libraries it works with.  The wallet
  gives chain, provider and account; the deployments of the chain are loaded, a connection is made for each, and the children
  are rendered with one library object per connection.

  A provider is known by a string.  \<open>getSigner\<close> of the provider, the name of a network and the host of the page are parameters.
  An effect reads the values of its render; answers to requests arrive later and are not cancelled.
\<close>

section \<open>Configuration\<close>

text \<open>\<open>packages/dev-frontend/src/config/index.ts\<close>.  A JSON value is an object or array with its properties, or a value of another type;
  console output is left out.\<close>

datatype jsonValue = JsonObject "(string \<times> jsonValue) list" | JsonString string | JsonBoolean bool | JsonNull | JsonOther

record thresholdConfig =
  cf_infuraApiKey :: "string option"
  cf_testnetOnly :: "bool option"
  cf_historicalApiUrl :: "string option"

definition defaultConfig :: thresholdConfig where
  "defaultConfig = \<lparr>cf_infuraApiKey = None, cf_testnetOnly = None, cf_historicalApiUrl = None\<rparr>"

definition configString :: "(string \<times> jsonValue) list \<Rightarrow> string \<Rightarrow> string option" where
  "configString json key =
     (case map_of json key of
        Some (JsonString v) \<Rightarrow> if v \<noteq> [] then Some v else None
      | _ \<Rightarrow> None)"

definition parseConfig :: "jsonValue \<Rightarrow> thresholdConfig" where
  "parseConfig json =
     (case json of
        JsonObject properties \<Rightarrow>
          defaultConfig\<lparr>cf_historicalApiUrl := configString properties ''historicalApiUrl'',
            cf_infuraApiKey := configString properties ''infuraApiKey'',
            cf_testnetOnly := (case map_of properties ''testnetOnly'' of Some (JsonBoolean b) \<Rightarrow> Some b | _ \<Rightarrow> None)\<rparr>
      | _ \<Rightarrow> defaultConfig)"

text \<open>The response to the request, if there is one: whether it is \<open>ok\<close>, and its body if that is JSON.\<close>

definition fetchConfig :: "(bool \<times> jsonValue option) option \<Rightarrow> thresholdConfig" where
  "fetchConfig response =
     (case response of
        Some (True, Some json) \<Rightarrow> parseConfig json
      | _ \<Rightarrow> defaultConfig)"

section \<open>Networks and versions\<close>

definition supportedNetworks :: "(nat \<times> string) list" where
  "supportedNetworks = [(11155111, ''sepolia'')]"

definition supported :: "nat option \<Rightarrow> bool" where
  "supported chainId = (case chainId of Some n \<Rightarrow> n \<noteq> 0 \<and> n \<in> fst ` set supportedNetworks | None \<Rightarrow> False)"

definition wsParams :: "string \<Rightarrow> string \<Rightarrow> string \<times> string" where
  "wsParams network infuraApiKey =
     (''wss://'' @ (if network = ''homestead'' then ''mainnet'' else network) @ ''.infura.io/ws/v3/'' @ infuraApiKey, network)"

record versionEntry =
  ve_collateral :: string
  ve_version :: string
  ve_deployment :: deploymentJSON

definition iterateVersions :: "deployments \<Rightarrow> versionEntry list" where
  "iterateVersions collaterals =
     concat (map (\<lambda>(coll, versions).
       map (\<lambda>(version, d). \<lparr>ve_collateral = coll, ve_version = version, ve_deployment = d\<rparr>) versions) collaterals)"

definition getConnections ::
    "(string \<Rightarrow> string \<Rightarrow> signer) \<Rightarrow> versionEntry list \<Rightarrow> string \<Rightarrow> string \<Rightarrow> nat \<Rightarrow> ethersConnection list res" where
  "getConnections getSigner versionsArray provider account chainId =
     mapR (\<lambda>v. connectByChainId (ve_collateral v) (ve_version v) (ve_deployment v) provider (Some (getSigner provider account)) chainId
       (Some \<lparr>cp_userAddress = Some account, cp_useStore = Some ''blockPolled''\<rparr>)) versionsArray"

section \<open>The provider\<close>

record thresholdEntry =
  te_collateral :: string
  te_version :: string
  te_connection :: ethersConnection

record thresholdProvider =
  tp_chainId :: "nat option"
  tp_provider :: "string option"
  tp_account :: "string option"
  tp_config :: "thresholdConfig option"
  tp_connections :: "ethersConnection list option"
  tp_threshold :: "thresholdEntry list"
  tp_loading :: "(nat \<times> string \<times> string) list"

definition newThresholdProvider :: thresholdProvider where
  "newThresholdProvider =
     \<lparr>tp_chainId = None, tp_provider = None, tp_account = None, tp_config = None, tp_connections = None, tp_threshold = [], tp_loading = []\<rparr>"

definition chainEffect :: "thresholdProvider \<Rightarrow> thresholdProvider" where
  "chainEffect s = (if \<not> supported (tp_chainId s) then s\<lparr>tp_threshold := [], tp_connections := None\<rparr> else s)"

definition walletReady :: "thresholdProvider \<Rightarrow> bool" where
  "walletReady s \<longleftrightarrow>
     tp_config s \<noteq> None \<and> tp_provider s \<noteq> None \<and> tp_account s \<noteq> None \<and> tp_account s \<noteq> Some [] \<and>
     tp_chainId s \<noteq> None \<and> tp_chainId s \<noteq> Some 0"

definition connectEffect :: "thresholdProvider \<Rightarrow> thresholdProvider" where
  "connectEffect s =
     (if \<not> walletReady s then s
      else if \<not> supported (tp_chainId s) then s\<lparr>tp_threshold := [], tp_connections := None\<rparr>
      else s\<lparr>tp_loading := tp_loading s @ [(the (tp_chainId s), the (tp_provider s), the (tp_account s))]\<rparr>)"

text \<open>The deployments of a request have been loaded; an error of a connection is not caught.\<close>

definition collateralsArrive ::
    "(string \<Rightarrow> string \<Rightarrow> signer) \<Rightarrow> nat \<times> string \<times> string \<Rightarrow> deployments \<Rightarrow> thresholdProvider \<Rightarrow> thresholdProvider" where
  "collateralsArrive getSigner request collaterals s =
     (case request of
        (chainId, provider, account) \<Rightarrow>
          let s' = s\<lparr>tp_loading := remove1 request (tp_loading s)\<rparr>
          in case getConnections getSigner (iterateVersions collaterals) provider account chainId of
               Inr connections \<Rightarrow> s'\<lparr>tp_connections := Some connections\<rparr>
             | Inl _ \<Rightarrow> s')"

definition entryOf :: "ethersConnection \<Rightarrow> thresholdEntry" where
  "entryOf connection =
     \<lparr>te_collateral = ec_collateral connection, te_version = ec_version connection, te_connection = connection\<rparr>"

definition thresholdEffect :: "thresholdProvider \<Rightarrow> thresholdProvider" where
  "thresholdEffect s =
     (if \<not> supported (tp_chainId s) then s\<lparr>tp_connections := None\<rparr>
      else case (tp_config s, tp_connections s) of
             (Some _, Some (c # cs)) \<Rightarrow> s\<lparr>tp_threshold := map entryOf (c # cs)\<rparr>
           | _ \<Rightarrow> s)"

text \<open>What the effect does with the socket of a provider that has one: the URL and the network it is opened with.\<close>

definition socketEffect ::
    "(nat \<Rightarrow> string) \<Rightarrow> string \<Rightarrow> thresholdConfig \<Rightarrow> ethersConnection \<Rightarrow> (string \<times> string) option" where
  "socketEffect networkName hostname config connection =
     (let chainId = dj_chainId (ec_deployment connection);
          name = networkName chainId
      in if name \<noteq> [] \<and> name \<in> (\<lambda>(n, _). dec_string n) ` set supportedNetworks \<and>
            cf_infuraApiKey config \<noteq> None \<and> cf_infuraApiKey config \<noteq> Some []
         then Some (wsParams name (the (cf_infuraApiKey config)))
         else if dj_isDev (ec_deployment connection) then Some (''ws://'' @ hostname @ '':8546'', dec_string chainId)
         else None)"

datatype providerOutput =
    ShowLoader
  | ShowUnsupportedMainnet
  | ShowUnsupportedNetwork nat
  | ShowChildren "thresholdEntry list"

definition thresholdRender :: "thresholdProvider \<Rightarrow> providerOutput" where
  "thresholdRender s =
     (if \<not> walletReady s then ShowLoader
      else if tp_chainId s = Some 1 then ShowUnsupportedMainnet
      else if tp_connections s = None \<or> \<not> supported (tp_chainId s) then ShowUnsupportedNetwork (the (tp_chainId s))
      else if length (tp_threshold s) \<noteq> length (the (tp_connections s)) then ShowLoader
      else ShowChildren (tp_threshold s))"

definition useThreshold :: "thresholdEntry list option \<Rightarrow> thresholdEntry list res" where
  "useThreshold context' =
     (case context' of
        Some t \<Rightarrow> Inr t
      | None \<Rightarrow> Inl (Error ''You must provide a ThresholdContext via ThresholdProvider''))"

end
