(* ===== verification/ThresholdContext_Correct.thy ===== *)
theory ThresholdContext_Correct
  imports ThresholdContext
begin

text \<open>
  The children of the context get one library object for each deployment; what is shown on the way there; and the sockets that are
  never opened.
\<close>

section \<open>Every deployment, once\<close>

lemma iterateVersions_set:
  "v \<in> set (iterateVersions ds) \<longleftrightarrow>
     (\<exists>vs. (ve_collateral v, vs) \<in> set ds \<and> (ve_version v, ve_deployment v) \<in> set vs)"
  by (cases v) (force simp: iterateVersions_def)

lemma iterateVersions_distinct:
  "distinct (map fst ds) \<Longrightarrow> (\<And>c vs. (c, vs) \<in> set ds \<Longrightarrow> distinct (map fst vs)) \<Longrightarrow>
     distinct (map (\<lambda>v. (ve_collateral v, ve_version v)) (iterateVersions ds))"
proof (induction ds)
  case (Cons d ds)
  obtain c vs where d: "d = (c, vs)" by (cases d)
  let ?key = "\<lambda>v. (ve_collateral v, ve_version v)"
  have "map ?key (iterateVersions (d # ds)) = map (Pair c) (map fst vs) @ map ?key (iterateVersions ds)"
    by (simp add: iterateVersions_def d case_prod_beta)
  moreover have "distinct (map (Pair c) (map fst vs))"
    using Cons.prems(2) [of c vs] by (auto simp: d distinct_map inj_on_def)
  moreover have "c \<noteq> ve_collateral v" if "v \<in> set (iterateVersions ds)" for v
    using that Cons.prems(1) unfolding iterateVersions_set by (force simp: d)
  moreover have "distinct (map ?key (iterateVersions ds))" using Cons by auto
  ultimately show ?case by (simp only: distinct_append) force
qed (simp add: iterateVersions_def)

lemma mapR_length: "mapR f xs = Inr ys \<Longrightarrow> length ys = length xs"
  by (induction xs arbitrary: ys) (auto simp: bindR_Inr_iff)

lemma mapR_keys: "mapR f xs = Inr ys \<Longrightarrow> (\<And>x y. f x = Inr y \<Longrightarrow> g y = h x) \<Longrightarrow> map g ys = map h xs"
  by (induction xs arbitrary: ys) (auto simp: bindR_Inr_iff)

lemma mapR_all: "mapR f xs = Inr ys \<Longrightarrow> (\<And>x y. f x = Inr y \<Longrightarrow> P y) \<Longrightarrow> y \<in> set ys \<Longrightarrow> P y"
  by (induction xs arbitrary: ys) (auto simp: bindR_Inr_iff)

lemma connectByChainId_fields:
  "connectByChainId coll version d provider sig chainId (Some \<lparr>cp_userAddress = Some account, cp_useStore = u\<rparr>) = Inr c \<Longrightarrow>
     ec_collateral c = coll \<and> ec_version c = version \<and> ec_userAddress c = Some account \<and> ec_useStore c = u"
  by (auto simp: connectByChainId_def connectionFrom_def bindR_Inr_iff split: option.splits if_splits)

text \<open>On a supported network the children get one library object per deployment, each for the account that was asked for and with a
  store, once the answer of the request has arrived and the effect has run.\<close>

theorem children_get_deployments:
  assumes "walletReady s" and "supported (tp_chainId s)" and "iterateVersions collaterals \<noteq> []"
    and "getConnections getSigner (iterateVersions collaterals) provider account chainId = Inr connections"
  shows "\<exists>entries. thresholdRender (thresholdEffect (collateralsArrive getSigner (chainId, provider, account) collaterals s)) = ShowChildren entries \<and>
    map (\<lambda>e. (te_collateral e, te_version e)) entries = map (\<lambda>v. (ve_collateral v, ve_version v)) (iterateVersions collaterals) \<and>
    (\<forall>e \<in> set entries. ec_userAddress (te_connection e) = Some account \<and> ec_useStore (te_connection e) = Some ''blockPolled'')"
proof -
  let ?s = "collateralsArrive getSigner (chainId, provider, account) collaterals s"
  have s: "?s = s\<lparr>tp_loading := remove1 (chainId, provider, account) (tp_loading s), tp_connections := Some connections\<rparr>"
    by (simp add: collateralsArrive_def assms(4) Let_def)
  have "connections \<noteq> []" using mapR_length [OF assms(4) [unfolded getConnections_def]] assms(3) by auto
  moreover obtain config where "tp_config s = Some config" using assms(1) by (auto simp: walletReady_def)
  ultimately have effect: "thresholdEffect ?s = ?s\<lparr>tp_threshold := map entryOf connections\<rparr>"
    using assms(2) by (cases connections) (simp_all add: thresholdEffect_def s)
  have "tp_chainId s \<noteq> Some 1" using assms(2) by (auto simp: supported_def supportedNetworks_def)
  then have "thresholdRender (thresholdEffect ?s) = ShowChildren (map entryOf connections)"
    using assms(1,2) unfolding effect by (simp add: thresholdRender_def walletReady_def s)
  moreover have "map (\<lambda>c. (ec_collateral c, ec_version c)) connections = map (\<lambda>v. (ve_collateral v, ve_version v)) (iterateVersions collaterals)"
    using assms(4) unfolding getConnections_def by (rule mapR_keys) (use connectByChainId_fields in blast)
  moreover have "ec_userAddress c = Some account \<and> ec_useStore c = Some ''blockPolled''" if "c \<in> set connections" for c
    using assms(4) [unfolded getConnections_def] _ that by (rule mapR_all) (use connectByChainId_fields in blast)
  ultimately show ?thesis by (intro exI [of _ "map entryOf connections"]) (simp add: entryOf_def comp_def)
qed

text \<open>A connected wallet: a deployment whose contracts are all known.\<close>

definition example_deployment :: deploymentJSON where
  "example_deployment =
     \<lparr>dj_chainId = 11155111, dj_addresses = Some [(''troveManager'', Some ''0x01'')], dj_version = ''1'', dj_deploymentDate = 0,
      dj_startBlock = 0, dj_priceFeedIsTestnet = False, dj_isDev = False\<rparr>"

definition example_wallet :: thresholdProvider where
  "example_wallet = newThresholdProvider\<lparr>tp_chainId := Some 11155111, tp_provider := Some ''wallet'', tp_account := Some ''0xa1'',
     tp_config := Some defaultConfig\<rparr>"

definition example_signer :: "string \<Rightarrow> string \<Rightarrow> signer" where
  "example_signer provider account = \<lparr>sg_provider = Some provider, sg_getAddress = Inr account\<rparr>"

lemma example_connects:
  "\<exists>c. getConnections example_signer (iterateVersions [(''tbtc'', [(''v1'', example_deployment)])]) ''wallet'' ''0xa1'' 11155111 = Inr [c]"
  by (simp add: getConnections_def iterateVersions_def connectByChainId_def connectToContracts_def example_deployment_def connectToContract_def
      getAbi_def abiKeys_def connectionFrom_def validStoreOptions_def)

theorem children_get_deployments_witness:
  "\<exists>entries. thresholdRender (thresholdEffect (collateralsArrive example_signer (11155111, ''wallet'', ''0xa1'')
     [(''tbtc'', [(''v1'', example_deployment)])] example_wallet)) = ShowChildren entries \<and>
     map (\<lambda>e. (te_collateral e, te_version e)) entries = [(''tbtc'', ''v1'')]"
proof -
  obtain c where c: "getConnections example_signer (iterateVersions [(''tbtc'', [(''v1'', example_deployment)])]) ''wallet'' ''0xa1'' 11155111 = Inr [c]"
    using example_connects by blast
  have "walletReady example_wallet" "supported (tp_chainId example_wallet)"
    "iterateVersions [(''tbtc'', [(''v1'', example_deployment)])] \<noteq> []"
    by (simp_all add: walletReady_def example_wallet_def newThresholdProvider_def supported_def supportedNetworks_def iterateVersions_def)
  from children_get_deployments [OF this c] show ?thesis by (auto simp: iterateVersions_def)
qed

section \<open>On the way\<close>

text \<open>While the connections of a supported network are being made, the network is reported as unsupported, although there is a loader.\<close>

theorem connecting_shows_unsupported:
  "walletReady s \<Longrightarrow> supported (tp_chainId s) \<Longrightarrow> tp_connections s = None \<Longrightarrow>
     thresholdRender s = ShowUnsupportedNetwork (the (tp_chainId s))"
  by (auto simp: thresholdRender_def supported_def supportedNetworks_def)

text \<open>Children are only shown on supported networks, and not after the wallet has left them.\<close>

theorem children_supported:
  "thresholdRender s = ShowChildren entries \<Longrightarrow> walletReady s \<and> supported (tp_chainId s) \<and> tp_connections s \<noteq> None"
  "\<not> supported (tp_chainId s) \<Longrightarrow> tp_threshold (chainEffect s) = [] \<and> tp_connections (chainEffect s) = None"
  by (auto simp: thresholdRender_def chainEffect_def split: if_splits)

text \<open>Two answers that arrive in the opposite order: the children get the library for the account that the wallet has left.\<close>

theorem earlier_account_connected:
  assumes "getConnections getSigner (iterateVersions ds) provider old chainId = Inr (c # cs)" and "supported (tp_chainId s)"
    and "tp_config s \<noteq> None"
  shows "\<forall>e \<in> set (tp_threshold (thresholdEffect (collateralsArrive getSigner (chainId, provider, old) ds
           (collateralsArrive getSigner (chainId, provider, new) ds s)))). ec_userAddress (te_connection e) = Some old"
proof -
  let ?s = "collateralsArrive getSigner (chainId, provider, new) ds s"
  have kept: "tp_chainId ?s = tp_chainId s" "tp_config ?s = tp_config s"
    by (simp_all add: collateralsArrive_def Let_def split: sum.splits)
  have old: "ec_userAddress d = Some old" if "d \<in> set (c # cs)" for d
    using assms(1) [unfolded getConnections_def] _ that by (rule mapR_all) (use connectByChainId_fields in blast)
  obtain config where "tp_config s = Some config" using assms(3) by blast
  with assms(2) kept have "tp_threshold (thresholdEffect (collateralsArrive getSigner (chainId, provider, old) ds ?s)) = map entryOf (c # cs)"
    by (simp add: collateralsArrive_def [of _ "(chainId, provider, old)"] assms(1) Let_def thresholdEffect_def)
  with old show ?thesis by (simp add: entryOf_def)
qed

text \<open>The name of a network is looked for among the numbers of the supported networks: no socket is opened at Infura, whatever the
  configuration, if the network has a name that is not its number.\<close>

theorem socket_never_at_infura:
  assumes "networkName (dj_chainId (ec_deployment c)) \<noteq> ''11155111''" and "\<not> dj_isDev (ec_deployment c)"
  shows "socketEffect networkName hostname config c = None"
proof -
  have "dec_string 11155111 = ''11155111''" by (simp add: dec_string.simps digit_char_def char_of_eq_iff)
  with assms show ?thesis by (simp add: socketEffect_def supportedNetworks_def Let_def)
qed

text \<open>Whatever the configuration file has, keys and addresses in the configuration are not empty, and without a file it is the default.\<close>

theorem config_strings:
  "cf_infuraApiKey (fetchConfig response) \<noteq> Some [] \<and> cf_historicalApiUrl (fetchConfig response) \<noteq> Some []"
  "fetchConfig None = defaultConfig"
  by (auto simp: fetchConfig_def parseConfig_def defaultConfig_def configString_def split: option.splits bool.splits jsonValue.splits prod.splits)

end
