(* ===== verification/Spec2Isabelle.thy ===== *)
theory Spec2Isabelle
  imports Decimal_Pow Difference Trove_Correct Deposits Fees LiquityStore_Correct
    ReadableEthers_Correct BlockPolledStore_Correct Transactions_Correct Receipts_Correct
    Views_Correct TransactionMonitor_Correct Validation_Correct Subgraph_Troves Fuzzer_Correct BatchedProvider_Correct
    WebSocketAugmented_Correct ObservableEthers_Correct EthersConnection_Correct EthersLiquity_Correct
    ThresholdStores_Correct Fuzzer_Fixture_Correct VaultForms_Correct Panels_Correct
    CachedReadable ThresholdContext_Correct
begin

text \<open>
  A verification of the TypeScript libraries, the front end's logic and the indexer of the Threshold USD
  stability protocol.

  \<^bold>\<open>The program.\<close>  Users of the protocol deposit collateral into troves (vaults), borrow thUSD against it
  and keep thUSD in a stability pool; the contracts that hold the money are written in Solidity.  Around
  them the repository has TypeScript packages under \<open>src/packages\<close>: \<open>lib-base\<close> has the protocol's numbers
  and entities and the store that a client watches; \<open>lib-ethers\<close> reads the contracts and prepares
  transactions; \<open>providers\<close> batches the read calls; \<open>lib-react\<close> and \<open>dev-frontend\<close> edit and validate
  changes; \<open>subgraph\<close> turns the events of the contracts into a history.  A block reaches the user through them in
  this order: the provider answers the calls of a readable, the block-polled store fetches a whole state
  with them and notifies its listeners, the reducers of the front end rebase the user's edits on the new
  state, validation decides whether the edited change may be sent, and the populatable turns it into
  a transaction with hints and gas.

  \<^bold>\<open>The theories\<close>, in the order of the code's layers:

  \<^item> \<open>Prelude\<close>: results of code that throws (\<open>'a res\<close>), JavaScript strings and \<open>??\<close>, digits of numbers,
    and the collections \<open>dec_simps\<close>, \<open>trove_simps\<close> and \<open>store_simps\<close> of unfolding rules.
  \<^item> \<open>Decimal\<close>, \<open>Decimal_Pow\<close>, \<open>Difference\<close>, \<open>Constants\<close> (\<open>lib-base/src/Decimal.ts\<close>, \<open>constants.ts\<close>): numbers with
    18 digits, their parser and printer, arithmetic, powers, signed differences, the constants.
  \<^item> \<open>Trove\<close>, \<open>Trove_Correct\<close> (\<open>Trove.ts\<close>, \<open>_normalize\<close>): parameters of changes, troves and their changes,
    redistribution.  \<open>Change_Codec\<close> is the interface that troves and deposits share as things that
    can be edited; \<open>Deposits\<close> (\<open>StabilityDeposit.ts\<close>, \<open>BammDeposit.ts\<close>) and \<open>Trove_Correct\<close> interpret it.
  \<^item> \<open>Fees\<close> (\<open>Fees.ts\<close>): the decaying base rate and the rates computed from it.
  \<^item> \<open>LiquityStore\<close>, \<open>LiquityStore_Correct\<close> (\<open>LiquityStore.ts\<close>): base, derived and extra state, reducers that
    keep the identity of unchanged objects (\<open>value_equality\<close> is the interface of the classes' \<open>equals\<close>),
    listeners that may subscribe and unsubscribe while they are notified, the refresh timer.
  \<^item> \<open>ReadableEthers\<close>, \<open>ReadableEthers_Correct\<close> (\<open>ReadableEthersLiquity.ts\<close>): every getter over a chain whose
    replies are parameters.
  \<^item> \<open>CachedReadable\<close> (\<open>_CachedReadableLiquity.ts\<close>): a readable behind a cache, which is not noticed if the cache is coherent.
  \<^item> \<open>BlockPolledStore\<close>, \<open>BlockPolledStore_Correct\<close> (\<open>BlockPolledLiquityStore.ts\<close>): fetching and polling with
    fetches in flight, and reading through the store.
  \<^item> \<open>Transactions\<close>, \<open>Transactions_Correct\<close> (\<open>PopulatableEthersLiquity.ts\<close>, \<open>contracts.ts\<close>): hints, gas, the
    transactions that open and adjust a trove and redeem thUSD, receipts.
  \<^item> \<open>Receipts\<close>, \<open>Receipts_Correct\<close> (\<open>PopulatableEthersLiquity.ts\<close>, \<open>parseLogs.ts\<close>): the other transactions, the
    details that are read from the logs of a receipt, and the printing of logs.
  \<^item> \<open>EthersConnection\<close>, \<open>EthersConnection_Correct\<close> (\<open>EthersLiquityConnection.ts\<close>, \<open>contracts.ts\<close>, \<open>_Multicall.ts\<close>): what a
    connection is made of, and the lookup of deployments.
  \<^item> \<open>EthersLiquity\<close>, \<open>EthersLiquity_Correct\<close> (\<open>SendableEthersLiquity.ts\<close>, \<open>EthersLiquity.ts\<close>): every transaction from its
    preparation to its details or its error.
  \<^item> \<open>ObservableEthers\<close>, \<open>ObservableEthers_Correct\<close> (\<open>ObservableEthersLiquity.ts\<close>): watches of values of the chain, with their
    debounced events.
  \<^item> \<open>BatchedProvider\<close>, \<open>BatchedProvider_Correct\<close> (\<open>providers/src/BatchedProvider.ts\<close>): the batch, its timer,
    dispatches that wait for answers, promises and their settlement.
  \<^item> \<open>WebSocketAugmented\<close>, \<open>WebSocketAugmented_Correct\<close> (\<open>providers/src/WebSocketAugmentedProvider.ts\<close>): the socket and its
    reconnection, block listeners, receipts, and the loops that repeat stale answers.
  \<^item> \<open>Views\<close>, \<open>Views_Correct\<close> (\<open>dev-frontend\<close>, the two view providers): transition tables and the effects that drive
    them; \<open>view_abstraction\<close> states what a table promises, with an interpretation for each of the two.
  \<^item> \<open>ThresholdContext\<close>, \<open>ThresholdContext_Correct\<close> (\<open>ThresholdContext.tsx\<close>, \<open>config/index.ts\<close>): from a wallet to one library object per
    deployment.
  \<^item> \<open>ThresholdStores\<close>, \<open>ThresholdStores_Correct\<close> (\<open>lib-react/src\<close>): the provider that starts the stores and waits until all are
    loaded, and the selector that renders a component again.
  \<^item> \<open>Managers\<close>, \<open>Managers_Correct\<close> (\<open>VaultManager.tsx\<close>, \<open>StabilityDepositManager.tsx\<close>, \<open>useThresholdReducer.ts\<close>): the
    reducers of the edit forms.
  \<^item> \<open>TransactionMonitor\<close>, \<open>TransactionMonitor_Correct\<close> (\<open>Transaction.tsx\<close>): the state of the current transaction, the
    effects that wait for its receipt and clear its outcome, and how the vault form follows it.
  \<^item> \<open>Validation\<close>, \<open>Validation_Correct\<close> (\<open>validateVaultChange.tsx\<close>, \<open>validateStabilityDepositChange.tsx\<close>): which changes
    may be sent, with the text of every message.
  \<^item> \<open>VaultForms\<close>, \<open>VaultForms_Correct\<close> (\<open>Opening.tsx\<close>, \<open>Adjusting.tsx\<close>, \<open>VaultAction.tsx\<close>,
    \<open>ExpensiveVaultChangeWarning.tsx\<close> and their hooks): the forms that open and adjust a vault, from what is entered to what is sent.
  \<^item> \<open>Panels\<close>, \<open>Panels_Correct\<close> (\<open>RedemptionManager.tsx\<close>, \<open>RiskyVaults.tsx\<close>, \<open>Leaderboard.tsx\<close>,
    \<open>CollateralSurplusAction.tsx\<close>): redemption, the conditions of liquidation, and listings in pages (\<open>paged_listing\<close> is
    the interface of a listing and its pages).
  \<^item> \<open>Subgraph\<close>, \<open>Subgraph_Handlers\<close> (\<open>subgraph/src\<close>): the store of entities and the handler of each event;
    \<open>Subgraph_Correct\<close> (the chain of changes), \<open>Subgraph_Accounts\<close> (tokens and stability deposits) and
    \<open>Subgraph_Troves\<close> (the counters) are its invariants.
  \<^item> \<open>SubgraphLiquity\<close>, \<open>SubgraphLiquity_Correct\<close> (\<open>lib-subgraph/src\<close>): the client of the indexer, over an answering server,
    and over the store that the indexer keeps.
  \<^item> \<open>Fuzzer_Checks\<close>, \<open>Fuzzer_Correct\<close> (\<open>fuzzer/src/utils.ts\<close>): the checks of orders, listings and pools, and the comparison
    of the indexer's client with the readable of the contracts.
  \<^item> \<open>Fuzzer_Fixture\<close>, \<open>Fuzzer_Fixture_Correct\<close> (\<open>fuzzer/src/fixture.ts\<close>): the random actions, with the random numbers as
    arguments; \<open>GasHistogram\<close>, \<open>GasHistogram_Correct\<close> (\<open>GasHistogram.ts\<close>): the statistics of gas and the repetition of
    failed calls.
  \<^item> this theory: the library and the indexer agree on redistributed amounts.

  Definitions have the names of the functions they translate, with the class in front where several
  classes have a method of the name, and \<open>sg_\<close> for the indexer's namesakes.

  \<^bold>\<open>What is shown.\<close>  Numbers: printing and parsing are inverse, powers are accurate to a stated bound, tests
  of ratios decide the exact inequality.  Troves and deposits: a change between two values, replayed on the
  first, gives the second; adjusting to given parameters reaches them; the errors are characterised.  The store:
  derived state is always that of the base state, notifications tell exactly what changed, objects
  keep their identity, listeners are called as subscribed.  Reading: a getter through the store gives
  what the chain gave for the block.  Transactions: arguments, hints, gas, receipts, and the error of each stage.  Watches: the caller ends
  with the value of the newest block heard of.  Batching: every call is
  answered with its own result, at most once, and eventually under stated fairness.  The WebSocket provider: a listener
  registered once is called at most once per registration, and waiting for a transaction returns a receipt with
  the confirmations asked for.  The front end:
  validation lets only changes pass that the contracts accept, edits survive updates of the store, views follow
  their abstract state, what is sent is what was entered and leads to the debt that is shown.  The indexer: its history is a chain of states, its counters and its token supplies
  are exact, the order of the two events of a deposit does not matter, its client gives the amounts
  that the history implies; the fuzzer's checks decide what they are named after,
  and the openings that validation accepts are those that the fuzzer expects to succeed.

  \<^bold>\<open>State, concurrency, time.\<close>  An asynchronous operation is one definition per stretch between two points where
  it waits; runs are step relations (\<open>graph_run\<close>, \<open>bp_step\<close>, the relations of the store and of the poller)
  over all interleavings, and invariants are proved by rule induction with one lemma per
  operation.  Liveness is about infinite runs, with fairness as hypotheses.

  \<^bold>\<open>Numbers, bounds and termination.\<close>  \<open>BigNumber\<close> values are integers, \<open>Decimal\<close> values natural numbers of 18 digits;
  the indexer's \<open>i32\<close> counters are words of 32 bits, and its \<open>BigDecimal\<close> is rational with the rounding of the package as a
  parameter.  No definition has fuel.  Loops that compute are total and have a termination proof
  (parsing of numbers, \<open>pow\<close>, the trials of the hint search, the ceilings of logarithm and root, the repetitions of \<open>retryUpTo\<close>).  Loops that wait for a
  server (\<open>waitForBlock\<close>, \<open>retrySeenBlock\<close>, \<open>blockContainsTx\<close>, \<open>getTransactionReceiptFromLatest\<close>, \<open>waitForTransaction\<close>) may
  not end; they are partial functions whose value \<open>None\<close> means so, over the answers to all attempts, with theorems
  that they return once the server has caught up.

  \<^bold>\<open>Parameters.\<close>  Code outside the repository enters as arguments: the replies of the contracts and of the node
  (\<open>chain\<close>, \<open>txEnv\<close>, \<open>node\<close>, the \<open>aggregate\<close> of Multicall), decimals and token names of the indexer
  (\<open>graphEnv\<close>), the reactions of listeners.  What a theorem needs of them is a hypothesis of the theorem.

  \<^bold>\<open>Not modelled.\<close>  The Solidity contracts (another language; their replies are parameters); rendering and
  styling of the front end; deployment scripts, the command lines and the connecting of wallets, which are input and output; the
  interfaces of \<open>lib-base\<close>, which have no code; the getters of \<open>EthersLiquity\<close>, which
  only delegate.
\<close>

section \<open>The library and the indexer agree on redistributions\<close>

text \<open>Before a liquidation the indexer brings a trove up to date with the amounts that
  \<open>applyRedistribution\<close> of the library computes: both round the share of the trove down to 18
  digits, so the amounts that enter the history are those that a client of the library sees.\<close>

theorem redistribution_agrees:
  assumes "sgTroves s b = Some u" and "sameTrove t u"
    and "g_rawTotalRedistributedCollateral (getGlobal s) = int (bn (collateral L))"
    and "g_rawTotalRedistributedDebt (getGlobal s) = int (bn (debt L))"
    and "bn (collateral (snapshotOfTotalRedistributed t)) \<le> bn (collateral L)"
    and "bn (debt (snapshotOfTotalRedistributed t)) \<le> bn (debt L)"
  shows "\<exists>after. applyRedistribution t L = Inr after \<and>
    handleEvent env ev (TroveLiquidated b) s =
      updateTrove env ev ''accrueRewards'' b (int (bn (collateral after))) (int (bn (debt after))) 0 s"
  using redistribution_written [OF assms, of env ev] by blast

text \<open>The trove of \<open>openedStore\<close> after redistributions of 0.1 collateral and 1 thUSD per unit of stake.\<close>

definition redistributedStore :: graphStore where
  "redistributedStore = updateTotalRedistributed (10 ^ 17) (10 ^ 18) openedStore"

definition pendingTrove :: troveWithPendingRedistribution where
  "pendingTrove =
     \<lparr>collateral = Dec (10 ^ 18), debt = Dec (1000 * 10 ^ 18), ownerAddress = ''0xa1'', status = Open,
      stake = Dec (10 ^ 18), snapshotOfTotalRedistributed = \<lparr>collateral = Dec 0, debt = Dec 0\<rparr>\<rparr>"

theorem redistribution_agrees_witness:
  "\<exists>after. applyRedistribution pendingTrove \<lparr>collateral = Dec (10 ^ 17), debt = Dec (10 ^ 18)\<rparr> = Inr after \<and>
     handleEvent exactEnv openingEvent (TroveLiquidated ''0xa1'') redistributedStore =
       updateTrove exactEnv openingEvent ''accrueRewards'' ''0xa1''
         (int (bn (collateral after))) (int (bn (debt after))) 0 redistributedStore"
proof -
  let ?u = "the (sgTroves redistributedStore ''0xa1'')"
  have "sgTroves redistributedStore ''0xa1'' = Some ?u"
    by (simp add: redistributedStore_def updateTotalRedistributed_def openedStore_def opening_evaluates)
  moreover have "sameTrove pendingTrove ?u"
    by (simp add: sameTrove_def pendingTrove_def redistributedStore_def updateTotalRedistributed_def
        openedStore_def opening_evaluates)
  ultimately show ?thesis
    by (rule redistribution_agrees)
       (simp_all add: redistributedStore_def updateTotalRedistributed_def pendingTrove_def)
qed

end
